(* ===== verification/Prelude.thy ===== *)
theory Prelude
  imports Main
begin

text \<open>
  Shared vocabulary of the development.

  Every asynchronous Python method of the services is translated to a \<^emph>\<open>program\<close>: a function
  from the state it may touch to either the exception it raises or the value it returns,
  together with the state it leaves. \<open>retM\<close>, \<open>raiseM\<close>, \<open>bindM\<close> and \<open>seqM\<close> are return, raise and
  sequencing; \<open>tryM\<close> is \<^verbatim>\<open>try/except\<close>. Two calculi come with them: \<open>wp\<close> computes what must hold
  before a program for a property of its outcome (rules in \<open>wp_rules\<close>), and \<open>keeps\<close> says that a
  program preserves a property of the state on every path, exceptions included (rules in
  \<open>keeps_rules\<close>). The lemmas on lists at the end are the ones the table model uses.
\<close>

named_theorems wp_rules \<open>equations for the weakest precondition of a program\<close>
named_theorems keeps_rules \<open>introduction rules for preservation by a program\<close>

section \<open>Programs with exceptions over a state\<close>

type_synonym ('w, 'e, 'a) prog = "'w \<Rightarrow> ('e + 'a) \<times> 'w"

definition retM :: "'a \<Rightarrow> ('w, 'e, 'a) prog" where
  "retM x = (\<lambda>w. (Inr x, w))"

definition raiseM :: "'e \<Rightarrow> ('w, 'e, 'a) prog" where
  "raiseM e = (\<lambda>w. (Inl e, w))"

definition bindM :: "('w, 'e, 'a) prog \<Rightarrow> ('a \<Rightarrow> ('w, 'e, 'b) prog) \<Rightarrow> ('w, 'e, 'b) prog" where
  "bindM m f = (\<lambda>w. case m w of (Inl e, w') \<Rightarrow> (Inl e, w') | (Inr x, w') \<Rightarrow> f x w')"

definition seqM :: "('w, 'e, unit) prog \<Rightarrow> ('w, 'e, 'b) prog \<Rightarrow> ('w, 'e, 'b) prog" where
  "seqM m n = bindM m (\<lambda>_. n)"

definition whenM :: "bool \<Rightarrow> ('w, 'e, unit) prog \<Rightarrow> ('w, 'e, unit) prog" where
  "whenM b m = (if b then m else retM ())"

definition tryM :: "('w, 'e, 'a) prog \<Rightarrow> ('e \<Rightarrow> ('w, 'e, 'a) prog) \<Rightarrow> ('w, 'e, 'a) prog" where
  "tryM m h = (\<lambda>w. case m w of (Inl e, w') \<Rightarrow> h e w' | (Inr x, w') \<Rightarrow> (Inr x, w'))"

definition liftM :: "'e + 'a \<Rightarrow> ('w, 'e, 'a) prog" where
  "liftM r = (\<lambda>w. (r, w))"

definition getsM :: "('w \<Rightarrow> 'a) \<Rightarrow> ('w, 'e, 'a) prog" where
  "getsM f = (\<lambda>w. (Inr (f w), w))"

definition modifyM :: "('w \<Rightarrow> 'w) \<Rightarrow> ('w, 'e, unit) prog" where
  "modifyM f = (\<lambda>w. (Inr (), f w))"

subsection \<open>Weakest preconditions\<close>

definition wp :: "('w, 'e, 'a) prog \<Rightarrow> ('a \<Rightarrow> 'w \<Rightarrow> bool) \<Rightarrow> ('e \<Rightarrow> 'w \<Rightarrow> bool) \<Rightarrow> 'w \<Rightarrow> bool" where
  "wp m Q E w = (case m w of (Inl e, w') \<Rightarrow> E e w' | (Inr x, w') \<Rightarrow> Q x w')"

lemma wp_retM [wp_rules]: "wp (retM x) Q E w = Q x w"
  by (simp add: wp_def retM_def)

lemma wp_raiseM [wp_rules]: "wp (raiseM e) Q E w = E e w"
  by (simp add: wp_def raiseM_def)

lemma wp_bindM [wp_rules]: "wp (bindM m f) Q E w = wp m (\<lambda>x. wp (f x) Q E) E w"
  by (simp add: wp_def bindM_def split: prod.splits sum.splits)

lemma wp_seqM [wp_rules]: "wp (seqM m n) Q E w = wp m (\<lambda>_. wp n Q E) E w"
  by (simp add: seqM_def wp_bindM)

lemma wp_whenM [wp_rules]: "wp (whenM b m) Q E w = (if b then wp m Q E w else Q () w)"
  by (simp add: whenM_def wp_retM)

lemma wp_tryM [wp_rules]: "wp (tryM m h) Q E w = wp m Q (\<lambda>e. wp (h e) Q E) w"
  by (simp add: wp_def tryM_def split: prod.splits sum.splits)

lemma wp_liftM [wp_rules]: "wp (liftM r) Q E w = (case r of Inl e \<Rightarrow> E e w | Inr x \<Rightarrow> Q x w)"
  by (simp add: wp_def liftM_def split: sum.splits)

lemma wp_getsM [wp_rules]: "wp (getsM f) Q E w = Q (f w) w"
  by (simp add: wp_def getsM_def)

lemma wp_modifyM [wp_rules]: "wp (modifyM f) Q E w = Q () (f w)"
  by (simp add: wp_def modifyM_def)

lemma wp_if [wp_rules]: "wp (if b then m else n) Q E w = (if b then wp m Q E w else wp n Q E w)"
  by simp

lemma wp_case_option [wp_rules]:
  "wp (case x of None \<Rightarrow> m | Some y \<Rightarrow> f y) Q E w =
     (case x of None \<Rightarrow> wp m Q E w | Some y \<Rightarrow> wp (f y) Q E w)"
  by (simp split: option.splits)

lemma wp_case_sum [wp_rules]:
  "wp (case r of Inl e \<Rightarrow> m e | Inr x \<Rightarrow> f x) Q E w =
     (case r of Inl e \<Rightarrow> wp (m e) Q E w | Inr x \<Rightarrow> wp (f x) Q E w)"
  by (simp split: sum.splits)

lemma wp_case_prod [wp_rules]:
  "wp (case p of (a, b) \<Rightarrow> f a b) Q E w = wp (f (fst p) (snd p)) Q E w"
  by (simp add: split_beta)

lemma wp_InrD: "m w = (Inr x, w') \<Longrightarrow> wp m Q E w \<Longrightarrow> Q x w'"
  by (simp add: wp_def)

lemma wp_InlD: "m w = (Inl e, w') \<Longrightarrow> wp m Q E w \<Longrightarrow> E e w'"
  by (simp add: wp_def)

lemma wp_mono:
  assumes "wp m Q E w"
    and "\<And>x w'. m w = (Inr x, w') \<Longrightarrow> Q x w' \<Longrightarrow> Q' x w'"
    and "\<And>e w'. m w = (Inl e, w') \<Longrightarrow> E e w' \<Longrightarrow> E' e w'"
  shows "wp m Q' E' w"
  using assms by (auto simp: wp_def split: prod.splits sum.splits)

lemma wp_trivial [simp]: "wp m (\<lambda>_ _. True) (\<lambda>_ _. True) w"
  by (simp add: wp_def split: prod.splits sum.splits)

lemma wp_conj: "wp m Q E w \<Longrightarrow> wp m Q' E' w \<Longrightarrow>
    wp m (\<lambda>x w. Q x w \<and> Q' x w) (\<lambda>e w. E e w \<and> E' e w) w"
  by (simp add: wp_def split: prod.splits sum.splits)

subsection \<open>Preservation on every path\<close>

definition keeps :: "('w \<Rightarrow> bool) \<Rightarrow> ('w, 'e, 'a) prog \<Rightarrow> bool" where
  "keeps I m \<longleftrightarrow> (\<forall>w. I w \<longrightarrow> I (snd (m w)))"

lemma keepsI: "(\<And>w. I w \<Longrightarrow> I (snd (m w))) \<Longrightarrow> keeps I m"
  by (simp add: keeps_def)

lemma keepsD: "keeps I m \<Longrightarrow> I w \<Longrightarrow> m w = (r, w') \<Longrightarrow> I w'"
  by (metis keeps_def snd_conv)

lemma keeps_retM [keeps_rules]: "keeps I (retM x)"
  by (simp add: keeps_def retM_def)

lemma keeps_raiseM [keeps_rules]: "keeps I (raiseM e)"
  by (simp add: keeps_def raiseM_def)

lemma keeps_liftM [keeps_rules]: "keeps I (liftM r)"
  by (simp add: keeps_def liftM_def)

lemma keeps_getsM [keeps_rules]: "keeps I (getsM f)"
  by (simp add: keeps_def getsM_def)

lemma keeps_bindM [keeps_rules]:
  assumes "keeps I m" and "\<And>x. keeps I (f x)"
  shows "keeps I (bindM m f)"
proof (rule keepsI)
  fix w assume "I w"
  then show "I (snd (bindM m f w))"
    using assms by (auto simp: bindM_def keeps_def split: prod.splits sum.splits)
qed

lemma keeps_seqM [keeps_rules]: "keeps I m \<Longrightarrow> keeps I n \<Longrightarrow> keeps I (seqM m n)"
  by (simp add: seqM_def keeps_bindM)

lemma keeps_whenM [keeps_rules]: "keeps I m \<Longrightarrow> keeps I (whenM b m)"
  by (simp add: whenM_def keeps_retM)

lemma keeps_tryM [keeps_rules]:
  assumes "keeps I m" and "\<And>e. keeps I (h e)"
  shows "keeps I (tryM m h)"
proof (rule keepsI)
  fix w assume "I w"
  then show "I (snd (tryM m h w))"
    using assms by (auto simp: tryM_def keeps_def split: prod.splits sum.splits)
qed

lemma keeps_if [keeps_rules]: "keeps I m \<Longrightarrow> keeps I n \<Longrightarrow> keeps I (if b then m else n)"
  by simp

lemma keeps_case_option [keeps_rules]:
  "keeps I m \<Longrightarrow> (\<And>y. keeps I (f y)) \<Longrightarrow> keeps I (case x of None \<Rightarrow> m | Some y \<Rightarrow> f y)"
  by (simp split: option.splits)

lemma keeps_case_sum [keeps_rules]:
  "(\<And>e. keeps I (m e)) \<Longrightarrow> (\<And>y. keeps I (f y)) \<Longrightarrow>
     keeps I (case r of Inl e \<Rightarrow> m e | Inr y \<Rightarrow> f y)"
  by (simp split: sum.splits)

lemma keeps_case_prod [keeps_rules]:
  "(\<And>a b. keeps I (f a b)) \<Longrightarrow> keeps I (case p of (a, b) \<Rightarrow> f a b)"
  by (simp split: prod.splits)

lemma keeps_Let [keeps_rules]: "(\<And>x. keeps I (f x)) \<Longrightarrow> keeps I (Let a f)"
  by simp

section \<open>Results without state\<close>

definition bindE :: "'e + 'a \<Rightarrow> ('a \<Rightarrow> 'e + 'b) \<Rightarrow> 'e + 'b" where
  "bindE r f = (case r of Inl e \<Rightarrow> Inl e | Inr x \<Rightarrow> f x)"

lemma bindE_simps [simp]: "bindE (Inl e) f = Inl e" "bindE (Inr x) f = f x"
  by (simp_all add: bindE_def)

definition some_or :: "'e \<Rightarrow> 'a option \<Rightarrow> 'e + 'a" where
  "some_or e x = (case x of None \<Rightarrow> Inl e | Some y \<Rightarrow> Inr y)"

lemma some_or_simps [simp]: "some_or e None = Inl e" "some_or e (Some y) = Inr y"
  by (simp_all add: some_or_def)

text \<open>A list comprehension whose element expression may raise.\<close>

fun map_fallible :: "('a \<Rightarrow> 'e + 'b) \<Rightarrow> 'a list \<Rightarrow> 'e + 'b list" where
  "map_fallible f [] = Inr []"
| "map_fallible f (x # xs) = bindE (f x) (\<lambda>y. bindE (map_fallible f xs) (\<lambda>ys. Inr (y # ys)))"

lemma map_fallible_all: "(\<And>x. x \<in> set xs \<Longrightarrow> f x = Inr (g x)) \<Longrightarrow> map_fallible f xs = Inr (map g xs)"
  by (induction xs) simp_all

section \<open>Lists as tables\<close>

lemma filter_map_update_cong:
  "(\<And>x. x \<in> set xs \<Longrightarrow> P (f x) = P x) \<Longrightarrow> filter P (map f xs) = map f (filter P xs)"
  by (induction xs) auto

lemma distinct_map_filter_unique:
  assumes "distinct (map k xs)" and "x \<in> set xs"
  shows "filter (\<lambda>y. k y = k x) xs = [x]"
  using assms
proof (induction xs)
  case Nil
  then show ?case by simp
next
  case (Cons a xs)
  then show ?case
    by (cases "x = a") (force simp: filter_empty_conv rev_image_eqI)+
qed

lemma distinct_map_filter_cases:
  assumes "distinct (map k xs)"
  shows "filter (\<lambda>y. k y = v) xs = [] \<or> (\<exists>x \<in> set xs. k x = v \<and> filter (\<lambda>y. k y = v) xs = [x])"
proof (cases "\<exists>x \<in> set xs. k x = v")
  case True
  then show ?thesis using distinct_map_filter_unique [OF assms] by blast
next
  case False
  then show ?thesis by (auto simp: filter_empty_conv)
qed

lemma distinct_map_inj: "distinct (map k xs) \<Longrightarrow> x \<in> set xs \<Longrightarrow> y \<in> set xs \<Longrightarrow> k x = k y \<Longrightarrow> x = y"
  by (simp add: distinct_map inj_on_def)

end
