(* ===== verification/Py_Strings.thy ===== *)
theory Py_Strings
  imports Prelude
begin

text \<open>
  The Python string operations the services use. A Python \<^verbatim>\<open>str\<close> is modelled as a \<open>string\<close> whose
  characters are the code points U+0000 to U+00FF (what an HTTP header can carry after its Latin-1
  decoding); \<open>strip\<close> and \<open>lower\<close> are Python's on exactly that range. \<open>str_of_int\<close> and \<open>int_of_str\<close>
  are \<^verbatim>\<open>str(int)\<close> and \<^verbatim>\<open>int(str)\<close> (sign, surrounding blanks and single underscores included), and
  \<open>str_format_token\<close> is \<^verbatim>\<open>template.format(token=secret)\<close>.
\<close>

section \<open>Characters, strip and lower\<close>

definition code :: "char \<Rightarrow> nat" where
  "code c = of_char c"

definition py_isspace :: "char \<Rightarrow> bool" where
  "py_isspace c \<longleftrightarrow>
     (9 \<le> code c \<and> code c \<le> 13) \<or> (28 \<le> code c \<and> code c \<le> 32) \<or> code c = 133 \<or> code c = 160"

definition py_isupper :: "char \<Rightarrow> bool" where
  "py_isupper c \<longleftrightarrow>
     (65 \<le> code c \<and> code c \<le> 90) \<or> (192 \<le> code c \<and> code c \<le> 222 \<and> code c \<noteq> 215)"

definition lower_char :: "char \<Rightarrow> char" where
  "lower_char c = (if py_isupper c then char_of (code c + 32) else c)"

definition str_lower :: "string \<Rightarrow> string" where
  "str_lower s = map lower_char s"

definition str_lstrip_by :: "(char \<Rightarrow> bool) \<Rightarrow> string \<Rightarrow> string" where
  "str_lstrip_by p s = dropWhile p s"

definition str_rstrip_by :: "(char \<Rightarrow> bool) \<Rightarrow> string \<Rightarrow> string" where
  "str_rstrip_by p s = rev (dropWhile p (rev s))"

definition str_strip :: "string \<Rightarrow> string" where
  "str_strip s = str_rstrip_by py_isspace (str_lstrip_by py_isspace s)"

definition normalise_email :: "string \<Rightarrow> string" where
  "normalise_email s = str_lower (str_strip s)"

definition str_startswith :: "string \<Rightarrow> string \<Rightarrow> bool" where
  "str_startswith s p \<longleftrightarrow> take (length p) s = p"

definition str_split_head :: "char \<Rightarrow> string \<Rightarrow> string" where
  \<comment> \<open>\<^verbatim>\<open>s.split(sep)[0]\<close>\<close>
  "str_split_head sep s = takeWhile (\<lambda>c. c \<noteq> sep) s"

fun str_split :: "char \<Rightarrow> string \<Rightarrow> string list" where
  "str_split sep [] = [[]]"
| "str_split sep (c # cs) =
     (if c = sep then [] # str_split sep cs
      else (case str_split sep cs of [] \<Rightarrow> [[c]] | p # ps \<Rightarrow> (c # p) # ps))"

fun str_join :: "string \<Rightarrow> string list \<Rightarrow> string" where
  "str_join sep [] = []"
| "str_join sep [x] = x"
| "str_join sep (x # y # zs) = x @ sep @ str_join sep (y # zs)"

text \<open>Python's \<^verbatim>\<open>a or b\<close> on optional strings: \<open>None\<close> and the empty string are false.\<close>

definition truthy :: "string option \<Rightarrow> bool" where
  "truthy s \<longleftrightarrow> (case s of None \<Rightarrow> False | Some x \<Rightarrow> x \<noteq> [])"

definition str_or :: "string option \<Rightarrow> string option \<Rightarrow> string option" where
  "str_or a b = (if truthy a then a else b)"

lemma code_less_256 [simp]: "code c < 256"
  by (simp add: code_def)

lemma code_char_of [simp]: "code (char_of n) = n mod 256"
  by (simp add: code_def)

lemma char_of_code [simp]: "char_of (code c) = c"
  by (simp add: code_def)

lemma lower_char_not_upper: "\<not> py_isupper (lower_char c)"
  by (auto simp: lower_char_def py_isupper_def)

lemma lower_char_idem [simp]: "lower_char (lower_char c) = lower_char c"
  using lower_char_not_upper [of c] by (simp add: lower_char_def [of "lower_char c"])

lemma lower_char_isspace [simp]: "py_isspace (lower_char c) = py_isspace c"
  by (auto simp: lower_char_def py_isupper_def py_isspace_def)

lemma str_lower_idem [simp]: "str_lower (str_lower s) = str_lower s"
  by (simp add: str_lower_def)

lemma str_lower_append [simp]: "str_lower (s @ t) = str_lower s @ str_lower t"
  by (simp add: str_lower_def)

lemma length_str_lower [simp]: "length (str_lower s) = length s"
  by (simp add: str_lower_def)

lemma str_lower_lstrip: "str_lower (str_lstrip_by py_isspace s) = str_lstrip_by py_isspace (str_lower s)"
  by (induction s) (auto simp: str_lower_def str_lstrip_by_def)

lemma str_lower_rstrip: "str_lower (str_rstrip_by py_isspace s) = str_rstrip_by py_isspace (str_lower s)"
  using str_lower_lstrip [of "rev s"]
  by (simp add: str_rstrip_by_def str_lstrip_by_def str_lower_def flip: rev_map)

lemma str_lower_strip: "str_lower (str_strip s) = str_strip (str_lower s)"
  by (simp add: str_strip_def str_lower_lstrip str_lower_rstrip)

lemma dropWhile_idle: "s = [] \<or> \<not> p (hd s) \<Longrightarrow> dropWhile p s = s"
  by (cases s) auto

lemma str_rstrip_hd:
  assumes "s = [] \<or> \<not> p (hd s)"
  shows "str_rstrip_by p s = [] \<or> \<not> p (hd (str_rstrip_by p s))"
proof (cases "str_rstrip_by p s = []")
  case False
  have "str_rstrip_by p s @ rev (takeWhile p (rev s)) = s"
    by (simp add: str_rstrip_by_def flip: rev_append)
  with False have "hd (str_rstrip_by p s) = hd s" and "s \<noteq> []"
    by (metis hd_append2) (use False in \<open>auto simp: str_rstrip_by_def\<close>)
  with assms show ?thesis by simp
qed simp

lemma str_rstrip_idem [simp]: "str_rstrip_by p (str_rstrip_by p s) = str_rstrip_by p s"
  by (simp add: str_rstrip_by_def dropWhile_idem)

lemma str_strip_idem [simp]: "str_strip (str_strip s) = str_strip s"
proof -
  let ?l = "str_lstrip_by py_isspace s"
  have "?l = [] \<or> \<not> py_isspace (hd ?l)"
    by (metis str_lstrip_by_def hd_dropWhile)
  then have "str_lstrip_by py_isspace (str_rstrip_by py_isspace ?l) = str_rstrip_by py_isspace ?l"
    by (simp add: str_rstrip_hd str_lstrip_by_def [of _ "str_rstrip_by _ _"] dropWhile_idle)
  then show ?thesis by (simp add: str_strip_def)
qed

lemma normalise_email_idem: "normalise_email (normalise_email s) = normalise_email s"
  by (simp add: normalise_email_def flip: str_lower_strip)

lemma str_startswith_append [simp]: "str_startswith (p @ s) p"
  by (simp add: str_startswith_def)

lemma str_startswith_iff: "str_startswith s p \<longleftrightarrow> (\<exists>t. s = p @ t)"
  by (metis append_eq_conv_conj append_take_drop_id str_startswith_def)

section \<open>Decimal numbers\<close>

definition digit_char :: "nat \<Rightarrow> char" where
  "digit_char d = char_of (48 + d)"

definition is_digit :: "char \<Rightarrow> bool" where
  "is_digit c \<longleftrightarrow> 48 \<le> code c \<and> code c \<le> 57"

definition digit_val :: "char \<Rightarrow> nat" where
  "digit_val c = code c - 48"

fun str_of_nat :: "nat \<Rightarrow> string" where
  "str_of_nat n = (if n < 10 then [digit_char n] else str_of_nat (n div 10) @ [digit_char (n mod 10)])"

declare str_of_nat.simps [simp del]

definition str_of_int :: "int \<Rightarrow> string" where
  "str_of_int i = (if i < 0 then CHR ''-'' # str_of_nat (nat (- i)) else str_of_nat (nat i))"

fun digits_acc :: "nat \<Rightarrow> string \<Rightarrow> nat option" where
  "digits_acc acc [] = Some acc"
| "digits_acc acc (c # cs) =
     (if is_digit c then digits_acc (10 * acc + digit_val c) cs
      else if c = CHR ''_'' then
        (case cs of
           [] \<Rightarrow> None
         | d # ds \<Rightarrow> if is_digit d then digits_acc (10 * acc + digit_val d) ds else None)
      else None)"

definition nat_of_digits :: "string \<Rightarrow> nat option" where
  "nat_of_digits s =
     (case s of [] \<Rightarrow> None | c # cs \<Rightarrow> if is_digit c then digits_acc (digit_val c) cs else None)"

definition int_of_str :: "string \<Rightarrow> int option" where
  "int_of_str s =
     (case str_strip s of
        [] \<Rightarrow> None
      | c # cs \<Rightarrow>
          if c = CHR ''-'' then map_option (\<lambda>n. - int n) (nat_of_digits cs)
          else if c = CHR ''+'' then map_option int (nat_of_digits cs)
          else map_option int (nat_of_digits (c # cs)))"

lemma code_digit_char [simp]: "d < 10 \<Longrightarrow> code (digit_char d) = 48 + d"
  by (simp add: digit_char_def)

lemma is_digit_digit_char [simp]: "d < 10 \<Longrightarrow> is_digit (digit_char d)"
  by (simp add: is_digit_def)

lemma digit_val_digit_char [simp]: "d < 10 \<Longrightarrow> digit_val (digit_char d) = d"
  by (simp add: digit_val_def)

lemma str_of_nat_digits: "c \<in> set (str_of_nat n) \<Longrightarrow> is_digit c"
proof (induction n rule: str_of_nat.induct)
  case (1 n)
  then show ?case by (subst (asm) (2) str_of_nat.simps) (auto split: if_splits)
qed

lemma str_of_nat_nonempty [simp]: "str_of_nat n \<noteq> []"
  by (subst str_of_nat.simps) simp

lemma digits_acc_snoc:
  assumes "\<forall>c \<in> set s. is_digit c" and "is_digit d"
  shows "digits_acc acc (s @ [d]) = map_option (\<lambda>m. 10 * m + digit_val d) (digits_acc acc s)"
  using assms by (induction s arbitrary: acc) auto

lemma nat_of_digits_snoc:
  assumes "s \<noteq> []" and "\<forall>c \<in> set s. is_digit c" and "is_digit d"
  shows "nat_of_digits (s @ [d]) = map_option (\<lambda>m. 10 * m + digit_val d) (nat_of_digits s)"
  using assms by (cases s) (simp_all add: nat_of_digits_def digits_acc_snoc)

lemma nat_of_digits_str_of_nat [simp]: "nat_of_digits (str_of_nat n) = Some n"
proof (induction n rule: str_of_nat.induct)
  case (1 n)
  show ?case
  proof (cases "n < 10")
    case True
    then show ?thesis by (subst str_of_nat.simps) (simp add: nat_of_digits_def)
  next
    case False
    with 1 have "nat_of_digits (str_of_nat (n div 10)) = Some (n div 10)" by simp
    with False show ?thesis
      by (subst str_of_nat.simps) (simp add: nat_of_digits_snoc str_of_nat_digits)
  qed
qed

lemma is_digit_not_space: "is_digit c \<Longrightarrow> \<not> py_isspace c"
  by (simp add: is_digit_def py_isspace_def)

lemma str_strip_no_space: "\<forall>c \<in> set s. \<not> py_isspace c \<Longrightarrow> str_strip s = s"
  by (metis dropWhile_idle hd_in_set rev_rev_ident set_rev str_lstrip_by_def str_rstrip_by_def
      str_strip_def)

lemma int_of_str_of_int [simp]: "int_of_str (str_of_int i) = Some i"
proof -
  have dig: "\<forall>c \<in> set (str_of_nat n). \<not> py_isspace c" for n
    by (simp add: is_digit_not_space str_of_nat_digits)
  have sgn: "\<not> py_isspace (CHR ''-'')" "\<not> is_digit (CHR ''-'')" "\<not> is_digit (CHR ''+'')"
    by (simp_all add: py_isspace_def is_digit_def code_def)
  show ?thesis
  proof (cases "i < 0")
    case True
    with dig sgn show ?thesis
      by (simp add: str_of_int_def int_of_str_def str_strip_no_space)
  next
    case False
    obtain c cs where cs: "str_of_nat (nat i) = c # cs"
      using str_of_nat_nonempty by (meson list.exhaust)
    then have "is_digit c" using str_of_nat_digits [of c "nat i"] by simp
    with sgn have "c \<noteq> CHR ''-''" "c \<noteq> CHR ''+''" by auto
    moreover have "nat_of_digits (c # cs) = Some (nat i)"
      using nat_of_digits_str_of_nat [of "nat i"] cs by simp
    ultimately show ?thesis
      using False cs dig [of "nat i"] by (simp add: str_of_int_def int_of_str_def str_strip_no_space)
  qed
qed

lemma str_of_int_inject [simp]: "str_of_int i = str_of_int j \<longleftrightarrow> i = j"
  by (metis int_of_str_of_int option.inject)

section \<open>Format with one named field\<close>

text \<open>
  \<^verbatim>\<open>template.format(token=secret)\<close>: doubled braces are literal braces, \<^verbatim>\<open>{token}\<close> is the secret;
  any other replacement field, or an unbalanced brace, is the \<open>None\<close> that stands for the
  \<^verbatim>\<open>KeyError\<close> or \<^verbatim>\<open>ValueError\<close> Python raises. (Conversions and format specifications such as
  \<^verbatim>\<open>{token!r}\<close> are not modelled: no template of the configuration uses one.)
\<close>

fun str_format_token :: "string \<Rightarrow> string \<Rightarrow> string option" where
  "str_format_token [] secret = Some []"
| "str_format_token (c # cs) secret =
     (if c = CHR ''{'' then
        (case cs of
           [] \<Rightarrow> None
         | d # ds \<Rightarrow>
             if d = CHR ''{'' then map_option ((#) (CHR ''{'')) (str_format_token ds secret)
             else if take 6 cs = ''token}'' then
               map_option ((@) secret) (str_format_token (drop 6 cs) secret)
             else None)
      else if c = CHR ''}'' then
        (case cs of
           [] \<Rightarrow> None
         | d # ds \<Rightarrow>
             if d = CHR ''}'' then map_option ((#) (CHR ''}'')) (str_format_token ds secret) else None)
      else map_option ((#) c) (str_format_token cs secret))"

lemma str_format_token_plain:
  assumes "CHR ''{'' \<notin> set s" and "CHR ''}'' \<notin> set s"
  shows "str_format_token (s @ t) secret = map_option ((@) s) (str_format_token t secret)"
  using assms by (induction s) (auto simp: map_option_case split: option.splits)

lemma str_format_token_field:
  assumes "CHR ''{'' \<notin> set s" and "CHR ''}'' \<notin> set s"
    and "CHR ''{'' \<notin> set t" and "CHR ''}'' \<notin> set t"
  shows "str_format_token (s @ ''{token}'' @ t) secret = Some (s @ secret @ t)"
  using assms str_format_token_plain [of t "[]"] by (simp add: str_format_token_plain)

end
