(* ===== verification/Entities.thy ===== *)
theory Entities
  imports Py_Strings
begin

text \<open>
  The domain entities of \<^verbatim>\<open>users_service/entities\<close>: permissions, roles, users, login sessions,
  one-time security tokens and audit events, with the methods they carry (\<^verbatim>\<open>grants\<close>,
  \<^verbatim>\<open>has_permission\<close>, \<^verbatim>\<open>permission_codes\<close>, \<^verbatim>\<open>status\<close>, \<^verbatim>\<open>is_valid\<close>, \<^verbatim>\<open>is_usable\<close>). Identifiers
  (\<^verbatim>\<open>NewType\<close>s over \<^verbatim>\<open>int\<close> and \<^verbatim>\<open>str\<close>) are \<open>int\<close> and \<open>string\<close>.

  A Python \<^verbatim>\<open>datetime\<close> is \<open>Aware t\<close>, an instant in microseconds since the epoch, or \<open>Naive t\<close>, a
  wall-clock reading without a time zone, as SQLite hands it back; the entities read a naive value
  as UTC.
\<close>

section \<open>Time\<close>

datatype datetime = Aware int | Naive int

fun as_utc :: "datetime \<Rightarrow> int" where
  "as_utc (Aware t) = t"
| "as_utc (Naive t) = t"

definition seconds :: "int \<Rightarrow> int" where
  "seconds n = n * 1000000"

definition minutes :: "int \<Rightarrow> int" where
  "minutes n = seconds (60 * n)"

definition hours :: "int \<Rightarrow> int" where
  "hours n = seconds (3600 * n)"

text \<open>\<^verbatim>\<open>int(x)\<close> of a float number of seconds truncates towards zero.\<close>

definition whole_seconds :: "int \<Rightarrow> int" where
  "whole_seconds us = (if us < 0 then - ((- us) div 1000000) else us div 1000000)"

section \<open>Permissions and roles\<close>

record permission =
  perm_id :: int
  perm_resource :: string
  perm_action :: string
  perm_description :: "string option"

definition permission_code :: "permission \<Rightarrow> string" where
  "permission_code p = perm_resource p @ ''.'' @ perm_action p"

record role =
  role_id :: int
  role_name :: string
  role_description :: "string option"
  role_permissions :: "permission list"

definition role_grants :: "role \<Rightarrow> string \<Rightarrow> string \<Rightarrow> bool" where
  "role_grants r resource action =
     list_ex (\<lambda>p. perm_resource p = resource \<and> perm_action p = action) (role_permissions r)"

section \<open>Users\<close>

record user =
  user_id :: int
  user_email :: string
  user_username :: string
  user_password_hash :: string
  user_display_name :: "string option"
  user_is_active :: bool
  user_is_superuser :: bool
  user_email_verified_at :: "datetime option"
  user_visitor_id :: "string option"
  user_created_at :: "datetime option"
  user_updated_at :: "datetime option"
  user_roles :: "role list"

definition is_email_verified :: "user \<Rightarrow> bool" where
  "is_email_verified u \<longleftrightarrow> user_email_verified_at u \<noteq> None"

definition has_permission :: "user \<Rightarrow> string \<Rightarrow> string \<Rightarrow> bool" where
  "has_permission u resource action =
     (if user_is_superuser u then True
      else list_ex (\<lambda>r. role_grants r resource action) (user_roles u))"

text \<open>Python orders strings by code points; \<open>sorted\<close> of a set is its elements in that order.\<close>

fun str_less :: "string \<Rightarrow> string \<Rightarrow> bool" where
  "str_less _ [] = False"
| "str_less [] (_ # _) = True"
| "str_less (a # as) (b # bs) = (code a < code b \<or> code a = code b \<and> str_less as bs)"

fun insert_code :: "string \<Rightarrow> string list \<Rightarrow> string list" where
  "insert_code s [] = [s]"
| "insert_code s (t # ts) =
     (if s = t then t # ts else if str_less s t then s # t # ts else t # insert_code s ts)"

definition sorted_set :: "string list \<Rightarrow> string list" where
  "sorted_set ss = foldr insert_code ss []"

definition permission_codes :: "user \<Rightarrow> string list" where
  "permission_codes u =
     sorted_set (concat (map (\<lambda>r. map permission_code (role_permissions r)) (user_roles u)))"

definition public_name :: "user \<Rightarrow> string" where
  "public_name u = (case str_or (user_display_name u) (Some (user_username u)) of
                      None \<Rightarrow> user_username u | Some n \<Rightarrow> n)"

section \<open>Sessions\<close>

datatype session_status = ACTIVE | EXPIRED | REVOKED

fun session_status_value :: "session_status \<Rightarrow> string" where
  "session_status_value ACTIVE = ''active''"
| "session_status_value EXPIRED = ''expired''"
| "session_status_value REVOKED = ''revoked''"

record auth_session =
  sess_id :: int
  sess_user_id :: int
  sess_jti :: string
  sess_created_at :: datetime
  sess_expires_at :: datetime
  sess_revoked_at :: "datetime option"
  sess_visitor_id :: "string option"
  sess_user_agent :: "string option"
  sess_ip_address :: "string option"
  sess_device :: "string option"
  sess_last_seen_at :: "datetime option"

definition session_is_revoked :: "auth_session \<Rightarrow> bool" where
  "session_is_revoked s \<longleftrightarrow> sess_revoked_at s \<noteq> None"

text \<open>
  \<open>moment\<close> is \<^verbatim>\<open>now or datetime.now(UTC)\<close>, always an aware instant in the program: no caller
  passes the optional argument.
\<close>

definition session_not_expired :: "auth_session \<Rightarrow> int \<Rightarrow> bool" where
  "session_not_expired s moment \<longleftrightarrow> moment < as_utc (sess_expires_at s)"

definition session_get_status :: "auth_session \<Rightarrow> int \<Rightarrow> session_status" where
  "session_get_status s moment =
     (if session_is_revoked s then REVOKED
      else if \<not> session_not_expired s moment then EXPIRED
      else ACTIVE)"

definition session_is_valid :: "auth_session \<Rightarrow> int \<Rightarrow> bool" where
  "session_is_valid s moment \<longleftrightarrow> \<not> session_is_revoked s \<and> session_not_expired s moment"

section \<open>One-time security tokens\<close>

datatype token_purpose = EMAIL_VERIFICATION | PASSWORD_RESET

fun token_purpose_value :: "token_purpose \<Rightarrow> string" where
  "token_purpose_value EMAIL_VERIFICATION = ''email_verification''"
| "token_purpose_value PASSWORD_RESET = ''password_reset''"

definition token_purpose_of :: "string \<Rightarrow> token_purpose option" where
  \<comment> \<open>\<^verbatim>\<open>TokenPurpose(value)\<close>; \<open>None\<close> is its \<^verbatim>\<open>ValueError\<close>\<close>
  "token_purpose_of s =
     (if s = ''email_verification'' then Some EMAIL_VERIFICATION
      else if s = ''password_reset'' then Some PASSWORD_RESET
      else None)"

record security_token =
  tok_id :: int
  tok_user_id :: int
  tok_purpose :: token_purpose
  tok_token_hash :: string
  tok_created_at :: datetime
  tok_expires_at :: datetime
  tok_used_at :: "datetime option"

definition token_is_used :: "security_token \<Rightarrow> bool" where
  "token_is_used t \<longleftrightarrow> tok_used_at t \<noteq> None"

definition token_is_usable :: "security_token \<Rightarrow> int \<Rightarrow> bool" where
  "token_is_usable t moment \<longleftrightarrow> \<not> token_is_used t \<and> moment < as_utc (tok_expires_at t)"

section \<open>Audit events\<close>

datatype audit_action =
    REGISTER | LOGIN | LOGIN_FAILED | LOGOUT | PASSWORD_CHANGED | PASSWORD_WAS_RESET
  | EMAIL_VERIFIED | SESSION_REVOKED | USER_BANNED | USER_UNBANNED

fun audit_action_value :: "audit_action \<Rightarrow> string" where
  "audit_action_value REGISTER = ''REGISTER''"
| "audit_action_value LOGIN = ''LOGIN''"
| "audit_action_value LOGIN_FAILED = ''LOGIN_FAILED''"
| "audit_action_value LOGOUT = ''LOGOUT''"
| "audit_action_value PASSWORD_CHANGED = ''PASSWORD_CHANGED''"
| "audit_action_value PASSWORD_WAS_RESET = ''PASSWORD_RESET''"
| "audit_action_value EMAIL_VERIFIED = ''EMAIL_VERIFIED''"
| "audit_action_value SESSION_REVOKED = ''SESSION_REVOKED''"
| "audit_action_value USER_BANNED = ''USER_BANNED''"
| "audit_action_value USER_UNBANNED = ''USER_UNBANNED''"

definition all_audit_actions :: "audit_action list" where
  "all_audit_actions =
     [REGISTER, LOGIN, LOGIN_FAILED, LOGOUT, PASSWORD_CHANGED, PASSWORD_WAS_RESET,
      EMAIL_VERIFIED, SESSION_REVOKED, USER_BANNED, USER_UNBANNED]"

definition audit_action_of :: "string \<Rightarrow> audit_action option" where
  "audit_action_of s = find (\<lambda>a. audit_action_value a = s) all_audit_actions"

datatype meta_value = MStr string | MInt int | MNone

record audit_event =
  ev_id :: int
  ev_action :: audit_action
  ev_created_at :: datetime
  ev_user_id :: "int option"
  ev_ip_address :: "string option"
  ev_user_agent :: "string option"
  ev_metadata :: "(string \<times> meta_value) list"

section \<open>Lemmas\<close>

lemma token_purpose_of_value [simp]: "token_purpose_of (token_purpose_value p) = Some p"
  by (cases p) (simp_all add: token_purpose_of_def)

lemma token_purpose_value_inject [simp]: "token_purpose_value p = token_purpose_value q \<longleftrightarrow> p = q"
  by (metis token_purpose_of_value option.inject)

lemma token_purpose_of_Some: "token_purpose_of s = Some p \<longleftrightarrow> s = token_purpose_value p"
  by (cases p) (auto simp: token_purpose_of_def split: if_splits)

lemma audit_action_of_value [simp]: "audit_action_of (audit_action_value a) = Some a"
  by (cases a) (simp_all add: audit_action_of_def all_audit_actions_def)

lemma length_audit_action_value: "length (audit_action_value a) \<le> 32"
  by (cases a) simp_all

lemma length_token_purpose_value: "length (token_purpose_value p) \<le> 32"
  by (cases p) simp_all

text \<open>The derived status agrees with validity, and the three states exclude each other.\<close>

lemma session_status_valid_iff: "session_get_status s m = ACTIVE \<longleftrightarrow> session_is_valid s m"
  by (simp add: session_get_status_def session_is_valid_def)

lemma session_valid_antimono: "session_is_valid s m \<Longrightarrow> m' \<le> m \<Longrightarrow> session_is_valid s m'"
  by (simp add: session_is_valid_def session_not_expired_def)

lemma has_permission_superuser [simp]: "user_is_superuser u \<Longrightarrow> has_permission u r a"
  by (simp add: has_permission_def)

lemma has_permission_iff:
  "has_permission u res act \<longleftrightarrow> user_is_superuser u \<or>
     (\<exists>r \<in> set (user_roles u). \<exists>p \<in> set (role_permissions r).
        perm_resource p = res \<and> perm_action p = act)"
  by (auto simp: has_permission_def role_grants_def list_ex_iff)

subsection \<open>The sorted, duplicate-free code list\<close>

lemma str_less_irrefl [simp]: "\<not> str_less s s"
  by (induction s) auto

lemma str_less_trans: "str_less s t \<Longrightarrow> str_less t u \<Longrightarrow> str_less s u"
  by (induction s t arbitrary: u rule: str_less.induct) (case_tac u; auto)+

lemma code_inject: "code a = code b \<longleftrightarrow> a = b"
  by (metis char_of_code)

lemma str_less_total: "s = t \<or> str_less s t \<or> str_less t s"
proof (induction s t rule: str_less.induct)
  case (1 s)
  show ?case by (cases s) simp_all
next
  case (2 t ts)
  show ?case by simp
next
  case (3 a as b bs)
  then show ?case by (auto simp: code_inject)
qed

lemma set_insert_code [simp]: "set (insert_code s ts) = insert s (set ts)"
  by (induction ts) auto

lemma sorted_insert_code:
  "sorted_wrt str_less ts \<Longrightarrow> sorted_wrt str_less (insert_code s ts)"
proof (induction ts)
  case (Cons t ts)
  then show ?case using str_less_total [of s t] by (auto intro: str_less_trans)
qed simp

lemma set_sorted_set [simp]: "set (sorted_set ss) = set ss"
  by (induction ss) (simp_all add: sorted_set_def)

lemma sorted_sorted_set: "sorted_wrt str_less (sorted_set ss)"
  by (induction ss) (simp_all add: sorted_set_def sorted_insert_code)

lemma sorted_wrt_less_distinct: "sorted_wrt str_less ts \<Longrightarrow> distinct ts"
  by (induction ts) auto

end
