(* ===== verification/Errors.thy ===== *)
theory Errors
  imports Entities
begin

text \<open>
  The exceptions a request can end in: the application errors of
  \<^verbatim>\<open>application/common/errors.py\<close> with the messages they carry, and the errors of the language and
  of the database layer that the code lets through (\<^verbatim>\<open>ValueError\<close>, \<^verbatim>\<open>AssertionError\<close>,
  \<^verbatim>\<open>IntegrityError\<close>, ...). \<open>exn_class\<close> and \<open>parent_class\<close> are the class hierarchy, along which
  Starlette looks for the handler of \<^verbatim>\<open>infrastructure/api/exc_handlers.py\<close>.
\<close>

section \<open>Exceptions\<close>

datatype exn =
    AuthenticationError string
  | InvalidCredentialsError string
  | AuthorizationError string
  | RateLimitedError int string
  | AccountLockedError int
  | UserNotFoundError string
  | RoleNotFoundError string
  | PermissionNotFoundError string
  | SessionNotFoundError string
  | ConflictError string
  | EmailAlreadyExistsError string
  | UsernameAlreadyExistsError string
  | ValidationError string
  | PasswordMismatchError string
  | InvalidTokenError string
  | IntegrityError string
  | DataError string
  | MultipleResultsFound
  | ValueError string
  | KeyError string
  | TypeError string
  | AttributeError string
  | AssertionError

text \<open>The default messages of the constructors.\<close>

definition invalid_credentials :: exn where
  "invalid_credentials = InvalidCredentialsError ''Invalid email or password''"

definition forbidden :: exn where
  "forbidden = AuthorizationError ''Forbidden''"

definition too_many_requests :: "int \<Rightarrow> exn" where
  "too_many_requests n = RateLimitedError n ''Too many requests''"

definition user_not_found :: exn where
  "user_not_found = UserNotFoundError ''User not found''"

definition role_not_found :: exn where
  "role_not_found = RoleNotFoundError ''Role not found''"

definition permission_not_found :: exn where
  "permission_not_found = PermissionNotFoundError ''Permission not found''"

definition session_not_found :: exn where
  "session_not_found = SessionNotFoundError ''Session not found''"

definition email_already_exists :: exn where
  "email_already_exists = EmailAlreadyExistsError ''A user with this email already exists''"

definition username_already_exists :: exn where
  "username_already_exists = UsernameAlreadyExistsError ''This username is already taken''"

definition password_mismatch :: exn where
  "password_mismatch = PasswordMismatchError ''Passwords do not match''"

definition invalid_token :: exn where
  "invalid_token = InvalidTokenError ''This link is invalid or has expired''"

section \<open>The class hierarchy\<close>

datatype exn_class =
    C_Exception
  | C_ApplicationError
  | C_AuthenticationError
  | C_InvalidCredentialsError
  | C_AuthorizationError
  | C_RateLimitedError
  | C_AccountLockedError
  | C_EntityNotFoundError
  | C_UserNotFoundError
  | C_RoleNotFoundError
  | C_PermissionNotFoundError
  | C_SessionNotFoundError
  | C_ConflictError
  | C_EmailAlreadyExistsError
  | C_UsernameAlreadyExistsError
  | C_ValidationError
  | C_PasswordMismatchError
  | C_InvalidTokenError

fun parent_class :: "exn_class \<Rightarrow> exn_class option" where
  "parent_class C_Exception = None"
| "parent_class C_ApplicationError = Some C_Exception"
| "parent_class C_AuthenticationError = Some C_ApplicationError"
| "parent_class C_InvalidCredentialsError = Some C_AuthenticationError"
| "parent_class C_AuthorizationError = Some C_ApplicationError"
| "parent_class C_RateLimitedError = Some C_ApplicationError"
| "parent_class C_AccountLockedError = Some C_RateLimitedError"
| "parent_class C_EntityNotFoundError = Some C_ApplicationError"
| "parent_class C_UserNotFoundError = Some C_EntityNotFoundError"
| "parent_class C_RoleNotFoundError = Some C_EntityNotFoundError"
| "parent_class C_PermissionNotFoundError = Some C_EntityNotFoundError"
| "parent_class C_SessionNotFoundError = Some C_EntityNotFoundError"
| "parent_class C_ConflictError = Some C_ApplicationError"
| "parent_class C_EmailAlreadyExistsError = Some C_ConflictError"
| "parent_class C_UsernameAlreadyExistsError = Some C_ConflictError"
| "parent_class C_ValidationError = Some C_ApplicationError"
| "parent_class C_PasswordMismatchError = Some C_ValidationError"
| "parent_class C_InvalidTokenError = Some C_ValidationError"

fun class_of :: "exn \<Rightarrow> exn_class" where
  "class_of (AuthenticationError _) = C_AuthenticationError"
| "class_of (InvalidCredentialsError _) = C_InvalidCredentialsError"
| "class_of (AuthorizationError _) = C_AuthorizationError"
| "class_of (RateLimitedError _ _) = C_RateLimitedError"
| "class_of (AccountLockedError _) = C_AccountLockedError"
| "class_of (UserNotFoundError _) = C_UserNotFoundError"
| "class_of (RoleNotFoundError _) = C_RoleNotFoundError"
| "class_of (PermissionNotFoundError _) = C_PermissionNotFoundError"
| "class_of (SessionNotFoundError _) = C_SessionNotFoundError"
| "class_of (ConflictError _) = C_ConflictError"
| "class_of (EmailAlreadyExistsError _) = C_EmailAlreadyExistsError"
| "class_of (UsernameAlreadyExistsError _) = C_UsernameAlreadyExistsError"
| "class_of (ValidationError _) = C_ValidationError"
| "class_of (PasswordMismatchError _) = C_PasswordMismatchError"
| "class_of (InvalidTokenError _) = C_InvalidTokenError"
| "class_of _ = C_Exception"

fun class_depth :: "exn_class \<Rightarrow> nat" where
  "class_depth C_Exception = 0"
| "class_depth C_ApplicationError = 1"
| "class_depth C_AuthenticationError = 2"
| "class_depth C_AuthorizationError = 2"
| "class_depth C_RateLimitedError = 2"
| "class_depth C_EntityNotFoundError = 2"
| "class_depth C_ConflictError = 2"
| "class_depth C_ValidationError = 2"
| "class_depth _ = 3"

lemma parent_class_depth: "parent_class c = Some d \<Longrightarrow> class_depth d < class_depth c"
  by (cases c) auto

text \<open>\<^verbatim>\<open>type(exc).__mro__\<close>, most specific class first.\<close>

function mro :: "exn_class \<Rightarrow> exn_class list" where
  "mro c = c # (case parent_class c of None \<Rightarrow> [] | Some d \<Rightarrow> mro d)"
  by pat_completeness auto
termination
  by (relation "measure class_depth") (auto simp: parent_class_depth)

declare mro.simps [simp del]

definition is_instance :: "exn \<Rightarrow> exn_class \<Rightarrow> bool" where
  "is_instance e c \<longleftrightarrow> c \<in> set (mro (class_of e))"

text \<open>\<^verbatim>\<open>str(exc)\<close>, the \<^verbatim>\<open>detail\<close> of the response.\<close>

fun exn_message :: "exn \<Rightarrow> string" where
  "exn_message (AuthenticationError m) = m"
| "exn_message (InvalidCredentialsError m) = m"
| "exn_message (AuthorizationError m) = m"
| "exn_message (RateLimitedError _ m) = m"
| "exn_message (AccountLockedError n) =
     ''Too many failed login attempts. Try again in '' @ str_of_int n @ '' seconds.''"
| "exn_message (UserNotFoundError m) = m"
| "exn_message (RoleNotFoundError m) = m"
| "exn_message (PermissionNotFoundError m) = m"
| "exn_message (SessionNotFoundError m) = m"
| "exn_message (ConflictError m) = m"
| "exn_message (EmailAlreadyExistsError m) = m"
| "exn_message (UsernameAlreadyExistsError m) = m"
| "exn_message (ValidationError m) = m"
| "exn_message (PasswordMismatchError m) = m"
| "exn_message (InvalidTokenError m) = m"
| "exn_message (IntegrityError m) = m"
| "exn_message (DataError m) = m"
| "exn_message MultipleResultsFound = ''Multiple rows were found when one or none was required''"
| "exn_message (ValueError m) = m"
| "exn_message (KeyError m) = m"
| "exn_message (TypeError m) = m"
| "exn_message (AttributeError m) = m"
| "exn_message AssertionError = []"

fun retry_after :: "exn \<Rightarrow> int option" where
  "retry_after (RateLimitedError n _) = Some n"
| "retry_after (AccountLockedError n) = Some n"
| "retry_after _ = None"

section \<open>Exception handlers\<close>

record error_response =
  err_status :: int
  err_detail :: string
  err_retry_after :: "string option"

text \<open>
  The table \<^verbatim>\<open>map_exc_handlers\<close> installs: one handler per class, as the status it answers with.
  Starlette takes the first class of the exception's resolution order that has a handler; an
  exception without one is a plain 500 of the server.
\<close>

fun handler_status :: "exn_class \<Rightarrow> int option" where
  "handler_status C_AuthenticationError = Some 401"
| "handler_status C_AuthorizationError = Some 403"
| "handler_status C_EntityNotFoundError = Some 404"
| "handler_status C_ConflictError = Some 409"
| "handler_status C_RateLimitedError = Some 429"
| "handler_status C_InvalidTokenError = Some 400"
| "handler_status C_ValidationError = Some 422"
| "handler_status _ = None"

fun lookup_handler :: "exn_class list \<Rightarrow> int option" where
  "lookup_handler [] = None"
| "lookup_handler (c # cs) =
     (case handler_status c of Some s \<Rightarrow> Some s | None \<Rightarrow> lookup_handler cs)"

definition handle_exn :: "exn \<Rightarrow> error_response" where
  "handle_exn e =
     (case lookup_handler (mro (class_of e)) of
        Some s \<Rightarrow>
          \<lparr> err_status = s, err_detail = exn_message e,
            err_retry_after = (if s = 429 then map_option str_of_int (retry_after e) else None) \<rparr>
      | None \<Rightarrow>
          \<lparr> err_status = 500, err_detail = ''Internal Server Error'', err_retry_after = None \<rparr>)"

text \<open>What the docstrings of the error classes promise.\<close>

fun documented_status :: "exn \<Rightarrow> int" where
  "documented_status (AuthenticationError _) = 401"
| "documented_status (InvalidCredentialsError _) = 401"
| "documented_status (AuthorizationError _) = 403"
| "documented_status (RateLimitedError _ _) = 429"
| "documented_status (AccountLockedError _) = 429"
| "documented_status (UserNotFoundError _) = 404"
| "documented_status (RoleNotFoundError _) = 404"
| "documented_status (PermissionNotFoundError _) = 404"
| "documented_status (SessionNotFoundError _) = 404"
| "documented_status (ConflictError _) = 409"
| "documented_status (EmailAlreadyExistsError _) = 409"
| "documented_status (UsernameAlreadyExistsError _) = 409"
| "documented_status (ValidationError _) = 422"
| "documented_status (PasswordMismatchError _) = 422"
| "documented_status (InvalidTokenError _) = 400"
| "documented_status _ = 500"

lemma mro_nonempty [simp]: "mro c \<noteq> []"
  by (simp add: mro.simps)

lemma lookup_handler_mro:
  "lookup_handler (mro c) =
     (case handler_status c of Some s \<Rightarrow> Some s
      | None \<Rightarrow> (case parent_class c of None \<Rightarrow> None | Some d \<Rightarrow> lookup_handler (mro d)))"
  by (subst mro.simps) (simp split: option.splits)

lemma handle_exn_status: "err_status (handle_exn e) = documented_status e"
  by (cases e) (simp_all add: handle_exn_def lookup_handler_mro)

lemma handle_exn_retry_after:
  "err_retry_after (handle_exn e) = map_option str_of_int (retry_after e)"
  by (cases e) (simp_all add: handle_exn_def lookup_handler_mro)

lemma is_application_error_iff:
  "is_instance e C_ApplicationError \<longleftrightarrow> documented_status e \<noteq> 500"
  by (cases e) (simp_all add: is_instance_def mro.simps)

end
