(* ===== verification/Config.thy ===== *)
theory Config
  imports Errors
begin

text \<open>
  The configuration of users-service (\<^verbatim>\<open>infrastructure/config.py\<close>): the settings, the rate-limit
  policies derived from them (\<^verbatim>\<open>application/common/rate_limit_policy.py\<close>),
  the database URL, and the validator that refuses unsafe production settings. The data transfer
  objects of \<^verbatim>\<open>application/common/dto.py\<close> are here too. \<open>default_config\<close> holds the defaults of the
  class.
\<close>

section \<open>Rate-limit policies\<close>

record rate_limit_policy =
  rlp_limit :: int
  rlp_window_seconds :: int

definition is_enforced :: "rate_limit_policy \<Rightarrow> bool" where
  "is_enforced p \<longleftrightarrow> rlp_limit p > 0"

record rate_limit_decision =
  rld_allowed :: bool
  rld_remaining :: int
  rld_retry_after_seconds :: int

section \<open>Settings\<close>

record config =
  cfg_ENVIRONMENT :: string
  cfg_DATABASE_URL :: "string option"
  cfg_DB_HOST :: string
  cfg_DB_PORT :: int
  cfg_DB_USER :: string
  cfg_DB_PASSWORD :: string
  cfg_DB_NAME :: string
  cfg_JWT_SECRET :: string
  cfg_JWT_ALGORITHM :: string
  cfg_ACCESS_TOKEN_EXPIRE_MINUTES :: int
  cfg_REFRESH_TOKEN_EXPIRE_MINUTES :: int
  cfg_PASSWORD_HASHER :: string
  cfg_REDIS_URL :: "string option"
  cfg_AUTH_CACHE_TTL_SECONDS :: int
  cfg_COOKIE_AUTH_ENABLED :: bool
  cfg_COOKIE_DOMAIN :: "string option"
  cfg_COOKIE_SECURE :: bool
  cfg_COOKIE_SAMESITE :: string
  cfg_ACCESS_COOKIE_NAME :: string
  cfg_REFRESH_COOKIE_NAME :: string
  cfg_REFRESH_COOKIE_PATH :: string
  cfg_CSRF_PROTECTION :: bool
  cfg_CSRF_COOKIE_NAME :: string
  cfg_CSRF_HEADER_NAME :: string
  cfg_VISITOR_COOKIE_NAME :: string
  cfg_VISITOR_COOKIE_MAX_AGE_DAYS :: int
  cfg_EMAIL_BACKEND :: string
  cfg_EMAIL_FROM :: string
  cfg_SMTP_HOST :: string
  cfg_SMTP_PORT :: int
  cfg_SMTP_USERNAME :: "string option"
  cfg_SMTP_PASSWORD :: "string option"
  cfg_SMTP_USE_TLS :: bool
  cfg_EMAIL_VERIFICATION_URL :: string
  cfg_PASSWORD_RESET_URL :: string
  cfg_EMAIL_VERIFICATION_TTL_HOURS :: int
  cfg_PASSWORD_RESET_TTL_MINUTES :: int
  cfg_RATE_LIMIT_ENABLED :: bool
  cfg_LOGIN_MAX_ATTEMPTS_PER_IP :: int
  cfg_LOGIN_MAX_ATTEMPTS_PER_ACCOUNT :: int
  cfg_LOGIN_WINDOW_SECONDS :: int
  cfg_REGISTER_MAX_PER_IP :: int
  cfg_REGISTER_WINDOW_SECONDS :: int
  cfg_FORGOT_PASSWORD_MAX_PER_EMAIL :: int
  cfg_FORGOT_PASSWORD_MAX_PER_IP :: int
  cfg_FORGOT_PASSWORD_WINDOW_SECONDS :: int
  cfg_RESET_PASSWORD_MAX_PER_IP :: int
  cfg_RESET_PASSWORD_WINDOW_SECONDS :: int
  cfg_DEFAULT_ROLE_NAME :: string
  cfg_CORS_ORIGINS :: "string list"
  cfg_TRUST_PROXY_HEADERS :: bool
  cfg_API_HOST :: string
  cfg_API_PORT :: int
  cfg_API_TITLE :: string
  cfg_API_VERSION :: string
  cfg_API_PREFIX :: string
  cfg_SEED_ON_STARTUP :: bool

definition default_config :: config where
  "default_config =
    \<lparr> cfg_ENVIRONMENT = ''development'',
      cfg_DATABASE_URL = None,
      cfg_DB_HOST = ''localhost'',
      cfg_DB_PORT = 5432,
      cfg_DB_USER = ''postgres'',
      cfg_DB_PASSWORD = ''postgres'',
      cfg_DB_NAME = ''users_service'',
      cfg_JWT_SECRET = ''change_me_to_a_long_random_secret'',
      cfg_JWT_ALGORITHM = ''HS256'',
      cfg_ACCESS_TOKEN_EXPIRE_MINUTES = 15,
      cfg_REFRESH_TOKEN_EXPIRE_MINUTES = 60 * 24 * 30,
      cfg_PASSWORD_HASHER = ''argon2'',
      cfg_REDIS_URL = None,
      cfg_AUTH_CACHE_TTL_SECONDS = 30,
      cfg_COOKIE_AUTH_ENABLED = True,
      cfg_COOKIE_DOMAIN = None,
      cfg_COOKIE_SECURE = True,
      cfg_COOKIE_SAMESITE = ''lax'',
      cfg_ACCESS_COOKIE_NAME = ''access_token'',
      cfg_REFRESH_COOKIE_NAME = ''refresh_token'',
      cfg_REFRESH_COOKIE_PATH = ''/api/v1/auth'',
      cfg_CSRF_PROTECTION = True,
      cfg_CSRF_COOKIE_NAME = ''csrf_token'',
      cfg_CSRF_HEADER_NAME = ''X-CSRF-Token'',
      cfg_VISITOR_COOKIE_NAME = ''visitor_id'',
      cfg_VISITOR_COOKIE_MAX_AGE_DAYS = 400,
      cfg_EMAIL_BACKEND = ''console'',
      cfg_EMAIL_FROM = ''no-reply@example.com'',
      cfg_SMTP_HOST = ''localhost'',
      cfg_SMTP_PORT = 587,
      cfg_SMTP_USERNAME = None,
      cfg_SMTP_PASSWORD = None,
      cfg_SMTP_USE_TLS = True,
      cfg_EMAIL_VERIFICATION_URL = ''http://localhost:3000/verify-email?token={token}'',
      cfg_PASSWORD_RESET_URL = ''http://localhost:3000/reset-password?token={token}'',
      cfg_EMAIL_VERIFICATION_TTL_HOURS = 24,
      cfg_PASSWORD_RESET_TTL_MINUTES = 30,
      cfg_RATE_LIMIT_ENABLED = True,
      cfg_LOGIN_MAX_ATTEMPTS_PER_IP = 30,
      cfg_LOGIN_MAX_ATTEMPTS_PER_ACCOUNT = 5,
      cfg_LOGIN_WINDOW_SECONDS = 15 * 60,
      cfg_REGISTER_MAX_PER_IP = 10,
      cfg_REGISTER_WINDOW_SECONDS = 60 * 60,
      cfg_FORGOT_PASSWORD_MAX_PER_EMAIL = 3,
      cfg_FORGOT_PASSWORD_MAX_PER_IP = 10,
      cfg_FORGOT_PASSWORD_WINDOW_SECONDS = 60 * 60,
      cfg_RESET_PASSWORD_MAX_PER_IP = 10,
      cfg_RESET_PASSWORD_WINDOW_SECONDS = 60 * 60,
      cfg_DEFAULT_ROLE_NAME = ''user'',
      cfg_CORS_ORIGINS = [],
      cfg_TRUST_PROXY_HEADERS = False,
      cfg_API_HOST = ''0.0.0.0'',
      cfg_API_PORT = 8001,
      cfg_API_TITLE = ''Users Service API'',
      cfg_API_VERSION = ''0.1.0'',
      cfg_API_PREFIX = ''/api/v1'',
      cfg_SEED_ON_STARTUP = True \<rparr>"

definition is_production :: "config \<Rightarrow> bool" where
  "is_production c \<longleftrightarrow> str_lower (cfg_ENVIRONMENT c) = ''production''"

definition database_url :: "config \<Rightarrow> string" where
  "database_url c =
     (case cfg_DATABASE_URL c of
        Some (ch # url) \<Rightarrow> ch # url
      | _ \<Rightarrow>
          ''postgresql+asyncpg://'' @ cfg_DB_USER c @ '':'' @ cfg_DB_PASSWORD c @
          ''@'' @ cfg_DB_HOST c @ '':'' @ str_of_int (cfg_DB_PORT c) @ ''/'' @ cfg_DB_NAME c)"

definition config_policy :: "config \<Rightarrow> int \<Rightarrow> int \<Rightarrow> rate_limit_policy" where
  "config_policy c limit window =
     \<lparr> rlp_limit = (if cfg_RATE_LIMIT_ENABLED c then limit else 0),
       rlp_window_seconds = window \<rparr>"

definition login_ip_policy :: "config \<Rightarrow> rate_limit_policy" where
  "login_ip_policy c = config_policy c (cfg_LOGIN_MAX_ATTEMPTS_PER_IP c) (cfg_LOGIN_WINDOW_SECONDS c)"

definition login_account_policy :: "config \<Rightarrow> rate_limit_policy" where
  "login_account_policy c =
     config_policy c (cfg_LOGIN_MAX_ATTEMPTS_PER_ACCOUNT c) (cfg_LOGIN_WINDOW_SECONDS c)"

definition register_ip_policy :: "config \<Rightarrow> rate_limit_policy" where
  "register_ip_policy c = config_policy c (cfg_REGISTER_MAX_PER_IP c) (cfg_REGISTER_WINDOW_SECONDS c)"

definition forgot_password_email_policy :: "config \<Rightarrow> rate_limit_policy" where
  "forgot_password_email_policy c =
     config_policy c (cfg_FORGOT_PASSWORD_MAX_PER_EMAIL c) (cfg_FORGOT_PASSWORD_WINDOW_SECONDS c)"

definition forgot_password_ip_policy :: "config \<Rightarrow> rate_limit_policy" where
  "forgot_password_ip_policy c =
     config_policy c (cfg_FORGOT_PASSWORD_MAX_PER_IP c) (cfg_FORGOT_PASSWORD_WINDOW_SECONDS c)"

definition reset_password_ip_policy :: "config \<Rightarrow> rate_limit_policy" where
  "reset_password_ip_policy c =
     config_policy c (cfg_RESET_PASSWORD_MAX_PER_IP c) (cfg_RESET_PASSWORD_WINDOW_SECONDS c)"

section \<open>The production validator\<close>

definition production_problems :: "config \<Rightarrow> string list" where
  "production_problems c =
     (if cfg_JWT_SECRET c = ''change_me_to_a_long_random_secret''
        then [''JWT_SECRET is still the default''] else []) @
     (if length (cfg_JWT_SECRET c) < 32
        then [''JWT_SECRET must be at least 32 characters''] else []) @
     (if cfg_COOKIE_AUTH_ENABLED c \<and> \<not> cfg_COOKIE_SECURE c
        then [''COOKIE_SECURE must be true''] else []) @
     (if cfg_COOKIE_AUTH_ENABLED c \<and> \<not> cfg_CSRF_PROTECTION c
        then [''CSRF_PROTECTION must be on with cookie auth''] else []) @
     (if cfg_EMAIL_BACKEND c \<noteq> ''smtp''
        then [''EMAIL_BACKEND must be smtp, not console''] else []) @
     (if \<not> cfg_RATE_LIMIT_ENABLED c
        then [''RATE_LIMIT_ENABLED must be true''] else []) @
     (if \<not> truthy (cfg_REDIS_URL c)
        then [''REDIS_URL must be set so rate limits hold across workers''] else []) @
     (if cfg_SEED_ON_STARTUP c
        then [''SEED_ON_STARTUP must be false (Alembic owns the schema)''] else [])"

definition check_production_safety :: "config \<Rightarrow> exn + config" where
  "check_production_safety c =
     (if \<not> is_production c then Inr c
      else
        (let problems = production_problems c
         in if problems \<noteq> [] then
              Inl (ValueError (''Unsafe production configuration: '' @ str_join ''; '' problems))
            else Inr c))"

section \<open>Data transfer objects\<close>

record device_info =
  dev_visitor_id :: "string option"
  dev_user_agent :: "string option"
  dev_ip_address :: "string option"
  dev_device :: "string option"

definition no_device :: device_info where
  "no_device = \<lparr> dev_visitor_id = None, dev_user_agent = None, dev_ip_address = None,
                 dev_device = None \<rparr>"

definition device_or_default :: "device_info option \<Rightarrow> device_info" where
  \<comment> \<open>\<^verbatim>\<open>device or DeviceInfoDTO()\<close>: a dataclass instance is always true\<close>
  "device_or_default d = (case d of None \<Rightarrow> no_device | Some x \<Rightarrow> x)"

record register_dto =
  reg_email :: string
  reg_username :: string
  reg_password :: string
  reg_password_repeat :: string
  reg_display_name :: "string option"
  reg_visitor_id :: "string option"

record update_dto =
  upd_username :: "string option"
  upd_display_name :: "string option"
  upd_email :: "string option"

record login_dto =
  login_email :: string
  login_password :: string

record change_password_dto =
  chp_current_password :: string
  chp_new_password :: string
  chp_new_password_repeat :: string

record reset_password_dto =
  rsp_token :: string
  rsp_password :: string
  rsp_password_repeat :: string

record auth_tokens =
  at_access_token :: string
  at_refresh_token :: string
  at_token_type :: string
  at_access_expires_at :: datetime
  at_refresh_expires_at :: datetime

record auth_result =
  ar_tokens :: auth_tokens
  ar_user :: user

record email_message =
  em_to :: string
  em_subject :: string
  em_body :: string

section \<open>Lemmas\<close>

text \<open>What a production deployment may rely on once the process has started.\<close>

definition production_safe :: "config \<Rightarrow> bool" where
  "production_safe c \<longleftrightarrow>
     cfg_JWT_SECRET c \<noteq> cfg_JWT_SECRET default_config \<and> 32 \<le> length (cfg_JWT_SECRET c) \<and>
     (cfg_COOKIE_AUTH_ENABLED c \<longrightarrow> cfg_COOKIE_SECURE c \<and> cfg_CSRF_PROTECTION c) \<and>
     cfg_EMAIL_BACKEND c = ''smtp'' \<and> cfg_RATE_LIMIT_ENABLED c \<and> truthy (cfg_REDIS_URL c) \<and>
     \<not> cfg_SEED_ON_STARTUP c"

lemma production_problems_empty_iff: "production_problems c = [] \<longleftrightarrow> production_safe c"
  by (auto simp: production_problems_def production_safe_def default_config_def)

lemma check_production_safety_iff:
  "check_production_safety c = Inr c' \<longleftrightarrow> c' = c \<and> (is_production c \<longrightarrow> production_safe c)"
  by (auto simp: check_production_safety_def Let_def production_problems_empty_iff)

lemma disabled_policy_not_enforced:
  "\<not> cfg_RATE_LIMIT_ENABLED c \<Longrightarrow> \<not> is_enforced (config_policy c limit window)"
  by (simp add: is_enforced_def config_policy_def)

end
