(* ===== verification/Database_Wf.thy ===== *)
theory Database_Wf
  imports Database
begin

text \<open>
  The integrity invariant of the database, \<open>wf_db\<close>: primary keys are distinct and below their
  sequence (\<open>keyed\<close>), unique columns are unique (\<open>uniq\<close>), links and foreign keys point at existing
  rows (\<open>refers\<close>), stored purposes are purposes. Each statement the repositories execute preserves
  it, and under it the lookups by a unique column return at most one row.
\<close>

named_theorems wf_intros \<open>preservation of the database invariant by statements\<close>

section \<open>Keys, unique columns and references of a table\<close>

definition keyed :: "('a \<Rightarrow> int) \<Rightarrow> int \<Rightarrow> 'a list \<Rightarrow> bool" where
  "keyed k n xs \<longleftrightarrow> distinct (map k xs) \<and> (\<forall>x \<in> set xs. k x < n)"

definition uniq :: "('a \<Rightarrow> 'b) \<Rightarrow> 'a list \<Rightarrow> bool" where
  "uniq k xs \<longleftrightarrow> distinct (map k xs)"

definition refers :: "('a \<Rightarrow> 'b) \<Rightarrow> 'b set \<Rightarrow> 'a list \<Rightarrow> bool" where
  "refers f S xs \<longleftrightarrow> f ` set xs \<subseteq> S"

lemma keyed_Nil [simp]: "keyed k n []" and uniq_Nil [simp]: "uniq k' []"
  and refers_Nil [simp]: "refers f S []"
  by (simp_all add: keyed_def uniq_def refers_def)

lemma keyed_uniq: "keyed k n xs \<Longrightarrow> uniq k xs"
  by (simp add: keyed_def uniq_def)

lemma keyed_snoc: "keyed k n xs \<Longrightarrow> k x = n \<Longrightarrow> keyed k (n + 1) (xs @ [x])"
  by (force simp: keyed_def)

lemma uniq_snoc: "uniq k xs \<Longrightarrow> k x \<notin> k ` set xs \<Longrightarrow> uniq k (xs @ [x])"
  by (auto simp: uniq_def)

lemma refers_snoc [simp]: "refers f S (xs @ [x]) \<longleftrightarrow> refers f S xs \<and> f x \<in> S"
  by (auto simp: refers_def)

lemma refers_mono: "refers f S xs \<Longrightarrow> S \<subseteq> T \<Longrightarrow> refers f T xs"
  by (auto simp: refers_def)

lemma keyed_filter: "keyed k n xs \<Longrightarrow> keyed k n (filter P xs)"
  by (auto simp: keyed_def distinct_map_filter)

lemma uniq_filter: "uniq k xs \<Longrightarrow> uniq k (filter P xs)"
  by (auto simp: uniq_def distinct_map_filter)

lemma refers_filter: "refers f S xs \<Longrightarrow> refers f S (filter P xs)"
  by (auto simp: refers_def)

lemma keyed_map: "(\<And>x. k (g x) = k x) \<Longrightarrow> keyed k n (map g xs) = keyed k n xs"
  by (simp add: keyed_def comp_def)

lemma uniq_map: "(\<And>x. k (g x) = k x) \<Longrightarrow> uniq k (map g xs) = uniq k xs"
  by (simp add: uniq_def comp_def)

lemma refers_map: "(\<And>x. f (g x) = f x) \<Longrightarrow> refers f S (map g xs) = refers f S xs"
  by (simp add: refers_def image_image)

text \<open>Replacing the row with a given key by a row with the same key.\<close>

definition replace_by :: "('a \<Rightarrow> 'k) \<Rightarrow> 'a \<Rightarrow> 'a list \<Rightarrow> 'a list" where
  "replace_by i row xs = map (\<lambda>x. if i x = i row then row else x) xs"

lemma replace_by_simps [simp]:
  "replace_by i row [] = []"
  "replace_by i row (x # xs) = (if i x = i row then row else x) # replace_by i row xs"
  by (simp_all add: replace_by_def)

lemma map_key_replace_by [simp]: "map i (replace_by i row xs) = map i xs"
  by (auto simp: replace_by_def)

lemma set_key_replace_by [simp]: "i ` set (replace_by i row xs) = i ` set xs"
  by (metis list.set_map map_key_replace_by)

lemma keyed_replace_by [simp]: "keyed i n (replace_by i row xs) = keyed i n xs"
proof -
  have "(\<forall>x \<in> set ys. i x < n) = (\<forall>y \<in> i ` set ys. y < n)" for ys
    by simp
  then show ?thesis by (simp only: keyed_def map_key_replace_by set_key_replace_by)
qed

lemma uniq_replace_by:
  assumes "uniq k xs" and "uniq i xs" and "\<And>x. x \<in> set xs \<Longrightarrow> i x \<noteq> i row \<Longrightarrow> k x \<noteq> k row"
  shows "uniq k (replace_by i row xs)"
  using assms
proof (induction xs)
  case (Cons a xs)
  have ih: "uniq k (replace_by i row xs)"
    using Cons by (simp add: uniq_def)
  show ?case
  proof (cases "i a = i row")
    case True
    then have "\<forall>x \<in> set xs. i x \<noteq> i row"
      using Cons.prems(2) by (simp add: uniq_def) (metis imageI)
    then have "replace_by i row xs = xs" by (simp add: replace_by_def map_idI)
    moreover have "k row \<notin> k ` set xs"
      using \<open>\<forall>x \<in> set xs. i x \<noteq> i row\<close> Cons.prems(3) by force
    ultimately show ?thesis using True Cons.prems(1) by (simp add: uniq_def)
  next
    case False
    have "k a \<notin> k ` set (replace_by i row xs)"
      using Cons.prems(1) Cons.prems(3) [of a] False by (auto simp: replace_by_def uniq_def)
    with False ih show ?thesis by (simp add: uniq_def)
  qed
qed simp

section \<open>The invariant\<close>

definition user_ids :: "database \<Rightarrow> int set" where
  "user_ids d = ur_id ` set (tbl_users d)"

definition role_ids :: "database \<Rightarrow> int set" where
  "role_ids d = rr_id ` set (tbl_roles d)"

definition perm_ids :: "database \<Rightarrow> int set" where
  "perm_ids d = pr_id ` set (tbl_permissions d)"

definition wf_users :: "int \<Rightarrow> user_row list \<Rightarrow> bool" where
  "wf_users n us \<longleftrightarrow>
     keyed ur_id n us \<and> uniq ur_email us \<and> uniq ur_username us \<and> (\<forall>r \<in> set us. user_row_fits r)"

definition wf_roles :: "int \<Rightarrow> role_row list \<Rightarrow> bool" where
  "wf_roles n rs \<longleftrightarrow> keyed rr_id n rs \<and> uniq rr_name rs"

definition wf_permissions :: "int \<Rightarrow> permission_row list \<Rightarrow> bool" where
  "wf_permissions n ps \<longleftrightarrow> keyed pr_id n ps \<and> uniq (\<lambda>p. (pr_resource p, pr_action p)) ps"

definition wf_links :: "int set \<Rightarrow> int set \<Rightarrow> (int \<times> int) list \<Rightarrow> bool" where
  "wf_links S T ls \<longleftrightarrow> distinct ls \<and> refers fst S ls \<and> refers snd T ls"

definition wf_sessions :: "int set \<Rightarrow> int \<Rightarrow> session_row list \<Rightarrow> bool" where
  "wf_sessions U n ss \<longleftrightarrow> keyed sr_id n ss \<and> uniq sr_jti ss \<and> refers sr_user_id U ss"

definition wf_tokens :: "int set \<Rightarrow> int \<Rightarrow> token_row list \<Rightarrow> bool" where
  "wf_tokens U n ts \<longleftrightarrow>
     keyed tr_id n ts \<and> uniq (\<lambda>r. (tr_token_hash r, tr_purpose r)) ts \<and> refers tr_user_id U ts \<and>
     refers tr_purpose (range token_purpose_value) ts"

definition wf_audit :: "int set \<Rightarrow> int \<Rightarrow> audit_row list \<Rightarrow> bool" where
  "wf_audit U n as \<longleftrightarrow> keyed al_id n as \<and> refers al_user_id (insert None (Some ` U)) as"

definition wf_db :: "database \<Rightarrow> bool" where
  "wf_db d \<longleftrightarrow>
     wf_users (seq_users d) (tbl_users d) \<and> wf_roles (seq_roles d) (tbl_roles d) \<and>
     wf_permissions (seq_permissions d) (tbl_permissions d) \<and>
     wf_links (user_ids d) (role_ids d) (tbl_user_roles d) \<and>
     wf_links (role_ids d) (perm_ids d) (tbl_role_permissions d) \<and>
     wf_sessions (user_ids d) (seq_sessions d) (tbl_sessions d) \<and>
     wf_tokens (user_ids d) (seq_tokens d) (tbl_tokens d) \<and>
     wf_audit (user_ids d) (seq_audit d) (tbl_audit d)"

lemmas id_sets = user_ids_def role_ids_def perm_ids_def

lemma wf_empty_db [simp]: "wf_db empty_db"
  by (simp add: wf_db_def wf_users_def wf_roles_def wf_permissions_def wf_links_def wf_sessions_def
      wf_tokens_def wf_audit_def empty_db_def)

lemma has_user_iff: "has_user u d \<longleftrightarrow> u \<in> user_ids d"
  by (auto simp: has_user_def list_ex_iff user_ids_def)

lemma has_role_iff: "has_role u d \<longleftrightarrow> u \<in> role_ids d"
  by (auto simp: has_role_def list_ex_iff role_ids_def)

lemma has_perm_iff: "has_perm u d \<longleftrightarrow> u \<in> perm_ids d"
  by (auto simp: has_perm_def list_ex_iff perm_ids_def)

lemmas has_iffs = has_user_iff has_role_iff has_perm_iff

text \<open>More users never invalidate a reference to a user.\<close>

lemma wf_links_mono: "wf_links S T ls \<Longrightarrow> S \<subseteq> S' \<Longrightarrow> T \<subseteq> T' \<Longrightarrow> wf_links S' T' ls"
  by (auto simp: wf_links_def intro: refers_mono)

lemma wf_sessions_mono: "wf_sessions U n ss \<Longrightarrow> U \<subseteq> V \<Longrightarrow> wf_sessions V n ss"
  by (auto simp: wf_sessions_def intro: refers_mono)

lemma wf_tokens_mono: "wf_tokens U n ts \<Longrightarrow> U \<subseteq> V \<Longrightarrow> wf_tokens V n ts"
  by (auto simp: wf_tokens_def intro: refers_mono)

lemma wf_audit_mono: "wf_audit U n as \<Longrightarrow> U \<subseteq> V \<Longrightarrow> wf_audit V n as"
  unfolding wf_audit_def by (auto intro: refers_mono)

lemmas wf_monos = wf_links_mono wf_sessions_mono wf_tokens_mono wf_audit_mono

section \<open>Every statement preserves the invariant\<close>

lemma insert_user_wf [wf_intros]:
  assumes ins: "insert_user r d = Inr (row, d')" and wf: "wf_db d"
  shows "wf_db d'"
proof -
  let ?row = "r\<lparr>ur_id := seq_users d\<rparr>"
  have d': "d' = d\<lparr>tbl_users := tbl_users d @ [?row], seq_users := seq_users d + 1\<rparr>"
    and ok: "user_row_fits ?row" "ur_email ?row \<notin> ur_email ` set (tbl_users d)"
      "ur_username ?row \<notin> ur_username ` set (tbl_users d)"
    using ins by (auto simp: insert_user_def Let_def list_ex_iff split: if_splits)
  have "wf_users (seq_users d + 1) (tbl_users d @ [?row])"
    using wf ok by (simp add: wf_db_def wf_users_def keyed_snoc uniq_snoc)
  moreover have "user_ids d \<subseteq> user_ids d'" "role_ids d' = role_ids d" "perm_ids d' = perm_ids d"
    by (auto simp: d' id_sets)
  ultimately show ?thesis
    using wf wf_monos by (simp add: wf_db_def) (simp add: d', meson wf_monos subset_refl)
qed

lemma update_user_wf [wf_intros]:
  assumes upd: "update_user row d = Inr d'" and wf: "wf_db d"
  shows "wf_db d'"
proof -
  have d': "d' = d\<lparr>tbl_users := replace_by ur_id row (tbl_users d)\<rparr>"
    and ok: "user_row_fits row"
      "\<And>x. x \<in> set (tbl_users d) \<Longrightarrow> ur_id x \<noteq> ur_id row \<Longrightarrow> ur_email x \<noteq> ur_email row"
      "\<And>x. x \<in> set (tbl_users d) \<Longrightarrow> ur_id x \<noteq> ur_id row \<Longrightarrow> ur_username x \<noteq> ur_username row"
    using upd by (auto simp: update_user_def list_ex_iff replace_by_def split: if_splits)
  have us: "wf_users (seq_users d) (tbl_users d)" using wf by (simp add: wf_db_def)
  then have "wf_users (seq_users d) (replace_by ur_id row (tbl_users d))"
    using ok by (auto simp: wf_users_def intro!: uniq_replace_by dest: keyed_uniq)
      (auto simp: replace_by_def)
  moreover have "user_ids d' = user_ids d" "role_ids d' = role_ids d" "perm_ids d' = perm_ids d"
    by (simp_all add: d' id_sets)
  ultimately show ?thesis using wf by (simp add: wf_db_def) (simp add: d')
qed

lemma insert_role_wf [wf_intros]:
  assumes ins: "insert_role r d = Inr (row, d')" and wf: "wf_db d"
  shows "wf_db d'"
proof -
  let ?row = "r\<lparr>rr_id := seq_roles d\<rparr>"
  have d': "d' = d\<lparr>tbl_roles := tbl_roles d @ [?row], seq_roles := seq_roles d + 1\<rparr>"
    and ok: "rr_name ?row \<notin> rr_name ` set (tbl_roles d)"
    using ins by (auto simp: insert_role_def Let_def list_ex_iff split: if_splits)
  have "wf_roles (seq_roles d + 1) (tbl_roles d @ [?row])"
    using wf ok by (simp add: wf_db_def wf_roles_def keyed_snoc uniq_snoc)
  moreover have "role_ids d \<subseteq> role_ids d'" "user_ids d' = user_ids d" "perm_ids d' = perm_ids d"
    by (auto simp: d' id_sets)
  ultimately show ?thesis
    using wf by (simp add: wf_db_def) (simp add: d', meson wf_links_mono subset_refl)
qed

lemma insert_permission_wf [wf_intros]:
  assumes ins: "insert_permission r d = Inr (row, d')" and wf: "wf_db d"
  shows "wf_db d'"
proof -
  let ?row = "r\<lparr>pr_id := seq_permissions d\<rparr>"
  have d': "d' = d\<lparr>tbl_permissions := tbl_permissions d @ [?row],
                   seq_permissions := seq_permissions d + 1\<rparr>"
    and ok: "(pr_resource ?row, pr_action ?row) \<notin>
               (\<lambda>p. (pr_resource p, pr_action p)) ` set (tbl_permissions d)"
    using ins by (auto simp: insert_permission_def Let_def list_ex_iff split: if_splits)
  have "wf_permissions (seq_permissions d + 1) (tbl_permissions d @ [?row])"
    using wf ok by (simp add: wf_db_def wf_permissions_def keyed_snoc uniq_snoc)
  moreover have "perm_ids d \<subseteq> perm_ids d'" "user_ids d' = user_ids d" "role_ids d' = role_ids d"
    by (auto simp: d' id_sets)
  ultimately show ?thesis
    using wf by (simp add: wf_db_def) (simp add: d', meson wf_links_mono subset_refl)
qed

lemma insert_user_role_wf [wf_intros]:
  assumes "insert_user_role u r d = Inr d'" and "wf_db d"
  shows "wf_db d'"
  using assms
  by (auto simp: insert_user_role_def has_iffs wf_db_def wf_links_def id_sets split: if_splits)

lemma insert_role_permission_wf [wf_intros]:
  assumes "insert_role_permission r p d = Inr d'" and "wf_db d"
  shows "wf_db d'"
  using assms
  by (auto simp: insert_role_permission_def has_iffs wf_db_def wf_links_def id_sets split: if_splits)

lemma insert_session_wf [wf_intros]:
  assumes ins: "insert_session r d = Inr (row, d')" and wf: "wf_db d"
  shows "wf_db d'"
proof -
  let ?row = "r\<lparr>sr_id := seq_sessions d\<rparr>"
  have d': "d' = d\<lparr>tbl_sessions := tbl_sessions d @ [?row], seq_sessions := seq_sessions d + 1\<rparr>"
    and ok: "sr_jti ?row \<notin> sr_jti ` set (tbl_sessions d)" "sr_user_id ?row \<in> user_ids d"
    using ins by (auto simp: insert_session_def Let_def list_ex_iff has_iffs split: if_splits)
  then have "wf_sessions (user_ids d) (seq_sessions d + 1) (tbl_sessions d @ [?row])"
    using wf by (simp add: wf_db_def wf_sessions_def keyed_snoc uniq_snoc)
  then show ?thesis using wf by (simp add: d' wf_db_def id_sets)
qed

lemma insert_token_wf [wf_intros]:
  assumes ins: "insert_token r d = Inr (row, d')" and wf: "wf_db d"
    and p: "tr_purpose r \<in> range token_purpose_value"
  shows "wf_db d'"
proof -
  let ?row = "r\<lparr>tr_id := seq_tokens d\<rparr>"
  have d': "d' = d\<lparr>tbl_tokens := tbl_tokens d @ [?row], seq_tokens := seq_tokens d + 1\<rparr>"
    and ok: "(tr_token_hash ?row, tr_purpose ?row) \<notin>
               (\<lambda>r. (tr_token_hash r, tr_purpose r)) ` set (tbl_tokens d)"
      "tr_user_id ?row \<in> user_ids d"
    using ins by (auto simp: insert_token_def Let_def list_ex_iff has_iffs split: if_splits)
  then have "wf_tokens (user_ids d) (seq_tokens d + 1) (tbl_tokens d @ [?row])"
    using wf p by (simp add: wf_db_def wf_tokens_def keyed_snoc uniq_snoc)
  then show ?thesis using wf by (simp add: d' wf_db_def id_sets)
qed

lemma insert_audit_wf [wf_intros]:
  assumes ins: "insert_audit r d = Inr (row, d')" and wf: "wf_db d"
  shows "wf_db d'"
proof -
  let ?row = "r\<lparr>al_id := seq_audit d\<rparr>"
  have d': "d' = d\<lparr>tbl_audit := tbl_audit d @ [?row], seq_audit := seq_audit d + 1\<rparr>"
    and ok: "al_user_id ?row \<in> insert None (Some ` user_ids d)"
    using ins by (auto simp: insert_audit_def Let_def has_iffs split: if_splits option.splits)
  then have "wf_audit (user_ids d) (seq_audit d + 1) (tbl_audit d @ [?row])"
    using wf by (simp add: wf_db_def wf_audit_def keyed_snoc)
  then show ?thesis using wf by (simp add: d' wf_db_def id_sets)
qed

lemma delete_role_row_wf [wf_intros]:
  assumes wf: "wf_db d"
  shows "wf_db (delete_role_row rid d)"
proof -
  let ?d = "delete_role_row rid d"
  have ids: "role_ids ?d = role_ids d - {rid}" "user_ids ?d = user_ids d" "perm_ids ?d = perm_ids d"
    by (auto simp: delete_role_row_def id_sets)
  have "wf_roles (seq_roles d) (tbl_roles ?d)"
    using wf by (simp add: wf_db_def wf_roles_def delete_role_row_def keyed_filter uniq_filter)
  moreover have "wf_links (user_ids d) (role_ids d - {rid}) (tbl_user_roles ?d)"
    "wf_links (role_ids d - {rid}) (perm_ids d) (tbl_role_permissions ?d)"
    using wf by (auto simp: wf_db_def wf_links_def delete_role_row_def refers_def)
  ultimately show ?thesis
    using wf by (simp add: wf_db_def ids) (simp add: delete_role_row_def)
qed

lemma delete_permission_row_wf [wf_intros]:
  assumes wf: "wf_db d"
  shows "wf_db (delete_permission_row pid d)"
proof -
  let ?d = "delete_permission_row pid d"
  have ids: "perm_ids ?d = perm_ids d - {pid}" "user_ids ?d = user_ids d" "role_ids ?d = role_ids d"
    by (auto simp: delete_permission_row_def id_sets)
  have "wf_permissions (seq_permissions d) (tbl_permissions ?d)"
    using wf by (simp add: wf_db_def wf_permissions_def delete_permission_row_def keyed_filter uniq_filter)
  moreover have "wf_links (role_ids d) (perm_ids d - {pid}) (tbl_role_permissions ?d)"
    using wf by (auto simp: wf_db_def wf_links_def delete_permission_row_def refers_def)
  ultimately show ?thesis
    using wf by (simp add: wf_db_def ids) (simp add: delete_permission_row_def)
qed

text \<open>An update of sessions or tokens that touches neither keys nor owners.\<close>

lemma update_sessions_wf [wf_intros]:
  assumes "wf_db d" and "\<And>r. sr_id (f r) = sr_id r" "\<And>r. sr_jti (f r) = sr_jti r"
    "\<And>r. sr_user_id (f r) = sr_user_id r"
  shows "wf_db (d\<lparr>tbl_sessions := map f (tbl_sessions d)\<rparr>)"
  using assms by (simp add: wf_db_def wf_sessions_def id_sets keyed_map uniq_map refers_map)

lemma update_tokens_wf [wf_intros]:
  assumes "wf_db d" and "\<And>r. tr_id (f r) = tr_id r" "\<And>r. tr_token_hash (f r) = tr_token_hash r"
    "\<And>r. tr_user_id (f r) = tr_user_id r" "\<And>r. tr_purpose (f r) = tr_purpose r"
  shows "wf_db (d\<lparr>tbl_tokens := map f (tbl_tokens d)\<rparr>)"
  using assms by (simp add: wf_db_def wf_tokens_def id_sets keyed_map uniq_map refers_map)

section \<open>Lookups by a unique column\<close>

lemma uniq_filter_cases:
  "uniq k xs \<Longrightarrow> filter (\<lambda>y. k y = v) xs = [] \<or>
     (\<exists>x \<in> set xs. k x = v \<and> filter (\<lambda>y. k y = v) xs = [x])"
  unfolding uniq_def by (rule distinct_map_filter_cases)

lemma uniq_filter_single: "uniq k xs \<Longrightarrow> x \<in> set xs \<Longrightarrow> filter (\<lambda>y. k y = k x) xs = [x]"
  unfolding uniq_def by (rule distinct_map_filter_unique)

lemma wf_uniqs:
  assumes "wf_db d"
  shows "uniq ur_id (tbl_users d)" "uniq ur_email (tbl_users d)" "uniq ur_username (tbl_users d)"
    "uniq rr_id (tbl_roles d)" "uniq rr_name (tbl_roles d)" "uniq pr_id (tbl_permissions d)"
    "uniq sr_id (tbl_sessions d)" "uniq sr_jti (tbl_sessions d)" "uniq tr_id (tbl_tokens d)"
    "uniq (\<lambda>r. (tr_token_hash r, tr_purpose r)) (tbl_tokens d)"
    "uniq (\<lambda>p. (pr_resource p, pr_action p)) (tbl_permissions d)"
  using assms
  by (auto simp: wf_db_def wf_users_def wf_roles_def wf_permissions_def wf_sessions_def wf_tokens_def
      dest: keyed_uniq)

lemma uniq_inj: "uniq k xs \<Longrightarrow> x \<in> set xs \<Longrightarrow> y \<in> set xs \<Longrightarrow> k x = k y \<Longrightarrow> x = y"
  unfolding uniq_def by (rule distinct_map_inj)

end
