(* ===== verification/World.thy ===== *)
theory World
  imports Database_Wf "HOL-Library.Word"
begin

text \<open>
  The world a request runs in, and the unit of work of \<^verbatim>\<open>adapter/database/unit_of_work.py\<close>.

  \<open>world\<close> holds the committed database, the view of the open session (if there is one), the
  counters of the in-process rate limiter, the state of the Redis server, the messages handed to
  the email sender, and the number of readings taken so far from clocks and random sources.

  \<open>env\<close> holds everything that is not in the repository: the clocks, the random sources, the
  cryptographic primitives, PyJWT, argon2-cffi and the Redis commands. They are parameters; what
  the theorems need of them is stated as hypotheses. The \<open>n\<close>-th reading of a clock or random source
  is a function of \<open>n\<close>, so nothing is assumed about how readings relate unless a theorem says so.
\<close>

type_synonym byte = "8 word"

section \<open>The environment\<close>

datatype claim_value = CStr string | CInt int

type_synonym claims = "(string \<times> claim_value) list"

datatype jwt_error = ExpiredSignatureError | InvalidJwtError

datatype argon2_error = VerifyMismatchError | VerificationError | InvalidHashError

record 'r env =
  env_utcnow :: "nat \<Rightarrow> int"
  env_monotonic :: "nat \<Rightarrow> int"
  env_db_now :: "nat \<Rightarrow> int"
  env_uuid4_hex :: "nat \<Rightarrow> string"
  env_token_urlsafe :: "nat \<Rightarrow> nat \<Rightarrow> string"
  env_urandom :: "nat \<Rightarrow> nat \<Rightarrow> byte list"
  env_sha256 :: "byte list \<Rightarrow> byte list"
  env_pbkdf2_sha256 :: "byte list \<Rightarrow> byte list \<Rightarrow> int \<Rightarrow> byte list"
  env_argon2_hash :: "nat \<Rightarrow> string \<Rightarrow> string"
  env_argon2_verify :: "string \<Rightarrow> string \<Rightarrow> argon2_error + bool"
  env_jwt_encode :: "claims \<Rightarrow> string \<Rightarrow> string \<Rightarrow> string"
  env_jwt_decode :: "string \<Rightarrow> string \<Rightarrow> string \<Rightarrow> int \<Rightarrow> jwt_error + claims"
  env_redis_now :: "nat \<Rightarrow> int"
  env_redis_get :: "int \<Rightarrow> string \<Rightarrow> 'r \<Rightarrow> string option"
  env_redis_set_ex :: "int \<Rightarrow> string \<Rightarrow> string \<Rightarrow> int \<Rightarrow> 'r \<Rightarrow> 'r"
  env_redis_delete :: "int \<Rightarrow> string \<Rightarrow> 'r \<Rightarrow> 'r"
  env_redis_incr :: "int \<Rightarrow> string \<Rightarrow> 'r \<Rightarrow> int \<times> 'r"
  env_redis_ttl :: "int \<Rightarrow> string \<Rightarrow> 'r \<Rightarrow> int"
  env_redis_expire :: "int \<Rightarrow> string \<Rightarrow> int \<Rightarrow> 'r \<Rightarrow> 'r"

section \<open>The world\<close>

record 'r world =
  db :: database
  session :: "database option"
  counters :: "string \<rightharpoonup> int \<times> int"
  redis :: 'r
  outbox :: "email_message list"
  draws :: nat

type_synonym ('r, 'a) app = "('r world, exn, 'a) prog"

text \<open>Taking a reading of a clock or a random source.\<close>

definition draw :: "(nat \<Rightarrow> 'a) \<Rightarrow> ('r, 'a) app" where
  "draw f = (\<lambda>w. (Inr (f (draws w)), w\<lparr>draws := Suc (draws w)\<rparr>))"

definition utc_now :: "'r env \<Rightarrow> ('r, int) app" where
  "utc_now env = draw (env_utcnow env)"

definition monotonic :: "'r env \<Rightarrow> ('r, int) app" where
  "monotonic env = draw (env_monotonic env)"

definition db_now :: "'r env \<Rightarrow> ('r, int) app" where
  "db_now env = draw (env_db_now env)"

definition redis_now :: "'r env \<Rightarrow> ('r, int) app" where
  "redis_now env = draw (env_redis_now env)"

definition uuid4_hex :: "'r env \<Rightarrow> ('r, string) app" where
  "uuid4_hex env = draw (env_uuid4_hex env)"

section \<open>The unit of work\<close>

text \<open>
  \<^verbatim>\<open>async with uow:\<close> opens a session that sees the committed database; leaving the block, normally
  or by an exception, discards what was not committed and closes the session.
\<close>

definition with_uow :: "('r, 'a) app \<Rightarrow> ('r, 'a) app" where
  "with_uow body =
     (\<lambda>w. let (r, w') = body (w\<lparr>session := Some (db w)\<rparr>) in (r, w'\<lparr>session := None\<rparr>))"

definition commit :: "('r, unit) app" where
  "commit = (\<lambda>w. case session w of
                   None \<Rightarrow> (Inl AssertionError, w)
                 | Some d \<Rightarrow> (Inr (), w\<lparr>db := d\<rparr>))"

definition rollback :: "('r, unit) app" where
  "rollback = (\<lambda>w. case session w of
                     None \<Rightarrow> (Inl AssertionError, w)
                   | Some d \<Rightarrow> (Inr (), w\<lparr>session := Some (db w)\<rparr>))"

text \<open>A read, and a statement with its effect, in the open session.\<close>

definition query :: "(database \<Rightarrow> exn + 'a) \<Rightarrow> ('r, 'a) app" where
  "query f = (\<lambda>w. case session w of
                    None \<Rightarrow> (Inl (AttributeError ''session''), w)
                  | Some d \<Rightarrow> (f d, w))"

definition execute :: "(database \<Rightarrow> exn + 'a \<times> database) \<Rightarrow> ('r, 'a) app" where
  "execute f = (\<lambda>w. case session w of
                      None \<Rightarrow> (Inl (AttributeError ''session''), w)
                    | Some d \<Rightarrow>
                        (case f d of
                           Inl e \<Rightarrow> (Inl e, w)
                         | Inr (x, d') \<Rightarrow> (Inr x, w\<lparr>session := Some d'\<rparr>)))"

subsection \<open>Weakest preconditions\<close>

lemma wp_draw [wp_rules]: "wp (draw f) Q E w = Q (f (draws w)) (w\<lparr>draws := Suc (draws w)\<rparr>)"
  by (simp add: wp_def draw_def)

lemma wp_utc_now [wp_rules]:
  "wp (utc_now env) Q E w = Q (env_utcnow env (draws w)) (w\<lparr>draws := Suc (draws w)\<rparr>)"
  by (simp add: utc_now_def wp_draw)

lemma wp_monotonic [wp_rules]:
  "wp (monotonic env) Q E w = Q (env_monotonic env (draws w)) (w\<lparr>draws := Suc (draws w)\<rparr>)"
  by (simp add: monotonic_def wp_draw)

lemma wp_db_now [wp_rules]:
  "wp (db_now env) Q E w = Q (env_db_now env (draws w)) (w\<lparr>draws := Suc (draws w)\<rparr>)"
  by (simp add: db_now_def wp_draw)

lemma wp_redis_now [wp_rules]:
  "wp (redis_now env) Q E w = Q (env_redis_now env (draws w)) (w\<lparr>draws := Suc (draws w)\<rparr>)"
  by (simp add: redis_now_def wp_draw)

lemma wp_uuid4_hex [wp_rules]:
  "wp (uuid4_hex env) Q E w = Q (env_uuid4_hex env (draws w)) (w\<lparr>draws := Suc (draws w)\<rparr>)"
  by (simp add: uuid4_hex_def wp_draw)

lemma wp_with_uow [wp_rules]:
  "wp (with_uow body) Q E w =
     wp body (\<lambda>x w'. Q x (w'\<lparr>session := None\<rparr>)) (\<lambda>e w'. E e (w'\<lparr>session := None\<rparr>))
       (w\<lparr>session := Some (db w)\<rparr>)"
  by (simp add: wp_def with_uow_def Let_def split: prod.splits sum.splits)

lemma wp_commit [wp_rules]:
  "wp commit Q E w = (case session w of None \<Rightarrow> E AssertionError w | Some d \<Rightarrow> Q () (w\<lparr>db := d\<rparr>))"
  by (simp add: wp_def commit_def split: option.splits)

lemma wp_query [wp_rules]:
  "wp (query f) Q E w =
     (case session w of
        None \<Rightarrow> E (AttributeError ''session'') w
      | Some d \<Rightarrow> (case f d of Inl e \<Rightarrow> E e w | Inr x \<Rightarrow> Q x w))"
  by (simp add: wp_def query_def split: option.splits sum.splits)

lemma wp_execute [wp_rules]:
  "wp (execute f) Q E w =
     (case session w of
        None \<Rightarrow> E (AttributeError ''session'') w
      | Some d \<Rightarrow>
          (case f d of Inl e \<Rightarrow> E e w | Inr (x, d') \<Rightarrow> Q x (w\<lparr>session := Some d'\<rparr>)))"
  by (simp add: wp_def execute_def split: option.splits sum.splits prod.splits)

subsection \<open>Invariants of the database\<close>

text \<open>
  \<open>db_inv2 A B\<close>: \<open>A\<close> holds of the committed database and \<open>B\<close> of the open session's view of it.
\<close>

definition db_inv2 :: "(database \<Rightarrow> bool) \<Rightarrow> (database \<Rightarrow> bool) \<Rightarrow> 'r world \<Rightarrow> bool" where
  "db_inv2 A B w \<longleftrightarrow> A (db w) \<and> (\<forall>d. session w = Some d \<longrightarrow> B d)"

abbreviation db_inv :: "(database \<Rightarrow> bool) \<Rightarrow> 'r world \<Rightarrow> bool" where
  "db_inv I \<equiv> db_inv2 I I"

lemma keeps_draw [keeps_rules]: "keeps (db_inv2 A B) (draw f)"
  by (simp add: keeps_def draw_def db_inv2_def)

lemma keeps_readings [keeps_rules]:
  "keeps (db_inv2 A B) (utc_now env)" "keeps (db_inv2 A B) (monotonic env)"
  "keeps (db_inv2 A B) (db_now env)" "keeps (db_inv2 A B) (uuid4_hex env)"
  "keeps (db_inv2 A B) (redis_now env)"
  by (simp_all add: utc_now_def monotonic_def db_now_def uuid4_hex_def redis_now_def keeps_draw)

lemma keeps_with_uow [keeps_rules]:
  assumes "keeps (db_inv A) body"
  shows "keeps (db_inv2 A B) (with_uow body)"
proof (rule keepsI)
  fix w :: "'a world" assume "db_inv2 A B w"
  then have "db_inv A (w\<lparr>session := Some (db w)\<rparr>)" by (simp add: db_inv2_def)
  with assms have "db_inv A (snd (body (w\<lparr>session := Some (db w)\<rparr>)))" by (simp add: keeps_def)
  then show "db_inv2 A B (snd (with_uow body w))"
    by (simp add: with_uow_def Let_def split_beta db_inv2_def)
qed

lemma keeps_commit [keeps_rules]: "(\<And>d. B d \<Longrightarrow> A d) \<Longrightarrow> keeps (db_inv2 A B) commit"
  by (auto simp: keeps_def commit_def db_inv2_def split: option.splits)

lemma keeps_rollback [keeps_rules]: "(\<And>d. A d \<Longrightarrow> B d) \<Longrightarrow> keeps (db_inv2 A B) rollback"
  by (auto simp: keeps_def rollback_def db_inv2_def split: option.splits)

lemma keeps_query [keeps_rules]: "keeps (db_inv2 A B) (query f)"
  by (auto simp: keeps_def query_def db_inv2_def split: option.splits)

lemma keeps_execute:
  assumes "\<And>d x d'. B d \<Longrightarrow> f d = Inr (x, d') \<Longrightarrow> B d'"
  shows "keeps (db_inv2 A B) (execute f)"
  using assms
  by (auto simp: keeps_def execute_def db_inv2_def split: option.splits sum.splits)

subsection \<open>What a transaction commits\<close>

text \<open>
  \<open>transacts C P m\<close>: started with \<open>C\<close> of the committed database and \<open>P\<close> of the session's view, \<open>m\<close>
  leaves \<open>C\<close> of the committed database, whether it returns or raises. The rules follow the reads and
  statements of \<open>m\<close>, strengthening \<open>P\<close> by what they yield, up to the commit.
\<close>

definition transacts :: "(database \<Rightarrow> bool) \<Rightarrow> (database \<Rightarrow> bool) \<Rightarrow> ('r, 'a) app \<Rightarrow> bool" where
  "transacts C P m \<longleftrightarrow> (\<forall>w. db_inv2 C P w \<longrightarrow> C (db (snd (m w))))"

named_theorems transacts_rules \<open>what a transaction commits\<close>

lemma transacts_with_uow:
  "transacts C C m \<Longrightarrow> C (db w) \<Longrightarrow> C (db (snd (with_uow m w)))"
  by (simp add: transacts_def with_uow_def Let_def split_beta db_inv2_def)

lemma transacts_conseq: "transacts C P' m \<Longrightarrow> (\<And>d. P d \<Longrightarrow> P' d) \<Longrightarrow> transacts C P m"
  by (auto simp: transacts_def db_inv2_def)

lemma transacts_basic [transacts_rules]:
  "transacts C P (retM x)" "transacts C P (raiseM e)" "transacts C P (liftM r)"
  "transacts C P (query q)" "transacts C P (execute s)" "transacts C P (draw g)"
  by (auto simp: transacts_def retM_def raiseM_def liftM_def query_def execute_def draw_def db_inv2_def
      split: option.splits sum.splits)

lemma transacts_query [transacts_rules]:
  assumes "\<And>x. transacts C (\<lambda>d. P d \<and> q d = Inr x) (f x)"
  shows "transacts C P (bindM (query q) f)"
  using assms
  by (auto simp: transacts_def db_inv2_def bindM_def query_def split: option.splits sum.splits)

lemma transacts_execute:
  fixes f :: "'a \<Rightarrow> ('r, 'b) app"
  assumes "\<And>x. transacts C (\<lambda>d'. \<exists>d. P d \<and> s d = Inr (x, d')) (f x)"
  shows "transacts C P (bindM (execute s) f)"
  unfolding transacts_def
proof (intro allI impI)
  fix w :: "'r world" assume inv: "db_inv2 C P w"
  show "C (db (snd (bindM (execute s) f w)))"
  proof (cases "session w")
    case (Some d)
    show ?thesis
    proof (cases "s d")
      case (Inr p)
      obtain x d' where p: "p = (x, d')" by fastforce
      have "db_inv2 C (\<lambda>d'. \<exists>d. P d \<and> s d = Inr (x, d')) (w\<lparr>session := Some d'\<rparr>)"
        using inv Some Inr p by (auto simp: db_inv2_def)
      with assms [of x] show ?thesis
        by (simp add: transacts_def bindM_def execute_def Some Inr p)
    qed (use inv Some in \<open>simp add: bindM_def execute_def db_inv2_def\<close>)
  qed (use inv in \<open>simp add: bindM_def execute_def db_inv2_def\<close>)
qed

lemma transacts_draw [transacts_rules]:
  "(\<And>x. transacts C P (f x)) \<Longrightarrow> transacts C P (bindM (draw g) f)"
  by (auto simp: transacts_def db_inv2_def bindM_def draw_def)

lemma transacts_readings [transacts_rules]:
  assumes "\<And>x. transacts C P (f x)"
  shows "transacts C P (bindM (utc_now env) f)" "transacts C P (bindM (monotonic env) f)"
    "transacts C P (bindM (db_now env) f)"
  using assms by (auto simp: utc_now_def monotonic_def db_now_def intro: transacts_draw)

lemma transacts_uuid [transacts_rules]:
  "(\<And>x. transacts C P (f x)) \<Longrightarrow> transacts C P (bindM (uuid4_hex env) f)"
  by (auto simp: uuid4_hex_def intro: transacts_draw)

lemma transacts_liftM [transacts_rules]:
  "(\<And>x. r = Inr x \<Longrightarrow> transacts C P (f x)) \<Longrightarrow> transacts C P (bindM (liftM r) f)"
  by (auto simp: transacts_def bindM_def liftM_def db_inv2_def split: sum.splits)

lemma transacts_bind:
  fixes m :: "('r, 'a) app"
  assumes "keeps (db_inv2 C P) m" and "\<And>x. transacts C P (f x)"
  shows "transacts C P (bindM m f)"
  unfolding transacts_def
proof (intro allI impI)
  fix w :: "'r world" assume "db_inv2 C P w"
  with assms(1) have "db_inv2 C P (snd (m w))" by (simp add: keeps_def)
  with assms(2) show "C (db (snd (bindM m f w)))"
    by (auto simp: bindM_def transacts_def db_inv2_def split: prod.splits sum.splits)
qed

lemma transacts_seq:
  "keeps (db_inv2 C P) m \<Longrightarrow> transacts C P n \<Longrightarrow> transacts C P (seqM m n)"
  by (simp add: seqM_def transacts_bind)

lemma transacts_commit [transacts_rules]:
  "(\<And>d. P d \<Longrightarrow> C d) \<Longrightarrow> transacts C P commit"
  by (auto simp: transacts_def commit_def db_inv2_def split: option.splits)

lemma transacts_commit_seq [transacts_rules]:
  assumes "\<And>d. P d \<Longrightarrow> C d" and "transacts C P n"
  shows "transacts C P (seqM commit n)"
  by (rule transacts_seq) (use assms keeps_commit in auto)

lemma transacts_if [transacts_rules]:
  "(b \<Longrightarrow> transacts C P m) \<Longrightarrow> (\<not> b \<Longrightarrow> transacts C P n) \<Longrightarrow> transacts C P (if b then m else n)"
  by simp

lemma transacts_when [transacts_rules]:
  "(\<not> b \<Longrightarrow> transacts C P n) \<Longrightarrow> transacts C P (seqM (whenM b (raiseM e)) n)"
  by (auto simp: transacts_def seqM_def whenM_def bindM_def raiseM_def retM_def db_inv2_def)

lemma transacts_case_option [transacts_rules]:
  "(x = None \<Longrightarrow> transacts C P m) \<Longrightarrow> (\<And>y. x = Some y \<Longrightarrow> transacts C P (f y)) \<Longrightarrow>
     transacts C P (case x of None \<Rightarrow> m | Some y \<Rightarrow> f y)"
  by (simp split: option.splits)

subsection \<open>Atomicity\<close>

text \<open>
  A block that leaves the committed database alone: until it commits, nothing of what it did is
  visible, whatever it raises.
\<close>

definition uncommitted :: "('r, 'a) app \<Rightarrow> bool" where
  "uncommitted m \<longleftrightarrow> (\<forall>w. db (snd (m w)) = db w)"

named_theorems uncommitted_rules \<open>programs that do not commit\<close>

lemma uncommitted_keeps: "uncommitted m \<longleftrightarrow> (\<forall>d. keeps (\<lambda>w. db w = d) m)"
  by (auto simp: uncommitted_def keeps_def)

lemma uncommitted_basic [uncommitted_rules]:
  "uncommitted (retM x)" "uncommitted (raiseM e)" "uncommitted (liftM r)" "uncommitted (getsM g)"
  "uncommitted (draw f)" "uncommitted (utc_now env)" "uncommitted (monotonic env)"
  "uncommitted (db_now env)" "uncommitted (uuid4_hex env)" "uncommitted (redis_now env)"
  "uncommitted (query q)" "uncommitted (execute s)" "uncommitted rollback"
  by (auto simp: uncommitted_def retM_def raiseM_def liftM_def getsM_def draw_def utc_now_def
      monotonic_def db_now_def uuid4_hex_def redis_now_def query_def execute_def rollback_def
      split: option.splits sum.splits)

lemma uncommitted_bindM [uncommitted_rules]:
  "uncommitted m \<Longrightarrow> (\<And>x. uncommitted (f x)) \<Longrightarrow> uncommitted (bindM m f)"
  by (simp add: uncommitted_keeps keeps_bindM)

lemma uncommitted_seqM [uncommitted_rules]:
  "uncommitted m \<Longrightarrow> uncommitted n \<Longrightarrow> uncommitted (seqM m n)"
  by (simp add: uncommitted_keeps keeps_seqM)

lemma uncommitted_whenM [uncommitted_rules]: "uncommitted m \<Longrightarrow> uncommitted (whenM b m)"
  by (simp add: uncommitted_keeps keeps_whenM)

lemma uncommitted_if [uncommitted_rules]:
  "uncommitted m \<Longrightarrow> uncommitted n \<Longrightarrow> uncommitted (if b then m else n)"
  by simp

lemma uncommitted_case_option [uncommitted_rules]:
  "uncommitted m \<Longrightarrow> (\<And>y. uncommitted (f y)) \<Longrightarrow>
     uncommitted (case x of None \<Rightarrow> m | Some y \<Rightarrow> f y)"
  by (simp split: option.splits)

lemma uncommitted_with_uow [uncommitted_rules]: "uncommitted m \<Longrightarrow> uncommitted (with_uow m)"
  by (simp add: uncommitted_def with_uow_def Let_def split_beta)

lemma transacts_uncommitted: "uncommitted m \<Longrightarrow> transacts C P m"
  by (simp add: transacts_def uncommitted_def db_inv2_def)

end
