(* ===== verification/Spendable.thy ===== *)
theory Spendable
  imports Database_Wf
begin

text \<open>
  Rows that can be spent once. Login sessions (\<^verbatim>\<open>revoked_at\<close>) and one-time tokens (\<^verbatim>\<open>used_at\<close>) share
  one contract: a statement \<^verbatim>\<open>UPDATE ... SET stamp = :moment WHERE ... AND stamp IS NULL\<close> stamps the
  rows it selects that carry no stamp yet, so a stamp is never moved or removed. The locale states
  that contract over any row type and derives what the use cases rely on; the two tables are its
  interpretations.
\<close>

definition spend_rows ::
  "('row \<Rightarrow> datetime option) \<Rightarrow> (datetime \<Rightarrow> 'row \<Rightarrow> 'row) \<Rightarrow> ('row \<Rightarrow> bool) \<Rightarrow> datetime \<Rightarrow> 'row list \<Rightarrow> 'row list"
  where
  "spend_rows stamped stamp P moment rows =
     map (\<lambda>r. if P r \<and> stamped r = None then stamp moment r else r) rows"

definition spend_count ::
  "('row \<Rightarrow> datetime option) \<Rightarrow> ('row \<Rightarrow> bool) \<Rightarrow> 'row list \<Rightarrow> int" where
  "spend_count stamped P rows = int (length (filter (\<lambda>r. P r \<and> stamped r = None) rows))"

text \<open>
  \<open>later old new\<close>: every row of \<open>old\<close> is still in \<open>new\<close> at its place, equal up to a stamp it may
  have received; rows may have been appended.
\<close>

locale spendable =
  fixes stamped :: "'row \<Rightarrow> datetime option"
    and stamp :: "datetime \<Rightarrow> 'row \<Rightarrow> 'row"
    and erase :: "'row \<Rightarrow> 'row"
  assumes stamped_stamp: "stamped (stamp m r) = Some m"
    and erase_stamp: "erase (stamp m r) = erase r"
begin

definition ages :: "'row \<Rightarrow> 'row \<Rightarrow> bool" where
  "ages r r' \<longleftrightarrow> erase r' = erase r \<and> (stamped r \<noteq> None \<longrightarrow> r' = r)"

definition later :: "'row list \<Rightarrow> 'row list \<Rightarrow> bool" where
  "later old new \<longleftrightarrow>
     length old \<le> length new \<and> (\<forall>i < length old. ages (old ! i) (new ! i))"

abbreviation spend :: "('row \<Rightarrow> bool) \<Rightarrow> datetime \<Rightarrow> 'row list \<Rightarrow> 'row list" where
  "spend \<equiv> spend_rows stamped stamp"

lemma length_spend: "length (spend P m rows) = length rows"
  by (simp add: spend_rows_def)

lemma spend_all_stamped: "r \<in> set (spend P m rows) \<Longrightarrow> (\<And>x. P (stamp m x) = P x) \<Longrightarrow> P r \<Longrightarrow> stamped r \<noteq> None"
  by (auto simp: spend_rows_def stamped_stamp split: if_splits)

lemma spend_other: "r \<in> set rows \<Longrightarrow> \<not> P r \<Longrightarrow> r \<in> set (spend P m rows)"
  by (force simp: spend_rows_def)

lemma spend_stamped_kept: "r \<in> set rows \<Longrightarrow> stamped r = Some t \<Longrightarrow> r \<in> set (spend P m rows)"
  by (force simp: spend_rows_def)

lemma spend_idem:
  "(\<And>x. P (stamp m x) = P x) \<Longrightarrow> spend P m' (spend P m rows) = spend P m rows"
  by (simp add: spend_rows_def stamped_stamp)

lemma spend_nothing: "\<forall>r \<in> set rows. P r \<longrightarrow> stamped r \<noteq> None \<Longrightarrow> spend P m rows = rows"
  unfolding spend_rows_def by (rule map_idI) auto

lemma spend_count_zero_iff:
  "spend_count stamped P rows = 0 \<longleftrightarrow> (\<forall>r \<in> set rows. P r \<longrightarrow> stamped r \<noteq> None)"
  by (auto simp: spend_count_def filter_empty_conv)

lemma spend_count_after: "(\<And>x. P (stamp m x) = P x) \<Longrightarrow> spend_count stamped P (spend P m rows) = 0"
  unfolding spend_count_zero_iff by (metis spend_all_stamped)

lemma ages_refl: "ages r r"
  by (simp add: ages_def)

lemma ages_trans: "ages a b \<Longrightarrow> ages b c \<Longrightarrow> ages a c"
  by (auto simp: ages_def)

lemma ages_stamp: "stamped r = None \<Longrightarrow> ages r (stamp m r)"
  by (simp add: ages_def erase_stamp)

lemma later_refl: "later rows rows"
  by (simp add: later_def ages_refl)

lemma later_trans:
  assumes "later a b" and "later b c"
  shows "later a c"
  using assms ages_trans by (fastforce simp: later_def)

lemma later_spend: "later rows (spend P m rows)"
  by (auto simp: later_def spend_rows_def ages_stamp ages_refl)

lemma later_append: "later rows (rows @ new)"
  by (auto simp: later_def nth_append ages_refl)

lemma later_stamped:
  assumes "later old new" and "r \<in> set old" and "stamped r \<noteq> None"
  shows "r \<in> set new"
proof -
  obtain i where "i < length old" "old ! i = r"
    using assms(2) by (auto simp: in_set_conv_nth)
  with assms(1,3) have "new ! i = r" "i < length new"
    by (auto simp: later_def ages_def)
  then show ?thesis by (metis nth_mem)
qed

lemma later_member:
  assumes "later old new" and "r \<in> set old"
  shows "\<exists>r' \<in> set new. ages r r'"
proof -
  obtain i where "i < length old" "old ! i = r"
    using assms(2) by (auto simp: in_set_conv_nth)
  with assms(1) have "ages r (new ! i)" "i < length new"
    by (auto simp: later_def)
  then show ?thesis by (metis nth_mem)
qed

end

section \<open>Sessions and tokens are spendable\<close>

definition stamp_session :: "datetime \<Rightarrow> session_row \<Rightarrow> session_row" where
  "stamp_session m r = r\<lparr>sr_revoked_at := Some m\<rparr>"

definition stamp_token :: "datetime \<Rightarrow> token_row \<Rightarrow> token_row" where
  "stamp_token m r = r\<lparr>tr_used_at := Some m\<rparr>"

interpretation session_rows: spendable sr_revoked_at stamp_session "\<lambda>r. r\<lparr>sr_revoked_at := None\<rparr>"
  by unfold_locales (simp_all add: stamp_session_def)

interpretation token_rows: spendable tr_used_at stamp_token "\<lambda>r. r\<lparr>tr_used_at := None\<rparr>"
  by unfold_locales (simp_all add: stamp_token_def)

lemma stamp_session_simps [simp]:
  "sr_id (stamp_session m r) = sr_id r" "sr_jti (stamp_session m r) = sr_jti r"
  "sr_user_id (stamp_session m r) = sr_user_id r" "sr_revoked_at (stamp_session m r) = Some m"
  "sr_expires_at (stamp_session m r) = sr_expires_at r"
  by (simp_all add: stamp_session_def)

lemma stamp_token_simps [simp]:
  "tr_id (stamp_token m r) = tr_id r" "tr_token_hash (stamp_token m r) = tr_token_hash r"
  "tr_user_id (stamp_token m r) = tr_user_id r" "tr_purpose (stamp_token m r) = tr_purpose r"
  "tr_used_at (stamp_token m r) = Some m" "tr_expires_at (stamp_token m r) = tr_expires_at r"
  by (simp_all add: stamp_token_def)

lemma session_rows_ages:
  "session_rows.ages r r' \<Longrightarrow>
     sr_id r' = sr_id r \<and> sr_jti r' = sr_jti r \<and> sr_user_id r' = sr_user_id r \<and>
     sr_expires_at r' = sr_expires_at r \<and> (sr_revoked_at r \<noteq> None \<longrightarrow> r' = r)"
  unfolding session_rows.ages_def by (cases r; cases r') simp

lemma token_rows_ages:
  "token_rows.ages r r' \<Longrightarrow>
     tr_id r' = tr_id r \<and> tr_token_hash r' = tr_token_hash r \<and> tr_user_id r' = tr_user_id r \<and>
     tr_purpose r' = tr_purpose r \<and> tr_expires_at r' = tr_expires_at r \<and>
     (tr_used_at r \<noteq> None \<longrightarrow> r' = r)"
  unfolding token_rows.ages_def by (cases r; cases r') simp

end
