(* ===== verification/Repositories.thy ===== *)
theory Repositories
  imports World Spendable
begin

text \<open>
  The six SQLAlchemy repositories (\<^verbatim>\<open>adapter/database/repositories\<close>). Each operation is a function of
  the session's database (\<open>db_*\<close>), and the repository method runs it as a query or a statement of
  the open session. What a method reads is the current state of the tables: the repositories keep no
  ORM row beyond the call, so a later call of the same session loads it again.

  \<open>db_evolves\<close> is the contract all statements share: the audit log only grows, users never go away,
  and the stamp of a session or token is never moved or removed.
\<close>

section \<open>Reading one row\<close>

fun scalar_one_or_none :: "'a list \<Rightarrow> exn + 'a option" where
  "scalar_one_or_none [] = Inr None"
| "scalar_one_or_none [x] = Inr (Some x)"
| "scalar_one_or_none (_ # _ # _) = Inl MultipleResultsFound"

definition map_found :: "('a \<Rightarrow> 'b) \<Rightarrow> exn + 'a option \<Rightarrow> exn + 'b option" where
  "map_found f r = (case r of Inl e \<Rightarrow> Inl e | Inr x \<Rightarrow> Inr (map_option f x))"

section \<open>Users\<close>

definition db_user_by_id :: "int \<Rightarrow> database \<Rightarrow> user option" where
  "db_user_by_id uid d = map_option (user_to_entity d) (find (\<lambda>r. ur_id r = uid) (tbl_users d))"

definition db_user_by_email :: "string \<Rightarrow> database \<Rightarrow> exn + user option" where
  "db_user_by_email email d =
     map_found (user_to_entity d)
       (scalar_one_or_none (filter (\<lambda>r. ur_email r = email) (tbl_users d)))"

definition db_user_by_username :: "string \<Rightarrow> database \<Rightarrow> exn + user option" where
  "db_user_by_username username d =
     map_found (user_to_entity d)
       (scalar_one_or_none (filter (\<lambda>r. ur_username r = username) (tbl_users d)))"

text \<open>The row of a new account; the database fills in the key and both timestamps.\<close>

definition new_user_row :: "int \<Rightarrow> user \<Rightarrow> user_row" where
  "new_user_row now u =
     \<lparr> ur_id = 0, ur_email = user_email u, ur_username = user_username u,
       ur_password_hash = user_password_hash u, ur_display_name = user_display_name u,
       ur_is_active = user_is_active u, ur_is_superuser = user_is_superuser u,
       ur_email_verified_at = user_email_verified_at u, ur_visitor_id = user_visitor_id u,
       ur_created_at = Aware now, ur_updated_at = Aware now \<rparr>"

definition db_add_user :: "int \<Rightarrow> user \<Rightarrow> database \<Rightarrow> exn + user \<times> database" where
  "db_add_user now u d =
     (case insert_user (new_user_row now u) d of
        Inl e \<Rightarrow> Inl e
      | Inr (row, d') \<Rightarrow> Inr (user_to_entity d' row, d'))"

text \<open>
  The flush of an assigned row: the unit of work emits an \<^verbatim>\<open>UPDATE\<close>, and with it the new
  \<^verbatim>\<open>updated_at\<close>, only if a column changed.
\<close>

definition flush_user :: "int \<Rightarrow> user_row \<Rightarrow> user_row \<Rightarrow> database \<Rightarrow> exn + database" where
  "flush_user now old new d =
     (if new = old then Inr d else update_user (new\<lparr>ur_updated_at := Aware now\<rparr>) d)"

definition user_disappeared :: "int \<Rightarrow> exn" where
  "user_disappeared uid = ValueError (''User '' @ str_of_int uid @ '' disappeared during update'')"

definition db_update_user :: "int \<Rightarrow> user \<Rightarrow> database \<Rightarrow> exn + user \<times> database" where
  "db_update_user now u d =
     (case find (\<lambda>r. ur_id r = user_id u) (tbl_users d) of
        None \<Rightarrow> Inl (user_disappeared (user_id u))
      | Some row \<Rightarrow>
          (case flush_user now row
                  (row\<lparr>ur_email := user_email u, ur_username := user_username u,
                       ur_display_name := user_display_name u, ur_is_active := user_is_active u,
                       ur_is_superuser := user_is_superuser u,
                       ur_email_verified_at := user_email_verified_at u\<rparr>) d of
             Inl e \<Rightarrow> Inl e
           | Inr d' \<Rightarrow>
               (case db_user_by_id (user_id u) d' of
                  None \<Rightarrow> Inl (user_disappeared (user_id u))
                | Some u' \<Rightarrow> Inr (u', d'))))"

definition db_update_password :: "int \<Rightarrow> user \<Rightarrow> database \<Rightarrow> exn + unit \<times> database" where
  "db_update_password now u d =
     (case find (\<lambda>r. ur_id r = user_id u) (tbl_users d) of
        None \<Rightarrow> Inl (user_disappeared (user_id u))
      | Some row \<Rightarrow>
          (case flush_user now row (row\<lparr>ur_password_hash := user_password_hash u\<rparr>) d of
             Inl e \<Rightarrow> Inl e
           | Inr d' \<Rightarrow> Inr ((), d')))"

definition db_assign_role :: "int \<Rightarrow> int \<Rightarrow> database \<Rightarrow> exn + unit \<times> database" where
  "db_assign_role uid rid d =
     (if (uid, rid) \<in> set (tbl_user_roles d) then Inr ((), d)
      else (case insert_user_role uid rid d of Inl e \<Rightarrow> Inl e | Inr d' \<Rightarrow> Inr ((), d')))"

definition db_revoke_role :: "int \<Rightarrow> int \<Rightarrow> database \<Rightarrow> exn + unit \<times> database" where
  "db_revoke_role uid rid d =
     Inr ((), d\<lparr>tbl_user_roles := filter (\<lambda>l. l \<noteq> (uid, rid)) (tbl_user_roles d)\<rparr>)"

definition users_add :: "'r env \<Rightarrow> user \<Rightarrow> ('r, user) app" where
  "users_add env u = bindM (db_now env) (\<lambda>now. execute (db_add_user now u))"

definition users_get_by_id :: "int \<Rightarrow> ('r, user option) app" where
  "users_get_by_id uid = query (\<lambda>d. Inr (db_user_by_id uid d))"

definition users_get_by_email :: "string \<Rightarrow> ('r, user option) app" where
  "users_get_by_email email = query (db_user_by_email email)"

definition users_get_by_username :: "string \<Rightarrow> ('r, user option) app" where
  "users_get_by_username username = query (db_user_by_username username)"

definition users_list_all :: "('r, user list) app" where
  "users_list_all =
     query (\<lambda>d. Inr (map (user_to_entity d) (sort_key ur_id (tbl_users d))))"

definition users_update :: "'r env \<Rightarrow> user \<Rightarrow> ('r, user) app" where
  "users_update env u = bindM (db_now env) (\<lambda>now. execute (db_update_user now u))"

definition users_update_password :: "'r env \<Rightarrow> user \<Rightarrow> ('r, unit) app" where
  "users_update_password env u = bindM (db_now env) (\<lambda>now. execute (db_update_password now u))"

definition users_assign_role :: "int \<Rightarrow> int \<Rightarrow> ('r, unit) app" where
  "users_assign_role uid rid = execute (db_assign_role uid rid)"

definition users_revoke_role :: "int \<Rightarrow> int \<Rightarrow> ('r, unit) app" where
  "users_revoke_role uid rid = execute (db_revoke_role uid rid)"

section \<open>Roles\<close>

definition db_role_by_id :: "int \<Rightarrow> database \<Rightarrow> role option" where
  "db_role_by_id rid d = map_option (role_to_entity d) (find (\<lambda>r. rr_id r = rid) (tbl_roles d))"

definition db_role_by_name :: "string \<Rightarrow> database \<Rightarrow> exn + role option" where
  "db_role_by_name name d =
     map_found (role_to_entity d) (scalar_one_or_none (filter (\<lambda>r. rr_name r = name) (tbl_roles d)))"

definition db_add_role :: "string \<Rightarrow> string option \<Rightarrow> database \<Rightarrow> exn + role \<times> database" where
  "db_add_role name description d =
     (case insert_role \<lparr> rr_id = 0, rr_name = name, rr_description = description \<rparr> d of
        Inl e \<Rightarrow> Inl e
      | Inr (row, d') \<Rightarrow> Inr (role_to_entity d' row, d'))"

definition db_grant_permission :: "int \<Rightarrow> int \<Rightarrow> database \<Rightarrow> exn + unit \<times> database" where
  "db_grant_permission rid pid d =
     (if (rid, pid) \<in> set (tbl_role_permissions d) then Inr ((), d)
      else (case insert_role_permission rid pid d of Inl e \<Rightarrow> Inl e | Inr d' \<Rightarrow> Inr ((), d')))"

definition db_revoke_permission :: "int \<Rightarrow> int \<Rightarrow> database \<Rightarrow> exn + unit \<times> database" where
  "db_revoke_permission rid pid d =
     Inr ((), d\<lparr>tbl_role_permissions := filter (\<lambda>l. l \<noteq> (rid, pid)) (tbl_role_permissions d)\<rparr>)"

definition roles_add :: "string \<Rightarrow> string option \<Rightarrow> ('r, role) app" where
  "roles_add name description = execute (db_add_role name description)"

definition roles_get_by_id :: "int \<Rightarrow> ('r, role option) app" where
  "roles_get_by_id rid = query (\<lambda>d. Inr (db_role_by_id rid d))"

definition roles_get_by_name :: "string \<Rightarrow> ('r, role option) app" where
  "roles_get_by_name name = query (db_role_by_name name)"

definition roles_list_all :: "('r, role list) app" where
  "roles_list_all = query (\<lambda>d. Inr (map (role_to_entity d) (sort_key rr_id (tbl_roles d))))"

definition roles_delete :: "int \<Rightarrow> ('r, unit) app" where
  "roles_delete rid = execute (\<lambda>d. Inr ((), delete_role_row rid d))"

definition roles_grant_permission :: "int \<Rightarrow> int \<Rightarrow> ('r, unit) app" where
  "roles_grant_permission rid pid = execute (db_grant_permission rid pid)"

definition roles_revoke_permission :: "int \<Rightarrow> int \<Rightarrow> ('r, unit) app" where
  "roles_revoke_permission rid pid = execute (db_revoke_permission rid pid)"

section \<open>Permissions\<close>

definition db_permission_by_id :: "int \<Rightarrow> database \<Rightarrow> permission option" where
  "db_permission_by_id pid d =
     map_option permission_to_entity (find (\<lambda>r. pr_id r = pid) (tbl_permissions d))"

definition db_permission_by_resource_action ::
  "string \<Rightarrow> string \<Rightarrow> database \<Rightarrow> exn + permission option" where
  "db_permission_by_resource_action resource action d =
     map_found permission_to_entity
       (scalar_one_or_none
          (filter (\<lambda>r. pr_resource r = resource \<and> pr_action r = action) (tbl_permissions d)))"

definition db_add_permission ::
  "string \<Rightarrow> string \<Rightarrow> string option \<Rightarrow> database \<Rightarrow> exn + permission \<times> database" where
  "db_add_permission resource action description d =
     (case insert_permission
             \<lparr> pr_id = 0, pr_resource = resource, pr_action = action,
               pr_description = description \<rparr> d of
        Inl e \<Rightarrow> Inl e
      | Inr (row, d') \<Rightarrow> Inr (permission_to_entity row, d'))"

definition permissions_add :: "string \<Rightarrow> string \<Rightarrow> string option \<Rightarrow> ('r, permission) app" where
  "permissions_add resource action description = execute (db_add_permission resource action description)"

definition permissions_get_by_id :: "int \<Rightarrow> ('r, permission option) app" where
  "permissions_get_by_id pid = query (\<lambda>d. Inr (db_permission_by_id pid d))"

definition permissions_get_by_resource_action ::
  "string \<Rightarrow> string \<Rightarrow> ('r, permission option) app" where
  "permissions_get_by_resource_action resource action =
     query (db_permission_by_resource_action resource action)"

definition permissions_list_all :: "('r, permission list) app" where
  "permissions_list_all =
     query (\<lambda>d. Inr (map permission_to_entity (sort_key pr_id (tbl_permissions d))))"

definition permissions_delete :: "int \<Rightarrow> ('r, unit) app" where
  "permissions_delete pid = execute (\<lambda>d. Inr ((), delete_permission_row pid d))"

section \<open>Sessions\<close>

definition new_session_row :: "auth_session \<Rightarrow> session_row" where
  "new_session_row s =
     \<lparr> sr_id = 0, sr_user_id = sess_user_id s, sr_jti = sess_jti s,
       sr_created_at = sess_created_at s, sr_expires_at = sess_expires_at s,
       sr_revoked_at = sess_revoked_at s, sr_visitor_id = sess_visitor_id s,
       sr_user_agent = sess_user_agent s, sr_ip_address = sess_ip_address s,
       sr_device = sess_device s, sr_last_seen_at = sess_last_seen_at s \<rparr>"

definition db_add_session :: "auth_session \<Rightarrow> database \<Rightarrow> exn + auth_session \<times> database" where
  "db_add_session s d =
     (case insert_session (new_session_row s) d of
        Inl e \<Rightarrow> Inl e
      | Inr (row, d') \<Rightarrow> Inr (session_to_entity row, d'))"

definition db_session_by_id :: "int \<Rightarrow> database \<Rightarrow> auth_session option" where
  "db_session_by_id sid d = map_option session_to_entity (find (\<lambda>r. sr_id r = sid) (tbl_sessions d))"

definition db_session_by_jti :: "string \<Rightarrow> database \<Rightarrow> exn + auth_session option" where
  "db_session_by_jti jti d =
     map_found session_to_entity (scalar_one_or_none (filter (\<lambda>r. sr_jti r = jti) (tbl_sessions d)))"

definition db_unrevoked_of_user :: "int \<Rightarrow> database \<Rightarrow> auth_session list" where
  "db_unrevoked_of_user uid d =
     map session_to_entity
       (rev (sort_key sr_id
          (filter (\<lambda>r. sr_user_id r = uid \<and> sr_revoked_at r = None) (tbl_sessions d))))"

definition db_revoke :: "string \<Rightarrow> datetime \<Rightarrow> database \<Rightarrow> exn + unit \<times> database" where
  "db_revoke jti moment d =
     Inr ((), d\<lparr>tbl_sessions :=
                  spend_rows sr_revoked_at stamp_session (\<lambda>r. sr_jti r = jti) moment (tbl_sessions d)\<rparr>)"

definition revoke_all_selects :: "int \<Rightarrow> string option \<Rightarrow> session_row \<Rightarrow> bool" where
  "revoke_all_selects uid except r \<longleftrightarrow>
     sr_user_id r = uid \<and> (case except of None \<Rightarrow> True | Some jti \<Rightarrow> sr_jti r \<noteq> jti)"

definition db_revoke_all ::
  "int \<Rightarrow> datetime \<Rightarrow> string option \<Rightarrow> database \<Rightarrow> exn + int \<times> database" where
  "db_revoke_all uid moment except d =
     Inr (spend_count sr_revoked_at (revoke_all_selects uid except) (tbl_sessions d),
          d\<lparr>tbl_sessions :=
              spend_rows sr_revoked_at stamp_session (revoke_all_selects uid except) moment
                (tbl_sessions d)\<rparr>)"

definition sessions_add :: "auth_session \<Rightarrow> ('r, auth_session) app" where
  "sessions_add s = execute (db_add_session s)"

definition sessions_get_by_id :: "int \<Rightarrow> ('r, auth_session option) app" where
  "sessions_get_by_id sid = query (\<lambda>d. Inr (db_session_by_id sid d))"

definition sessions_get_by_jti :: "string \<Rightarrow> ('r, auth_session option) app" where
  "sessions_get_by_jti jti = query (db_session_by_jti jti)"

text \<open>\<^verbatim>\<open>[s for s in sessions if s.is_valid()]\<close>: each call of \<^verbatim>\<open>is_valid\<close> reads the clock.\<close>

fun filter_valid :: "'r env \<Rightarrow> auth_session list \<Rightarrow> ('r, auth_session list) app" where
  "filter_valid env [] = retM []"
| "filter_valid env (s # ss) =
     bindM (utc_now env) (\<lambda>now.
     bindM (filter_valid env ss) (\<lambda>rest.
     retM (if session_is_valid s now then s # rest else rest)))"

definition sessions_list_active_for_user :: "'r env \<Rightarrow> int \<Rightarrow> ('r, auth_session list) app" where
  "sessions_list_active_for_user env uid =
     bindM (query (\<lambda>d. Inr (db_unrevoked_of_user uid d))) (filter_valid env)"

definition sessions_revoke :: "string \<Rightarrow> datetime \<Rightarrow> ('r, unit) app" where
  "sessions_revoke jti moment = execute (db_revoke jti moment)"

definition sessions_revoke_all_for_user :: "int \<Rightarrow> datetime \<Rightarrow> string option \<Rightarrow> ('r, int) app" where
  "sessions_revoke_all_for_user uid moment except = execute (db_revoke_all uid moment except)"

section \<open>One-time tokens\<close>

definition new_token_row :: "security_token \<Rightarrow> token_row" where
  "new_token_row t =
     \<lparr> tr_id = 0, tr_user_id = tok_user_id t, tr_purpose = token_purpose_value (tok_purpose t),
       tr_token_hash = tok_token_hash t, tr_created_at = tok_created_at t,
       tr_expires_at = tok_expires_at t, tr_used_at = tok_used_at t \<rparr>"

definition db_add_token :: "security_token \<Rightarrow> database \<Rightarrow> exn + security_token \<times> database" where
  "db_add_token t d =
     (case insert_token (new_token_row t) d of
        Inl e \<Rightarrow> Inl e
      | Inr (row, d') \<Rightarrow>
          (case security_token_to_entity row of Inl e \<Rightarrow> Inl e | Inr t' \<Rightarrow> Inr (t', d')))"

definition db_token_by_hash ::
  "string \<Rightarrow> token_purpose \<Rightarrow> database \<Rightarrow> exn + security_token option" where
  "db_token_by_hash h purpose d =
     (case scalar_one_or_none
             (filter (\<lambda>r. tr_token_hash r = h \<and> tr_purpose r = token_purpose_value purpose)
                (tbl_tokens d)) of
        Inl e \<Rightarrow> Inl e
      | Inr None \<Rightarrow> Inr None
      | Inr (Some row) \<Rightarrow>
          (case security_token_to_entity row of Inl e \<Rightarrow> Inl e | Inr t \<Rightarrow> Inr (Some t)))"

definition db_mark_used :: "int \<Rightarrow> datetime \<Rightarrow> database \<Rightarrow> exn + unit \<times> database" where
  "db_mark_used tid moment d =
     Inr ((), d\<lparr>tbl_tokens :=
                  spend_rows tr_used_at stamp_token (\<lambda>r. tr_id r = tid) moment (tbl_tokens d)\<rparr>)"

definition db_invalidate :: "int \<Rightarrow> token_purpose \<Rightarrow> datetime \<Rightarrow> database \<Rightarrow> exn + unit \<times> database" where
  "db_invalidate uid purpose moment d =
     Inr ((), d\<lparr>tbl_tokens :=
                  spend_rows tr_used_at stamp_token
                    (\<lambda>r. tr_user_id r = uid \<and> tr_purpose r = token_purpose_value purpose) moment
                    (tbl_tokens d)\<rparr>)"

definition tokens_add :: "security_token \<Rightarrow> ('r, security_token) app" where
  "tokens_add t = execute (db_add_token t)"

definition tokens_get_by_hash :: "string \<Rightarrow> token_purpose \<Rightarrow> ('r, security_token option) app" where
  "tokens_get_by_hash h purpose = query (db_token_by_hash h purpose)"

definition tokens_mark_used :: "'r env \<Rightarrow> security_token \<Rightarrow> ('r, unit) app" where
  "tokens_mark_used env t =
     bindM (utc_now env) (\<lambda>now. execute (db_mark_used (tok_id t) (Aware now)))"

definition tokens_invalidate_for_user :: "'r env \<Rightarrow> int \<Rightarrow> token_purpose \<Rightarrow> ('r, unit) app" where
  "tokens_invalidate_for_user env uid purpose =
     bindM (utc_now env) (\<lambda>now. execute (db_invalidate uid purpose (Aware now)))"

section \<open>The audit log\<close>

definition new_audit_row :: "audit_event \<Rightarrow> audit_row" where
  "new_audit_row e =
     \<lparr> al_id = 0, al_user_id = ev_user_id e, al_action = audit_action_value (ev_action e),
       al_ip_address = ev_ip_address e, al_user_agent = ev_user_agent e,
       al_event_metadata = ev_metadata e, al_created_at = ev_created_at e \<rparr>"

definition db_add_audit :: "audit_event \<Rightarrow> database \<Rightarrow> exn + audit_event \<times> database" where
  "db_add_audit e d =
     (case insert_audit (new_audit_row e) d of
        Inl x \<Rightarrow> Inl x
      | Inr (row, d') \<Rightarrow>
          (case audit_event_to_entity row of Inl x \<Rightarrow> Inl x | Inr e' \<Rightarrow> Inr (e', d')))"

definition audit_log_add :: "audit_event \<Rightarrow> ('r, audit_event) app" where
  "audit_log_add e = execute (db_add_audit e)"

definition audit_log_list_for_user :: "int \<Rightarrow> nat \<Rightarrow> ('r, audit_event list) app" where
  "audit_log_list_for_user uid limit =
     query (\<lambda>d. map_fallible audit_event_to_entity
       (take limit (rev (sort_key al_id (filter (\<lambda>r. al_user_id r = Some uid) (tbl_audit d))))))"

end
