(* ===== verification/Repository_Laws.thy ===== *)
theory Repository_Laws
  imports Repositories
begin

text \<open>
  What the statements of the repositories keep. \<open>db_stmt k d d'\<close> says that a statement of kind \<open>k\<close>
  takes the database \<open>d\<close> to \<open>d'\<close>; a property is \<open>db_closed\<close> under a set of kinds when these statements
  keep it. Integrity (\<open>wf_db\<close>) and the history of a database (\<open>db_evolves\<close>) are closed under all
  of them. A repository method keeps every property that is closed under its kind, so the lemma
  \<open>keeps (db_inv2 A I)\<close> of a use case states at the same time which statements the use case may run.
\<close>

section \<open>Kinds of statements\<close>

datatype stmt_kind =
    AddUser | UpdateUser | UpdatePassword | AssignRole | RevokeRole | AddRole | DeleteRole
  | GrantPermission | RevokePermission | AddPermission | DeletePermission | AddSession
  | RevokeSessions | AddToken | SpendTokens | AddAudit

inductive db_stmt :: "stmt_kind \<Rightarrow> database \<Rightarrow> database \<Rightarrow> bool" where
  add_user: "db_add_user now u d = Inr (x, d') \<Longrightarrow> db_stmt AddUser d d'"
| update_user: "db_update_user now u d = Inr (x, d') \<Longrightarrow> db_stmt UpdateUser d d'"
| update_password: "db_update_password now u d = Inr (y, d') \<Longrightarrow> db_stmt UpdatePassword d d'"
| assign_role: "db_assign_role uid rid d = Inr (y, d') \<Longrightarrow> db_stmt AssignRole d d'"
| revoke_role: "db_revoke_role uid rid d = Inr (y, d') \<Longrightarrow> db_stmt RevokeRole d d'"
| add_role: "db_add_role name descr d = Inr (r, d') \<Longrightarrow> db_stmt AddRole d d'"
| delete_role: "db_stmt DeleteRole d (delete_role_row rid d)"
| grant_permission: "db_grant_permission rid pid d = Inr (y, d') \<Longrightarrow> db_stmt GrantPermission d d'"
| revoke_permission: "db_revoke_permission rid pid d = Inr (y, d') \<Longrightarrow> db_stmt RevokePermission d d'"
| add_permission: "db_add_permission res act descr d = Inr (p, d') \<Longrightarrow> db_stmt AddPermission d d'"
| delete_permission: "db_stmt DeletePermission d (delete_permission_row pid d)"
| add_session: "db_add_session s d = Inr (s', d') \<Longrightarrow> db_stmt AddSession d d'"
| revoke_session: "db_revoke jti m d = Inr (y, d') \<Longrightarrow> db_stmt RevokeSessions d d'"
| revoke_all: "db_revoke_all uid m except d = Inr (n, d') \<Longrightarrow> db_stmt RevokeSessions d d'"
| add_token: "db_add_token t d = Inr (t', d') \<Longrightarrow> db_stmt AddToken d d'"
| mark_used: "db_mark_used tid m d = Inr (y, d') \<Longrightarrow> db_stmt SpendTokens d d'"
| invalidate: "db_invalidate uid purpose m d = Inr (y, d') \<Longrightarrow> db_stmt SpendTokens d d'"
| add_audit: "db_add_audit e d = Inr (e', d') \<Longrightarrow> db_stmt AddAudit d d'"

definition db_closed :: "stmt_kind set \<Rightarrow> (database \<Rightarrow> bool) \<Rightarrow> bool" where
  "db_closed K I \<longleftrightarrow> (\<forall>k \<in> K. \<forall>d d'. I d \<longrightarrow> db_stmt k d d' \<longrightarrow> I d')"

lemma db_closedD: "db_closed K I \<Longrightarrow> k \<in> K \<Longrightarrow> I d \<Longrightarrow> db_stmt k d d' \<Longrightarrow> I d'"
  by (auto simp: db_closed_def)

lemma db_closed_subset: "db_closed L I \<Longrightarrow> K \<subseteq> L \<Longrightarrow> db_closed K I"
  by (auto simp: db_closed_def)

lemma db_closed_UNIV: "db_closed UNIV I \<Longrightarrow> db_closed K I"
  by (rule db_closed_subset) auto

lemma db_closed_conj: "db_closed K I \<Longrightarrow> db_closed K J \<Longrightarrow> db_closed K (\<lambda>d. I d \<and> J d)"
  by (auto simp: db_closed_def)

section \<open>The shape of each statement's result\<close>

text \<open>
  The statements on users change the user table only, and there either append one row or replace
  the row of one key.
\<close>

lemma db_add_user_shape:
  assumes "db_add_user now u d = Inr (x, d')"
  shows "\<exists>row. insert_user (new_user_row now u) d = Inr (row, d') \<and> x = user_to_entity d' row \<and>
           row = (new_user_row now u)\<lparr>ur_id := seq_users d\<rparr> \<and>
           d' = d\<lparr>tbl_users := tbl_users d @ [row], seq_users := seq_users d + 1\<rparr>"
  using assms by (auto simp: db_add_user_def insert_user_def Let_def split: sum.splits if_splits)

lemma update_user_shape:
  "update_user row d = Inr d' \<Longrightarrow> d' = d\<lparr>tbl_users := replace_by ur_id row (tbl_users d)\<rparr>"
  by (simp add: update_user_def replace_by_def split: if_splits)

lemma find_Some_key: "find (\<lambda>r. k r = v) xs = Some x \<Longrightarrow> x \<in> set xs \<and> k x = v"
  by (auto simp: find_Some_iff)

lemma replace_by_same:
  assumes "uniq k xs" and "x \<in> set xs"
  shows "replace_by k x xs = xs"
  unfolding replace_by_def
proof (rule map_idI)
  fix y assume "y \<in> set xs"
  then show "(if k y = k x then x else y) = y"
    using assms uniq_inj by metis
qed

definition written_user_row :: "int \<Rightarrow> user \<Rightarrow> user_row \<Rightarrow> user_row" where
  "written_user_row now u row =
     (let new = row\<lparr>ur_email := user_email u, ur_username := user_username u,
                    ur_display_name := user_display_name u, ur_is_active := user_is_active u,
                    ur_is_superuser := user_is_superuser u,
                    ur_email_verified_at := user_email_verified_at u\<rparr>
      in if new = row then row else new\<lparr>ur_updated_at := Aware now\<rparr>)"

lemma written_user_row_simps [simp]:
  "ur_id (written_user_row now u row) = ur_id row"
  "ur_is_active (written_user_row now u row) = user_is_active u"
  "ur_email (written_user_row now u row) = user_email u"
  "ur_username (written_user_row now u row) = user_username u"
  "ur_email_verified_at (written_user_row now u row) = user_email_verified_at u"
  "ur_display_name (written_user_row now u row) = user_display_name u"
  "ur_is_superuser (written_user_row now u row) = user_is_superuser u"
  "ur_password_hash (written_user_row now u row) = ur_password_hash row"
  by (cases row; auto simp: written_user_row_def Let_def)+

lemma db_update_user_shape:
  assumes "db_update_user now u d = Inr (x, d')"
  shows "\<exists>row. find (\<lambda>r. ur_id r = user_id u) (tbl_users d) = Some row \<and>
           (d' = d \<and> written_user_row now u row = row \<or>
            update_user (written_user_row now u row) d = Inr d') \<and>
           db_user_by_id (user_id u) d' = Some x"
  using assms
  by (auto simp: db_update_user_def flush_user_def written_user_row_def Let_def
      split: option.splits sum.splits if_splits)

definition written_password_row :: "int \<Rightarrow> user \<Rightarrow> user_row \<Rightarrow> user_row" where
  "written_password_row now u row =
     (let new = row\<lparr>ur_password_hash := user_password_hash u\<rparr>
      in if new = row then row else new\<lparr>ur_updated_at := Aware now\<rparr>)"

lemma written_password_row_simps [simp]:
  "ur_id (written_password_row now u row) = ur_id row"
  "ur_is_active (written_password_row now u row) = ur_is_active row"
  "ur_email (written_password_row now u row) = ur_email row"
  "ur_username (written_password_row now u row) = ur_username row"
  "ur_email_verified_at (written_password_row now u row) = ur_email_verified_at row"
  "ur_is_superuser (written_password_row now u row) = ur_is_superuser row"
  "ur_password_hash (written_password_row now u row) = user_password_hash u"
  by (cases row; auto simp: written_password_row_def Let_def)+

lemma db_update_password_shape:
  assumes "db_update_password now u d = Inr (x, d')"
  shows "\<exists>row. find (\<lambda>r. ur_id r = user_id u) (tbl_users d) = Some row \<and>
           (d' = d \<and> written_password_row now u row = row \<or>
            update_user (written_password_row now u row) d = Inr d')"
  using assms
  by (auto simp: db_update_password_def flush_user_def written_password_row_def Let_def
      split: option.splits sum.splits if_splits)

lemma db_add_session_shape:
  assumes "db_add_session s d = Inr (x, d')"
  shows "\<exists>row. row = (new_session_row s)\<lparr>sr_id := seq_sessions d\<rparr> \<and> x = session_to_entity row \<and>
           insert_session (new_session_row s) d = Inr (row, d') \<and>
           sess_jti s \<notin> sr_jti ` set (tbl_sessions d) \<and> sess_user_id s \<in> user_ids d \<and>
           d' = d\<lparr>tbl_sessions := tbl_sessions d @ [row], seq_sessions := seq_sessions d + 1\<rparr>"
  using assms
  by (auto simp: db_add_session_def insert_session_def new_session_row_def Let_def list_ex_iff has_iffs
      split: sum.splits if_splits)

lemma db_add_token_shape:
  assumes "db_add_token t d = Inr (x, d')"
  shows "\<exists>row. row = (new_token_row t)\<lparr>tr_id := seq_tokens d\<rparr> \<and>
           insert_token (new_token_row t) d = Inr (row, d') \<and> tok_user_id t \<in> user_ids d \<and>
           d' = d\<lparr>tbl_tokens := tbl_tokens d @ [row], seq_tokens := seq_tokens d + 1\<rparr>"
  using assms
  by (auto simp: db_add_token_def insert_token_def new_token_row_def Let_def list_ex_iff has_iffs
      split: sum.splits if_splits)

lemma db_add_audit_shape:
  assumes "db_add_audit e d = Inr (x, d')"
  shows "\<exists>row. row = (new_audit_row e)\<lparr>al_id := seq_audit d\<rparr> \<and>
           insert_audit (new_audit_row e) d = Inr (row, d') \<and>
           d' = d\<lparr>tbl_audit := tbl_audit d @ [row], seq_audit := seq_audit d + 1\<rparr>"
  using assms
  by (auto simp: db_add_audit_def insert_audit_def new_audit_row_def Let_def split: sum.splits if_splits)

section \<open>Integrity is closed under every statement\<close>

lemma update_links_wf:
  assumes "wf_db d"
  shows "wf_db (d\<lparr>tbl_user_roles := filter P (tbl_user_roles d)\<rparr>)"
    and "wf_db (d\<lparr>tbl_role_permissions := filter P (tbl_role_permissions d)\<rparr>)"
  using assms by (auto simp: wf_db_def wf_links_def id_sets refers_def)

lemma db_stmt_wf:
  assumes "db_stmt k d d'" and "wf_db d"
  shows "wf_db d'"
  using assms(1)
proof cases
  case (add_user now u x)
  then show ?thesis using assms(2) db_add_user_shape insert_user_wf by blast
next
  case (update_user now u x)
  then show ?thesis using assms(2) db_update_user_shape update_user_wf by blast
next
  case (update_password now u y)
  then show ?thesis using assms(2) db_update_password_shape update_user_wf by blast
next
  case (assign_role uid rid y)
  then show ?thesis using assms(2) insert_user_role_wf
    by (auto simp: db_assign_role_def split: if_splits sum.splits)
next
  case (revoke_role uid rid y)
  then show ?thesis using assms(2) by (auto simp: db_revoke_role_def update_links_wf)
next
  case (add_role name descr r)
  then show ?thesis using assms(2) insert_role_wf by (auto simp: db_add_role_def split: sum.splits)
next
  case (delete_role rid)
  then show ?thesis using assms(2) by (simp add: delete_role_row_wf)
next
  case (grant_permission rid pid y)
  then show ?thesis using assms(2) insert_role_permission_wf
    by (auto simp: db_grant_permission_def split: if_splits sum.splits)
next
  case (revoke_permission rid pid y)
  then show ?thesis using assms(2) by (auto simp: db_revoke_permission_def update_links_wf)
next
  case (add_permission res act descr p)
  then show ?thesis using assms(2) insert_permission_wf
    by (auto simp: db_add_permission_def split: sum.splits)
next
  case (delete_permission pid)
  then show ?thesis using assms(2) by (simp add: delete_permission_row_wf)
next
  case (add_session s s')
  then show ?thesis using assms(2) db_add_session_shape insert_session_wf by blast
next
  case (revoke_session jti m y)
  then show ?thesis using assms(2) by (auto simp: db_revoke_def spend_rows_def intro!: update_sessions_wf)
next
  case (revoke_all uid m except n)
  then show ?thesis using assms(2) by (auto simp: db_revoke_all_def spend_rows_def intro!: update_sessions_wf)
next
  case (add_token t t')
  moreover have "tr_purpose (new_token_row t) \<in> range token_purpose_value"
    by (simp add: new_token_row_def)
  ultimately show ?thesis using assms(2) db_add_token_shape insert_token_wf by blast
next
  case (mark_used tid m y)
  then show ?thesis using assms(2) by (auto simp: db_mark_used_def spend_rows_def intro!: update_tokens_wf)
next
  case (invalidate uid purpose m y)
  then show ?thesis using assms(2) by (auto simp: db_invalidate_def spend_rows_def intro!: update_tokens_wf)
next
  case (add_audit e e')
  then show ?thesis using assms(2) db_add_audit_shape insert_audit_wf by blast
qed

lemma wf_db_closed: "db_closed K wf_db"
  using db_stmt_wf by (auto simp: db_closed_def)

section \<open>The history of a database\<close>

definition db_evolves :: "database \<Rightarrow> database \<Rightarrow> bool" where
  "db_evolves d d' \<longleftrightarrow>
     (\<exists>new. tbl_audit d' = tbl_audit d @ new) \<and>
     (\<exists>new. map ur_id (tbl_users d') = map ur_id (tbl_users d) @ new) \<and>
     session_rows.later (tbl_sessions d) (tbl_sessions d') \<and>
     token_rows.later (tbl_tokens d) (tbl_tokens d')"

lemma db_evolves_refl: "db_evolves d d"
  by (simp add: db_evolves_def session_rows.later_refl token_rows.later_refl)

lemma db_evolves_trans: "db_evolves d d' \<Longrightarrow> db_evolves d' d'' \<Longrightarrow> db_evolves d d''"
  unfolding db_evolves_def by (metis append.assoc session_rows.later_trans token_rows.later_trans)

lemmas evolve_rules =
  session_rows.later_refl token_rows.later_refl session_rows.later_spend token_rows.later_spend
  session_rows.later_append token_rows.later_append

lemma db_evolvesI:
  assumes "tbl_audit d' = tbl_audit d @ as" "map ur_id (tbl_users d') = map ur_id (tbl_users d) @ us"
    "session_rows.later (tbl_sessions d) (tbl_sessions d')"
    "token_rows.later (tbl_tokens d) (tbl_tokens d')"
  shows "db_evolves d d'"
  using assms by (auto simp: db_evolves_def)

lemma update_user_evolves: "update_user row d = Inr d' \<Longrightarrow> db_evolves d d'"
  by (drule update_user_shape) (simp add: db_evolves_def evolve_rules)

lemma db_stmt_evolves:
  assumes "db_stmt k d d'"
  shows "db_evolves d d'"
  using assms
proof cases
  case (add_user now u x)
  then show ?thesis
    by (auto dest!: db_add_user_shape simp: db_evolves_def evolve_rules)
next
  case (update_user now u x)
  then show ?thesis using db_update_user_shape update_user_evolves db_evolves_refl by metis
next
  case (update_password now u y)
  then show ?thesis using db_update_password_shape update_user_evolves db_evolves_refl by metis
next
  case (add_session s s')
  then show ?thesis by (auto dest!: db_add_session_shape simp: db_evolves_def evolve_rules)
next
  case (add_token t t')
  then show ?thesis by (auto dest!: db_add_token_shape simp: db_evolves_def evolve_rules)
next
  case (add_audit e e')
  then show ?thesis by (auto dest!: db_add_audit_shape simp: db_evolves_def evolve_rules)
qed (auto simp: db_evolves_def evolve_rules db_assign_role_def db_revoke_role_def db_add_role_def
      db_grant_permission_def db_revoke_permission_def db_add_permission_def db_revoke_def
      db_revoke_all_def db_mark_used_def db_invalidate_def delete_role_row_def
      delete_permission_row_def insert_user_role_def insert_role_permission_def insert_role_def
      insert_permission_def Let_def split: if_splits sum.splits)

lemma db_evolves_closed: "db_closed K (db_evolves d)"
  using db_stmt_evolves db_evolves_trans by (auto simp: db_closed_def)

section \<open>What each repository method keeps\<close>

lemmas repository_defs =
  users_add_def users_get_by_id_def users_get_by_email_def users_get_by_username_def
  users_list_all_def users_update_def users_update_password_def users_assign_role_def
  users_revoke_role_def roles_add_def roles_get_by_id_def roles_get_by_name_def roles_list_all_def
  roles_delete_def roles_grant_permission_def roles_revoke_permission_def permissions_add_def
  permissions_get_by_id_def permissions_get_by_resource_action_def permissions_list_all_def
  permissions_delete_def sessions_add_def sessions_get_by_id_def sessions_get_by_jti_def
  sessions_list_active_for_user_def sessions_revoke_def sessions_revoke_all_for_user_def
  tokens_add_def tokens_get_by_hash_def tokens_mark_used_def tokens_invalidate_for_user_def
  audit_log_add_def audit_log_list_for_user_def

lemma keeps_statement:
  assumes "db_closed K I" and "k \<in> K" and "\<And>d x d'. f d = Inr (x, d') \<Longrightarrow> db_stmt k d d'"
  shows "keeps (db_inv2 A I) (execute f)"
  using assms by (blast intro: keeps_execute dest: db_closedD)

lemma keeps_users_write [keeps_rules]:
  assumes "db_closed K I"
  shows "AddUser \<in> K \<Longrightarrow> keeps (db_inv2 A I) (users_add env u)"
    and "UpdateUser \<in> K \<Longrightarrow> keeps (db_inv2 A I) (users_update env u)"
    and "UpdatePassword \<in> K \<Longrightarrow> keeps (db_inv2 A I) (users_update_password env u)"
    and "AssignRole \<in> K \<Longrightarrow> keeps (db_inv2 A I) (users_assign_role uid rid)"
    and "RevokeRole \<in> K \<Longrightarrow> keeps (db_inv2 A I) (users_revoke_role uid rid)"
  unfolding repository_defs
  by (blast intro: keeps_bindM keeps_readings keeps_statement [OF assms] db_stmt.intros)+

lemma keeps_roles_write [keeps_rules]:
  assumes "db_closed K I"
  shows "AddRole \<in> K \<Longrightarrow> keeps (db_inv2 A I) (roles_add name descr)"
    and "DeleteRole \<in> K \<Longrightarrow> keeps (db_inv2 A I) (roles_delete rid)"
    and "GrantPermission \<in> K \<Longrightarrow> keeps (db_inv2 A I) (roles_grant_permission rid pid)"
    and "RevokePermission \<in> K \<Longrightarrow> keeps (db_inv2 A I) (roles_revoke_permission rid pid)"
    and "AddPermission \<in> K \<Longrightarrow> keeps (db_inv2 A I) (permissions_add res act descr)"
    and "DeletePermission \<in> K \<Longrightarrow> keeps (db_inv2 A I) (permissions_delete pid)"
  unfolding repository_defs
  by (rule keeps_statement [OF assms], assumption, force intro: db_stmt.intros)+

lemma keeps_sessions_write [keeps_rules]:
  assumes "db_closed K I"
  shows "AddSession \<in> K \<Longrightarrow> keeps (db_inv2 A I) (sessions_add s)"
    and "RevokeSessions \<in> K \<Longrightarrow> keeps (db_inv2 A I) (sessions_revoke jti m)"
    and "RevokeSessions \<in> K \<Longrightarrow> keeps (db_inv2 A I) (sessions_revoke_all_for_user uid m except)"
    and "AddToken \<in> K \<Longrightarrow> keeps (db_inv2 A I) (tokens_add t)"
    and "SpendTokens \<in> K \<Longrightarrow> keeps (db_inv2 A I) (tokens_mark_used env t)"
    and "SpendTokens \<in> K \<Longrightarrow> keeps (db_inv2 A I) (tokens_invalidate_for_user env uid purpose)"
    and "AddAudit \<in> K \<Longrightarrow> keeps (db_inv2 A I) (audit_log_add e)"
  unfolding repository_defs
  by (blast intro: keeps_bindM keeps_readings keeps_statement [OF assms] db_stmt.intros)+

lemma keeps_filter_valid [keeps_rules]: "keeps (db_inv2 A I) (filter_valid env ss)"
  by (induction ss) (auto intro!: keeps_rules)

lemma keeps_reads [keeps_rules]:
  "keeps (db_inv2 A I) (users_get_by_id uid)" "keeps (db_inv2 A I) (users_get_by_email email)"
  "keeps (db_inv2 A I) (users_get_by_username username)" "keeps (db_inv2 A I) users_list_all"
  "keeps (db_inv2 A I) (roles_get_by_id rid)" "keeps (db_inv2 A I) (roles_get_by_name name)"
  "keeps (db_inv2 A I) roles_list_all" "keeps (db_inv2 A I) (permissions_get_by_id pid)"
  "keeps (db_inv2 A I) (permissions_get_by_resource_action res act)"
  "keeps (db_inv2 A I) permissions_list_all" "keeps (db_inv2 A I) (sessions_get_by_id sid)"
  "keeps (db_inv2 A I) (sessions_get_by_jti jti)" "keeps (db_inv2 A I) (sessions_list_active_for_user env uid)"
  "keeps (db_inv2 A I) (tokens_get_by_hash h purpose)" "keeps (db_inv2 A I) (audit_log_list_for_user uid n)"
  unfolding repository_defs by (auto intro!: keeps_rules)

lemma uncommitted_filter_valid [uncommitted_rules]: "uncommitted (filter_valid env ss)"
  by (induction ss) (auto intro!: uncommitted_rules)

lemma uncommitted_repositories [uncommitted_rules]:
  "uncommitted (users_get_by_id uid)" "uncommitted (users_get_by_email email)"
  "uncommitted (users_get_by_username username)" "uncommitted users_list_all"
  "uncommitted (roles_get_by_id rid)" "uncommitted (roles_get_by_name name)"
  "uncommitted roles_list_all" "uncommitted (permissions_get_by_id pid)"
  "uncommitted (permissions_get_by_resource_action res act)"
  "uncommitted permissions_list_all" "uncommitted (sessions_get_by_id sid)"
  "uncommitted (sessions_get_by_jti jti)" "uncommitted (sessions_list_active_for_user env uid)"
  "uncommitted (tokens_get_by_hash h purpose)" "uncommitted (audit_log_list_for_user uid n)"
  "uncommitted (users_add env u)" "uncommitted (users_update env u)"
  "uncommitted (users_update_password env u)" "uncommitted (users_assign_role uid rid)"
  "uncommitted (users_revoke_role uid rid)" "uncommitted (roles_add name descr)"
  "uncommitted (roles_delete rid)" "uncommitted (roles_grant_permission rid pid)"
  "uncommitted (roles_revoke_permission rid pid)" "uncommitted (permissions_add res act descr)"
  "uncommitted (permissions_delete pid)" "uncommitted (sessions_add s)"
  "uncommitted (sessions_revoke jti m)" "uncommitted (sessions_revoke_all_for_user uid m except)"
  "uncommitted (tokens_add t)" "uncommitted (tokens_mark_used env t)"
  "uncommitted (tokens_invalidate_for_user env uid purpose)" "uncommitted (audit_log_add e)"
  unfolding repository_defs by (auto intro!: uncommitted_rules)

section \<open>Lookups in a well-formed database\<close>

lemma find_key: "uniq k xs \<Longrightarrow> x \<in> set xs \<Longrightarrow> find (\<lambda>r. k r = k x) xs = Some x"
  by (induction xs) (auto simp: uniq_def image_iff)

lemma scalar_unique:
  assumes "uniq k xs"
  shows "scalar_one_or_none (filter (\<lambda>r. k r = v) xs) = Inr (find (\<lambda>r. k r = v) xs)"
proof (cases "find (\<lambda>r. k r = v) xs")
  case None
  then have "filter (\<lambda>r. k r = v) xs = []"
    by (simp add: find_None_iff filter_empty_conv)
  with None show ?thesis by simp
next
  case (Some x)
  then have "x \<in> set xs" "k x = v" by (auto dest: find_Some_key)
  then have "filter (\<lambda>r. k r = v) xs = [x]"
    using uniq_filter_single [OF assms, of x] by simp
  with Some show ?thesis by simp
qed

lemma db_user_by_email_wf:
  "wf_db d \<Longrightarrow> db_user_by_email email d =
     Inr (map_option (user_to_entity d) (find (\<lambda>r. ur_email r = email) (tbl_users d)))"
  by (simp add: db_user_by_email_def map_found_def scalar_unique wf_uniqs)

lemma db_session_by_jti_wf:
  "wf_db d \<Longrightarrow> db_session_by_jti jti d =
     Inr (map_option session_to_entity (find (\<lambda>r. sr_jti r = jti) (tbl_sessions d)))"
  by (simp add: db_session_by_jti_def map_found_def scalar_unique wf_uniqs)

lemma user_to_entity_simps [simp]:
  "user_id (user_to_entity d r) = ur_id r" "user_email (user_to_entity d r) = ur_email r"
  "user_username (user_to_entity d r) = ur_username r"
  "user_password_hash (user_to_entity d r) = ur_password_hash r"
  "user_display_name (user_to_entity d r) = ur_display_name r"
  "user_is_active (user_to_entity d r) = ur_is_active r"
  "user_is_superuser (user_to_entity d r) = ur_is_superuser r"
  "user_email_verified_at (user_to_entity d r) = ur_email_verified_at r"
  by (simp_all add: user_to_entity_def)

lemma session_to_entity_simps [simp]:
  "sess_id (session_to_entity r) = sr_id r" "sess_user_id (session_to_entity r) = sr_user_id r"
  "sess_jti (session_to_entity r) = sr_jti r" "sess_created_at (session_to_entity r) = sr_created_at r"
  "sess_expires_at (session_to_entity r) = sr_expires_at r"
  "sess_revoked_at (session_to_entity r) = sr_revoked_at r"
  by (simp_all add: session_to_entity_def)

lemma db_user_by_id_Some:
  "db_user_by_id uid d = Some u \<Longrightarrow>
     \<exists>row \<in> set (tbl_users d). ur_id row = uid \<and> u = user_to_entity d row"
  by (auto simp: db_user_by_id_def dest: find_Some_key)

end
