(* ===== verification/Redis_Port.thy ===== *)
theory Redis_Port
  imports World
begin

text \<open>
  What the code relies on in Redis: the documented behaviour of \<^verbatim>\<open>GET\<close>, \<^verbatim>\<open>SET ... EX\<close>, \<^verbatim>\<open>DEL\<close>,
  \<^verbatim>\<open>INCR\<close>, \<^verbatim>\<open>TTL\<close> and \<^verbatim>\<open>EXPIRE\<close>, stated of the parameters of \<open>env\<close> over an abstract view of the
  server's state: a value and an optional expiry per key. \<open>redis_model\<close> is one server with this
  behaviour; it is used only to show that the hypothesis can be met.
\<close>

type_synonym redis_view = "string \<rightharpoonup> string \<times> int option"

definition live :: "int \<Rightarrow> redis_view \<Rightarrow> redis_view" where
  "live t v k =
     (case v k of
        None \<Rightarrow> None
      | Some (x, e) \<Rightarrow>
          (case e of None \<Rightarrow> Some (x, None) | Some u \<Rightarrow> if u \<le> t then None else Some (x, Some u)))"

definition redis_behaves :: "'r env \<Rightarrow> ('r \<Rightarrow> redis_view) \<Rightarrow> bool" where
  "redis_behaves env view \<longleftrightarrow>
     (\<forall>t k r. env_redis_get env t k r = map_option fst (live t (view r) k)) \<and>
     (\<forall>t k x s r. 0 < s \<longrightarrow> view (env_redis_set_ex env t k x s r) = (view r)(k \<mapsto> (x, Some (t + seconds s)))) \<and>
     (\<forall>t k r. view (env_redis_delete env t k r) = (view r)(k := None)) \<and>
     (\<forall>t k r. live t (view r) k = None \<longrightarrow>
        fst (env_redis_incr env t k r) = 1 \<and>
        view (snd (env_redis_incr env t k r)) = (view r)(k \<mapsto> (str_of_int 1, None))) \<and>
     (\<forall>t k r n e. live t (view r) k = Some (str_of_int n, e) \<longrightarrow>
        fst (env_redis_incr env t k r) = n + 1 \<and>
        view (snd (env_redis_incr env t k r)) = (view r)(k \<mapsto> (str_of_int (n + 1), e))) \<and>
     (\<forall>t k r. env_redis_ttl env t k r < 0 \<longleftrightarrow>
        (case live t (view r) k of Some (_, Some _) \<Rightarrow> False | _ \<Rightarrow> True)) \<and>
     (\<forall>t k s r x e. live t (view r) k = Some (x, e) \<longrightarrow> 0 < s \<longrightarrow>
        view (env_redis_expire env t k s r) = (view r)(k \<mapsto> (x, Some (t + seconds s))))"

lemma redis_behavesD:
  assumes "redis_behaves env view"
  shows "env_redis_get env t k r = map_option fst (live t (view r) k)"
    and "0 < s \<Longrightarrow> view (env_redis_set_ex env t k x s r) = (view r)(k \<mapsto> (x, Some (t + seconds s)))"
    and "view (env_redis_delete env t k r) = (view r)(k := None)"
    and "live t (view r) k = None \<Longrightarrow> fst (env_redis_incr env t k r) = 1"
    and "live t (view r) k = None \<Longrightarrow>
           view (snd (env_redis_incr env t k r)) = (view r)(k \<mapsto> (str_of_int 1, None))"
    and "live t (view r) k = Some (str_of_int n, e) \<Longrightarrow> fst (env_redis_incr env t k r) = n + 1"
    and "live t (view r) k = Some (str_of_int n, e) \<Longrightarrow>
           view (snd (env_redis_incr env t k r)) = (view r)(k \<mapsto> (str_of_int (n + 1), e))"
    and "env_redis_ttl env t k r < 0 \<longleftrightarrow>
           (case live t (view r) k of Some (_, Some _) \<Rightarrow> False | _ \<Rightarrow> True)"
    and "live t (view r) k = Some (x, e) \<Longrightarrow> 0 < s \<Longrightarrow>
           view (env_redis_expire env t k s r) = (view r)(k \<mapsto> (x, Some (t + seconds s)))"
  using assms by (auto simp: redis_behaves_def)

text \<open>A command leaves every other key alone, whatever its arguments.\<close>

definition redis_local :: "'r env \<Rightarrow> ('r \<Rightarrow> redis_view) \<Rightarrow> bool" where
  "redis_local env view \<longleftrightarrow>
     (\<forall>k other. other \<noteq> k \<longrightarrow>
        (\<forall>t x s r. view (env_redis_set_ex env t k x s r) other = view r other) \<and>
        (\<forall>t r. view (env_redis_delete env t k r) other = view r other) \<and>
        (\<forall>t r. view (snd (env_redis_incr env t k r)) other = view r other) \<and>
        (\<forall>t s r. view (env_redis_expire env t k s r) other = view r other))"

lemma redis_localD:
  assumes "redis_local env view" and "other \<noteq> k"
  shows "view (env_redis_set_ex env t k x s r) other = view r other"
    and "view (env_redis_delete env t k r) other = view r other"
    and "view (snd (env_redis_incr env t k r)) other = view r other"
    and "view (env_redis_expire env t k s r) other = view r other"
  using assms by (simp_all add: redis_local_def)

section \<open>A server with this behaviour\<close>

definition redis_model :: "redis_view env \<Rightarrow> redis_view env" where
  "redis_model env =
     env\<lparr> env_redis_get := (\<lambda>t k v. map_option fst (live t v k)),
          env_redis_set_ex := (\<lambda>t k x s v. v(k \<mapsto> (x, Some (t + seconds s)))),
          env_redis_delete := (\<lambda>t k v. v(k := None)),
          env_redis_incr :=
            (\<lambda>t k v. case live t v k of
                       None \<Rightarrow> (1, v(k \<mapsto> (str_of_int 1, None)))
                     | Some (x, e) \<Rightarrow>
                         (case int_of_str x of
                            None \<Rightarrow> (0, v)
                          | Some n \<Rightarrow> (n + 1, v(k \<mapsto> (str_of_int (n + 1), e))))),
          env_redis_ttl :=
            (\<lambda>t k v. case live t v k of
                       None \<Rightarrow> -2
                     | Some (x, e) \<Rightarrow>
                         (case e of None \<Rightarrow> -1 | Some u \<Rightarrow> (u - t + 500000) div 1000000)),
          env_redis_expire :=
            (\<lambda>t k s v. case live t v k of
                         None \<Rightarrow> v
                       | Some (x, e) \<Rightarrow> v(k \<mapsto> (x, Some (t + seconds s)))) \<rparr>"

lemma live_Some_future: "live t v k = Some (x, Some u) \<Longrightarrow> t < u"
  by (auto simp: live_def split: option.splits if_splits)

lemma redis_model_behaves: "redis_behaves (redis_model env) id"
  by (auto simp: redis_behaves_def redis_model_def not_less split: option.splits
      dest!: live_Some_future)

lemma redis_model_local: "redis_local (redis_model env) id"
  by (simp add: redis_local_def redis_model_def split: option.splits)

end
