(* ===== verification/Rate_Limit.thy ===== *)
theory Rate_Limit
  imports Redis_Port
begin

text \<open>
  The rate limiter port and its two adapters: the per-process counters of
  \<^verbatim>\<open>adapter/rate_limit/in_memory_rate_limiter.py\<close> and the Redis counters of
  \<^verbatim>\<open>redis_rate_limiter.py\<close>. Each operation is a function of a time and the counters; the port's
  methods take the time from the clock the adapter uses and are selected by \<^verbatim>\<open>REDIS_URL\<close>.

  The locale \<open>fixed_window\<close> states what both adapters promise: a counter per key that opens a window
  with its first hit and forgets when the window is over. Times are microseconds; the in-process
  clock's floats are read as exact.
\<close>

section \<open>In-process counters\<close>

type_synonym counter_map = "string \<rightharpoonup> int \<times> int"

definition in_memory_decide :: "int \<Rightarrow> int \<Rightarrow> int \<Rightarrow> bool \<Rightarrow> rate_limit_decision" where
  "in_memory_decide count limit ttl counted =
     (let allowed = (if counted then count \<le> limit else count < limit)
      in \<lparr> rld_allowed = allowed, rld_remaining = max (limit - count) 0,
           rld_retry_after_seconds = (if allowed then 0 else max (whole_seconds ttl) 1) \<rparr>)"

definition counter_of :: "counter_map \<Rightarrow> string \<Rightarrow> int \<times> int" where
  "counter_of cs key = (case cs key of None \<Rightarrow> (0, 0) | Some c \<Rightarrow> c)"

definition in_memory_hit_at ::
  "int \<Rightarrow> string \<Rightarrow> int \<Rightarrow> int \<Rightarrow> counter_map \<Rightarrow> rate_limit_decision \<times> counter_map" where
  "in_memory_hit_at now key limit window cs =
     (let (count, expires_at) = counter_of cs key;
          (count, expires_at) =
            (if expires_at \<le> now then (0, now + seconds window) else (count, expires_at));
          count = count + 1
      in (in_memory_decide count limit (expires_at - now) True, cs(key \<mapsto> (count, expires_at))))"

definition in_memory_peek_at :: "int \<Rightarrow> string \<Rightarrow> int \<Rightarrow> counter_map \<Rightarrow> rate_limit_decision" where
  "in_memory_peek_at now key limit cs =
     (let (count, expires_at) = counter_of cs key
      in if expires_at \<le> now then in_memory_decide 0 limit 0 False
         else in_memory_decide count limit (expires_at - now) False)"

definition in_memory_reset_in :: "string \<Rightarrow> counter_map \<Rightarrow> counter_map" where
  "in_memory_reset_in key cs = cs(key := None)"

section \<open>Redis counters\<close>

definition redis_decide :: "int \<Rightarrow> int \<Rightarrow> int \<Rightarrow> bool \<Rightarrow> rate_limit_decision" where
  "redis_decide count limit ttl counted =
     (let allowed = (if counted then count \<le> limit else count < limit)
      in \<lparr> rld_allowed = allowed, rld_remaining = max (limit - count) 0,
           rld_retry_after_seconds = (if allowed then 0 else max ttl 1) \<rparr>)"

text \<open>\<open>t\<close> is the server's time when it runs the pipeline, \<open>u\<close> its time at the \<^verbatim>\<open>EXPIRE\<close>.\<close>

definition redis_hit_at ::
  "'r env \<Rightarrow> int \<Rightarrow> int \<Rightarrow> string \<Rightarrow> int \<Rightarrow> int \<Rightarrow> 'r \<Rightarrow> rate_limit_decision \<times> 'r" where
  "redis_hit_at env t u key limit window r =
     (let (count, r1) = env_redis_incr env t key r;
          ttl = env_redis_ttl env t key r1
      in if ttl < 0 then
           (redis_decide count limit window True, env_redis_expire env u key window r1)
         else (redis_decide count limit ttl True, r1))"

definition redis_peek_at :: "'r env \<Rightarrow> int \<Rightarrow> string \<Rightarrow> int \<Rightarrow> 'r \<Rightarrow> exn + rate_limit_decision" where
  "redis_peek_at env t key limit r =
     (case env_redis_get env t key r of
        None \<Rightarrow> Inr (redis_decide 0 limit (max (env_redis_ttl env t key r) 0) False)
      | Some raw \<Rightarrow>
          (case int_of_str raw of
             None \<Rightarrow> Inl (ValueError ''invalid literal for int()'')
           | Some count \<Rightarrow>
               Inr (redis_decide count limit (max (env_redis_ttl env t key r) 0) False)))"

section \<open>The port\<close>

text \<open>\<^verbatim>\<open>_redis_backend\<close> of the container: Redis if \<^verbatim>\<open>REDIS_URL\<close> is set and not empty.\<close>

definition redis_backend :: "config \<Rightarrow> bool" where
  "redis_backend c \<longleftrightarrow> truthy (cfg_REDIS_URL c)"

definition in_memory_hit :: "'r env \<Rightarrow> string \<Rightarrow> int \<Rightarrow> int \<Rightarrow> ('r, rate_limit_decision) app" where
  "in_memory_hit env key limit window =
     bindM (monotonic env) (\<lambda>now.
     bindM (getsM counters) (\<lambda>cs.
     let (decision, cs') = in_memory_hit_at now key limit window cs in
     seqM (modifyM (\<lambda>w. w\<lparr>counters := cs'\<rparr>)) (retM decision)))"

definition redis_hit :: "'r env \<Rightarrow> string \<Rightarrow> int \<Rightarrow> int \<Rightarrow> ('r, rate_limit_decision) app" where
  "redis_hit env key limit window =
     bindM (redis_now env) (\<lambda>t.
     bindM (redis_now env) (\<lambda>u.
     bindM (getsM redis) (\<lambda>r.
     let (decision, r') = redis_hit_at env t u key limit window r in
     seqM (modifyM (\<lambda>w. w\<lparr>redis := r'\<rparr>)) (retM decision))))"

definition limiter_hit ::
  "'r env \<Rightarrow> config \<Rightarrow> string \<Rightarrow> int \<Rightarrow> int \<Rightarrow> ('r, rate_limit_decision) app" where
  "limiter_hit env c key limit window =
     (if redis_backend c then redis_hit env key limit window else in_memory_hit env key limit window)"

definition limiter_peek :: "'r env \<Rightarrow> config \<Rightarrow> string \<Rightarrow> int \<Rightarrow> ('r, rate_limit_decision) app" where
  "limiter_peek env c key limit =
     (if redis_backend c then
        bindM (redis_now env) (\<lambda>t.
        bindM (getsM redis) (\<lambda>r. liftM (redis_peek_at env t key limit r)))
      else
        bindM (monotonic env) (\<lambda>now.
        bindM (getsM counters) (\<lambda>cs. retM (in_memory_peek_at now key limit cs))))"

definition limiter_reset :: "'r env \<Rightarrow> config \<Rightarrow> string \<Rightarrow> ('r, unit) app" where
  "limiter_reset env c key =
     (if redis_backend c then
        bindM (redis_now env) (\<lambda>t. modifyM (\<lambda>w. w\<lparr>redis := env_redis_delete env t key (redis w)\<rparr>))
      else modifyM (\<lambda>w. w\<lparr>counters := in_memory_reset_in key (counters w)\<rparr>))"

section \<open>What a fixed-window limiter promises\<close>

text \<open>
  \<open>window s key\<close> is the number of attempts charged to \<open>key\<close> and the end of its window. The laws hold
  for the keys of the limiter, \<open>own\<close>, in the states \<open>good\<close> that the operations keep.
\<close>

locale fixed_window =
  fixes hit :: "int \<Rightarrow> string \<Rightarrow> int \<Rightarrow> int \<Rightarrow> 's \<Rightarrow> rate_limit_decision \<times> 's"
    and peek :: "int \<Rightarrow> string \<Rightarrow> int \<Rightarrow> 's \<Rightarrow> rate_limit_decision"
    and reset :: "string \<Rightarrow> 's \<Rightarrow> 's"
    and window :: "'s \<Rightarrow> string \<Rightarrow> int \<times> int"
    and own :: "string \<Rightarrow> bool"
    and good :: "'s \<Rightarrow> bool"
  assumes hit_window: "good s \<Longrightarrow> own key \<Longrightarrow> 0 \<le> t \<Longrightarrow> 0 < span \<Longrightarrow>
        window (snd (hit t key limit span s)) key =
        (if snd (window s key) \<le> t then (1, t + seconds span)
         else (fst (window s key) + 1, snd (window s key)))"
    and hit_other: "good s \<Longrightarrow> own key \<Longrightarrow> 0 \<le> t \<Longrightarrow> 0 < span \<Longrightarrow> own other \<Longrightarrow>
        other \<noteq> key \<Longrightarrow>
        window (snd (hit t key limit span s)) other = window s other"
    and hit_good: "good s \<Longrightarrow> own key \<Longrightarrow> 0 \<le> t \<Longrightarrow> 0 < span \<Longrightarrow> good (snd (hit t key limit span s))"
    and hit_allowed: "good s \<Longrightarrow> own key \<Longrightarrow> 0 \<le> t \<Longrightarrow> 0 < span \<Longrightarrow>
        rld_allowed (fst (hit t key limit span s)) \<longleftrightarrow>
        (if snd (window s key) \<le> t then 0 else fst (window s key)) + 1 \<le> limit"
    and hit_retry: "rld_retry_after_seconds (fst (hit t key limit span s)) = 0 \<longleftrightarrow>
        rld_allowed (fst (hit t key limit span s))"
    and peek_allowed: "good s \<Longrightarrow> own key \<Longrightarrow> 0 \<le> t \<Longrightarrow> rld_allowed (peek t key limit s) \<longleftrightarrow>
        (if snd (window s key) \<le> t then 0 else fst (window s key)) < limit"
    and reset_window: "good s \<Longrightarrow> own key \<Longrightarrow> fst (window (reset key s) key) = 0"
    and reset_other: "good s \<Longrightarrow> own key \<Longrightarrow> own other \<Longrightarrow> other \<noteq> key \<Longrightarrow>
        window (reset key s) other = window s other"
    and reset_good: "good s \<Longrightarrow> own key \<Longrightarrow> good (reset key s)"
begin

definition used :: "int \<Rightarrow> string \<Rightarrow> 's \<Rightarrow> int" where
  "used t key s = (if snd (window s key) \<le> t then 0 else fst (window s key))"

text \<open>A run of hits on one key, each with its own time.\<close>

primrec hits :: "string \<Rightarrow> int \<Rightarrow> int \<Rightarrow> int list \<Rightarrow> 's \<Rightarrow> 's" where
  "hits key limit span [] s = s"
| "hits key limit span (t # ts) s = hits key limit span ts (snd (hit t key limit span s))"

lemma peek_iff: "good s \<Longrightarrow> own key \<Longrightarrow> 0 \<le> t \<Longrightarrow>
    rld_allowed (peek t key limit s) \<longleftrightarrow> used t key s < limit"
  by (simp add: peek_allowed used_def)

lemma hit_iff: "good s \<Longrightarrow> own key \<Longrightarrow> 0 \<le> t \<Longrightarrow> 0 < span \<Longrightarrow>
    rld_allowed (fst (hit t key limit span s)) \<longleftrightarrow> used t key s + 1 \<le> limit"
  by (simp add: hit_allowed used_def)

lemma used_hit: "good s \<Longrightarrow> own key \<Longrightarrow> 0 \<le> t \<Longrightarrow> 0 < span \<Longrightarrow>
    used t key (snd (hit t key limit span s)) = used t key s + 1"
  by (auto simp: hit_window used_def seconds_def)

lemma used_reset: "good s \<Longrightarrow> own key \<Longrightarrow> used t key (reset key s) = 0"
  by (simp add: reset_window used_def)

lemma hits_good: "good s \<Longrightarrow> own key \<Longrightarrow> 0 < span \<Longrightarrow> \<forall>t \<in> set ts. 0 \<le> t \<Longrightarrow>
    good (hits key limit span ts s)"
  by (induction ts arbitrary: s) (simp_all add: hit_good)

lemma hits_other:
  assumes "good s" "own key" "0 < span" "own other" "other \<noteq> key" "\<forall>t \<in> set ts. 0 \<le> t"
  shows "window (hits key limit span ts s) other = window s other"
  using assms by (induction ts arbitrary: s) (simp_all add: hit_other hit_good)

text \<open>Hits inside an open window are all charged to it, and do not move its end.\<close>

lemma hits_in_window:
  assumes "good s" "own key" "0 < span" "\<forall>t \<in> set ts. 0 \<le> t \<and> t < snd (window s key)"
  shows "window (hits key limit span ts s) key =
           (fst (window s key) + int (length ts), snd (window s key))"
  using assms
proof (induction ts arbitrary: s)
  case (Cons t ts)
  let ?s = "snd (hit t key limit span s)"
  have w: "window ?s key = (fst (window s key) + 1, snd (window s key))"
    using Cons.prems by (simp add: hit_window)
  have "window (hits key limit span ts ?s) key =
          (fst (window ?s key) + int (length ts), snd (window ?s key))"
    using Cons.prems by (intro Cons.IH) (simp_all add: hit_good w)
  then show ?case by (simp add: w)
qed simp

text \<open>The first hit after a window is over opens the next one, and the others are charged to it.\<close>

lemma hits_from_first:
  assumes "good s" "own key" "0 < span" "0 \<le> t" "snd (window s key) \<le> t"
    "\<forall>u \<in> set ts. 0 \<le> u \<and> u < t + seconds span"
  shows "window (hits key limit span (t # ts) s) key = (1 + int (length ts), t + seconds span)"
proof -
  let ?s = "snd (hit t key limit span s)"
  have w: "window ?s key = (1, t + seconds span)"
    using assms by (simp add: hit_window)
  have "window (hits key limit span ts ?s) key =
          (fst (window ?s key) + int (length ts), snd (window ?s key))"
    using assms by (intro hits_in_window) (simp_all add: hit_good w)
  then show ?thesis by (simp add: w)
qed

text \<open>Once \<open>limit\<close> attempts were charged to a window, the key is refused until the window is over.\<close>

lemma locked_until_window_ends:
  assumes "good s" "own key" "0 < span" "0 \<le> t" "snd (window s key) \<le> t"
    "\<forall>u \<in> set ts. 0 \<le> u \<and> u < t + seconds span"
    and "0 \<le> now" "now < t + seconds span"
  shows "rld_allowed (peek now key limit (hits key limit span (t # ts) s)) \<longleftrightarrow>
           1 + int (length ts) < limit"
proof -
  have "good (hits key limit span (t # ts) s)" using assms by (intro hits_good) auto
  moreover have "used now key (hits key limit span (t # ts) s) = 1 + int (length ts)"
    unfolding used_def hits_from_first [OF assms(1-6)] using assms(8) by simp
  ultimately show ?thesis using assms(2,7) by (simp add: peek_iff del: hits.simps)
qed

lemma open_when_window_ends:
  assumes "good s" "own key" "0 < span" "0 \<le> t" "snd (window s key) \<le> t"
    "\<forall>u \<in> set ts. 0 \<le> u \<and> u < t + seconds span"
    and "t + seconds span \<le> now"
  shows "rld_allowed (peek now key limit (hits key limit span (t # ts) s)) \<longleftrightarrow> 0 < limit"
proof -
  have "0 \<le> now" using assms(3,4,7) by (simp add: seconds_def)
  moreover have "good (hits key limit span (t # ts) s)" using assms by (intro hits_good) auto
  moreover have "used now key (hits key limit span (t # ts) s) = 0"
    unfolding used_def hits_from_first [OF assms(1-6)] using assms(7) by simp
  ultimately show ?thesis using assms(2) by (simp add: peek_iff del: hits.simps)
qed

end

section \<open>Both adapters keep the promise\<close>

lemma in_memory_window:
  "counter_of (snd (in_memory_hit_at t key limit span cs)) other =
     (if other \<noteq> key then counter_of cs other
      else if snd (counter_of cs key) \<le> t then (1, t + seconds span)
      else (fst (counter_of cs key) + 1, snd (counter_of cs key)))"
  by (simp add: in_memory_hit_at_def counter_of_def Let_def split_beta)

lemma decide_retry:
  "rld_retry_after_seconds (in_memory_decide n l ttl b) = 0 \<longleftrightarrow> rld_allowed (in_memory_decide n l ttl b)"
  "rld_retry_after_seconds (redis_decide n l ttl b) = 0 \<longleftrightarrow> rld_allowed (redis_decide n l ttl b)"
  by (auto simp: in_memory_decide_def redis_decide_def Let_def)

interpretation in_memory: fixed_window in_memory_hit_at in_memory_peek_at in_memory_reset_in
  counter_of "\<lambda>_. True" "\<lambda>_. True"
proof
  show "rld_retry_after_seconds (fst (in_memory_hit_at t key limit span s)) = 0 \<longleftrightarrow>
          rld_allowed (fst (in_memory_hit_at t key limit span s))" for t key limit span s
    by (simp add: in_memory_hit_at_def Let_def split_beta decide_retry)
qed (simp_all add: in_memory_window in_memory_reset_in_def counter_of_def,
     auto simp: in_memory_hit_at_def in_memory_peek_at_def in_memory_decide_def counter_of_def
       Let_def split_beta)

text \<open>
  The Redis counters keep it too, for the limiter's keys, as long as no such key is left without an
  expiry or with a value that is not a number; the operations of the limiter and the writes of the
  user cache keep that condition.
\<close>

definition limiter_key :: "string \<Rightarrow> bool" where
  "limiter_key key \<longleftrightarrow>
     list_ex (str_startswith key) [''login:'', ''register:'', ''forgot-password:'', ''reset-password:'']"

definition redis_window :: "('r \<Rightarrow> redis_view) \<Rightarrow> 'r \<Rightarrow> string \<Rightarrow> int \<times> int" where
  "redis_window view r key =
     (case view r key of
        None \<Rightarrow> (0, 0)
      | Some (x, e) \<Rightarrow>
          (case int_of_str x of None \<Rightarrow> 0 | Some n \<Rightarrow> n, case e of None \<Rightarrow> 0 | Some u \<Rightarrow> u))"

definition redis_good :: "('r \<Rightarrow> redis_view) \<Rightarrow> 'r \<Rightarrow> bool" where
  "redis_good view r \<longleftrightarrow>
     (\<forall>key x e. limiter_key key \<longrightarrow> view r key = Some (x, e) \<longrightarrow>
        (\<exists>n u. x = str_of_int n \<and> e = Some u))"

definition redis_peek_decision :: "'r env \<Rightarrow> int \<Rightarrow> string \<Rightarrow> int \<Rightarrow> 'r \<Rightarrow> rate_limit_decision" where
  "redis_peek_decision env t key limit r =
     (case redis_peek_at env t key limit r of
        Inl e \<Rightarrow> redis_decide limit limit 0 False | Inr d \<Rightarrow> d)"

lemma redis_good_cases:
  assumes "redis_good view r" and "limiter_key key"
  obtains (missing) "view r key = None"
    | (counter) n u where "view r key = Some (str_of_int n, Some u)"
proof (cases "view r key")
  case (Some p)
  with assms that(2) show ?thesis unfolding redis_good_def by (metis surj_pair)
qed (rule that(1))

lemma redis_hit_fresh:
  assumes beh: "redis_behaves env view" and fresh: "live t (view r) key = None" and span: "0 < span"
  shows "view (snd (redis_hit_at env t t key limit span r)) =
           (view r)(key \<mapsto> (str_of_int 1, Some (t + seconds span)))"
    and "rld_allowed (fst (redis_hit_at env t t key limit span r)) \<longleftrightarrow> 1 \<le> limit"
proof -
  note D = redis_behavesD [OF beh]
  let ?r = "snd (env_redis_incr env t key r)"
  have r1: "fst (env_redis_incr env t key r) = 1" "view ?r = (view r)(key \<mapsto> (str_of_int 1, None))"
    using D(4,5) [OF fresh] by simp_all
  then have l: "live t (view ?r) key = Some (str_of_int 1, None)" by (simp add: live_def)
  then have "env_redis_ttl env t key ?r < 0" by (simp add: D(8))
  with r1 D(9) [OF l span] show
    "view (snd (redis_hit_at env t t key limit span r)) =
       (view r)(key \<mapsto> (str_of_int 1, Some (t + seconds span)))"
    "rld_allowed (fst (redis_hit_at env t t key limit span r)) \<longleftrightarrow> 1 \<le> limit"
    by (simp_all add: redis_hit_at_def redis_decide_def Let_def split_beta)
qed

lemma redis_hit_open:
  assumes beh: "redis_behaves env view"
    and open_window: "live t (view r) key = Some (str_of_int n, Some u)"
  shows "view (snd (redis_hit_at env t t key limit span r)) =
           (view r)(key \<mapsto> (str_of_int (n + 1), Some u))"
    and "rld_allowed (fst (redis_hit_at env t t key limit span r)) \<longleftrightarrow> n + 1 \<le> limit"
proof -
  note D = redis_behavesD [OF beh]
  let ?r = "snd (env_redis_incr env t key r)"
  have r1: "fst (env_redis_incr env t key r) = n + 1"
    "view ?r = (view r)(key \<mapsto> (str_of_int (n + 1), Some u))"
    using D(6,7) [OF open_window] by simp_all
  moreover have "t < u" using open_window by (rule live_Some_future)
  ultimately have "\<not> env_redis_ttl env t key ?r < 0" by (simp add: D(8) live_def)
  with r1 show
    "view (snd (redis_hit_at env t t key limit span r)) = (view r)(key \<mapsto> (str_of_int (n + 1), Some u))"
    "rld_allowed (fst (redis_hit_at env t t key limit span r)) \<longleftrightarrow> n + 1 \<le> limit"
    by (simp_all add: redis_hit_at_def redis_decide_def Let_def split_beta)
qed

text \<open>What a hit does to the view of its key: a new window, or one more attempt in the open one.\<close>

lemma redis_hit_cases:
  assumes beh: "redis_behaves env view" and "redis_good view r" and "limiter_key key" and "0 < span"
    and "0 \<le> t"
  obtains (fresh) "snd (redis_window view r key) \<le> t"
      "view (snd (redis_hit_at env t t key limit span r)) =
         (view r)(key \<mapsto> (str_of_int 1, Some (t + seconds span)))"
      "rld_allowed (fst (redis_hit_at env t t key limit span r)) \<longleftrightarrow> 1 \<le> limit"
    | (again) n u where "redis_window view r key = (n, u)" "t < u"
      "view (snd (redis_hit_at env t t key limit span r)) =
         (view r)(key \<mapsto> (str_of_int (n + 1), Some u))"
      "rld_allowed (fst (redis_hit_at env t t key limit span r)) \<longleftrightarrow> n + 1 \<le> limit"
  using assms(2,3)
proof (cases rule: redis_good_cases)
  case missing
  with redis_hit_fresh [OF beh _ assms(4)] fresh assms(5) show ?thesis
    by (simp add: live_def redis_window_def)
next
  case (counter n u)
  show ?thesis
  proof (cases "u \<le> t")
    case True
    with counter redis_hit_fresh [OF beh _ assms(4)] fresh show ?thesis
      by (simp add: live_def redis_window_def)
  next
    case False
    with counter redis_hit_open [OF beh] again [of n u] show ?thesis
      by (simp add: live_def redis_window_def)
  qed
qed

lemma redis_good_upd:
  "redis_good view r \<Longrightarrow> view r' = (view r)(key \<mapsto> (str_of_int n, Some u)) \<Longrightarrow> redis_good view r'"
  by (auto simp: redis_good_def)

lemma redis_peek_allowed:
  assumes beh: "redis_behaves env view" and "redis_good view r" and "limiter_key key"
  shows "rld_allowed (redis_peek_decision env t key limit r) \<longleftrightarrow>
           (if snd (redis_window view r key) \<le> t then 0 else fst (redis_window view r key)) < limit"
  using assms(2,3)
proof (cases rule: redis_good_cases)
  case missing
  then show ?thesis
    by (simp add: redis_peek_decision_def redis_peek_at_def redis_behavesD [OF beh] live_def
        redis_window_def redis_decide_def Let_def)
next
  case (counter n u)
  then show ?thesis
    by (simp add: redis_peek_decision_def redis_peek_at_def redis_behavesD [OF beh] live_def
        redis_window_def redis_decide_def Let_def)
qed

lemma redis_fixed_window:
  assumes beh: "redis_behaves env view"
  shows "fixed_window (\<lambda>t. redis_hit_at env t t) (redis_peek_decision env)
           (\<lambda>key. env_redis_delete env 0 key) (redis_window view) limiter_key (redis_good view)"
proof
  fix s key t limit span
  assume good: "redis_good view s" and own: "limiter_key key" and t: "(0::int) \<le> t"
    and span: "(0::int) < span"
  note cases = redis_hit_cases [OF beh good own span t, of limit]
  show "redis_window view (snd (redis_hit_at env t t key limit span s)) key =
          (if snd (redis_window view s key) \<le> t then (1, t + seconds span)
           else (fst (redis_window view s key) + 1, snd (redis_window view s key)))"
    by (rule cases) (simp_all add: redis_window_def)
  show "redis_good view (snd (redis_hit_at env t t key limit span s))"
    by (rule cases) (auto intro: redis_good_upd [OF good])
  show "redis_window view (snd (redis_hit_at env t t key limit span s)) other =
          redis_window view s other" if "other \<noteq> key" for other
    by (rule cases) (use that in \<open>simp_all add: redis_window_def\<close>)
  show "rld_allowed (fst (redis_hit_at env t t key limit span s)) \<longleftrightarrow>
          (if snd (redis_window view s key) \<le> t then 0 else fst (redis_window view s key)) + 1 \<le> limit"
    by (rule cases) auto
next
  show "rld_retry_after_seconds (fst (redis_hit_at env t t key limit span s)) = 0 \<longleftrightarrow>
          rld_allowed (fst (redis_hit_at env t t key limit span s))" for t key limit span s
    by (simp add: redis_hit_at_def Let_def split_beta decide_retry)
qed (simp_all add: redis_peek_allowed [OF beh] redis_behavesD(3) [OF beh],
     auto simp: redis_window_def redis_good_def redis_behavesD(3) [OF beh])

text \<open>
  A Redis server with the documented behaviour provides a fixed-window limiter. \<open>redis_model\<close> is such a
  server.
\<close>

locale redis_server =
  fixes env :: "'r env" and view :: "'r \<Rightarrow> redis_view"
  assumes behaves: "redis_behaves env view"

sublocale redis_server \<subseteq> fixed_window "\<lambda>t. redis_hit_at env t t" "redis_peek_decision env"
  "\<lambda>key. env_redis_delete env 0 key" "redis_window view" limiter_key "redis_good view"
  by (rule redis_fixed_window [OF behaves])

interpretation model_server: redis_server "redis_model env" id for env
  by unfold_locales (rule redis_model_behaves)

text \<open>A server whose commands touch their own key only.\<close>

locale redis_keys = redis_server env view for env :: "'r env" and view +
  assumes own_key: "redis_local env view"

interpretation model_keys: redis_keys "redis_model env" id for env
  by unfold_locales (rule redis_model_local)

section \<open>The limiter and the database\<close>

lemma keeps_modify_other [keeps_rules]:
  "keeps (db_inv2 A I) (modifyM (\<lambda>w. w\<lparr>counters := f w\<rparr>))"
  "keeps (db_inv2 A I) (modifyM (\<lambda>w. w\<lparr>redis := g w\<rparr>))"
  "keeps (db_inv2 A I) (modifyM (\<lambda>w. w\<lparr>outbox := h w\<rparr>))"
  by (simp_all add: keeps_def modifyM_def db_inv2_def)

lemma uncommitted_modify_other [uncommitted_rules]:
  "uncommitted (modifyM (\<lambda>w. w\<lparr>counters := f w\<rparr>))"
  "uncommitted (modifyM (\<lambda>w. w\<lparr>redis := g w\<rparr>))"
  "uncommitted (modifyM (\<lambda>w. w\<lparr>outbox := h w\<rparr>))"
  by (simp_all add: uncommitted_def modifyM_def)

lemma keeps_limiter [keeps_rules]:
  "keeps (db_inv2 A I) (limiter_hit env c key limit span)"
  "keeps (db_inv2 A I) (limiter_peek env c key limit)" "keeps (db_inv2 A I) (limiter_reset env c key)"
  by (auto simp: limiter_hit_def limiter_peek_def limiter_reset_def redis_hit_def in_memory_hit_def
      Let_def split_beta intro!: keeps_rules)

lemma uncommitted_limiter [uncommitted_rules]:
  "uncommitted (limiter_hit env c key limit span)"
  "uncommitted (limiter_peek env c key limit)" "uncommitted (limiter_reset env c key)"
  by (auto simp: limiter_hit_def limiter_peek_def limiter_reset_def redis_hit_def in_memory_hit_def
      Let_def split_beta intro!: uncommitted_rules)

end
