(* ===== verification/Json.thy ===== *)
theory Json
  imports Py_Strings
begin

text \<open>
  \<^verbatim>\<open>json.dumps\<close> and \<^verbatim>\<open>json.loads\<close> of the standard library, on the values the services serialise:
  null, booleans, integers, strings, arrays and objects. The printer is the default one (\<^verbatim>\<open>", "\<close> and
  \<^verbatim>\<open>": "\<close> as separators, everything outside printable ASCII escaped). The parser accepts every JSON
  document without fractions or exponents; a code point above U+00FF in an escape is refused,
  because strings stop there. The parser's fuel bounds the nesting and the number of elements it
  reads; \<open>json_loads\<close> gives it the length of the document, which is always enough for what
  \<open>json_dumps\<close> prints.
\<close>

datatype json =
    JNull
  | JBool bool
  | JInt int
  | JStr string
  | JArr "json list"
  | JObj "(string \<times> json) list"

section \<open>Printing\<close>

definition hex_digit :: "nat \<Rightarrow> char" where
  "hex_digit n = (if n < 10 then char_of (48 + n) else char_of (87 + n))"

definition json_escape :: "char \<Rightarrow> string" where
  "json_escape c =
     (if c = CHR 0x22 then [CHR 0x5C, CHR 0x22]
      else if c = CHR 0x5C then [CHR 0x5C, CHR 0x5C]
      else if c = CHR 0x0A then [CHR 0x5C, CHR ''n'']
      else if c = CHR 0x0D then [CHR 0x5C, CHR ''r'']
      else if c = CHR 0x09 then [CHR 0x5C, CHR ''t'']
      else if c = CHR 0x0C then [CHR 0x5C, CHR ''f'']
      else if c = CHR 0x08 then [CHR 0x5C, CHR ''b'']
      else if 32 \<le> code c \<and> code c \<le> 126 then [c]
      else [CHR 0x5C, CHR ''u'', CHR ''0'', CHR ''0'', hex_digit (code c div 16),
            hex_digit (code c mod 16)])"

definition json_string :: "string \<Rightarrow> string" where
  "json_string s = CHR 0x22 # concat (map json_escape s) @ [CHR 0x22]"

fun json_dumps :: "json \<Rightarrow> string" where
  "json_dumps JNull = ''null''"
| "json_dumps (JBool b) = (if b then ''true'' else ''false'')"
| "json_dumps (JInt i) = str_of_int i"
| "json_dumps (JStr s) = json_string s"
| "json_dumps (JArr xs) = ''['' @ str_join '', '' (map json_dumps xs) @ '']''"
| "json_dumps (JObj ms) =
     ''{'' @ str_join '', '' (map (\<lambda>m. json_string (fst m) @ '': '' @ json_dumps (snd m)) ms) @ ''}''"

section \<open>Parsing\<close>

definition json_space :: "char \<Rightarrow> bool" where
  "json_space c \<longleftrightarrow> c = CHR 0x20 \<or> c = CHR 0x09 \<or> c = CHR 0x0A \<or> c = CHR 0x0D"

definition skip :: "string \<Rightarrow> string" where
  "skip s = dropWhile json_space s"

definition hex_val :: "char \<Rightarrow> nat option" where
  "hex_val c =
     (if is_digit c then Some (code c - 48)
      else if 97 \<le> code c \<and> code c \<le> 102 then Some (code c - 87)
      else if 65 \<le> code c \<and> code c \<le> 70 then Some (code c - 55)
      else None)"

text \<open>The characters of a string up to its closing quote.\<close>

fun parse_chars :: "string \<Rightarrow> (string \<times> string) option" where
  "parse_chars [] = None"
| "parse_chars (c # cs) =
     (if c = CHR 0x22 then Some ([], cs)
      else if c = CHR 0x5C then
        (case cs of
           [] \<Rightarrow> None
         | e # ds \<Rightarrow>
             if e = CHR ''u'' then
               (case ds of
                  h1 # h2 # h3 # h4 # rest \<Rightarrow>
                    (case (hex_val h1, hex_val h2, hex_val h3, hex_val h4) of
                       (Some a, Some b, Some x, Some y) \<Rightarrow>
                         if a = 0 \<and> b = 0 then
                           map_option (\<lambda>(s, r). (char_of (16 * x + y) # s, r)) (parse_chars rest)
                         else None
                     | _ \<Rightarrow> None)
                | _ \<Rightarrow> None)
             else
               (case map_of [(CHR 0x22, CHR 0x22), (CHR 0x5C, CHR 0x5C), (CHR ''/'', CHR ''/''),
                             (CHR ''n'', CHR 0x0A), (CHR ''r'', CHR 0x0D), (CHR ''t'', CHR 0x09),
                             (CHR ''f'', CHR 0x0C), (CHR ''b'', CHR 0x08)] e of
                  None \<Rightarrow> None
                | Some x \<Rightarrow> map_option (\<lambda>(s, r). (x # s, r)) (parse_chars ds)))
      else if code c < 32 then None
      else map_option (\<lambda>(s, r). (c # s, r)) (parse_chars cs))"

definition json_number :: "string \<Rightarrow> int option" where
  "json_number ds =
     (if ds = [] \<or> (hd ds = CHR ''0'' \<and> length ds \<noteq> 1) then None
      else map_option int (nat_of_digits ds))"

definition parse_number :: "string \<Rightarrow> (json \<times> string) option" where
  "parse_number s =
     (let neg = (s \<noteq> [] \<and> hd s = CHR ''-'');
          body = (if neg then tl s else s);
          rest = dropWhile is_digit body
      in if rest \<noteq> [] \<and> hd rest \<in> {CHR ''.'', CHR ''e'', CHR ''E''} then None
         else (case json_number (takeWhile is_digit body) of
                 None \<Rightarrow> None
               | Some n \<Rightarrow> Some (JInt (if neg then - n else n), rest)))"

fun parse_value :: "nat \<Rightarrow> string \<Rightarrow> (json \<times> string) option"
  and parse_items :: "nat \<Rightarrow> string \<Rightarrow> (json list \<times> string) option"
  and parse_members :: "nat \<Rightarrow> string \<Rightarrow> ((string \<times> json) list \<times> string) option" where
  "parse_value 0 s = None"
| "parse_value (Suc n) s =
     (case s of
        [] \<Rightarrow> None
      | c # cs \<Rightarrow>
          if c = CHR 0x22 then map_option (\<lambda>(x, r). (JStr x, r)) (parse_chars cs)
          else if c = CHR ''['' then
            (case skip cs of
               [] \<Rightarrow> None
             | d # ds \<Rightarrow>
                 if d = CHR '']'' then Some (JArr [], ds)
                 else map_option (\<lambda>(xs, r). (JArr xs, r)) (parse_items n (d # ds)))
          else if c = CHR ''{'' then
            (case skip cs of
               [] \<Rightarrow> None
             | d # ds \<Rightarrow>
                 if d = CHR ''}'' then Some (JObj [], ds)
                 else map_option (\<lambda>(ms, r). (JObj ms, r)) (parse_members n (d # ds)))
          else if take 4 s = ''null'' then Some (JNull, drop 4 s)
          else if take 4 s = ''true'' then Some (JBool True, drop 4 s)
          else if take 5 s = ''false'' then Some (JBool False, drop 5 s)
          else parse_number s)"
| "parse_items 0 s = None"
| "parse_items (Suc n) s =
     (case parse_value n s of
        None \<Rightarrow> None
      | Some (x, r) \<Rightarrow>
          (case skip r of
             [] \<Rightarrow> None
           | c # cs \<Rightarrow>
               if c = CHR '']'' then Some ([x], cs)
               else if c = CHR '','' then
                 map_option (\<lambda>(xs, r'). (x # xs, r')) (parse_items n (skip cs))
               else None))"
| "parse_members 0 s = None"
| "parse_members (Suc n) s =
     (case s of
        [] \<Rightarrow> None
      | q # qs \<Rightarrow>
          if q \<noteq> CHR 0x22 then None
          else
            (case parse_chars qs of
               None \<Rightarrow> None
             | Some (k, r) \<Rightarrow>
                 (case skip r of
                    [] \<Rightarrow> None
                  | c # cs \<Rightarrow>
                      if c \<noteq> CHR '':'' then None
                      else
                        (case parse_value n (skip cs) of
                           None \<Rightarrow> None
                         | Some (x, r') \<Rightarrow>
                             (case skip r' of
                                [] \<Rightarrow> None
                              | d # ds \<Rightarrow>
                                  if d = CHR ''}'' then Some ([(k, x)], ds)
                                  else if d = CHR '','' then
                                    map_option (\<lambda>(ms, r''). ((k, x) # ms, r''))
                                      (parse_members n (skip ds))
                                  else None)))))"

definition json_loads :: "string \<Rightarrow> json option" where
  "json_loads s =
     (case parse_value (Suc (length s)) (skip s) of
        None \<Rightarrow> None
      | Some (x, r) \<Rightarrow> if skip r = [] then Some x else None)"

text \<open>\<^verbatim>\<open>data[key]\<close> of a decoded object: the last binding of a repeated key wins.\<close>

definition json_field :: "string \<Rightarrow> json \<Rightarrow> json option" where
  "json_field k j = (case j of JObj ms \<Rightarrow> map_of (rev ms) k | _ \<Rightarrow> None)"

section \<open>Reading back what was printed\<close>

lemma hex_val_digit [simp]: "n < 16 \<Longrightarrow> hex_val (hex_digit n) = Some n"
  by (auto simp: hex_val_def hex_digit_def is_digit_def)

lemma parse_escape:
  "parse_chars (json_escape c @ t) = map_option (\<lambda>(s, r). (c # s, r)) (parse_chars t)"
proof -
  consider (special) "c \<in> {CHR 0x22, CHR 0x5C, CHR 0x0A, CHR 0x0D, CHR 0x09, CHR 0x0C, CHR 0x08}"
    | (plain) "32 \<le> code c" "code c \<le> 126" "c \<noteq> CHR 0x22" "c \<noteq> CHR 0x5C"
        "c \<noteq> CHR 0x0A" "c \<noteq> CHR 0x0D" "c \<noteq> CHR 0x09" "c \<noteq> CHR 0x0C" "c \<noteq> CHR 0x08"
    | (hex) "\<not> (32 \<le> code c \<and> code c \<le> 126)"
        "c \<notin> {CHR 0x22, CHR 0x5C, CHR 0x0A, CHR 0x0D, CHR 0x09, CHR 0x0C, CHR 0x08}"
    by blast
  then show ?thesis
  proof cases
    case special
    then show ?thesis by (auto simp: json_escape_def)
  next
    case plain
    then show ?thesis by (simp add: json_escape_def)
  next
    case hex
    have "code c div 16 < 16" "code c mod 16 < 16"
      using code_less_256 [of c] by linarith+
    moreover have "hex_val (CHR ''0'') = Some 0" by (simp add: hex_val_def is_digit_def code_def)
    moreover have "json_escape c = [CHR 0x5C, CHR ''u'', CHR ''0'', CHR ''0'',
        hex_digit (code c div 16), hex_digit (code c mod 16)]"
      using hex by (auto simp: json_escape_def)
    ultimately show ?thesis by simp
  qed
qed

lemma parse_chars_string:
  "parse_chars (concat (map json_escape s) @ CHR 0x22 # rest) = Some (s, rest)"
  by (induction s) (simp_all add: parse_escape)

text \<open>What may follow a printed value inside a document.\<close>

definition follows :: "string \<Rightarrow> bool" where
  "follows rest \<longleftrightarrow> rest = [] \<or> hd rest \<in> {CHR '','', CHR '']'', CHR ''}''}"

lemma str_of_nat_hd_zero: "hd (str_of_nat n) = CHR ''0'' \<Longrightarrow> n = 0"
proof (induction n rule: str_of_nat.induct)
  case (1 n)
  show ?case
  proof (cases "n < 10")
    case True
    then have "str_of_nat n = [digit_char n]" by (subst str_of_nat.simps) simp
    with 1 have "48 + n = code (CHR ''0'')" using True by (metis code_digit_char list.sel(1))
    then show ?thesis by (simp add: code_def)
  next
    case False
    then have "str_of_nat n = str_of_nat (n div 10) @ [digit_char (n mod 10)]"
      by (subst str_of_nat.simps) simp
    with 1 False have "n div 10 = 0" by simp
    with False show ?thesis by simp
  qed
qed

lemma json_number_str_of_nat: "json_number (str_of_nat n) = Some (int n)"
proof (cases "hd (str_of_nat n) = CHR ''0''")
  case True
  then have "n = 0" by (rule str_of_nat_hd_zero)
  then show ?thesis by (subst str_of_nat.simps) (simp add: json_number_def nat_of_digits_def)
qed (simp add: json_number_def)

lemma digits_before:
  assumes "follows rest"
  shows "takeWhile is_digit (str_of_nat n @ rest) = str_of_nat n"
    and "dropWhile is_digit (str_of_nat n @ rest) = rest"
proof -
  have d: "\<forall>c \<in> set (str_of_nat n). is_digit c" by (simp add: str_of_nat_digits)
  have "rest = [] \<or> \<not> is_digit (hd rest)"
    using assms by (auto simp: follows_def is_digit_def code_def)
  then have "takeWhile is_digit rest = []" "dropWhile is_digit rest = rest"
    by (cases rest; simp)+
  with d show "takeWhile is_digit (str_of_nat n @ rest) = str_of_nat n"
    "dropWhile is_digit (str_of_nat n @ rest) = rest"
    by (simp_all add: takeWhile_append2 dropWhile_append2)
qed

lemma follows_number:
  "follows rest \<Longrightarrow> (rest \<noteq> [] \<and> hd rest \<in> {CHR ''.'', CHR ''e'', CHR ''E''}) = False"
  by (auto simp: follows_def)

lemma hd_str_of_nat_sign: "hd (str_of_nat n) \<noteq> CHR ''-''"
proof
  assume "hd (str_of_nat n) = CHR ''-''"
  then have "is_digit (CHR ''-'')"
    using str_of_nat_digits [of "CHR ''-''" n] by (metis hd_in_set str_of_nat_nonempty)
  then show False by (simp add: is_digit_def code_def)
qed

lemma parse_number_str_of_int:
  assumes "follows rest"
  shows "parse_number (str_of_int i @ rest) = Some (JInt i, rest)"
  using hd_str_of_nat_sign [of "nat i"]
  by (simp only: parse_number_def str_of_int_def Let_def if_True if_False
      digits_before [OF assms] follows_number [OF assms] json_number_str_of_nat
      split: if_split)
     (simp add: digits_before [OF assms] follows_number [OF assms, simplified]
      json_number_str_of_nat del: dropWhile_eq_Nil_conv)

lemma str_of_int_first: "\<exists>c cs. str_of_int i = c # cs \<and> (is_digit c \<or> c = CHR ''-'')"
proof (cases "i < 0")
  case False
  obtain c cs where c: "str_of_nat (nat i) = c # cs"
    by (cases "str_of_nat (nat i)") simp_all
  then have "is_digit c" using str_of_nat_digits [of c "nat i"] by simp
  with c False show ?thesis by (simp add: str_of_int_def)
qed (simp add: str_of_int_def)

lemma json_dumps_first:
  "\<exists>c cs. json_dumps j = c # cs \<and> \<not> json_space c \<and> c \<noteq> CHR '']'' \<and> c \<noteq> CHR ''}''"
proof (cases j)
  case (JInt i)
  then show ?thesis
    using str_of_int_first [of i] by (auto simp: json_space_def is_digit_def code_def)
qed (simp_all add: json_string_def json_space_def)

lemma skip_json_dumps [simp]: "skip (json_dumps j @ rest) = json_dumps j @ rest"
  using json_dumps_first [of j] by (auto simp: skip_def)

lemma skip_punctuation [simp]:
  "skip (CHR '','' # s) = CHR '','' # s" "skip (CHR '']'' # s) = CHR '']'' # s"
  "skip (CHR ''}'' # s) = CHR ''}'' # s" "skip (CHR '':'' # s) = CHR '':'' # s"
  "skip (CHR 0x22 # s) = CHR 0x22 # s" "skip (CHR '' '' # s) = skip s"
  by (simp_all add: skip_def json_space_def)

text \<open>The fuel a document needs.\<close>

fun fuel :: "json \<Rightarrow> nat" where
  "fuel (JArr xs) = Suc (foldr (\<lambda>x n. Suc (max (fuel x) n)) xs 0)"
| "fuel (JObj ms) = Suc (foldr (\<lambda>m n. Suc (max (fuel (snd m)) n)) ms 0)"
| "fuel _ = 1"

definition reads_back :: "json \<Rightarrow> bool" where
  "reads_back j \<longleftrightarrow>
     (\<forall>n rest. follows rest \<longrightarrow> fuel j \<le> n \<longrightarrow> parse_value n (json_dumps j @ rest) = Some (j, rest))"

lemma follows_simps [simp]:
  "follows []" "follows (CHR '','' # s)" "follows (CHR '']'' # s)" "follows (CHR ''}'' # s)"
  by (simp_all add: follows_def)

lemma parse_items_dumps:
  assumes "\<forall>x \<in> set xs. reads_back x" and "xs \<noteq> []"
    and "foldr (\<lambda>x n. Suc (max (fuel x) n)) xs 0 \<le> n"
  shows "parse_items n (str_join '', '' (map json_dumps xs) @ CHR '']'' # rest) = Some (xs, rest)"
  using assms
proof (induction xs arbitrary: n)
  case (Cons x xs)
  then obtain m where n: "n = Suc m" by (cases n) auto
  have x: "parse_value m (json_dumps x @ r) = Some (x, r)" if "follows r" for r
    using Cons.prems n that by (simp add: reads_back_def)
  show ?case
  proof (cases xs)
    case Nil
    then show ?thesis by (simp add: n x)
  next
    case (Cons y ys)
    then have rest: "parse_items m (str_join '', '' (map json_dumps xs) @ CHR '']'' # rest) = Some (xs, rest)"
      using Cons.IH [of m] Cons.prems n by auto
    have "skip (str_join '', '' (map json_dumps xs) @ t) = str_join '', '' (map json_dumps xs) @ t" for t
      by (cases ys) (simp_all add: Cons)
    with rest Cons show ?thesis by (simp add: n x)
  qed
qed simp

definition member_text :: "string \<times> json \<Rightarrow> string" where
  "member_text m = json_string (fst m) @ '': '' @ json_dumps (snd m)"

lemma parse_members_dumps:
  assumes "\<forall>m \<in> set ms. reads_back (snd m)" and "ms \<noteq> []"
    and "foldr (\<lambda>m n. Suc (max (fuel (snd m)) n)) ms 0 \<le> n"
  shows "parse_members n (str_join '', '' (map member_text ms) @ CHR ''}'' # rest) = Some (ms, rest)"
  using assms
proof (induction ms arbitrary: n)
  case (Cons m ms)
  obtain k x where m: "m = (k, x)" by fastforce
  from Cons.prems obtain i where n: "n = Suc i" by (cases n) auto
  have x: "parse_value i (json_dumps x @ r) = Some (x, r)" if "follows r" for r
    using Cons.prems n m that by (simp add: reads_back_def)
  have shape: "member_text (k, x) @ t =
      CHR 0x22 # concat (map json_escape k) @ CHR 0x22 # CHR '':'' # CHR '' '' # json_dumps x @ t" for t
    by (simp add: member_text_def json_string_def)
  show ?case
  proof (cases ms)
    case Nil
    then show ?thesis by (simp add: n x shape parse_chars_string m)
  next
    case (Cons m' ms')
    then have rest: "parse_members i (str_join '', '' (map member_text ms) @ CHR ''}'' # rest) = Some (ms, rest)"
      using Cons.IH [of i] Cons.prems n by auto
    have "skip (str_join '', '' (map member_text ms) @ t) = str_join '', '' (map member_text ms) @ t" for t
      by (cases ms') (simp_all add: Cons member_text_def json_string_def)
    with rest Cons show ?thesis by (simp add: n x shape parse_chars_string m)
  qed
qed simp

lemma reads_back_any: "reads_back j"
proof (induction j)
  case (JInt i)
  show ?case
    unfolding reads_back_def
  proof (intro allI impI)
    fix n rest assume "follows rest" and "fuel (JInt i) \<le> n"
    then obtain m where n: "n = Suc m" by (cases n) auto
    obtain c cs where c: "str_of_int i = c # cs" "is_digit c \<or> c = CHR ''-''"
      using str_of_int_first by blast
    then have "c \<noteq> CHR 0x22" "c \<noteq> CHR ''[''" "c \<noteq> CHR ''{''" "c \<noteq> CHR ''n''" "c \<noteq> CHR ''t''"
      "c \<noteq> CHR ''f''"
      by (auto simp: is_digit_def code_def)
    with c(1) n parse_number_str_of_int [OF \<open>follows rest\<close>, of i]
    show "parse_value n (json_dumps (JInt i) @ rest) = Some (JInt i, rest)"
      by simp
  qed
next
  case (JStr s)
  show ?case
    by (auto simp: reads_back_def json_string_def parse_chars_string gr0_conv_Suc Suc_le_eq)
next
  case (JArr xs)
  show ?case
    unfolding reads_back_def
  proof (intro allI impI)
    fix n rest assume "follows rest" and "fuel (JArr xs) \<le> n"
    then obtain m where n: "n = Suc m" "foldr (\<lambda>x n. Suc (max (fuel x) n)) xs 0 \<le> m"
      by (cases n) auto
    show "parse_value n (json_dumps (JArr xs) @ rest) = Some (JArr xs, rest)"
    proof (cases xs)
      case (Cons y ys)
      have items: "parse_items m (str_join '', '' (map json_dumps xs) @ CHR '']'' # rest) = Some (xs, rest)"
        using JArr n(2) Cons by (intro parse_items_dumps) auto
      obtain c cs where c: "str_join '', '' (map json_dumps xs) = c # cs" "\<not> json_space c" "c \<noteq> CHR '']''"
        using json_dumps_first [of y] Cons by (cases ys) auto
      with items n(1) show ?thesis by (simp add: skip_def)
    qed (simp add: n(1))
  qed
next
  case (JObj ms)
  show ?case
    unfolding reads_back_def
  proof (intro allI impI)
    fix n rest assume "follows rest" and "fuel (JObj ms) \<le> n"
    then obtain m where n: "n = Suc m" "foldr (\<lambda>m n. Suc (max (fuel (snd m)) n)) ms 0 \<le> m"
      by (cases n) auto
    have shape: "json_dumps (JObj ms) = CHR ''{'' # str_join '', '' (map member_text ms) @ ''}''"
      by (simp add: member_text_def [abs_def])
    show "parse_value n (json_dumps (JObj ms) @ rest) = Some (JObj ms, rest)"
    proof (cases ms)
      case (Cons y ys)
      have "\<forall>m \<in> set ms. reads_back (snd m)"
        using JObj by (metis prod.collapse snds.intros)
      then have members: "parse_members m (str_join '', '' (map member_text ms) @ CHR ''}'' # rest) = Some (ms, rest)"
        using n(2) Cons by (intro parse_members_dumps) auto
      obtain cs where c: "str_join '', '' (map member_text ms) = CHR 0x22 # cs"
        using Cons by (cases ys) (simp_all add: member_text_def json_string_def)
      with members n(1) show ?thesis by (simp add: shape del: json_dumps.simps)
    qed (simp add: n(1))
  qed
qed (auto simp: reads_back_def gr0_conv_Suc Suc_le_eq)

text \<open>The length of a document is enough fuel to read it.\<close>

lemma fuel_items_le:
  assumes "\<forall>x \<in> set xs. f x \<le> length (g x)" and "xs \<noteq> []"
  shows "foldr (\<lambda>x n. Suc (max (f x) n)) xs 0 \<le> Suc (length (str_join '', '' (map g xs)))"
  using assms
proof (induction xs)
  case (Cons x xs)
  show ?case
  proof (cases xs)
    case (Cons y ys)
    with Cons.IH Cons.prems have
      "foldr (\<lambda>x n. Suc (max (f x) n)) xs 0 \<le> Suc (length (str_join '', '' (map g xs)))" by auto
    moreover have "f x \<le> length (g x)" using Cons.prems by simp
    ultimately show ?thesis using Cons by simp
  qed (use Cons.prems in simp)
qed simp

lemma fuel_le: "fuel j \<le> length (json_dumps j)"
proof (induction j)
  case (JArr xs)
  then show ?case using fuel_items_le [of xs fuel json_dumps] by (cases xs) auto
next
  case (JObj ms)
  have "\<forall>m \<in> set ms. fuel (snd m) \<le> length (member_text m)"
    using JObj by (auto simp: member_text_def) (metis le_SucI snds.intros snd_conv trans_le_add2)
  then show ?case
    using fuel_items_le [of ms "\<lambda>m. fuel (snd m)" member_text]
    by (cases ms) (auto simp: member_text_def [abs_def])
next
  case (JInt i)
  then show ?case using str_of_int_first [of i] by auto
qed (simp_all add: json_string_def)

lemma json_loads_dumps: "json_loads (json_dumps j) = Some j"
proof -
  have "fuel j \<le> Suc (length (json_dumps j))" using fuel_le [of j] by simp
  then have "parse_value (Suc (length (json_dumps j))) (json_dumps j @ []) = Some (j, [])"
    using reads_back_any [of j] follows_simps(1) unfolding reads_back_def by blast
  moreover have "skip (json_dumps j) = json_dumps j"
    using skip_json_dumps [of j "[]"] by simp
  ultimately show ?thesis
    by (simp add: json_loads_def del: parse_value.simps) (simp add: skip_def)
qed

end
