(* ===== verification/Iso_Time.thy ===== *)
theory Iso_Time
  imports Entities
begin

text \<open>
  \<^verbatim>\<open>datetime.isoformat()\<close> and \<^verbatim>\<open>datetime.fromisoformat()\<close> of the standard library, on the proleptic
  Gregorian calendar from year 1 to 9999. An aware value is written in UTC. Of the many forms
  \<^verbatim>\<open>fromisoformat\<close> accepts, the one \<^verbatim>\<open>isoformat\<close> writes is read:
  \<^verbatim>\<open>YYYY-MM-DDTHH:MM:SS[.ffffff][(+|-)HH:MM]\<close>.
\<close>

section \<open>The calendar\<close>

definition leap :: "int \<Rightarrow> bool" where
  "leap y \<longleftrightarrow> y mod 4 = 0 \<and> (y mod 100 \<noteq> 0 \<or> y mod 400 = 0)"

definition year_len :: "int \<Rightarrow> int" where
  "year_len y = (if leap y then 366 else 365)"

definition month_len :: "int \<Rightarrow> int \<Rightarrow> int" where
  "month_len y m = (if m = 2 then (if leap y then 29 else 28)
                    else if m \<in> {4, 6, 9, 11} then 30 else 31)"

definition days_before_year :: "int \<Rightarrow> int" where
  "days_before_year y = (y - 1) * 365 + (y - 1) div 4 - (y - 1) div 100 + (y - 1) div 400"

definition months :: "int list" where
  "months = [1, 2, 3, 4, 5, 6, 7, 8, 9, 10, 11, 12]"

definition days_before_month :: "int \<Rightarrow> int \<Rightarrow> int" where
  "days_before_month y m =
     sum_list (map (month_len y) (filter (\<lambda>i. i < m) months))"

text \<open>Days since 0001-01-01.\<close>

definition days_of_date :: "int \<Rightarrow> int \<Rightarrow> int \<Rightarrow> int" where
  "days_of_date y m d = days_before_year y + days_before_month y m + (d - 1)"

function find_year :: "int \<Rightarrow> int \<Rightarrow> int \<times> int" where
  "find_year y r = (if r < year_len y then (y, r) else find_year (y + 1) (r - year_len y))"
  by pat_completeness auto
termination
  by (relation "measure (\<lambda>(y, r). nat r)") (auto simp: year_len_def split: if_splits)

declare find_year.simps [simp del]

fun find_month :: "int \<Rightarrow> int list \<Rightarrow> int \<Rightarrow> int \<times> int" where
  "find_month y [] r = (12, r)"
| "find_month y (m # ms) r =
     (if r < month_len y m then (m, r) else find_month y ms (r - month_len y m))"

definition date_of_days :: "int \<Rightarrow> int \<times> int \<times> int" where
  "date_of_days n =
     (let (y, r) = find_year (400 * (n div 146097) + 1) (n mod 146097);
          (m, r') = find_month y months r
      in (y, m, r' + 1))"

lemma div_pred:
  fixes y k :: int
  assumes "0 < k"
  shows "y div k = (y - 1) div k + (if k dvd y then 1 else 0)"
proof (cases "k dvd y")
  case True
  then obtain q where "y = k * q" by blast
  moreover have "(k * q - 1) div k = q - 1"
    using int_div_pos_eq [of "k * q - 1" k "q - 1" "k - 1"] assms by (simp add: algebra_simps)
  ultimately show ?thesis using assms by simp
next
  case False
  then have "0 < y mod k" using assms by (simp add: dvd_eq_mod_eq_0 order_less_le)
  moreover have "y mod k < k" using assms by simp
  ultimately have "(y - 1) div k = y div k"
    using int_div_pos_eq [of "y - 1" k "y div k" "y mod k - 1"] by (simp add: algebra_simps)
  with False show ?thesis by simp
qed

lemma leap_dvd: "leap y \<longleftrightarrow> 4 dvd y \<and> (\<not> 100 dvd y \<or> 400 dvd y)"
  by (simp add: leap_def dvd_eq_mod_eq_0)

lemma leap_days:
  "c \<longrightarrow> b \<Longrightarrow> b \<longrightarrow> a \<Longrightarrow> (if a \<and> (\<not> b \<or> c) then 366 else 365) =
     (365 + (if a then 1 else 0) - (if b then 1 else 0) + (if c then 1 else 0) :: int)"
  by (cases a; cases b; cases c) simp_all

lemma days_before_year_Suc: "days_before_year (y + 1) = days_before_year y + year_len y"
proof -
  have "400 dvd y \<longrightarrow> 100 dvd y"
    using dvd_trans [of 100 400 y] by simp
  moreover have "100 dvd y \<longrightarrow> 4 dvd y"
    using dvd_trans [of 4 100 y] by simp
  ultimately have "year_len y = 365 + (if 4 dvd y then 1 else 0) - (if 100 dvd y then 1 else 0) +
      (if 400 dvd y then 1 else 0)"
    unfolding year_len_def leap_dvd by (intro leap_days)
  moreover have "days_before_year (y + 1) = y * 365 + ((y - 1) div 4 + (if 4 dvd y then 1 else 0)) -
      ((y - 1) div 100 + (if 100 dvd y then 1 else 0)) + ((y - 1) div 400 + (if 400 dvd y then 1 else 0))"
    by (simp only: days_before_year_def add_diff_cancel_right' div_pred [of 4 y] div_pred [of 100 y]
        div_pred [of 400 y] zero_less_numeral)
  ultimately show ?thesis by (simp only: days_before_year_def) (simp only: algebra_simps)
qed

lemma find_year_spec:
  assumes "find_year y r = (y', r')" and "0 \<le> r"
  shows "days_before_year y' + r' = days_before_year y + r \<and> 0 \<le> r' \<and> r' < year_len y' \<and> y \<le> y'"
  using assms
proof (induction y r rule: find_year.induct)
  case (1 y r)
  show ?case
  proof (cases "r < year_len y")
    case True
    with 1(2,3) show ?thesis by (simp add: find_year.simps [of y r])
  next
    case False
    with 1(2) have "find_year (y + 1) (r - year_len y) = (y', r')"
      by (simp add: find_year.simps [of y r])
    from 1(1) [OF False this] False show ?thesis
      by (simp add: days_before_year_Suc)
  qed
qed

lemma days_before_year_400: "days_before_year (400 * q + 1) = 146097 * q"
  by (simp add: days_before_year_def)

lemma year_len_months:
  "year_len y = month_len y 1 + month_len y 2 + month_len y 3 + month_len y 4 + month_len y 5 +
     month_len y 6 + month_len y 7 + month_len y 8 + month_len y 9 + month_len y 10 +
     month_len y 11 + month_len y 12"
  by (simp add: month_len_def year_len_def)

lemma find_month_spec:
  assumes "0 \<le> r" and "r < year_len y"
    and "find_month y months r = (m, r')"
  shows "days_before_month y m + r' = r \<and> 0 \<le> r' \<and> r' < month_len y m \<and> 1 \<le> m \<and> m \<le> 12"
  using assms
  by (simp add: months_def year_len_months days_before_month_def split: if_splits)

lemma date_of_days_spec:
  assumes "date_of_days n = (y, m, d)"
  shows "days_of_date y m d = n" and "1 \<le> m" and "m \<le> 12" and "1 \<le> d" and "d \<le> month_len y m"
    and "400 * (n div 146097) + 1 \<le> y"
proof -
  obtain r where y: "find_year (400 * (n div 146097) + 1) (n mod 146097) = (y, r)"
    and m: "find_month y months r = (m, d - 1)"
    using assms by (auto simp: date_of_days_def Let_def split: prod.splits)
  have yr: "days_before_year y + r = n \<and> 0 \<le> r \<and> r < year_len y \<and> 400 * (n div 146097) + 1 \<le> y"
    using find_year_spec [OF y] by (simp add: days_before_year_400)
  then have "days_before_month y m + (d - 1) = r \<and> 0 \<le> d - 1 \<and> d - 1 < month_len y m \<and> 1 \<le> m \<and> m \<le> 12"
    using find_month_spec [OF _ _ m] by blast
  with yr show "days_of_date y m d = n" "1 \<le> m" "m \<le> 12" "1 \<le> d" "d \<le> month_len y m"
    "400 * (n div 146097) + 1 \<le> y"
    by (auto simp: days_of_date_def)
qed

lemma days_before_year_mono: "y \<le> z \<Longrightarrow> days_before_year y \<le> days_before_year z"
proof (induction "nat (z - y)" arbitrary: z)
  case (Suc k)
  then have "days_before_year y \<le> days_before_year (z - 1)" by simp
  also have "\<dots> \<le> days_before_year z"
    using days_before_year_Suc [of "z - 1"] by (simp add: year_len_def split: if_splits)
  finally show ?case .
qed simp

text \<open>The days a \<^verbatim>\<open>date\<close> can name: 0001-01-01 to 9999-12-31.\<close>

lemma date_year_range:
  assumes "date_of_days n = (y, m, d)" and "0 \<le> n" and "n < 3652059"
  shows "1 \<le> y" and "y \<le> 9999"
proof -
  have "0 \<le> n div 146097" using assms(2) by simp
  then show "1 \<le> y" using date_of_days_spec(6) [OF assms(1)] by linarith
  have "days_before_year y \<le> n"
  proof -
    obtain r where "find_year (400 * (n div 146097) + 1) (n mod 146097) = (y, r)"
      using assms(1) by (auto simp: date_of_days_def Let_def split: prod.splits)
    from find_year_spec [OF this] show ?thesis by (simp add: days_before_year_400)
  qed
  moreover have "days_before_year 10000 = 3652059" by (simp add: days_before_year_def)
  ultimately show "y \<le> 9999" using days_before_year_mono [of 10000 y] assms(3) by linarith
qed

section \<open>Fixed-width numbers\<close>

fun pad :: "nat \<Rightarrow> nat \<Rightarrow> string" where
  "pad 0 n = []"
| "pad (Suc k) n = pad k (n div 10) @ [digit_char (n mod 10)]"

fun fixed_val :: "nat \<Rightarrow> string \<Rightarrow> nat" where
  "fixed_val acc [] = acc"
| "fixed_val acc (c # cs) = fixed_val (10 * acc + digit_val c) cs"

definition parse_fixed :: "nat \<Rightarrow> string \<Rightarrow> (nat \<times> string) option" where
  "parse_fixed k s =
     (let ds = take k s
      in if length ds = k \<and> list_all is_digit ds then Some (fixed_val 0 ds, drop k s) else None)"

lemma length_pad [simp]: "length (pad k n) = k"
  by (induction k arbitrary: n) simp_all

lemma digits_pad: "list_all is_digit (pad k n)"
  by (induction k arbitrary: n) simp_all

lemma fixed_val_snoc: "fixed_val acc (s @ [c]) = 10 * fixed_val acc s + digit_val c"
  by (induction s arbitrary: acc) simp_all

lemma fixed_val_pad: "n < 10 ^ k \<Longrightarrow> fixed_val 0 (pad k n) = n"
proof (induction k arbitrary: n)
  case (Suc k)
  then have "n div 10 < 10 ^ k" by (simp add: less_mult_imp_div_less mult.commute)
  with Suc.IH show ?case by (simp add: fixed_val_snoc)
qed simp

lemma parse_fixed_pad [simp]: "n < 10 ^ k \<Longrightarrow> parse_fixed k (pad k n @ s) = Some (n, s)"
  by (simp add: parse_fixed_def digits_pad fixed_val_pad)

section \<open>ISO 8601\<close>

definition iso_clock :: "int \<Rightarrow> string" where
  "iso_clock t =
     (let (y, m, d) = date_of_days (t div 86400000000 + 719162);
          us = nat (t mod 86400000000);
          s = us div 1000000; frac = us mod 1000000
      in pad 4 (nat y) @ ''-'' @ pad 2 (nat m) @ ''-'' @ pad 2 (nat d) @ ''T'' @
         pad 2 (s div 3600) @ '':'' @ pad 2 (s div 60 mod 60) @ '':'' @ pad 2 (s mod 60) @
         (if frac = 0 then [] else ''.'' @ pad 6 frac))"

fun isoformat :: "datetime \<Rightarrow> string" where
  "isoformat (Aware t) = iso_clock t @ ''+00:00''"
| "isoformat (Naive t) = iso_clock t"

definition expect :: "char \<Rightarrow> string \<Rightarrow> string option" where
  "expect c s = (case s of [] \<Rightarrow> None | d # ds \<Rightarrow> if d = c then Some ds else None)"

text \<open>A number of \<open>k\<close> digits followed by the character \<open>c\<close>.\<close>

definition parse_until :: "nat \<Rightarrow> char \<Rightarrow> string \<Rightarrow> (nat \<times> string) option" where
  "parse_until k c s =
     (case parse_fixed k s of
        None \<Rightarrow> None
      | Some (n, r) \<Rightarrow> map_option (\<lambda>r'. (n, r')) (expect c r))"

definition parse_date :: "string \<Rightarrow> (int \<times> string) option" where
  "parse_date s =
     (case parse_until 4 (CHR ''-'') s of None \<Rightarrow> None | Some (y, r1) \<Rightarrow>
     (case parse_until 2 (CHR ''-'') r1 of None \<Rightarrow> None | Some (m, r2) \<Rightarrow>
     (case parse_until 2 (CHR ''T'') r2 of None \<Rightarrow> None | Some (d, r3) \<Rightarrow>
        if 1 \<le> y \<and> 1 \<le> m \<and> m \<le> 12 \<and> 1 \<le> d \<and> int d \<le> month_len (int y) (int m)
        then Some (days_of_date (int y) (int m) (int d), r3) else None)))"

definition parse_time :: "string \<Rightarrow> (int \<times> string) option" where
  "parse_time s =
     (case parse_until 2 (CHR '':'') s of None \<Rightarrow> None | Some (h, r1) \<Rightarrow>
     (case parse_until 2 (CHR '':'') r1 of None \<Rightarrow> None | Some (mi, r2) \<Rightarrow>
     (case parse_fixed 2 r2 of None \<Rightarrow> None | Some (sec, r3) \<Rightarrow>
        if h < 24 \<and> mi < 60 \<and> sec < 60 then
          (case expect (CHR ''.'') r3 of
             None \<Rightarrow> Some (int (3600 * h + 60 * mi + sec) * 1000000, r3)
           | Some r4 \<Rightarrow>
               (case parse_fixed 6 r4 of
                  None \<Rightarrow> None
                | Some (us, r5) \<Rightarrow> Some (int (3600 * h + 60 * mi + sec) * 1000000 + int us, r5)))
        else None)))"

definition parse_offset :: "string \<Rightarrow> int option" where
  "parse_offset s =
     (case parse_until 2 (CHR '':'') s of None \<Rightarrow> None | Some (h, r1) \<Rightarrow>
     (case parse_fixed 2 r1 of None \<Rightarrow> None | Some (mi, r2) \<Rightarrow>
        if r2 = [] \<and> h < 24 \<and> mi < 60 then Some (int (3600 * h + 60 * mi) * 1000000) else None))"

definition fromisoformat :: "string \<Rightarrow> datetime option" where
  "fromisoformat s =
     (case parse_date s of None \<Rightarrow> None | Some (days, r1) \<Rightarrow>
     (case parse_time r1 of None \<Rightarrow> None | Some (us, r2) \<Rightarrow>
        (let t = (days - 719162) * 86400000000 + us in
         case r2 of
           [] \<Rightarrow> Some (Naive t)
         | c # r3 \<Rightarrow>
             if c = CHR ''+'' then map_option (\<lambda>off. Aware (t - off)) (parse_offset r3)
             else if c = CHR ''-'' then map_option (\<lambda>off. Aware (t + off)) (parse_offset r3)
             else None)))"

text \<open>The instants a \<^verbatim>\<open>datetime\<close> can hold.\<close>

definition in_calendar :: "datetime \<Rightarrow> bool" where
  "in_calendar dt \<longleftrightarrow>
     0 \<le> as_utc dt div 86400000000 + 719162 \<and> as_utc dt div 86400000000 + 719162 < 3652059"

lemma expect_Cons [simp]: "expect c (d # s) = (if d = c then Some s else None)"
  by (simp add: expect_def)

lemma parse_until_pad [simp]: "n < 10 ^ k \<Longrightarrow> parse_until k c (pad k n @ c # s) = Some (n, s)"
  by (simp add: parse_until_def)

lemma parse_clock:
  assumes "0 \<le> t div 86400000000 + 719162" "t div 86400000000 + 719162 < 3652059"
    and "rest = [] \<or> hd rest \<noteq> CHR ''.''"
  obtains r where "parse_date (iso_clock t @ rest) = Some (t div 86400000000 + 719162, r)"
    and "parse_time r = Some (t mod 86400000000, rest)"
proof -
  obtain y m d where date: "date_of_days (t div 86400000000 + 719162) = (y, m, d)"
    by (metis prod_cases3)
  note spec = date_of_days_spec [OF date] and range = date_year_range [OF date assms(1,2)]
  have len: "month_len y m \<le> 31" by (simp add: month_len_def)
  have ints: "int (nat y) = y" "int (nat m) = m" "int (nat d) = d"
    and pos: "0 \<le> y" "0 \<le> m" "0 \<le> d"
    using spec range by simp_all
  have nats: "nat m \<le> 12" "Suc 0 \<le> nat m" "Suc 0 \<le> nat y" "Suc 0 \<le> nat d" "nat y < 10000"
    "nat m < 100" "nat d < 100"
    using spec range len by (simp_all add: Suc_le_eq nat_less_iff)
  define us where "us = nat (t mod 86400000000)"
  define s where "s = us div 1000000"
  define frac where "frac = us mod 1000000"
  have us: "us < 86400000000" "int us = t mod 86400000000" by (simp_all add: us_def nat_less_iff)
  have s: "s < 86400" using us(1) by (simp add: s_def less_mult_imp_div_less)
  have frac: "frac < 1000000" "us = s * 1000000 + frac" by (simp_all add: frac_def s_def)
  define clock where "clock = pad 2 (s div 3600) @ '':'' @ pad 2 (s div 60 mod 60) @ '':'' @
      pad 2 (s mod 60) @ (if frac = 0 then [] else ''.'' @ pad 6 frac) @ rest"
  have "parse_date (iso_clock t @ rest) = Some (t div 86400000000 + 719162, clock)"
    using nats spec(1,5) pos
    by (simp add: iso_clock_def date parse_date_def Let_def clock_def ints flip: us_def s_def frac_def)
  moreover have "parse_time clock = Some (t mod 86400000000, rest)"
  proof -
    have "s div 3600 = s div 60 div 60" by (simp add: div_mult2_eq [symmetric])
    then have "3600 * (s div 3600) + 60 * (s div 60 mod 60) + s mod 60 = s"
      using mult_div_mod_eq [of 60 "s div 60"] mult_div_mod_eq [of 60 s] by linarith
    moreover have "s div 3600 < 24" "s div 60 mod 60 < 60" "s mod 60 < 60"
      using s by (simp_all add: less_mult_imp_div_less)
    ultimately have hms: "s div 3600 < 24" "s div 60 mod 60 < 60" "s mod 60 < 60"
      "3600 * (s div 3600) + 60 * (s div 60 mod 60) + s mod 60 = s" by blast+
    have e: "expect (CHR ''.'') rest = None"
      using assms(3) by (cases rest) (auto simp: expect_def)
    have val: "int s * 1000000 + int frac = t mod 86400000000"
      using frac us(2) by simp
    show ?thesis
      using hms frac val e
      by (cases "frac = 0")
         (simp_all add: clock_def parse_time_def del: of_nat_add of_nat_mult)
  qed
  ultimately show thesis by (rule that)
qed

lemma fromisoformat_isoformat:
  assumes "in_calendar dt"
  shows "fromisoformat (isoformat dt) = Some dt"
proof (cases dt)
  case (Aware t)
  with assms have range: "0 \<le> t div 86400000000 + 719162" "t div 86400000000 + 719162 < 3652059"
    by (simp_all add: in_calendar_def)
  obtain r where "parse_date (iso_clock t @ ''+00:00'') = Some (t div 86400000000 + 719162, r)"
    "parse_time r = Some (t mod 86400000000, ''+00:00'')"
    by (rule parse_clock [OF range, of "''+00:00''"]) auto
  moreover have "parse_offset ''00:00'' = Some 0"
    by (simp add: parse_offset_def parse_until_def parse_fixed_def is_digit_def digit_val_def code_def)
  ultimately show ?thesis by (simp add: Aware fromisoformat_def Let_def)
next
  case (Naive t)
  with assms have range: "0 \<le> t div 86400000000 + 719162" "t div 86400000000 + 719162 < 3652059"
    by (simp_all add: in_calendar_def)
  obtain r where "parse_date (iso_clock t @ []) = Some (t div 86400000000 + 719162, r)"
    "parse_time r = Some (t mod 86400000000, [])"
    by (rule parse_clock [OF range, of "[]"]) auto
  then show ?thesis by (simp add: Naive fromisoformat_def Let_def)
qed

end
