(* ===== verification/User_Cache.thy ===== *)
theory User_Cache
  imports Repository_Laws Redis_Port Rate_Limit Json Iso_Time
begin

text \<open>
  The user cache: the codec of \<^verbatim>\<open>application/common/user_cache_codec.py\<close> (a user with roles and
  permissions as a JSON document), and the cache port with its two adapters (\<^verbatim>\<open>adapter/cache\<close>), the
  null cache that never holds anything and the Redis cache. The locale \<open>sound_cache\<close> states what
  the port promises: a key yields nothing, or the value last stored under it.

  \<open>user_loads\<close> refuses a document whose fields have other JSON types than the ones \<open>user_dumps\<close>
  writes; Python would build a \<^verbatim>\<open>User\<close> from it, but nothing else writes these keys.
\<close>

section \<open>The codec\<close>

definition user_cache_key :: "int \<Rightarrow> string" where
  "user_cache_key uid = ''auth:user:'' @ str_of_int uid"

fun opt_str :: "string option \<Rightarrow> json" where
  "opt_str None = JNull"
| "opt_str (Some s) = JStr s"

fun iso :: "datetime option \<Rightarrow> json" where
  "iso None = JNull"
| "iso (Some t) = JStr (isoformat t)"

definition permission_to_json :: "permission \<Rightarrow> json" where
  "permission_to_json p =
     JObj [(''id'', JInt (perm_id p)), (''resource'', JStr (perm_resource p)),
           (''action'', JStr (perm_action p)), (''description'', opt_str (perm_description p))]"

definition role_to_json :: "role \<Rightarrow> json" where
  "role_to_json r =
     JObj [(''id'', JInt (role_id r)), (''name'', JStr (role_name r)),
           (''description'', opt_str (role_description r)),
           (''permissions'', JArr (map permission_to_json (role_permissions r)))]"

definition user_to_json :: "user \<Rightarrow> json" where
  "user_to_json u =
     JObj [(''id'', JInt (user_id u)), (''email'', JStr (user_email u)),
           (''username'', JStr (user_username u)), (''password_hash'', JStr (user_password_hash u)),
           (''display_name'', opt_str (user_display_name u)), (''is_active'', JBool (user_is_active u)),
           (''is_superuser'', JBool (user_is_superuser u)),
           (''email_verified_at'', iso (user_email_verified_at u)),
           (''visitor_id'', opt_str (user_visitor_id u)), (''created_at'', iso (user_created_at u)),
           (''updated_at'', iso (user_updated_at u)), (''roles'', JArr (map role_to_json (user_roles u)))]"

definition user_dumps :: "user \<Rightarrow> string" where
  "user_dumps u = json_dumps (user_to_json u)"

subsection \<open>Reading\<close>

definition get_field :: "string \<Rightarrow> json \<Rightarrow> exn + json" where
  "get_field k j =
     (case j of JObj _ \<Rightarrow> some_or (KeyError k) (json_field k j) | _ \<Rightarrow> Inl (TypeError k))"

fun as_int :: "json \<Rightarrow> exn + int" where
  "as_int (JInt i) = Inr i"
| "as_int _ = Inl (TypeError ''int'')"

fun as_bool :: "json \<Rightarrow> exn + bool" where
  "as_bool (JBool b) = Inr b"
| "as_bool _ = Inl (TypeError ''bool'')"

fun as_str :: "json \<Rightarrow> exn + string" where
  "as_str (JStr s) = Inr s"
| "as_str _ = Inl (TypeError ''str'')"

fun as_opt_str :: "json \<Rightarrow> exn + string option" where
  "as_opt_str JNull = Inr None"
| "as_opt_str (JStr s) = Inr (Some s)"
| "as_opt_str _ = Inl (TypeError ''str'')"

fun as_opt_time :: "json \<Rightarrow> exn + datetime option" where
  "as_opt_time JNull = Inr None"
| "as_opt_time (JStr s) =
     (case fromisoformat s of
        None \<Rightarrow> Inl (ValueError ''Invalid isoformat string'')
      | Some t \<Rightarrow> Inr (Some t))"
| "as_opt_time _ = Inl (TypeError ''fromisoformat: argument must be str'')"

fun as_list :: "json \<Rightarrow> exn + json list" where
  "as_list (JArr xs) = Inr xs"
| "as_list _ = Inl (TypeError ''list'')"

definition permission_of_json :: "json \<Rightarrow> exn + permission" where
  "permission_of_json j =
     bindE (bindE (get_field ''id'' j) as_int) (\<lambda>pid.
     bindE (bindE (get_field ''resource'' j) as_str) (\<lambda>res.
     bindE (bindE (get_field ''action'' j) as_str) (\<lambda>act.
     bindE (bindE (get_field ''description'' j) as_opt_str) (\<lambda>descr.
     Inr \<lparr> perm_id = pid, perm_resource = res, perm_action = act, perm_description = descr \<rparr>))))"

definition role_of_json :: "json \<Rightarrow> exn + role" where
  "role_of_json j =
     bindE (bindE (get_field ''id'' j) as_int) (\<lambda>rid.
     bindE (bindE (get_field ''name'' j) as_str) (\<lambda>name.
     bindE (bindE (get_field ''description'' j) as_opt_str) (\<lambda>descr.
     bindE (bindE (bindE (get_field ''permissions'' j) as_list) (map_fallible permission_of_json)) (\<lambda>ps.
     Inr \<lparr> role_id = rid, role_name = name, role_description = descr, role_permissions = ps \<rparr>))))"

definition user_of_json :: "json \<Rightarrow> exn + user" where
  "user_of_json j =
     bindE (bindE (bindE (get_field ''roles'' j) as_list) (map_fallible role_of_json)) (\<lambda>roles.
     bindE (bindE (get_field ''visitor_id'' j) as_opt_str) (\<lambda>visitor.
     bindE (bindE (get_field ''id'' j) as_int) (\<lambda>uid.
     bindE (bindE (get_field ''email'' j) as_str) (\<lambda>email.
     bindE (bindE (get_field ''username'' j) as_str) (\<lambda>username.
     bindE (bindE (get_field ''password_hash'' j) as_str) (\<lambda>hash.
     bindE (bindE (get_field ''display_name'' j) as_opt_str) (\<lambda>display.
     bindE (bindE (get_field ''is_active'' j) as_bool) (\<lambda>active.
     bindE (bindE (get_field ''is_superuser'' j) as_bool) (\<lambda>super.
     bindE (bindE (get_field ''email_verified_at'' j) as_opt_time) (\<lambda>verified.
     bindE (bindE (get_field ''created_at'' j) as_opt_time) (\<lambda>created.
     bindE (bindE (get_field ''updated_at'' j) as_opt_time) (\<lambda>updated.
     Inr \<lparr> user_id = uid, user_email = email, user_username = username, user_password_hash = hash,
           user_display_name = display, user_is_active = active, user_is_superuser = super,
           user_email_verified_at = verified, user_visitor_id = visitor,
           user_created_at = created, user_updated_at = updated, user_roles = roles \<rparr>))))))))))))"

definition user_loads :: "string \<Rightarrow> exn + user" where
  "user_loads raw =
     (case json_loads raw of
        None \<Rightarrow> Inl (ValueError ''json'')
      | Some j \<Rightarrow> user_of_json j)"

subsection \<open>Round trip\<close>

text \<open>The timestamps of a user are dates a \<^verbatim>\<open>datetime\<close> can hold.\<close>

definition opt_in_calendar :: "datetime option \<Rightarrow> bool" where
  "opt_in_calendar t \<longleftrightarrow> (case t of None \<Rightarrow> True | Some x \<Rightarrow> in_calendar x)"

definition user_in_calendar :: "user \<Rightarrow> bool" where
  "user_in_calendar u \<longleftrightarrow>
     opt_in_calendar (user_email_verified_at u) \<and> opt_in_calendar (user_created_at u) \<and>
     opt_in_calendar (user_updated_at u)"

lemma as_opt_str_opt_str [simp]: "as_opt_str (opt_str s) = Inr s"
  by (cases s) simp_all

lemma as_opt_time_iso [simp]: "opt_in_calendar t \<Longrightarrow> as_opt_time (iso t) = Inr t"
  by (cases t) (simp_all add: opt_in_calendar_def fromisoformat_isoformat)

lemmas read_field = get_field_def json_field_def

lemma permission_of_to_json: "permission_of_json (permission_to_json p) = Inr p"
  by (simp add: permission_of_json_def permission_to_json_def read_field)

lemma role_of_to_json: "role_of_json (role_to_json r) = Inr r"
proof -
  have "map_fallible permission_of_json (map permission_to_json ps) = Inr ps" for ps
    by (induction ps) (simp_all add: permission_of_to_json)
  then show ?thesis by (simp add: role_of_json_def role_to_json_def read_field)
qed

lemma user_of_to_json:
  assumes "user_in_calendar u"
  shows "user_of_json (user_to_json u) = Inr u"
proof -
  have "map_fallible role_of_json (map role_to_json rs) = Inr rs" for rs
    by (induction rs) (simp_all add: role_of_to_json)
  then show ?thesis
    using assms by (simp add: user_of_json_def user_to_json_def read_field user_in_calendar_def)
qed

lemma user_loads_dumps: "user_in_calendar u \<Longrightarrow> user_loads (user_dumps u) = Inr u"
  by (simp add: user_loads_def user_dumps_def json_loads_dumps user_of_to_json)

text \<open>
  C39: The user cache is faithful. Reading back what was stored for a user, its roles, permissions and
  timestamps included, gives exactly that user, whatever characters its texts have.
\<close>
theorem user_codec_roundtrip: "user_in_calendar u \<Longrightarrow> user_loads (user_dumps u) = Inr u"
  by (rule user_loads_dumps)

definition cached_user :: user where
  "cached_user =
     \<lparr> user_id = 7, user_email = ''a@b.c'', user_username = [CHR ''q'', CHR 0x5C], user_password_hash = ''h'',
       user_display_name = Some [CHR 0x22, CHR 0xE9], user_is_active = True, user_is_superuser = False,
       user_email_verified_at = Some (Aware 1000000), user_visitor_id = None,
       user_created_at = Some (Aware 0), user_updated_at = Some (Aware 5),
       user_roles = [\<lparr> role_id = 1, role_name = ''r'', role_description = None,
         role_permissions = [\<lparr> perm_id = 2, perm_resource = ''users'', perm_action = ''ban'',
           perm_description = None \<rparr>] \<rparr>] \<rparr>"

lemma user_codec_roundtrip_witness: "user_loads (user_dumps cached_user) = Inr cached_user"
  by (rule user_codec_roundtrip)
    (simp add: cached_user_def user_in_calendar_def opt_in_calendar_def in_calendar_def)

lemma user_cache_key_inject [simp]: "user_cache_key i = user_cache_key j \<longleftrightarrow> i = j"
  by (simp add: user_cache_key_def)

text \<open>No key of the rate limiter is a key of the user cache.\<close>

lemma user_cache_key_not_limiter: "\<not> limiter_key (user_cache_key uid)"
  by (simp add: limiter_key_def user_cache_key_def str_startswith_def)

section \<open>The cache port\<close>

definition null_get :: "int \<Rightarrow> string \<Rightarrow> 's \<Rightarrow> string option" where
  "null_get t key s = None"

definition null_set :: "int \<Rightarrow> string \<Rightarrow> string \<Rightarrow> int \<Rightarrow> 's \<Rightarrow> 's" where
  "null_set t key value ttl s = s"

definition null_delete :: "int \<Rightarrow> string \<Rightarrow> 's \<Rightarrow> 's" where
  "null_delete t key s = s"

definition cache_get :: "'r env \<Rightarrow> config \<Rightarrow> string \<Rightarrow> ('r, string option) app" where
  "cache_get env c key =
     (if redis_backend c then
        bindM (redis_now env) (\<lambda>t. bindM (getsM redis) (\<lambda>r. retM (env_redis_get env t key r)))
      else bindM (getsM redis) (\<lambda>s. retM (null_get 0 key s)))"

definition cache_set :: "'r env \<Rightarrow> config \<Rightarrow> string \<Rightarrow> string \<Rightarrow> int \<Rightarrow> ('r, unit) app" where
  "cache_set env c key value ttl =
     (if redis_backend c then
        bindM (redis_now env) (\<lambda>t.
        modifyM (\<lambda>w. w\<lparr>redis := env_redis_set_ex env t key value ttl (redis w)\<rparr>))
      else modifyM (\<lambda>w. w\<lparr>redis := null_set 0 key value ttl (redis w)\<rparr>))"

definition cache_delete :: "'r env \<Rightarrow> config \<Rightarrow> string \<Rightarrow> ('r, unit) app" where
  "cache_delete env c key =
     (if redis_backend c then
        bindM (redis_now env) (\<lambda>t.
        modifyM (\<lambda>w. w\<lparr>redis := env_redis_delete env t key (redis w)\<rparr>))
      else modifyM (\<lambda>w. w\<lparr>redis := null_delete 0 key (redis w)\<rparr>))"

locale sound_cache =
  fixes get :: "int \<Rightarrow> string \<Rightarrow> 's \<Rightarrow> string option"
    and set_to :: "int \<Rightarrow> string \<Rightarrow> string \<Rightarrow> int \<Rightarrow> 's \<Rightarrow> 's"
    and delete :: "int \<Rightarrow> string \<Rightarrow> 's \<Rightarrow> 's"
  assumes get_set: "0 < ttl \<Longrightarrow> get u key (set_to t key v ttl s) \<in> {None, Some v}"
    and get_delete: "get u key (delete t key s) = None"
    and set_other: "0 < ttl \<Longrightarrow> other \<noteq> key \<Longrightarrow> get u other (set_to t key v ttl s) = get u other s"
    and delete_other: "other \<noteq> key \<Longrightarrow> get u other (delete t key s) = get u other s"
begin

text \<open>Every value a key can still yield at time \<open>x\<close> or later satisfies \<open>P\<close>.\<close>

definition holds_from :: "int \<Rightarrow> (string \<Rightarrow> bool) \<Rightarrow> string \<Rightarrow> 's \<Rightarrow> bool" where
  "holds_from x P key s \<longleftrightarrow> (\<forall>u v. x \<le> u \<longrightarrow> get u key s = Some v \<longrightarrow> P v)"

lemma holds_from_delete: "holds_from x P key (delete t key s)"
  by (simp add: holds_from_def get_delete)

lemma holds_from_set: "P v \<Longrightarrow> 0 < ttl \<Longrightarrow> holds_from x P key (set_to t key v ttl s)"
  using get_set [of ttl] unfolding holds_from_def by (metis empty_iff insert_iff option.inject option.simps(3))

lemma holds_from_other:
  "other \<noteq> key \<Longrightarrow> 0 < ttl \<Longrightarrow> holds_from x P other (set_to t key v ttl s) = holds_from x P other s"
  "other \<noteq> key \<Longrightarrow> holds_from x P other (delete t key s) = holds_from x P other s"
  by (simp_all add: holds_from_def set_other delete_other)

end

interpretation null_cache: sound_cache null_get null_set null_delete
  by unfold_locales (simp_all add: null_get_def null_set_def null_delete_def)

sublocale redis_server \<subseteq> cache: sound_cache "env_redis_get env" "env_redis_set_ex env" "env_redis_delete env"
  by unfold_locales (simp_all add: redis_behavesD [OF behaves] live_def)

text \<open>The writes of the user cache leave the rate limiter's counters alone.\<close>

lemma redis_good_cache:
  assumes "redis_behaves env view" and "redis_good view r"
  shows "0 < ttl \<Longrightarrow> redis_good view (env_redis_set_ex env t (user_cache_key uid) v ttl r)"
    and "redis_good view (env_redis_delete env t (user_cache_key uid) r)"
  using assms(2) user_cache_key_not_limiter
  by (auto simp: redis_good_def redis_behavesD [OF assms(1)])

lemma keeps_cache [keeps_rules]:
  "keeps (db_inv2 A I) (cache_get env c key)" "keeps (db_inv2 A I) (cache_set env c key v ttl)"
  "keeps (db_inv2 A I) (cache_delete env c key)"
  by (auto simp: cache_get_def cache_set_def cache_delete_def intro!: keeps_rules)

lemma uncommitted_cache [uncommitted_rules]:
  "uncommitted (cache_get env c key)" "uncommitted (cache_set env c key v ttl)"
  "uncommitted (cache_delete env c key)"
  by (auto simp: cache_get_def cache_set_def cache_delete_def intro!: uncommitted_rules)

end
