(* ===== verification/Security.thy ===== *)
theory Security
  imports User_Cache
begin

text \<open>
  The security adapters: password hashing (\<^verbatim>\<open>adapter/security/password_hasher.py\<close>,
  \<^verbatim>\<open>argon2_password_hasher.py\<close>), one-time secrets (\<^verbatim>\<open>one_time_token_service.py\<close>) and signed tokens
  (\<^verbatim>\<open>token_service.py\<close>). The primitives (PBKDF2, Argon2, SHA-256, JWT signing) are parameters of
  \<open>env\<close>; the formats around them, and which error each failure becomes, are modelled.
\<close>

section \<open>Bytes\<close>

fun utf8_char :: "char \<Rightarrow> byte list" where
  "utf8_char c =
     (if code c < 128 then [of_nat (code c)]
      else [of_nat (192 + code c div 64), of_nat (128 + code c mod 64)])"

definition utf8_encode :: "string \<Rightarrow> byte list" where
  "utf8_encode s = concat (map utf8_char s)"

definition hex_of_byte :: "byte \<Rightarrow> string" where
  "hex_of_byte b = [hex_digit (unat b div 16), hex_digit (unat b mod 16)]"

definition bytes_hex :: "byte list \<Rightarrow> string" where
  "bytes_hex bs = concat (map hex_of_byte bs)"

text \<open>\<^verbatim>\<open>bytes.fromhex\<close> skips ASCII blanks between bytes; \<open>None\<close> is its \<^verbatim>\<open>ValueError\<close>.\<close>

definition ascii_space :: "char \<Rightarrow> bool" where
  "ascii_space c \<longleftrightarrow> (9 \<le> code c \<and> code c \<le> 13) \<or> code c = 32"

fun fromhex :: "string \<Rightarrow> byte list option" where
  "fromhex [] = Some []"
| "fromhex (c # cs) =
     (if ascii_space c then fromhex cs
      else
        (case cs of
           [] \<Rightarrow> None
         | d # ds \<Rightarrow>
             (case (hex_val c, hex_val d) of
                (Some a, Some b) \<Rightarrow> map_option ((#) (of_nat (16 * a + b))) (fromhex ds)
              | _ \<Rightarrow> None)))"

lemma ascii_space_hex_digit: "n < 16 \<Longrightarrow> \<not> ascii_space (hex_digit n)"
  by (auto simp: ascii_space_def hex_digit_def)

lemma unat_byte_less: "unat (b :: byte) < 256"
  using unsigned_less [of b, where 'a = nat] by simp

lemma fromhex_bytes_hex: "fromhex (bytes_hex bs) = Some bs"
proof (induction bs)
  case (Cons b bs)
  have "unat b div 16 < 16" "unat b mod 16 < 16"
    using unat_byte_less [of b] by linarith+
  with Cons show ?case
    by (simp add: bytes_hex_def hex_of_byte_def ascii_space_hex_digit)
qed (simp add: bytes_hex_def)

lemma hex_digit_not_dollar: "n < 16 \<Longrightarrow> hex_digit n \<noteq> CHR ''$''"
proof
  assume "n < 16" "hex_digit n = CHR ''$''"
  then have "code (hex_digit n) = 36" by (simp add: code_def)
  with \<open>n < 16\<close> show False by (auto simp: hex_digit_def split: if_splits)
qed

lemma bytes_hex_no_dollar: "CHR ''$'' \<notin> set (bytes_hex bs)"
proof -
  have "hex_digit (unat b div 16) \<noteq> CHR ''$''" "hex_digit (unat b mod 16) \<noteq> CHR ''$''" for b :: byte
    using unat_byte_less [of b] by (intro hex_digit_not_dollar; linarith)+
  then show ?thesis by (auto simp: bytes_hex_def hex_of_byte_def) metis+
qed

section \<open>PBKDF2\<close>

definition pbkdf2_algorithm :: string where
  "pbkdf2_algorithm = ''pbkdf2_sha256''"

definition pbkdf2_iterations :: int where
  "pbkdf2_iterations = 390000"

definition pbkdf2_salt_bytes :: nat where
  "pbkdf2_salt_bytes = 16"

definition pbkdf2_derive :: "'r env \<Rightarrow> string \<Rightarrow> byte list \<Rightarrow> int \<Rightarrow> exn + byte list" where
  "pbkdf2_derive env password salt iterations =
     (if iterations < 1 then Inl (ValueError ''iteration value must be greater than 0.'')
      else Inr (env_pbkdf2_sha256 env (utf8_encode password) salt iterations))"

definition pbkdf2_hash_at :: "'r env \<Rightarrow> nat \<Rightarrow> string \<Rightarrow> exn + string" where
  "pbkdf2_hash_at env n password =
     (let salt = env_urandom env n pbkdf2_salt_bytes
      in bindE (pbkdf2_derive env password salt pbkdf2_iterations) (\<lambda>digest.
         Inr (pbkdf2_algorithm @ ''$'' @ str_of_int pbkdf2_iterations @ ''$'' @ bytes_hex salt @ ''$'' @
              bytes_hex digest)))"

definition pbkdf2_verify :: "'r env \<Rightarrow> string \<Rightarrow> string \<Rightarrow> exn + bool" where
  "pbkdf2_verify env password password_hash =
     (case str_split (CHR ''$'') password_hash of
        [algorithm, iterations, salt_hex, digest_hex] \<Rightarrow>
          if algorithm \<noteq> pbkdf2_algorithm then Inr False
          else
            bindE (some_or (ValueError ''non-hexadecimal number found in fromhex() arg'') (fromhex salt_hex)) (\<lambda>salt.
            bindE (some_or (ValueError ''non-hexadecimal number found in fromhex() arg'') (fromhex digest_hex)) (\<lambda>expected.
            bindE (some_or (ValueError ''invalid literal for int()'') (int_of_str iterations)) (\<lambda>n.
            bindE (pbkdf2_derive env password salt n) (\<lambda>actual. Inr (actual = expected)))))
      | _ \<Rightarrow> Inr False)"

section \<open>Argon2\<close>

definition argon2_verify :: "'r env \<Rightarrow> string \<Rightarrow> string \<Rightarrow> exn + bool" where
  "argon2_verify env password password_hash =
     (case env_argon2_verify env password_hash password of
        Inl VerifyMismatchError \<Rightarrow> Inr False
      | Inl VerificationError \<Rightarrow> Inr False
      | Inl InvalidHashError \<Rightarrow> Inr False
      | Inr b \<Rightarrow> Inr b)"

definition argon2_hash_at :: "'r env \<Rightarrow> nat \<Rightarrow> string \<Rightarrow> exn + string" where
  "argon2_hash_at env n password = Inr (env_argon2_hash env n password)"

section \<open>The password hasher port\<close>

definition hash_at :: "'r env \<Rightarrow> config \<Rightarrow> nat \<Rightarrow> string \<Rightarrow> exn + string" where
  "hash_at env c =
     (if cfg_PASSWORD_HASHER c = ''pbkdf2'' then pbkdf2_hash_at env else argon2_hash_at env)"

definition hasher_hash :: "'r env \<Rightarrow> config \<Rightarrow> string \<Rightarrow> ('r, string) app" where
  "hasher_hash env c password =
     bindM (draw (\<lambda>n. hash_at env c n password)) liftM"

definition hasher_verify :: "'r env \<Rightarrow> config \<Rightarrow> string \<Rightarrow> string \<Rightarrow> exn + bool" where
  "hasher_verify env c password password_hash =
     (if cfg_PASSWORD_HASHER c = ''pbkdf2'' then pbkdf2_verify env password password_hash
      else argon2_verify env password password_hash)"

text \<open>What the port promises: a password verifies against each of its hashes.\<close>

locale password_hasher =
  fixes hash :: "nat \<Rightarrow> string \<Rightarrow> exn + string"
    and verify :: "string \<Rightarrow> string \<Rightarrow> exn + bool"
  assumes hash_total: "\<exists>h. hash n password = Inr h"
    and verify_hash: "hash n password = Inr h \<Longrightarrow> verify password h = Inr True"
begin

lemma verify_own_hash: "bindE (hash n password) (verify password) = Inr True"
  using hash_total [of n password] verify_hash by fastforce

end

lemma str_split_no_sep: "sep \<notin> set s \<Longrightarrow> str_split sep s = [s]"
  by (induction s) auto

lemma str_split_append: "sep \<notin> set s \<Longrightarrow> str_split sep (s @ sep # t) = s # str_split sep t"
  by (induction s) auto

lemma pbkdf2_hash_split:
  assumes "pbkdf2_hash_at env n password = Inr h"
  shows "str_split (CHR ''$'') h =
     [pbkdf2_algorithm, str_of_int pbkdf2_iterations, bytes_hex (env_urandom env n pbkdf2_salt_bytes),
      bytes_hex (env_pbkdf2_sha256 env (utf8_encode password) (env_urandom env n pbkdf2_salt_bytes)
        pbkdf2_iterations)]"
proof -
  have "CHR ''$'' \<notin> set (str_of_int pbkdf2_iterations)"
  proof
    assume "CHR ''$'' \<in> set (str_of_int pbkdf2_iterations)"
    then have "CHR ''$'' \<in> set (str_of_nat 390000)"
      by (simp add: str_of_int_def pbkdf2_iterations_def)
    then have "is_digit (CHR ''$'')" by (rule str_of_nat_digits)
    then show False by (simp add: is_digit_def code_def)
  qed
  moreover have "CHR ''$'' \<notin> set pbkdf2_algorithm" by (simp add: pbkdf2_algorithm_def)
  moreover have "h = pbkdf2_algorithm @ CHR ''$'' # str_of_int pbkdf2_iterations @ CHR ''$'' #
      bytes_hex (env_urandom env n pbkdf2_salt_bytes) @ CHR ''$'' #
      bytes_hex (env_pbkdf2_sha256 env (utf8_encode password) (env_urandom env n pbkdf2_salt_bytes)
        pbkdf2_iterations)"
    using assms by (simp add: pbkdf2_hash_at_def pbkdf2_derive_def pbkdf2_iterations_def Let_def)
  ultimately show ?thesis
    by (simp add: str_split_append str_split_no_sep bytes_hex_no_dollar)
qed

text \<open>A password verifies against a stored hash exactly when it derives the same key.\<close>

lemma pbkdf2_verify_iff:
  assumes "pbkdf2_hash_at env n password = Inr h"
  shows "pbkdf2_verify env attempt h = Inr
           (let salt = env_urandom env n pbkdf2_salt_bytes
            in env_pbkdf2_sha256 env (utf8_encode attempt) salt pbkdf2_iterations =
               env_pbkdf2_sha256 env (utf8_encode password) salt pbkdf2_iterations)"
  by (simp add: pbkdf2_verify_def pbkdf2_hash_split [OF assms] fromhex_bytes_hex pbkdf2_derive_def Let_def)
     (simp add: pbkdf2_iterations_def)

interpretation pbkdf2: password_hasher "pbkdf2_hash_at env" "pbkdf2_verify env" for env
proof
  show "\<exists>h. pbkdf2_hash_at env n password = Inr h" for n password
    by (simp add: pbkdf2_hash_at_def pbkdf2_derive_def pbkdf2_iterations_def Let_def)
qed (simp add: pbkdf2_verify_iff)

text \<open>Two stored hashes of one password have the same salt only if the random source repeats.\<close>

lemma bytes_hex_inject [simp]: "bytes_hex a = bytes_hex b \<longleftrightarrow> a = b"
  by (metis fromhex_bytes_hex option.inject)

section \<open>One-time secrets\<close>

record generated_secret =
  gs_plain :: string
  gs_hashed :: string

definition one_time_hash :: "'r env \<Rightarrow> string \<Rightarrow> string" where
  "one_time_hash env secret = bytes_hex (env_sha256 env (utf8_encode secret))"

definition one_time_generate :: "'r env \<Rightarrow> ('r, generated_secret) app" where
  "one_time_generate env =
     bindM (draw (\<lambda>n. env_token_urlsafe env n 32)) (\<lambda>plain.
     retM \<lparr> gs_plain = plain, gs_hashed = one_time_hash env plain \<rparr>)"

section \<open>Signed tokens\<close>

record issued_token =
  it_token :: string
  it_jti :: string
  it_expires_at :: datetime

record token_payload =
  tp_user_id :: int
  tp_jti :: string
  tp_token_type :: string
  tp_expires_at :: datetime

definition token_claims :: "int \<Rightarrow> string \<Rightarrow> string \<Rightarrow> int \<Rightarrow> claims" where
  "token_claims uid jti token_type expires_at =
     [(''sub'', CStr (str_of_int uid)), (''jti'', CStr jti), (''type'', CStr token_type),
      (''exp'', CInt (whole_seconds expires_at))]"

definition issue_at :: "'r env \<Rightarrow> config \<Rightarrow> int \<Rightarrow> int \<Rightarrow> string \<Rightarrow> string \<Rightarrow> int \<Rightarrow> issued_token" where
  "issue_at env c now uid jti token_type mins =
     (let expires_at = now + minutes mins
      in \<lparr> it_token = env_jwt_encode env (token_claims uid jti token_type expires_at)
                        (cfg_JWT_SECRET c) (cfg_JWT_ALGORITHM c),
           it_jti = jti, it_expires_at = Aware expires_at \<rparr>)"

definition issue_access :: "'r env \<Rightarrow> config \<Rightarrow> int \<Rightarrow> string \<Rightarrow> ('r, issued_token) app" where
  "issue_access env c uid jti =
     bindM (utc_now env) (\<lambda>now.
     retM (issue_at env c now uid jti ''access'' (cfg_ACCESS_TOKEN_EXPIRE_MINUTES c)))"

definition issue_refresh :: "'r env \<Rightarrow> config \<Rightarrow> int \<Rightarrow> string \<Rightarrow> ('r, issued_token) app" where
  "issue_refresh env c uid jti =
     bindM (utc_now env) (\<lambda>now.
     retM (issue_at env c now uid jti ''refresh'' (cfg_REFRESH_TOKEN_EXPIRE_MINUTES c)))"

text \<open>\<^verbatim>\<open>int(value)\<close>, \<^verbatim>\<open>str(value)\<close> of a claim and \<^verbatim>\<open>datetime.fromtimestamp\<close>; \<open>None\<close> is a \<^verbatim>\<open>ValueError\<close>.\<close>

fun claim_int :: "claim_value \<Rightarrow> int option" where
  "claim_int (CInt i) = Some i"
| "claim_int (CStr s) = int_of_str s"

fun claim_str :: "claim_value \<Rightarrow> string" where
  "claim_str (CInt i) = str_of_int i"
| "claim_str (CStr s) = s"

definition fromtimestamp :: "int \<Rightarrow> datetime option" where
  "fromtimestamp s = (if in_calendar (Aware (seconds s)) then Some (Aware (seconds s)) else None)"

definition payload_of_claims :: "claims \<Rightarrow> token_payload option" where
  "payload_of_claims claims =
     (case map_of claims ''sub'' of None \<Rightarrow> None | Some sub \<Rightarrow>
     (case claim_int sub of None \<Rightarrow> None | Some uid \<Rightarrow>
     (case map_of claims ''jti'' of None \<Rightarrow> None | Some jti \<Rightarrow>
     (case map_of claims ''type'' of None \<Rightarrow> None | Some typ \<Rightarrow>
     (case map_of claims ''exp'' of None \<Rightarrow> None | Some ex \<Rightarrow>
     (case claim_int ex of None \<Rightarrow> None | Some s \<Rightarrow>
     (case fromtimestamp s of None \<Rightarrow> None | Some t \<Rightarrow>
        Some \<lparr> tp_user_id = uid, tp_jti = claim_str jti, tp_token_type = claim_str typ,
               tp_expires_at = t \<rparr>)))))))"

definition decode_at :: "'r env \<Rightarrow> config \<Rightarrow> int \<Rightarrow> string \<Rightarrow> exn + token_payload" where
  "decode_at env c now token =
     (case env_jwt_decode env token (cfg_JWT_SECRET c) (cfg_JWT_ALGORITHM c) now of
        Inl ExpiredSignatureError \<Rightarrow> Inl (AuthenticationError ''Token has expired'')
      | Inl InvalidJwtError \<Rightarrow> Inl (AuthenticationError ''Invalid token'')
      | Inr claims \<Rightarrow>
          some_or (AuthenticationError ''Malformed token payload'') (payload_of_claims claims))"

definition decode_token :: "'r env \<Rightarrow> config \<Rightarrow> string \<Rightarrow> ('r, token_payload) app" where
  "decode_token env c token = bindM (utc_now env) (\<lambda>now. liftM (decode_at env c now token))"

text \<open>
  What PyJWT documents: a token it encoded is decoded with the same secret and algorithm to the
  same claims, unless its expiry is not in the future.
\<close>

definition jwt_behaves :: "'r env \<Rightarrow> bool" where
  "jwt_behaves env \<longleftrightarrow>
     (\<forall>claims secret alg now e. map_of claims ''exp'' = Some (CInt e) \<longrightarrow>
        env_jwt_decode env (env_jwt_encode env claims secret alg) secret alg now =
          (if seconds e \<le> now then Inl ExpiredSignatureError else Inr claims))"

lemma claims_exp: "map_of (token_claims uid jti typ t) ''exp'' = Some (CInt (whole_seconds t))"
  by (simp add: token_claims_def)

lemma payload_of_token_claims:
  assumes "in_calendar (Aware (seconds (whole_seconds t)))"
  shows "payload_of_claims (token_claims uid jti typ t) = Some
           \<lparr> tp_user_id = uid, tp_jti = jti, tp_token_type = typ,
             tp_expires_at = Aware (seconds (whole_seconds t)) \<rparr>"
  using assms by (simp add: payload_of_claims_def token_claims_def fromtimestamp_def)

lemma decode_issued:
  assumes "jwt_behaves env"
    and "in_calendar (Aware (seconds (whole_seconds (now + minutes mins))))"
  shows "decode_at env c later (it_token (issue_at env c now uid jti typ mins)) =
           (if seconds (whole_seconds (now + minutes mins)) \<le> later
            then Inl (AuthenticationError ''Token has expired'')
            else Inr \<lparr> tp_user_id = uid, tp_jti = jti, tp_token_type = typ,
                       tp_expires_at = Aware (seconds (whole_seconds (now + minutes mins))) \<rparr>)"
  using assms claims_exp [of uid jti _ "now + minutes mins"]
  by (simp add: decode_at_def issue_at_def Let_def jwt_behaves_def payload_of_token_claims)

lemma decode_at_error: "decode_at env c now token = Inl e \<Longrightarrow> \<exists>m. e = AuthenticationError m"
  by (auto simp: decode_at_def some_or_def split: sum.splits jwt_error.splits option.splits)

section \<open>The security ports and the database\<close>

lemma keeps_security [keeps_rules]:
  "keeps (db_inv2 A I) (hasher_hash env c pw)" "keeps (db_inv2 A I) (one_time_generate env)"
  "keeps (db_inv2 A I) (issue_access env c uid jti)" "keeps (db_inv2 A I) (issue_refresh env c uid jti)"
  "keeps (db_inv2 A I) (decode_token env c token)"
  by (auto simp: hasher_hash_def one_time_generate_def issue_access_def issue_refresh_def
      decode_token_def intro!: keeps_rules)

lemma uncommitted_security [uncommitted_rules]:
  "uncommitted (hasher_hash env c pw)" "uncommitted (one_time_generate env)"
  "uncommitted (issue_access env c uid jti)" "uncommitted (issue_refresh env c uid jti)"
  "uncommitted (decode_token env c token)"
  by (auto simp: hasher_hash_def one_time_generate_def issue_access_def issue_refresh_def
      decode_token_def intro!: uncommitted_rules)

end
