(* ===== verification/Mailing.thy ===== *)
theory Mailing
  imports Security
begin

text \<open>
  The helpers the use cases share: writing an audit row inside the caller's transaction
  (\<^verbatim>\<open>application/common/audit.py\<close>), handing a message to the email sender (\<^verbatim>\<open>adapter/email\<close>), and the
  issuing and mailing of email verification links
  (\<^verbatim>\<open>application/auth/services/email_verification_issuer.py\<close>).

  Neither sender raises: the console sender logs the message, the SMTP sender logs a delivery
  failure. \<open>outbox\<close> lists the messages handed over, whatever became of them.
\<close>

definition newline :: string where
  "newline = [CHR 0x0A]"

section \<open>Audit\<close>

definition audit_record ::
  "'r env \<Rightarrow> audit_action \<Rightarrow> int option \<Rightarrow> device_info option \<Rightarrow> (string \<times> meta_value) list \<Rightarrow> ('r, unit) app"
  where
  "audit_record env action uid device metadata =
     (let dev = device_or_default device in
      bindM (utc_now env) (\<lambda>now.
      bindM (audit_log_add
               \<lparr> ev_id = 0, ev_action = action, ev_created_at = Aware now, ev_user_id = uid,
                 ev_ip_address = dev_ip_address dev, ev_user_agent = dev_user_agent dev,
                 ev_metadata = metadata \<rparr>) (\<lambda>_. retM ())))"

fun meta_opt :: "string option \<Rightarrow> meta_value" where
  "meta_opt None = MNone"
| "meta_opt (Some s) = MStr s"

section \<open>Email\<close>

definition send_email :: "email_message \<Rightarrow> ('r, unit) app" where
  "send_email m = modifyM (\<lambda>w. w\<lparr>outbox := outbox w @ [m]\<rparr>)"

definition format_token :: "string \<Rightarrow> string \<Rightarrow> exn + string" where
  "format_token template secret =
     some_or (ValueError ''str.format'') (str_format_token template secret)"

section \<open>Email verification links\<close>

definition verification_token :: "'r env \<Rightarrow> config \<Rightarrow> int \<Rightarrow> generated_secret \<Rightarrow> int \<Rightarrow> security_token" where
  "verification_token env c uid secret now =
     \<lparr> tok_id = 0, tok_user_id = uid, tok_purpose = EMAIL_VERIFICATION,
       tok_token_hash = gs_hashed secret, tok_created_at = Aware now,
       tok_expires_at = Aware (now + hours (cfg_EMAIL_VERIFICATION_TTL_HOURS c)),
       tok_used_at = None \<rparr>"

definition verification_issue :: "'r env \<Rightarrow> config \<Rightarrow> int \<Rightarrow> ('r, string) app" where
  "verification_issue env c uid =
     seqM (tokens_invalidate_for_user env uid EMAIL_VERIFICATION)
     (bindM (one_time_generate env) (\<lambda>secret.
      bindM (utc_now env) (\<lambda>now.
      bindM (tokens_add (verification_token env c uid secret now)) (\<lambda>_.
      retM (gs_plain secret)))))"

definition verification_send :: "config \<Rightarrow> string \<Rightarrow> string \<Rightarrow> ('r, unit) app" where
  "verification_send c email secret =
     bindM (liftM (format_token (cfg_EMAIL_VERIFICATION_URL c) secret)) (\<lambda>link.
     send_email
       \<lparr> em_to = email, em_subject = ''Confirm your email address'',
         em_body = ''Confirm your email address to finish setting up your account:'' @
           newline @ newline @ link @ newline @ newline @ ''The link expires in '' @
           str_of_int (cfg_EMAIL_VERIFICATION_TTL_HOURS c) @ '' hours.'' \<rparr>)"

section \<open>What the helpers keep\<close>

lemma keeps_audit_record [keeps_rules]:
  "db_closed K I \<Longrightarrow> AddAudit \<in> K \<Longrightarrow> keeps (db_inv2 A I) (audit_record env action uid device metadata)"
  by (auto simp: audit_record_def Let_def intro!: keeps_rules)

lemma keeps_send [keeps_rules]:
  "keeps (db_inv2 A I) (send_email m)" "keeps (db_inv2 A I) (verification_send c email secret)"
  by (auto simp: send_email_def verification_send_def intro!: keeps_rules)

lemma keeps_verification_issue [keeps_rules]:
  "db_closed K I \<Longrightarrow> SpendTokens \<in> K \<Longrightarrow> AddToken \<in> K \<Longrightarrow>
     keeps (db_inv2 A I) (verification_issue env c uid)"
  by (auto simp: verification_issue_def intro!: keeps_rules)

lemma uncommitted_helpers [uncommitted_rules]:
  "uncommitted (audit_record env action who device metadata)" "uncommitted (send_email m)"
  "uncommitted (verification_issue env c uid)" "uncommitted (verification_send c email secret)"
  by (auto simp: audit_record_def send_email_def verification_issue_def verification_send_def Let_def
      intro!: uncommitted_rules)

end
