(* ===== verification/Sessions_UC.thy ===== *)
theory Sessions_UC
  imports Mailing
begin

text \<open>
  The use cases around a login session (\<^verbatim>\<open>application/auth/usecases\<close>): logging in, exchanging a
  refresh token, resolving the user behind an access token, and logging out.
\<close>

section \<open>Login\<close>

definition login_ip_key :: "string \<Rightarrow> string" where
  "login_ip_key ip = ''login:ip:'' @ ip"

definition account_key :: "string \<Rightarrow> string" where
  "account_key email = ''login:user:'' @ email"

definition login_guard_ip :: "'r env \<Rightarrow> config \<Rightarrow> device_info \<Rightarrow> ('r, unit) app" where
  "login_guard_ip env c device =
     (case dev_ip_address device of
        None \<Rightarrow> retM ()
      | Some ip \<Rightarrow>
          if \<not> is_enforced (login_ip_policy c) then retM ()
          else
            bindM (limiter_peek env c (login_ip_key ip) (rlp_limit (login_ip_policy c))) (\<lambda>d.
            whenM (\<not> rld_allowed d)
              (raiseM (RateLimitedError (rld_retry_after_seconds d)
                 ''Too many login attempts from this address''))))"

definition login_guard_account :: "'r env \<Rightarrow> config \<Rightarrow> string \<Rightarrow> ('r, unit) app" where
  "login_guard_account env c email =
     (if \<not> is_enforced (login_account_policy c) then retM ()
      else
        bindM (limiter_peek env c (account_key email) (rlp_limit (login_account_policy c))) (\<lambda>d.
        whenM (\<not> rld_allowed d) (raiseM (AccountLockedError (rld_retry_after_seconds d)))))"

definition charge :: "'r env \<Rightarrow> config \<Rightarrow> string \<Rightarrow> rate_limit_policy \<Rightarrow> ('r, unit) app" where
  "charge env c key policy =
     bindM (limiter_hit env c key (rlp_limit policy) (rlp_window_seconds policy)) (\<lambda>_. retM ())"

definition login_count_failure :: "'r env \<Rightarrow> config \<Rightarrow> string \<Rightarrow> device_info \<Rightarrow> ('r, unit) app" where
  "login_count_failure env c email device =
     seqM (case dev_ip_address device of
             None \<Rightarrow> retM ()
           | Some ip \<Rightarrow>
               whenM (is_enforced (login_ip_policy c)) (charge env c (login_ip_key ip) (login_ip_policy c)))
       (whenM (is_enforced (login_account_policy c))
          (charge env c (account_key email) (login_account_policy c)))"

definition credentials_valid :: "'r env \<Rightarrow> config \<Rightarrow> string \<Rightarrow> user option \<Rightarrow> exn + bool" where
  "credentials_valid env c password user =
     (case user of
        None \<Rightarrow> Inr False
      | Some u \<Rightarrow>
          if user_is_active u then hasher_verify env c password (user_password_hash u) else Inr False)"

definition login_failure_reason :: "user option \<Rightarrow> string" where
  "login_failure_reason user =
     (case user of
        None \<Rightarrow> ''unknown_account''
      | Some u \<Rightarrow> if \<not> user_is_active u then ''inactive'' else ''bad_password'')"

definition login_reject ::
  "'r env \<Rightarrow> config \<Rightarrow> string \<Rightarrow> device_info \<Rightarrow> user option \<Rightarrow> ('r, 'a) app" where
  "login_reject env c email device user =
     seqM (login_count_failure env c email device)
     (seqM (audit_record env LOGIN_FAILED (map_option user_id user) (Some device)
              [(''email'', MStr email), (''reason'', MStr (login_failure_reason user))])
     (seqM commit (raiseM invalid_credentials)))"

definition login_session :: "user \<Rightarrow> string \<Rightarrow> int \<Rightarrow> issued_token \<Rightarrow> device_info \<Rightarrow> auth_session" where
  "login_session user jti now refresh device =
     \<lparr> sess_id = 0, sess_user_id = user_id user, sess_jti = jti, sess_created_at = Aware now,
       sess_expires_at = it_expires_at refresh, sess_revoked_at = None,
       sess_visitor_id = dev_visitor_id device, sess_user_agent = dev_user_agent device,
       sess_ip_address = dev_ip_address device, sess_device = dev_device device,
       sess_last_seen_at = Some (Aware now) \<rparr>"

definition auth_result_of :: "issued_token \<Rightarrow> issued_token \<Rightarrow> user \<Rightarrow> auth_result" where
  "auth_result_of access refresh user =
     \<lparr> ar_tokens =
         \<lparr> at_access_token = it_token access, at_refresh_token = it_token refresh,
           at_token_type = ''bearer'', at_access_expires_at = it_expires_at access,
           at_refresh_expires_at = it_expires_at refresh \<rparr>,
       ar_user = user \<rparr>"

definition login_accept ::
  "'r env \<Rightarrow> config \<Rightarrow> device_info \<Rightarrow> user \<Rightarrow> ('r, auth_result) app" where
  "login_accept env c device user =
     bindM (uuid4_hex env) (\<lambda>jti.
     bindM (issue_access env c (user_id user) jti) (\<lambda>access.
     bindM (issue_refresh env c (user_id user) jti) (\<lambda>refresh.
     bindM (utc_now env) (\<lambda>now.
     bindM (sessions_add (login_session user jti now refresh device)) (\<lambda>_.
     seqM (audit_record env LOGIN (Some (user_id user)) (Some device)
             [(''visitor_id'', meta_opt (dev_visitor_id device))])
     (seqM commit (retM (auth_result_of access refresh user))))))))"

definition login_transaction ::
  "'r env \<Rightarrow> config \<Rightarrow> string \<Rightarrow> string \<Rightarrow> device_info \<Rightarrow> ('r, auth_result) app" where
  "login_transaction env c email password device =
     bindM (users_get_by_email email) (\<lambda>user.
     bindM (liftM (credentials_valid env c password user)) (\<lambda>valid.
     if \<not> valid then login_reject env c email device user
     else
       (case user of
          None \<Rightarrow> raiseM AssertionError
        | Some u \<Rightarrow> login_accept env c device u)))"

definition login :: "'r env \<Rightarrow> config \<Rightarrow> login_dto \<Rightarrow> device_info option \<Rightarrow> ('r, auth_result) app" where
  "login env c data device_opt =
     (let device = device_or_default device_opt;
          email = normalise_email (login_email data)
      in seqM (login_guard_ip env c device)
         (seqM (login_guard_account env c email)
         (bindM (with_uow (login_transaction env c email (login_password data) device)) (\<lambda>result.
          seqM (limiter_reset env c (account_key email)) (retM result)))))"

section \<open>Refresh\<close>

definition refresh_invalid :: exn where
  "refresh_invalid = AuthenticationError ''Refresh session is no longer valid''"

definition user_inactive :: exn where
  "user_inactive = AuthenticationError ''User is inactive or missing''"

definition rotated_session ::
  "auth_session \<Rightarrow> user \<Rightarrow> string \<Rightarrow> int \<Rightarrow> issued_token \<Rightarrow> device_info \<Rightarrow> auth_session" where
  "rotated_session old user jti now refresh device =
     \<lparr> sess_id = 0, sess_user_id = user_id user, sess_jti = jti, sess_created_at = sess_created_at old,
       sess_expires_at = it_expires_at refresh, sess_revoked_at = None,
       sess_visitor_id = str_or (dev_visitor_id device) (sess_visitor_id old),
       sess_user_agent = str_or (dev_user_agent device) (sess_user_agent old),
       sess_ip_address = str_or (dev_ip_address device) (sess_ip_address old),
       sess_device = str_or (dev_device device) (sess_device old),
       sess_last_seen_at = Some (Aware now) \<rparr>"

definition refresh_rotate ::
  "'r env \<Rightarrow> config \<Rightarrow> device_info \<Rightarrow> string \<Rightarrow> auth_session \<Rightarrow> user \<Rightarrow> ('r, auth_result) app" where
  "refresh_rotate env c device jti old user =
     bindM (utc_now env) (\<lambda>now.
     seqM (sessions_revoke jti (Aware now))
     (bindM (uuid4_hex env) (\<lambda>new_jti.
      bindM (issue_access env c (user_id user) new_jti) (\<lambda>access.
      bindM (issue_refresh env c (user_id user) new_jti) (\<lambda>refresh.
      bindM (sessions_add (rotated_session old user new_jti now refresh device)) (\<lambda>_.
      seqM commit (retM (auth_result_of access refresh user))))))))"

text \<open>\<^verbatim>\<open>session.is_valid()\<close> reads the clock only for a session that is not revoked.\<close>

definition session_live_now :: "'r env \<Rightarrow> auth_session option \<Rightarrow> ('r, bool) app" where
  "session_live_now env stored =
     (case stored of
        None \<Rightarrow> retM False
      | Some s \<Rightarrow> bindM (utc_now env) (\<lambda>now. retM (session_is_valid s now)))"

definition refresh_transaction ::
  "'r env \<Rightarrow> config \<Rightarrow> token_payload \<Rightarrow> device_info \<Rightarrow> ('r, auth_result) app" where
  "refresh_transaction env c payload device =
     bindM (sessions_get_by_jti (tp_jti payload)) (\<lambda>stored.
     bindM (session_live_now env stored) (\<lambda>live.
     case stored of
       None \<Rightarrow> raiseM refresh_invalid
     | Some s \<Rightarrow>
         if \<not> live then raiseM refresh_invalid
         else
           bindM (users_get_by_id (tp_user_id payload)) (\<lambda>user.
           case user of
             None \<Rightarrow> raiseM user_inactive
           | Some u \<Rightarrow>
               if \<not> user_is_active u then raiseM user_inactive
               else refresh_rotate env c device (tp_jti payload) s u)))"

definition refresh :: "'r env \<Rightarrow> config \<Rightarrow> string \<Rightarrow> device_info option \<Rightarrow> ('r, auth_result) app" where
  "refresh env c refresh_token device_opt =
     bindM (decode_token env c refresh_token) (\<lambda>payload.
     if tp_token_type payload \<noteq> ''refresh'' then
       raiseM (AuthenticationError ''A refresh token is required'')
     else with_uow (refresh_transaction env c payload (device_or_default device_opt)))"

section \<open>Authenticate\<close>

definition session_invalid :: exn where
  "session_invalid = AuthenticationError ''Session is no longer valid''"

definition load_user :: "'r env \<Rightarrow> config \<Rightarrow> int \<Rightarrow> ('r, user option) app" where
  "load_user env c uid =
     bindM (cache_get env c (user_cache_key uid)) (\<lambda>cached.
     case cached of
       Some raw \<Rightarrow> bindM (liftM (user_loads raw)) (\<lambda>u. retM (Some u))
     | None \<Rightarrow>
         bindM (users_get_by_id uid) (\<lambda>user.
         case user of
           None \<Rightarrow> retM None
         | Some u \<Rightarrow>
             seqM (cache_set env c (user_cache_key uid) (user_dumps u) (cfg_AUTH_CACHE_TTL_SECONDS c))
                  (retM (Some u))))"

definition authenticate :: "'r env \<Rightarrow> config \<Rightarrow> string \<Rightarrow> ('r, user) app" where
  "authenticate env c token =
     bindM (decode_token env c token) (\<lambda>payload.
     if tp_token_type payload \<noteq> ''access'' then
       raiseM (AuthenticationError ''An access token is required'')
     else with_uow
       (bindM (sessions_get_by_jti (tp_jti payload)) (\<lambda>stored.
        bindM (session_live_now env stored) (\<lambda>live.
        if \<not> live then raiseM session_invalid
        else
          bindM (load_user env c (tp_user_id payload)) (\<lambda>user.
          case user of
            None \<Rightarrow> raiseM user_inactive
          | Some u \<Rightarrow> if \<not> user_is_active u then raiseM user_inactive else retM u)))))"

section \<open>Logout\<close>

definition logout_transaction :: "'r env \<Rightarrow> token_payload \<Rightarrow> device_info option \<Rightarrow> ('r, unit) app" where
  "logout_transaction env payload device =
     bindM (utc_now env) (\<lambda>now.
     seqM (sessions_revoke (tp_jti payload) (Aware now))
     (seqM (audit_record env LOGOUT (Some (tp_user_id payload)) device []) commit))"

definition logout :: "'r env \<Rightarrow> config \<Rightarrow> string \<Rightarrow> device_info option \<Rightarrow> ('r, unit) app" where
  "logout env c token device =
     bindM (tryM (bindM (decode_token env c token) (\<lambda>p. retM (Some p))) (\<lambda>e. retM None)) (\<lambda>payload.
     case payload of
       None \<Rightarrow> retM ()
     | Some p \<Rightarrow> with_uow (logout_transaction env p device))"

section \<open>The statements each use case runs\<close>

lemma keeps_login [keeps_rules]:
  "db_closed {AddSession, AddAudit} I \<Longrightarrow> keeps (db_inv2 I B) (login env c data device)"
  by (auto simp: login_def login_guard_ip_def login_guard_account_def charge_def login_count_failure_def
      login_transaction_def login_reject_def login_accept_def Let_def intro!: keeps_rules)

lemma keeps_session_live [keeps_rules]: "keeps (db_inv2 A I) (session_live_now env s)"
  by (auto simp: session_live_now_def intro!: keeps_rules)

lemma keeps_refresh [keeps_rules]:
  "db_closed {RevokeSessions, AddSession} I \<Longrightarrow> keeps (db_inv2 I B) (refresh env c token device)"
  by (auto simp: refresh_def refresh_transaction_def refresh_rotate_def intro!: keeps_rules)

lemma keeps_authenticate [keeps_rules]: "keeps (db_inv2 I B) (authenticate env c token)"
  by (auto simp: authenticate_def load_user_def intro!: keeps_rules)

lemma keeps_logout [keeps_rules]:
  "db_closed {RevokeSessions, AddAudit} I \<Longrightarrow> keeps (db_inv2 I B) (logout env c token device)"
  by (auto simp: logout_def logout_transaction_def intro!: keeps_rules)

lemma uncommitted_session_parts [uncommitted_rules]:
  "uncommitted (login_guard_ip env c device)" "uncommitted (login_guard_account env c email)"
  "uncommitted (login_count_failure env c email device)" "uncommitted (session_live_now env s)"
  "uncommitted (load_user env c uid)"
  by (auto simp: login_guard_ip_def login_guard_account_def charge_def login_count_failure_def
      session_live_now_def load_user_def intro!: uncommitted_rules)

lemma uncommitted_authenticate [uncommitted_rules]: "uncommitted (authenticate env c token)"
  by (auto simp: authenticate_def intro!: uncommitted_rules)

end
