(* ===== verification/Accounts_UC.thy ===== *)
theory Accounts_UC
  imports Sessions_UC
begin

text \<open>
  The use cases around an account (\<^verbatim>\<open>application/auth/usecases\<close>): registration, profile updates,
  email verification, changing and resetting the password, and self-deactivation.
\<close>

section \<open>Charging a request to a policy\<close>

text \<open>\<^verbatim>\<open>_check_rate_limit\<close> of the use cases that charge every request; the key and the message differ.\<close>

definition charge_or_refuse :: "'r env \<Rightarrow> config \<Rightarrow> rate_limit_policy \<Rightarrow> string \<Rightarrow> (int \<Rightarrow> exn) \<Rightarrow> ('r, unit) app"
  where
  "charge_or_refuse env c policy key refusal =
     bindM (limiter_hit env c key (rlp_limit policy) (rlp_window_seconds policy)) (\<lambda>d.
     whenM (\<not> rld_allowed d) (raiseM (refusal (rld_retry_after_seconds d))))"

definition register_check_rate_limit :: "'r env \<Rightarrow> config \<Rightarrow> device_info \<Rightarrow> ('r, unit) app" where
  "register_check_rate_limit env c device =
     (case dev_ip_address device of
        None \<Rightarrow> retM ()
      | Some ip \<Rightarrow>
          if \<not> is_enforced (register_ip_policy c) then retM ()
          else charge_or_refuse env c (register_ip_policy c) (''register:ip:'' @ ip)
                 (\<lambda>n. RateLimitedError n ''Too many accounts created from this address''))"

definition reset_check_rate_limit :: "'r env \<Rightarrow> config \<Rightarrow> device_info \<Rightarrow> ('r, unit) app" where
  "reset_check_rate_limit env c device =
     (case dev_ip_address device of
        None \<Rightarrow> retM ()
      | Some ip \<Rightarrow>
          if \<not> is_enforced (reset_password_ip_policy c) then retM ()
          else charge_or_refuse env c (reset_password_ip_policy c) (''reset-password:ip:'' @ ip)
                 too_many_requests)"

definition forgot_check_rate_limits :: "'r env \<Rightarrow> config \<Rightarrow> string \<Rightarrow> device_info \<Rightarrow> ('r, unit) app" where
  "forgot_check_rate_limits env c address device =
     seqM (whenM (is_enforced (forgot_password_email_policy c))
             (charge_or_refuse env c (forgot_password_email_policy c) (''forgot-password:'' @ address)
                too_many_requests))
       (case dev_ip_address device of
          None \<Rightarrow> retM ()
        | Some ip \<Rightarrow>
            whenM (is_enforced (forgot_password_ip_policy c))
              (charge_or_refuse env c (forgot_password_ip_policy c) (''forgot-password:ip:'' @ ip)
                 too_many_requests))"

section \<open>Registration\<close>

definition new_user :: "string \<Rightarrow> string \<Rightarrow> string \<Rightarrow> register_dto \<Rightarrow> user" where
  "new_user email username password_hash data =
     \<lparr> user_id = 0, user_email = email, user_username = username, user_password_hash = password_hash,
       user_display_name = reg_display_name data, user_is_active = True, user_is_superuser = False,
       user_email_verified_at = None, user_visitor_id = reg_visitor_id data,
       user_created_at = None, user_updated_at = None, user_roles = [] \<rparr>"

definition refuse_if_found :: "exn \<Rightarrow> 'a option \<Rightarrow> ('r, unit) app" where
  "refuse_if_found e found = whenM (found \<noteq> None) (raiseM e)"

definition grant_default_role :: "config \<Rightarrow> int \<Rightarrow> ('r, unit) app" where
  "grant_default_role c uid =
     bindM (roles_get_by_name (cfg_DEFAULT_ROLE_NAME c)) (\<lambda>default_role.
     case default_role of
       None \<Rightarrow> retM ()
     | Some r \<Rightarrow> users_assign_role uid (role_id r))"

definition register_transaction ::
  "'r env \<Rightarrow> config \<Rightarrow> string \<Rightarrow> string \<Rightarrow> register_dto \<Rightarrow> device_info \<Rightarrow>
     ('r, string \<times> user \<times> user option) app" where
  "register_transaction env c email username data device =
     bindM (users_get_by_email email) (\<lambda>clash.
     seqM (refuse_if_found email_already_exists clash)
     (bindM (users_get_by_username username) (\<lambda>clash2.
      seqM (refuse_if_found username_already_exists clash2)
      (bindM (hasher_hash env c (reg_password data)) (\<lambda>password_hash.
       bindM (users_add env (new_user email username password_hash data)) (\<lambda>created.
       seqM (grant_default_role c (user_id created))
       (bindM (verification_issue env c (user_id created)) (\<lambda>secret.
        seqM (audit_record env REGISTER (Some (user_id created)) (Some device)
                [(''username'', MStr username), (''visitor_id'', meta_opt (reg_visitor_id data))])
        (seqM commit
        (bindM (users_get_by_id (user_id created)) (\<lambda>found.
         retM (secret, created, found))))))))))))"

definition register_user :: "'r env \<Rightarrow> config \<Rightarrow> register_dto \<Rightarrow> device_info option \<Rightarrow> ('r, user) app" where
  "register_user env c data device_opt =
     (let device = device_or_default device_opt;
          email = normalise_email (reg_email data);
          username = str_strip (reg_username data)
      in seqM (register_check_rate_limit env c device)
         (seqM (whenM (reg_password data \<noteq> reg_password_repeat data) (raiseM password_mismatch))
         (bindM (with_uow (register_transaction env c email username data device))
           (\<lambda>(secret, created, found).
            seqM (verification_send c email secret)
                 (retM (case found of None \<Rightarrow> created | Some u \<Rightarrow> u))))))"

section \<open>Profile updates\<close>

definition update_email :: "user \<Rightarrow> string option \<Rightarrow> ('r, user) app" where
  "update_email u new =
     (case new of
        None \<Rightarrow> retM u
      | Some raw \<Rightarrow>
          let email = normalise_email raw in
          if email = user_email u then retM u
          else
            bindM (users_get_by_email email) (\<lambda>clash.
            seqM (refuse_if_found email_already_exists clash)
                 (retM (u\<lparr>user_email := email, user_email_verified_at := None\<rparr>))))"

definition update_username :: "user \<Rightarrow> string option \<Rightarrow> ('r, user) app" where
  "update_username u new =
     (case new of
        None \<Rightarrow> retM u
      | Some raw \<Rightarrow>
          let username = str_strip raw in
          if username = user_username u then retM u
          else
            bindM (users_get_by_username username) (\<lambda>clash.
            seqM (refuse_if_found username_already_exists clash)
                 (retM (u\<lparr>user_username := username\<rparr>))))"

definition update_display_name :: "user \<Rightarrow> string option \<Rightarrow> user" where
  "update_display_name u new =
     (case new of None \<Rightarrow> u | Some name \<Rightarrow> u\<lparr>user_display_name := Some name\<rparr>)"

definition update_transaction ::
  "'r env \<Rightarrow> config \<Rightarrow> int \<Rightarrow> update_dto \<Rightarrow> ('r, user \<times> (string \<times> string) option) app" where
  "update_transaction env c uid data =
     bindM (users_get_by_id uid) (\<lambda>found.
     case found of
       None \<Rightarrow> raiseM user_not_found
     | Some u \<Rightarrow>
         bindM (update_email u (upd_email data)) (\<lambda>u1.
         bindM (update_username u1 (upd_username data)) (\<lambda>u2.
         bindM (users_update env (update_display_name u2 (upd_display_name data))) (\<lambda>updated.
         bindM (if is_email_verified updated then retM None
                else bindM (verification_issue env c (user_id updated)) (\<lambda>secret.
                     retM (Some (user_email updated, secret)))) (\<lambda>pending.
         seqM commit (retM (updated, pending)))))))"

definition update_profile :: "'r env \<Rightarrow> config \<Rightarrow> int \<Rightarrow> update_dto \<Rightarrow> ('r, user) app" where
  "update_profile env c uid data =
     bindM (with_uow (update_transaction env c uid data)) (\<lambda>(updated, pending).
     seqM (cache_delete env c (user_cache_key uid))
     (seqM (case pending of
              None \<Rightarrow> retM ()
            | Some (email, secret) \<Rightarrow> verification_send c email secret)
     (retM updated)))"

section \<open>Email verification\<close>

text \<open>
  The token a presented secret stands for: \<^verbatim>\<open>stored is None or not stored.is_usable()\<close> is refused.
\<close>

definition usable_token :: "'r env \<Rightarrow> string \<Rightarrow> token_purpose \<Rightarrow> ('r, security_token) app" where
  "usable_token env h purpose =
     bindM (tokens_get_by_hash h purpose) (\<lambda>found.
     case found of
       None \<Rightarrow> raiseM invalid_token
     | Some t \<Rightarrow>
         bindM (utc_now env) (\<lambda>now.
         if \<not> token_is_usable t now then raiseM invalid_token else retM t))"

definition token_owner :: "security_token \<Rightarrow> ('r, user) app" where
  "token_owner t =
     bindM (users_get_by_id (tok_user_id t)) (\<lambda>found.
     case found of
       None \<Rightarrow> raiseM invalid_token
     | Some u \<Rightarrow> if \<not> user_is_active u then raiseM invalid_token else retM u)"

definition stamp_verified :: "'r env \<Rightarrow> user \<Rightarrow> ('r, user) app" where
  "stamp_verified env u =
     (if is_email_verified u then retM u
      else bindM (utc_now env) (\<lambda>now. users_update env (u\<lparr>user_email_verified_at := Some (Aware now)\<rparr>)))"

definition verify_transaction :: "'r env \<Rightarrow> string \<Rightarrow> device_info option \<Rightarrow> ('r, user) app" where
  "verify_transaction env h device =
     bindM (usable_token env h EMAIL_VERIFICATION) (\<lambda>t.
     bindM (token_owner t) (\<lambda>u.
     seqM (tokens_mark_used env t)
     (bindM (stamp_verified env u) (\<lambda>u'.
      seqM (audit_record env EMAIL_VERIFIED (Some (user_id u')) device
              [(''email'', MStr (user_email u'))])
      (seqM commit (retM u'))))))"

definition verify_email :: "'r env \<Rightarrow> config \<Rightarrow> string \<Rightarrow> device_info option \<Rightarrow> ('r, user) app" where
  "verify_email env c token device =
     bindM (with_uow (verify_transaction env (one_time_hash env token) device)) (\<lambda>u.
     seqM (cache_delete env c (user_cache_key (user_id u))) (retM u))"

section \<open>Passwords\<close>

definition same_password :: exn where
  "same_password = ValidationError ''The new password must differ from the current one''"

definition wrong_current_password :: exn where
  "wrong_current_password = InvalidCredentialsError ''Current password is incorrect''"

definition change_password_transaction ::
  "'r env \<Rightarrow> config \<Rightarrow> int \<Rightarrow> change_password_dto \<Rightarrow> device_info option \<Rightarrow> ('r, int) app" where
  "change_password_transaction env c uid data device =
     bindM (users_get_by_id uid) (\<lambda>found.
     case found of
       None \<Rightarrow> raiseM user_not_found
     | Some u \<Rightarrow>
         bindM (liftM (hasher_verify env c (chp_current_password data) (user_password_hash u))) (\<lambda>ok.
         seqM (whenM (\<not> ok) (raiseM wrong_current_password))
         (seqM (whenM (chp_current_password data = chp_new_password data) (raiseM same_password))
         (bindM (hasher_hash env c (chp_new_password data)) (\<lambda>h.
          seqM (users_update_password env (u\<lparr>user_password_hash := h\<rparr>))
          (seqM (tokens_invalidate_for_user env uid PASSWORD_RESET)
          (bindM (utc_now env) (\<lambda>now.
           bindM (sessions_revoke_all_for_user uid (Aware now) None) (\<lambda>revoked.
           seqM (audit_record env PASSWORD_CHANGED (Some uid) device
                   [(''sessions_revoked'', MInt revoked)])
           (seqM commit (retM revoked)))))))))))"

definition change_password ::
  "'r env \<Rightarrow> config \<Rightarrow> int \<Rightarrow> change_password_dto \<Rightarrow> device_info option \<Rightarrow> ('r, int) app" where
  "change_password env c uid data device =
     seqM (whenM (chp_new_password data \<noteq> chp_new_password_repeat data) (raiseM password_mismatch))
     (bindM (with_uow (change_password_transaction env c uid data device)) (\<lambda>revoked.
      seqM (cache_delete env c (user_cache_key uid)) (retM revoked)))"

definition reset_token :: "config \<Rightarrow> int \<Rightarrow> generated_secret \<Rightarrow> int \<Rightarrow> security_token" where
  "reset_token c uid secret now =
     \<lparr> tok_id = 0, tok_user_id = uid, tok_purpose = PASSWORD_RESET,
       tok_token_hash = gs_hashed secret, tok_created_at = Aware now,
       tok_expires_at = Aware (now + minutes (cfg_PASSWORD_RESET_TTL_MINUTES c)),
       tok_used_at = None \<rparr>"

text \<open>The long dash of the mail text is U+2014, outside the modelled characters; it is written \<^verbatim>\<open>--\<close>.\<close>

definition reset_email :: "config \<Rightarrow> string \<Rightarrow> string \<Rightarrow> email_message" where
  "reset_email c address link =
     \<lparr> em_to = address, em_subject = ''Reset your password'',
       em_body = ''Someone asked to reset the password for this account.'' @ newline @ newline @
         link @ newline @ newline @ ''The link expires in '' @
         str_of_int (cfg_PASSWORD_RESET_TTL_MINUTES c) @
         '' minutes. If this was not you, you can ignore this email -- nothing has changed.'' \<rparr>"

text \<open>\<open>None\<close> is the early \<^verbatim>\<open>return\<close> for an unknown or inactive account.\<close>

definition forgot_transaction :: "'r env \<Rightarrow> config \<Rightarrow> string \<Rightarrow> ('r, string option) app" where
  "forgot_transaction env c address =
     bindM (users_get_by_email address) (\<lambda>found.
     case found of
       None \<Rightarrow> retM None
     | Some u \<Rightarrow>
         if \<not> user_is_active u then retM None
         else
           seqM (tokens_invalidate_for_user env (user_id u) PASSWORD_RESET)
           (bindM (one_time_generate env) (\<lambda>secret.
            bindM (utc_now env) (\<lambda>now.
            bindM (tokens_add (reset_token c (user_id u) secret now)) (\<lambda>_.
            seqM commit (retM (Some (gs_plain secret))))))))"

definition forgot_password :: "'r env \<Rightarrow> config \<Rightarrow> string \<Rightarrow> device_info option \<Rightarrow> ('r, unit) app" where
  "forgot_password env c email device_opt =
     (let device = device_or_default device_opt; address = normalise_email email
      in seqM (forgot_check_rate_limits env c address device)
         (bindM (with_uow (forgot_transaction env c address)) (\<lambda>secret.
          case secret of
            None \<Rightarrow> retM ()
          | Some s \<Rightarrow>
              bindM (liftM (format_token (cfg_PASSWORD_RESET_URL c) s)) (\<lambda>link.
              send_email (reset_email c address link)))))"

definition reset_transaction ::
  "'r env \<Rightarrow> config \<Rightarrow> reset_password_dto \<Rightarrow> device_info \<Rightarrow> ('r, user) app" where
  "reset_transaction env c data device =
     bindM (usable_token env (one_time_hash env (rsp_token data)) PASSWORD_RESET) (\<lambda>t.
     bindM (token_owner t) (\<lambda>u.
     bindM (utc_now env) (\<lambda>now.
     bindM (hasher_hash env c (rsp_password data)) (\<lambda>h.
     seqM (users_update_password env (u\<lparr>user_password_hash := h\<rparr>))
     (seqM (tokens_mark_used env t)
     (seqM (tokens_invalidate_for_user env (user_id u) PASSWORD_RESET)
     (bindM (sessions_revoke_all_for_user (user_id u) (Aware now) None) (\<lambda>revoked.
      seqM (audit_record env PASSWORD_WAS_RESET (Some (user_id u)) (Some device)
              [(''sessions_revoked'', MInt revoked)])
      (seqM commit (retM (u\<lparr>user_password_hash := h\<rparr>)))))))))))"

definition reset_password :: "'r env \<Rightarrow> config \<Rightarrow> reset_password_dto \<Rightarrow> device_info option \<Rightarrow> ('r, unit) app" where
  "reset_password env c data device_opt =
     (let device = device_or_default device_opt
      in seqM (reset_check_rate_limit env c device)
         (seqM (whenM (rsp_password data \<noteq> rsp_password_repeat data) (raiseM password_mismatch))
         (bindM (with_uow (reset_transaction env c data device)) (\<lambda>u.
          cache_delete env c (user_cache_key (user_id u))))))"

section \<open>Self-deactivation\<close>

definition delete_transaction :: "'r env \<Rightarrow> int \<Rightarrow> device_info option \<Rightarrow> ('r, unit) app" where
  "delete_transaction env uid device =
     bindM (users_get_by_id uid) (\<lambda>found.
     case found of
       None \<Rightarrow> raiseM user_not_found
     | Some u \<Rightarrow>
         bindM (users_update env (u\<lparr>user_is_active := False\<rparr>)) (\<lambda>_.
         bindM (utc_now env) (\<lambda>now.
         bindM (sessions_revoke_all_for_user uid (Aware now) None) (\<lambda>revoked.
         seqM (audit_record env USER_BANNED (Some uid) device
                 [(''reason'', MStr ''self_deactivated''), (''sessions_revoked'', MInt revoked)])
         commit))))"

definition delete_user :: "'r env \<Rightarrow> config \<Rightarrow> int \<Rightarrow> device_info option \<Rightarrow> ('r, unit) app" where
  "delete_user env c uid device =
     seqM (with_uow (delete_transaction env uid device)) (cache_delete env c (user_cache_key uid))"

section \<open>The statements each use case runs\<close>

lemma keeps_charge [keeps_rules]: "keeps (db_inv2 A I) (charge_or_refuse env c policy key refusal)"
  by (auto simp: charge_or_refuse_def intro!: keeps_rules)

lemma keeps_rate_limits [keeps_rules]:
  "keeps (db_inv2 A I) (register_check_rate_limit env c device)"
  "keeps (db_inv2 A I) (reset_check_rate_limit env c device)"
  "keeps (db_inv2 A I) (forgot_check_rate_limits env c address device)"
  by (auto simp: register_check_rate_limit_def reset_check_rate_limit_def forgot_check_rate_limits_def
      intro!: keeps_rules)

lemma keeps_register [keeps_rules]:
  "db_closed {AddUser, AssignRole, SpendTokens, AddToken, AddAudit} I \<Longrightarrow>
     keeps (db_inv2 I B) (register_user env c data device)"
  by (auto simp: register_user_def register_transaction_def refuse_if_found_def grant_default_role_def
      Let_def split_beta intro!: keeps_rules)

lemma keeps_update_parts [keeps_rules]:
  "keeps (db_inv2 A I) (update_email u new)" "keeps (db_inv2 A I) (update_username u new')"
  by (auto simp: update_email_def update_username_def refuse_if_found_def Let_def intro!: keeps_rules)

lemma keeps_update_profile [keeps_rules]:
  "db_closed {UpdateUser, SpendTokens, AddToken} I \<Longrightarrow> keeps (db_inv2 I B) (update_profile env c uid data)"
  by (auto simp: update_profile_def update_transaction_def split_beta intro!: keeps_rules)

lemma keeps_token_parts [keeps_rules]:
  "keeps (db_inv2 A I) (usable_token env h purpose)" "keeps (db_inv2 A I) (token_owner t)"
  by (auto simp: usable_token_def token_owner_def intro!: keeps_rules)

lemma keeps_verify_email [keeps_rules]:
  "db_closed {SpendTokens, UpdateUser, AddAudit} I \<Longrightarrow> keeps (db_inv2 I B) (verify_email env c token device)"
  by (auto simp: verify_email_def verify_transaction_def stamp_verified_def intro!: keeps_rules)

lemma keeps_change_password [keeps_rules]:
  "db_closed {UpdatePassword, SpendTokens, RevokeSessions, AddAudit} I \<Longrightarrow>
     keeps (db_inv2 I B) (change_password env c uid data' device)"
  by (auto simp: change_password_def change_password_transaction_def intro!: keeps_rules)

lemma keeps_forgot_password [keeps_rules]:
  "db_closed {SpendTokens, AddToken} I \<Longrightarrow> keeps (db_inv2 I B) (forgot_password env c email device)"
  by (auto simp: forgot_password_def forgot_transaction_def Let_def intro!: keeps_rules)

lemma keeps_reset_password [keeps_rules]:
  "db_closed {UpdatePassword, SpendTokens, RevokeSessions, AddAudit} I \<Longrightarrow>
     keeps (db_inv2 I B) (reset_password env c data device)"
  by (auto simp: reset_password_def reset_transaction_def Let_def intro!: keeps_rules)

lemma keeps_delete_user [keeps_rules]:
  "db_closed {UpdateUser, RevokeSessions, AddAudit} I \<Longrightarrow> keeps (db_inv2 I B) (delete_user env c uid device)"
  by (auto simp: delete_user_def delete_transaction_def intro!: keeps_rules)

lemma uncommitted_account_parts [uncommitted_rules]:
  "uncommitted (charge_or_refuse env c policy key refusal)"
  "uncommitted (register_check_rate_limit env c device)"
  "uncommitted (reset_check_rate_limit env c device)"
  "uncommitted (forgot_check_rate_limits env c address device)"
  "uncommitted (refuse_if_found e found)" "uncommitted (grant_default_role c uid)"
  "uncommitted (update_email u new)" "uncommitted (update_username u new')"
  "uncommitted (usable_token env h purpose)" "uncommitted (token_owner t)"
  "uncommitted (stamp_verified env u)"
  by (auto simp: charge_or_refuse_def register_check_rate_limit_def reset_check_rate_limit_def
      forgot_check_rate_limits_def refuse_if_found_def grant_default_role_def update_email_def
      update_username_def usable_token_def token_owner_def stamp_verified_def Let_def
      intro!: uncommitted_rules)

end
