(* ===== verification/Admin_UC.thy ===== *)
theory Admin_UC
  imports Accounts_UC
begin

text \<open>
  Moderation (\<^verbatim>\<open>application/moderation/usecases\<close>), the session and profile use cases
  (\<^verbatim>\<open>application/users/usecases\<close>) and access control (\<^verbatim>\<open>application/access_control/usecases\<close>).
\<close>

section \<open>Moderation\<close>

definition cannot_ban_self :: exn where
  "cannot_ban_self = ValidationError ''You cannot ban your own account''"

definition cannot_ban_superuser :: exn where
  "cannot_ban_superuser = AuthorizationError ''Superusers cannot be banned''"

text \<open>\<open>True\<close> next to the user: the transaction changed it; an account already inactive is returned as it is.\<close>

definition ban_transaction ::
  "'r env \<Rightarrow> user \<Rightarrow> int \<Rightarrow> string option \<Rightarrow> device_info option \<Rightarrow> ('r, user \<times> bool) app" where
  "ban_transaction env actor target_id reason device =
     bindM (users_get_by_id target_id) (\<lambda>found.
     case found of
       None \<Rightarrow> raiseM user_not_found
     | Some target \<Rightarrow>
         seqM (whenM (user_is_superuser target) (raiseM cannot_ban_superuser))
         (if \<not> user_is_active target then retM (target, False)
          else
            bindM (users_update env (target\<lparr>user_is_active := False\<rparr>)) (\<lambda>banned.
            bindM (utc_now env) (\<lambda>now.
            bindM (sessions_revoke_all_for_user target_id (Aware now) None) (\<lambda>revoked.
            seqM (audit_record env USER_BANNED (Some target_id) device
                    [(''actor_id'', MInt (user_id actor)), (''reason'', meta_opt reason),
                     (''sessions_revoked'', MInt revoked)])
            (seqM commit (retM (banned, True))))))))"

definition ban_user ::
  "'r env \<Rightarrow> config \<Rightarrow> user \<Rightarrow> int \<Rightarrow> string option \<Rightarrow> device_info option \<Rightarrow> ('r, user) app" where
  "ban_user env c actor target_id reason device =
     seqM (whenM (user_id actor = target_id) (raiseM cannot_ban_self))
     (bindM (with_uow (ban_transaction env actor target_id reason device)) (\<lambda>(u, changed).
      seqM (whenM changed (cache_delete env c (user_cache_key target_id))) (retM u)))"

definition unban_transaction ::
  "'r env \<Rightarrow> user \<Rightarrow> int \<Rightarrow> device_info option \<Rightarrow> ('r, user \<times> bool) app" where
  "unban_transaction env actor target_id device =
     bindM (users_get_by_id target_id) (\<lambda>found.
     case found of
       None \<Rightarrow> raiseM user_not_found
     | Some target \<Rightarrow>
         if user_is_active target then retM (target, False)
         else
           bindM (users_update env (target\<lparr>user_is_active := True\<rparr>)) (\<lambda>restored.
           seqM (audit_record env USER_UNBANNED (Some target_id) device
                   [(''actor_id'', MInt (user_id actor))])
           (seqM commit (retM (restored, True)))))"

definition unban_user ::
  "'r env \<Rightarrow> config \<Rightarrow> user \<Rightarrow> int \<Rightarrow> device_info option \<Rightarrow> ('r, user) app" where
  "unban_user env c actor target_id device =
     bindM (with_uow (unban_transaction env actor target_id device)) (\<lambda>(u, changed).
     seqM (whenM changed (cache_delete env c (user_cache_key target_id))) (retM u))"

section \<open>Profiles and sessions\<close>

definition get_user_profile :: "int \<Rightarrow> ('r, user) app" where
  "get_user_profile uid =
     with_uow
       (bindM (users_get_by_id uid) (\<lambda>found.
        case found of
          None \<Rightarrow> raiseM user_not_found
        | Some u \<Rightarrow> if \<not> user_is_active u then raiseM user_not_found else retM u))"

definition list_user_sessions :: "'r env \<Rightarrow> int \<Rightarrow> ('r, auth_session list) app" where
  "list_user_sessions env uid = with_uow (sessions_list_active_for_user env uid)"

definition revoke_all_sessions ::
  "'r env \<Rightarrow> int \<Rightarrow> string option \<Rightarrow> device_info option \<Rightarrow> ('r, int) app" where
  "revoke_all_sessions env uid except device =
     with_uow
       (bindM (utc_now env) (\<lambda>now.
        bindM (sessions_revoke_all_for_user uid (Aware now) except) (\<lambda>revoked.
        seqM (audit_record env SESSION_REVOKED (Some uid) device
                [(''scope'', MStr (if except = None then ''all'' else ''others'')),
                 (''sessions_revoked'', MInt revoked)])
        (seqM commit (retM revoked)))))"

definition revoke_user_session ::
  "'r env \<Rightarrow> int \<Rightarrow> int \<Rightarrow> device_info option \<Rightarrow> ('r, unit) app" where
  "revoke_user_session env uid sid device =
     with_uow
       (bindM (sessions_get_by_id sid) (\<lambda>found.
        case found of
          None \<Rightarrow> raiseM session_not_found
        | Some s \<Rightarrow>
            if sess_user_id s \<noteq> uid then raiseM session_not_found
            else
              bindM (utc_now env) (\<lambda>now.
              seqM (sessions_revoke (sess_jti s) (Aware now))
              (seqM (audit_record env SESSION_REVOKED (Some uid) device
                       [(''scope'', MStr ''one''), (''session_id'', MInt sid)])
              commit))))"

section \<open>Roles and permissions\<close>

definition list_roles :: "('r, role list) app" where
  "list_roles = with_uow roles_list_all"

definition list_permissions :: "('r, permission list) app" where
  "list_permissions = with_uow permissions_list_all"

definition list_users :: "('r, user list) app" where
  "list_users = with_uow users_list_all"

definition create_role :: "string \<Rightarrow> string option \<Rightarrow> ('r, role) app" where
  "create_role name description =
     with_uow (bindM (roles_add name description) (\<lambda>r. seqM commit (retM r)))"

definition delete_role :: "int \<Rightarrow> ('r, unit) app" where
  "delete_role rid =
     with_uow
       (bindM (roles_get_by_id rid) (\<lambda>found.
        seqM (whenM (found = None) (raiseM role_not_found))
        (seqM (roles_delete rid) commit)))"

definition create_permission :: "string \<Rightarrow> string \<Rightarrow> string option \<Rightarrow> ('r, permission) app" where
  "create_permission resource action description =
     with_uow
       (bindM (permissions_get_by_resource_action resource action) (\<lambda>existing.
        seqM (whenM (existing \<noteq> None)
                (raiseM (ConflictError
                   (''Permission '' @ resource @ '':'' @ action @ '' already exists''))))
        (bindM (permissions_add resource action description) (\<lambda>p.
         seqM commit (retM p)))))"

text \<open>The re-read row after the commit; \<^verbatim>\<open>assert row is not None\<close>.\<close>

definition assert_found :: "'a option \<Rightarrow> ('r, 'a) app" where
  "assert_found found = (case found of None \<Rightarrow> raiseM AssertionError | Some x \<Rightarrow> retM x)"

definition grant_permission_to_role :: "int \<Rightarrow> int \<Rightarrow> ('r, role) app" where
  "grant_permission_to_role rid pid =
     with_uow
       (bindM (roles_get_by_id rid) (\<lambda>r.
        seqM (whenM (r = None) (raiseM role_not_found))
        (bindM (permissions_get_by_id pid) (\<lambda>p.
         seqM (whenM (p = None) (raiseM permission_not_found))
         (seqM (roles_grant_permission rid pid)
         (seqM commit
         (bindM (roles_get_by_id rid) assert_found)))))))"

definition revoke_permission_from_role :: "int \<Rightarrow> int \<Rightarrow> ('r, role) app" where
  "revoke_permission_from_role rid pid =
     with_uow
       (bindM (roles_get_by_id rid) (\<lambda>r.
        seqM (whenM (r = None) (raiseM role_not_found))
        (seqM (roles_revoke_permission rid pid)
        (seqM commit
        (bindM (roles_get_by_id rid) assert_found)))))"

definition assign_role_to_user :: "'r env \<Rightarrow> config \<Rightarrow> int \<Rightarrow> int \<Rightarrow> ('r, user) app" where
  "assign_role_to_user env c uid rid =
     bindM (with_uow
       (bindM (users_get_by_id uid) (\<lambda>u.
        seqM (whenM (u = None) (raiseM user_not_found))
        (bindM (roles_get_by_id rid) (\<lambda>r.
         seqM (whenM (r = None) (raiseM role_not_found))
         (seqM (users_assign_role uid rid)
         (seqM commit
         (bindM (users_get_by_id uid) assert_found)))))))) (\<lambda>u.
     seqM (cache_delete env c (user_cache_key uid)) (retM u))"

definition revoke_role_from_user :: "'r env \<Rightarrow> config \<Rightarrow> int \<Rightarrow> int \<Rightarrow> ('r, user) app" where
  "revoke_role_from_user env c uid rid =
     bindM (with_uow
       (bindM (users_get_by_id uid) (\<lambda>u.
        seqM (whenM (u = None) (raiseM user_not_found))
        (seqM (users_revoke_role uid rid)
        (seqM commit
        (bindM (users_get_by_id uid) assert_found)))))) (\<lambda>u.
     seqM (cache_delete env c (user_cache_key uid)) (retM u))"

section \<open>The statements each use case runs\<close>

lemma keeps_ban [keeps_rules]:
  "db_closed {UpdateUser, RevokeSessions, AddAudit} I \<Longrightarrow>
     keeps (db_inv2 I B) (ban_user env c actor target reason device)"
  by (auto simp: ban_user_def ban_transaction_def split_beta intro!: keeps_rules)

lemma keeps_unban [keeps_rules]:
  "db_closed {UpdateUser, AddAudit} I \<Longrightarrow> keeps (db_inv2 I B) (unban_user env c actor target device)"
  by (auto simp: unban_user_def unban_transaction_def split_beta intro!: keeps_rules)

lemma keeps_revoke_sessions [keeps_rules]:
  "db_closed {RevokeSessions, AddAudit} I \<Longrightarrow> keeps (db_inv2 I B) (revoke_all_sessions env uid except device)"
  "db_closed {RevokeSessions, AddAudit} I \<Longrightarrow> keeps (db_inv2 I B) (revoke_user_session env uid sid device)"
  by (auto simp: revoke_all_sessions_def revoke_user_session_def intro!: keeps_rules)

lemma keeps_listings [keeps_rules]:
  "keeps (db_inv2 I B) (get_user_profile uid)" "keeps (db_inv2 I B) (list_user_sessions env uid)"
  "keeps (db_inv2 I B) list_roles" "keeps (db_inv2 I B) list_permissions" "keeps (db_inv2 I B) list_users"
  by (auto simp: get_user_profile_def list_user_sessions_def list_roles_def list_permissions_def
      list_users_def intro!: keeps_rules)

lemma keeps_assert_found [keeps_rules]: "keeps (db_inv2 I B) (assert_found x)"
  by (auto simp: assert_found_def intro!: keeps_rules)

lemma keeps_access_control [keeps_rules]:
  "db_closed {AddRole} I \<Longrightarrow> keeps (db_inv2 I B) (create_role name descr)"
  "db_closed {DeleteRole} I \<Longrightarrow> keeps (db_inv2 I B) (delete_role rid)"
  "db_closed {AddPermission} I \<Longrightarrow> keeps (db_inv2 I B) (create_permission res act descr)"
  "db_closed {GrantPermission} I \<Longrightarrow> keeps (db_inv2 I B) (grant_permission_to_role rid pid)"
  "db_closed {RevokePermission} I \<Longrightarrow> keeps (db_inv2 I B) (revoke_permission_from_role rid pid)"
  "db_closed {AssignRole} I \<Longrightarrow> keeps (db_inv2 I B) (assign_role_to_user env c uid rid)"
  "db_closed {RevokeRole} I \<Longrightarrow> keeps (db_inv2 I B) (revoke_role_from_user env c uid rid)"
  by (auto simp: create_role_def delete_role_def create_permission_def grant_permission_to_role_def
      revoke_permission_from_role_def assign_role_to_user_def revoke_role_from_user_def
      intro!: keeps_rules)

lemma uncommitted_listings [uncommitted_rules]:
  "uncommitted (get_user_profile uid)" "uncommitted (list_user_sessions env uid)"
  "uncommitted list_roles" "uncommitted list_permissions" "uncommitted list_users"
  by (auto simp: get_user_profile_def list_user_sessions_def list_roles_def list_permissions_def
      list_users_def intro!: uncommitted_rules)

end
