(* ===== verification/Account_State.thy ===== *)
theory Account_State
  imports Admin_UC
begin

text \<open>
  The invariant that ties sessions to accounts: a session that is not revoked belongs to an active
  account. Most statements keep it; the two that could break it, opening a session and writing a
  user row, are followed through the transactions that run them.
\<close>

section \<open>Rules for transactions\<close>

lemma transacts_execute_to:
  assumes "\<And>d x d'. P d \<Longrightarrow> s d = Inr (x, d') \<Longrightarrow> P' d'" and "\<And>x. transacts C P' (f x)"
  shows "transacts C P (bindM (execute s) f)"
  by (rule transacts_execute, rule transacts_conseq [OF assms(2)]) (use assms(1) in blast)

text \<open>What a helper returns, whatever the state.\<close>

definition returns :: "('a \<Rightarrow> bool) \<Rightarrow> ('r, 'a) app \<Rightarrow> bool" where
  "returns R m \<longleftrightarrow> (\<forall>w. wp m (\<lambda>x _. R x) (\<lambda>_ _. True) w)"

lemma transacts_returns:
  fixes m :: "('r, 'a) app"
  assumes "keeps (db_inv2 C P) m" and "returns R m" and "\<And>x. R x \<Longrightarrow> transacts C P (f x)"
  shows "transacts C P (bindM m f)"
  unfolding transacts_def
proof (intro allI impI)
  fix w :: "'r world" assume inv: "db_inv2 C P w"
  show "C (db (snd (bindM m f w)))"
  proof (cases "m w")
    case (Pair r w')
    have inv': "db_inv2 C P w'" by (rule keepsD [OF assms(1) inv Pair])
    show ?thesis
    proof (cases r)
      case (Inr x)
      with Pair assms(2) have "R x" by (auto simp: returns_def wp_def dest: spec [of _ w])
      with inv' assms(3) Pair Inr show ?thesis by (simp add: bindM_def transacts_def)
    qed (use Pair inv' in \<open>simp add: bindM_def db_inv2_def\<close>)
  qed
qed

lemma bindM_assoc: "bindM (bindM m f) g = bindM m (\<lambda>x. bindM (f x) g)"
  by (rule ext) (simp add: bindM_def split: prod.splits sum.splits)

lemma bindM_seqM: "bindM (seqM m n) f = seqM m (bindM n f)"
  by (simp add: seqM_def bindM_assoc)

lemma bindM_retM: "bindM (retM x) f = f x"
  by (rule ext) (simp add: bindM_def retM_def)

lemmas prog_assoc = bindM_assoc bindM_seqM bindM_retM

section \<open>Live sessions belong to active accounts\<close>

definition active_user :: "int \<Rightarrow> database \<Rightarrow> bool" where
  "active_user uid d \<longleftrightarrow> (\<exists>u \<in> set (tbl_users d). ur_id u = uid \<and> ur_is_active u)"

definition live_active :: "database \<Rightarrow> bool" where
  "live_active d \<longleftrightarrow>
     (\<forall>s \<in> set (tbl_sessions d). sr_revoked_at s = None \<longrightarrow> active_user (sr_user_id s) d)"

definition account_ok :: "database \<Rightarrow> bool" where
  "account_ok d \<longleftrightarrow> wf_db d \<and> live_active d"

lemma live_active_sessions:
  assumes "live_active d" and "tbl_users d' = tbl_users d"
    and "\<And>s. s \<in> set (tbl_sessions d') \<Longrightarrow> sr_revoked_at s = None \<Longrightarrow>
           s \<in> set (tbl_sessions d) \<or> active_user (sr_user_id s) d"
  shows "live_active d'"
  using assms unfolding live_active_def active_user_def by metis

lemma spend_rows_unrevoked:
  "s \<in> set (spend_rows sr_revoked_at stamp_session P m rows) \<Longrightarrow> sr_revoked_at s = None \<Longrightarrow>
     s \<in> set rows \<and> \<not> P s"
  by (auto simp: spend_rows_def split: if_splits)

lemma active_user_replace:
  assumes "active_user uid d" and "ur_id row = uid \<longrightarrow> ur_is_active row"
  shows "active_user uid (d\<lparr>tbl_users := replace_by ur_id row (tbl_users d)\<rparr>)"
proof -
  obtain u where u: "u \<in> set (tbl_users d)" "ur_id u = uid" "ur_is_active u"
    using assms(1) by (auto simp: active_user_def)
  let ?v = "if ur_id u = ur_id row then row else u"
  have "?v \<in> set (replace_by ur_id row (tbl_users d))" using u(1) by (auto simp: replace_by_def)
  moreover have "ur_id ?v = uid" "ur_is_active ?v" using u assms(2) by auto
  ultimately show ?thesis by (auto simp: active_user_def)
qed

lemma find_unique_row:
  "uniq k xs \<Longrightarrow> find (\<lambda>r. k r = v) xs = Some x \<Longrightarrow> y \<in> set xs \<Longrightarrow> k y = v \<Longrightarrow> y = x"
  using find_Some_key uniq_inj by metis

lemma live_active_update_user:
  assumes "db_update_user now u d = Inr (x, d')" and "wf_db d" and "live_active d"
    and "active_user (user_id u) d \<longrightarrow> user_is_active u"
  shows "live_active d'"
proof -
  obtain row where "find (\<lambda>r. ur_id r = user_id u) (tbl_users d) = Some row"
    and d': "d' = d \<or> update_user (written_user_row now u row) d = Inr d'"
    using db_update_user_shape [OF assms(1)] by blast
  then have id: "ur_id row = user_id u" by (auto dest: find_Some_key)
  show ?thesis
    using d'
  proof
    assume "update_user (written_user_row now u row) d = Inr d'"
    then have d': "d' = d\<lparr>tbl_users := replace_by ur_id (written_user_row now u row) (tbl_users d)\<rparr>"
      by (rule update_user_shape)
    have "active_user uid d'" if "active_user uid d" for uid
      unfolding d' by (rule active_user_replace) (use that assms id in auto)
    then show ?thesis using assms(3) by (simp add: live_active_def d')
  qed (use assms(3) in simp)
qed

lemma live_active_update_password:
  assumes "db_update_password now u d = Inr (x, d')" and "wf_db d" and "live_active d"
  shows "live_active d'"
proof -
  obtain row where row: "find (\<lambda>r. ur_id r = user_id u) (tbl_users d) = Some row"
    and d': "d' = d \<or> update_user (written_password_row now u row) d = Inr d'"
    using db_update_password_shape [OF assms(1)] by blast
  show ?thesis
    using d'
  proof
    assume "update_user (written_password_row now u row) d = Inr d'"
    then have d': "d' = d\<lparr>tbl_users := replace_by ur_id (written_password_row now u row) (tbl_users d)\<rparr>"
      by (rule update_user_shape)
    have "active_user uid d'" if act: "active_user uid d" for uid
      unfolding d'
    proof (rule active_user_replace [OF act])
      show "ur_id (written_password_row now u row) = uid \<longrightarrow>
          ur_is_active (written_password_row now u row)"
        using act find_unique_row [OF wf_uniqs(1) [OF assms(2)] row] find_Some_key [OF row]
        by (auto simp: active_user_def)
    qed
    then show ?thesis using assms(3) by (simp add: live_active_def d')
  qed (use assms(3) in simp)
qed

lemma live_active_stmt:
  assumes "db_stmt k d d'" and "k \<notin> {AddSession, UpdateUser}" and "wf_db d" and "live_active d"
  shows "live_active d'"
  using assms(1)
proof cases
  case (add_user now u x)
  then obtain row where "d' = d\<lparr>tbl_users := tbl_users d @ [row], seq_users := seq_users d + 1\<rparr>"
    using db_add_user_shape by blast
  then show ?thesis using assms(4) by (auto simp: live_active_def active_user_def)
next
  case (update_password now u y)
  then show ?thesis using live_active_update_password assms(3,4) by blast
next
  case (revoke_session jti m y)
  then show ?thesis
    by (auto simp: db_revoke_def dest: spend_rows_unrevoked intro!: live_active_sessions [OF assms(4)])
next
  case (revoke_all uid m except n)
  then show ?thesis
    by (auto simp: db_revoke_all_def dest: spend_rows_unrevoked intro!: live_active_sessions [OF assms(4)])
next
  case (add_token t t')
  then show ?thesis
    by (auto dest!: db_add_token_shape intro!: live_active_sessions [OF assms(4)])
next
  case (add_audit e e')
  then show ?thesis
    by (auto dest!: db_add_audit_shape intro!: live_active_sessions [OF assms(4)])
qed (use assms(2) in \<open>auto simp: db_assign_role_def db_revoke_role_def db_add_role_def
      db_grant_permission_def db_revoke_permission_def db_add_permission_def db_mark_used_def
      db_invalidate_def delete_role_row_def delete_permission_row_def insert_user_role_def
      insert_role_permission_def insert_role_def insert_permission_def Let_def
      split: if_splits sum.splits intro!: live_active_sessions [OF assms(4)]\<close>)

lemma account_ok_closed: "db_closed (- {AddSession, UpdateUser}) account_ok"
  using live_active_stmt db_stmt_wf by (auto simp: db_closed_def account_ok_def)

lemma account_ok_add_session:
  assumes "db_add_session s d = Inr (x, d')" and "account_ok d" and "active_user (sess_user_id s) d"
  shows "account_ok d'"
  unfolding account_ok_def
proof
  show "wf_db d'" using assms(2) db_stmt_wf [OF add_session [OF assms(1)]] by (simp add: account_ok_def)
  show "live_active d'"
    using assms db_add_session_shape [OF assms(1)]
    by (auto simp: account_ok_def new_session_row_def intro!: live_active_sessions [of d])
qed

lemma account_ok_update_user:
  assumes "db_update_user now u d = Inr (x, d')" and "account_ok d"
    and "active_user (user_id u) d \<longrightarrow> user_is_active u"
  shows "account_ok d'"
  using assms live_active_update_user db_stmt_wf [OF update_user [OF assms(1)]]
  by (simp add: account_ok_def)

text \<open>What a loaded user says about the table.\<close>

lemma found_by_id_active:
  assumes "wf_db d" and "db_user_by_id uid d = Some u"
  shows "user_id u = uid" and "active_user uid d \<longleftrightarrow> user_is_active u"
proof -
  obtain row where row: "find (\<lambda>r. ur_id r = uid) (tbl_users d) = Some row" "u = user_to_entity d row"
    using assms(2) by (auto simp: db_user_by_id_def)
  then show "user_id u = uid" by (auto dest: find_Some_key)
  show "active_user uid d \<longleftrightarrow> user_is_active u"
    using row find_unique_row [OF wf_uniqs(1) [OF assms(1)] row(1)] find_Some_key [OF row(1)]
    by (auto simp: active_user_def)
qed

lemma found_by_id_is_active:
  "wf_db d \<Longrightarrow> db_user_by_id uid d = Some u \<Longrightarrow> user_is_active u \<Longrightarrow> active_user (user_id u) d"
  using found_by_id_active by blast

lemma found_by_email_active:
  assumes "wf_db d" and "db_user_by_email email d = Inr (Some u)" and "user_is_active u"
  shows "active_user (user_id u) d"
  using assms by (auto simp: db_user_by_email_wf active_user_def dest: find_Some_key)

section \<open>Every transaction keeps it\<close>

lemma keeps_account_ok:
  "K \<inter> {AddSession, UpdateUser} = {} \<Longrightarrow> db_closed K account_ok"
  by (rule account_ok_closed [THEN db_closed_subset]) auto

lemma helpers_keep_account_ok:
  "keeps (db_inv2 A account_ok) (audit_record env action who device metadata)"
  "keeps (db_inv2 A account_ok) (verification_issue env c uid)"
  "keeps (db_inv2 A account_ok) (tokens_mark_used env t)"
  "keeps (db_inv2 A account_ok) (tokens_invalidate_for_user env uid purpose)"
  by (rule keeps_audit_record [of "{AddAudit}"] keeps_verification_issue [of "{SpendTokens, AddToken}"]
      keeps_sessions_write(5,6) [of "{SpendTokens}"]; simp add: keeps_account_ok)+

subsection \<open>Login\<close>

lemma login_accept_account_ok:
  assumes "\<And>d. P d \<Longrightarrow> account_ok d \<and> active_user (user_id u) d"
  shows "transacts account_ok P (login_accept env c device u)"
  unfolding login_accept_def sessions_add_def
  by (intro transacts_uuid transacts_readings transacts_bind keeps_security
        transacts_execute_to [where P' = account_ok] transacts_seq transacts_commit_seq
        transacts_basic helpers_keep_account_ok)
     (use assms account_ok_add_session in \<open>auto simp: login_session_def\<close>)

lemma credentials_valid_active:
  "credentials_valid env c pw user = Inr True \<Longrightarrow> \<exists>u. user = Some u \<and> user_is_active u"
  by (auto simp: credentials_valid_def split: option.splits if_splits)

lemma login_reject_account_ok:
  assumes "\<And>d. P d \<Longrightarrow> account_ok d"
  shows "transacts account_ok P (login_reject env c email device user)"
  unfolding login_reject_def login_count_failure_def charge_def
  by (rule transacts_conseq [OF _ assms])
     (auto intro!: transacts_seq transacts_commit_seq transacts_basic keeps_rules helpers_keep_account_ok)

lemma login_account_ok:
  "transacts account_ok account_ok (login_transaction env c email pw device)"
  unfolding login_transaction_def users_get_by_email_def
  by (auto intro!: transacts_rules login_reject_account_ok login_accept_account_ok
      dest!: credentials_valid_active dest: found_by_email_active simp: account_ok_def)

subsection \<open>Refresh\<close>

lemma active_user_revoke: "db_closed {RevokeSessions} (active_user uid)"
  by (auto simp: db_closed_def active_user_def db_revoke_def db_revoke_all_def elim!: db_stmt.cases) blast+

lemma refresh_rotate_account_ok:
  assumes "\<And>d. P d \<Longrightarrow> account_ok d \<and> active_user (user_id u) d"
  shows "transacts account_ok P (refresh_rotate env c device jti old u)"
proof -
  let ?Q = "\<lambda>d. account_ok d \<and> active_user (user_id u) d"
  have revoke: "keeps (db_inv2 account_ok ?Q) (sessions_revoke jti m)" for m
    by (intro keeps_sessions_write(2) [of "{RevokeSessions}"] db_closed_conj keeps_account_ok
        active_user_revoke) auto
  have "transacts account_ok ?Q (refresh_rotate env c device jti old u)"
    unfolding refresh_rotate_def sessions_add_def
    by (intro transacts_uuid transacts_readings transacts_bind keeps_security transacts_seq revoke
          transacts_execute_to [where P' = account_ok] transacts_commit_seq transacts_basic)
       (use account_ok_add_session in \<open>auto simp: rotated_session_def\<close>)
  then show ?thesis using assms by (rule transacts_conseq)
qed

lemma refresh_account_ok:
  "transacts account_ok account_ok (refresh_transaction env c payload device)"
  unfolding refresh_transaction_def sessions_get_by_jti_def users_get_by_id_def
  by (auto intro!: transacts_rules transacts_bind [OF keeps_session_live] refresh_rotate_account_ok
      simp: account_ok_def dest: found_by_id_is_active)

subsection \<open>Writing a user\<close>

lemma transacts_users_update:
  assumes "\<And>now d x d'. P d \<Longrightarrow> db_update_user now u d = Inr (x, d') \<Longrightarrow> P' d'"
    and "\<And>x. transacts C P' (f x)"
  shows "transacts C P (bindM (users_update env u) f)"
  unfolding users_update_def bindM_assoc
  by (intro transacts_readings transacts_execute_to [where P' = P'] assms)

definition same_activity :: "user \<Rightarrow> user \<Rightarrow> bool" where
  "same_activity u v \<longleftrightarrow> user_id v = user_id u \<and> user_is_active v = user_is_active u"

lemma update_email_same: "returns (same_activity u) (update_email u new)"
  by (auto simp: returns_def update_email_def refuse_if_found_def users_get_by_email_def wp_rules
      same_activity_def Let_def split: option.splits sum.splits)

lemma update_username_same: "returns (same_activity u) (update_username u new)"
  by (auto simp: returns_def update_username_def refuse_if_found_def users_get_by_username_def wp_rules
      same_activity_def Let_def split: option.splits sum.splits)

lemma account_ok_update_same:
  assumes "db_update_user now v d = Inr (x, d')" and "account_ok d"
    and "db_user_by_id uid d = Some u" and "same_activity u v"
  shows "account_ok d'"
  by (rule account_ok_update_user [OF assms(1,2)])
     (use assms(2-4) found_by_id_active in \<open>auto simp: same_activity_def account_ok_def\<close>)

lemma update_account_ok:
  "transacts account_ok account_ok (update_transaction env c uid data)"
proof -
  have flushed: "transacts account_ok (\<lambda>d. account_ok d \<and> db_user_by_id uid d = Some u)
      (bindM (users_update env v) (\<lambda>updated.
       bindM (if is_email_verified updated then retM None
              else bindM (verification_issue env c (user_id updated)) (\<lambda>secret.
                   retM (Some (user_email updated, secret)))) (\<lambda>pending.
       seqM commit (retM (updated, pending)))))" if "same_activity u v" for u v
    by (rule transacts_users_update [where P' = account_ok])
       (use that account_ok_update_same in blast,
        auto intro!: transacts_bind transacts_commit_seq transacts_basic keeps_if keeps_bindM
          keeps_retM helpers_keep_account_ok)
  show ?thesis
    unfolding update_transaction_def users_get_by_id_def
    by (intro transacts_query transacts_case_option transacts_basic
          transacts_returns [OF keeps_update_parts(1) update_email_same]
          transacts_returns [OF keeps_update_parts(2) update_username_same]
          transacts_conseq [OF flushed])
       (auto simp: same_activity_def update_display_name_def split: option.splits)
qed

lemma transacts_token_owner:
  assumes "\<And>u. user_is_active u \<Longrightarrow> transacts C P (f u)"
  shows "transacts C P (bindM (token_owner t) f)"
proof (rule transacts_returns [OF keeps_token_parts(2)])
  show "returns user_is_active (token_owner t)"
    by (auto simp: returns_def token_owner_def users_get_by_id_def wp_rules split: option.splits)
qed (rule assms)

lemma verify_account_ok:
  "transacts account_ok account_ok (verify_transaction env h device)"
proof -
  have stamp: "transacts account_ok account_ok (bindM (stamp_verified env u) f)"
    if "user_is_active u" and "\<And>x. transacts account_ok account_ok (f x)" for u f
  proof (cases "is_email_verified u")
    case False
    have "transacts account_ok account_ok
        (bindM (users_update env (u\<lparr>user_email_verified_at := Some (Aware now)\<rparr>)) f)" for now
      by (rule transacts_users_update [where P' = account_ok])
         (use that account_ok_update_user in auto)
    with False show ?thesis
      by (auto simp: stamp_verified_def bindM_assoc intro: transacts_readings)
  qed (use that(2) in \<open>simp add: stamp_verified_def bindM_def retM_def\<close>)
  show ?thesis
    unfolding verify_transaction_def
    by (intro transacts_bind [OF keeps_token_parts(1)] transacts_token_owner transacts_seq stamp
        helpers_keep_account_ok transacts_commit_seq transacts_basic)
qed

subsection \<open>Deactivating an account\<close>

definition live_active_except :: "int \<Rightarrow> database \<Rightarrow> bool" where
  "live_active_except uid d \<longleftrightarrow>
     wf_db d \<and> (\<forall>s \<in> set (tbl_sessions d). sr_revoked_at s = None \<longrightarrow>
                    active_user (sr_user_id s) d \<or> sr_user_id s = uid)"

lemma update_user_except:
  assumes "db_update_user now u d = Inr (x, d')" and "account_ok d"
  shows "live_active_except (user_id u) d'"
proof -
  have wf: "wf_db d" and live: "live_active d" using assms(2) by (simp_all add: account_ok_def)
  obtain row where row: "find (\<lambda>r. ur_id r = user_id u) (tbl_users d) = Some row"
    and d': "d' = d \<or> update_user (written_user_row now u row) d = Inr d'"
    using db_update_user_shape [OF assms(1)] by blast
  have wf': "wf_db d'" using db_stmt_wf [OF update_user [OF assms(1)]] wf by simp
  show ?thesis
    using d'
  proof
    assume "update_user (written_user_row now u row) d = Inr d'"
    then have d': "d' = d\<lparr>tbl_users := replace_by ur_id (written_user_row now u row) (tbl_users d)\<rparr>"
      by (rule update_user_shape)
    have "active_user uid d'" if "active_user uid d" "uid \<noteq> user_id u" for uid
      unfolding d' by (rule active_user_replace) (use that find_Some_key [OF row] in auto)
    with live wf' show ?thesis by (auto simp: live_active_except_def live_active_def d')
  qed (use live wf' in \<open>auto simp: live_active_except_def live_active_def\<close>)
qed

lemma revoke_all_restores:
  assumes "db_revoke_all uid m None d = Inr (n, d')" and "live_active_except uid d"
  shows "account_ok d'"
proof -
  have "wf_db d'"
    using db_stmt_wf [OF revoke_all [OF assms(1)]] assms(2) by (simp add: live_active_except_def)
  moreover have "live_active d'"
    using assms
    by (auto simp: live_active_def live_active_except_def active_user_def db_revoke_all_def
        revoke_all_selects_def dest!: spend_rows_unrevoked) blast
  ultimately show ?thesis by (simp add: account_ok_def)
qed

lemma transacts_revoke_all:
  assumes "\<And>d. P d \<Longrightarrow> live_active_except uid d" and "\<And>n. transacts C account_ok (f n)"
  shows "transacts C P (bindM (sessions_revoke_all_for_user uid m None) f)"
  unfolding sessions_revoke_all_for_user_def
  by (rule transacts_execute_to [OF _ assms(2)]) (use assms(1) revoke_all_restores in blast)

lemma transacts_deactivate:
  assumes "user_id u = uid" and "\<And>x. transacts C (live_active_except uid) (f x)"
  shows "transacts C account_ok (bindM (users_update env u) f)"
  by (rule transacts_users_update [OF _ assms(2)]) (use assms(1) update_user_except in blast)

lemma users_get_by_id_same: "returns (\<lambda>x. \<forall>u. x = Some u \<longrightarrow> user_id u = uid) (users_get_by_id uid)"
  by (auto simp: returns_def users_get_by_id_def wp_rules db_user_by_id_def split: option.splits
      dest: find_Some_key)

lemmas transacts_load_user = transacts_returns [OF keeps_reads(1) users_get_by_id_same]

lemma delete_account_ok:
  "transacts account_ok account_ok (delete_transaction env uid device)"
  unfolding delete_transaction_def
  by (intro transacts_load_user transacts_case_option transacts_basic transacts_deactivate
      transacts_readings transacts_revoke_all transacts_seq helpers_keep_account_ok transacts_commit)
     simp_all

lemma ban_account_ok:
  "transacts account_ok account_ok (ban_transaction env actor uid reason device)"
  unfolding ban_transaction_def
  by (intro transacts_load_user transacts_case_option transacts_basic transacts_when transacts_if
      transacts_deactivate transacts_readings transacts_revoke_all transacts_seq helpers_keep_account_ok
      transacts_commit_seq) simp_all

lemma unban_account_ok:
  "transacts account_ok account_ok (unban_transaction env actor uid device)"
  unfolding unban_transaction_def
  by (intro transacts_load_user transacts_case_option transacts_basic transacts_if
      transacts_users_update [where P' = account_ok] transacts_seq helpers_keep_account_ok
      transacts_commit_seq) (use account_ok_update_user in auto)

section \<open>Every use case keeps it\<close>

lemma keeps_with_uow_transacts: "transacts A A m \<Longrightarrow> keeps (db_inv2 A B) (with_uow m)"
  by (auto simp: keeps_def db_inv2_def transacts_with_uow) (simp add: with_uow_def Let_def split_beta)

lemmas plain_keeps =
  keeps_retM keeps_raiseM keeps_liftM keeps_bindM keeps_seqM keeps_whenM keeps_if keeps_case_option
  keeps_case_prod keeps_security keeps_limiter keeps_cache keeps_send keeps_rate_limits

lemma login_keeps_account_ok: "keeps (db_inv2 account_ok B) (login env c data device)"
  unfolding login_def Let_def login_guard_ip_def login_guard_account_def
  by (intro plain_keeps keeps_with_uow_transacts login_account_ok)

lemma refresh_keeps_account_ok: "keeps (db_inv2 account_ok B) (refresh env c token device)"
  unfolding refresh_def by (intro plain_keeps keeps_with_uow_transacts refresh_account_ok)

lemma update_keeps_account_ok: "keeps (db_inv2 account_ok B) (update_profile env c uid data)"
  unfolding update_profile_def by (intro plain_keeps keeps_with_uow_transacts update_account_ok)

lemma verify_keeps_account_ok: "keeps (db_inv2 account_ok B) (verify_email env c token device)"
  unfolding verify_email_def by (intro plain_keeps keeps_with_uow_transacts verify_account_ok)

lemma delete_keeps_account_ok: "keeps (db_inv2 account_ok B) (delete_user env c uid device)"
  unfolding delete_user_def by (intro plain_keeps keeps_with_uow_transacts delete_account_ok)

lemma ban_keeps_account_ok: "keeps (db_inv2 account_ok B) (ban_user env c actor uid reason device)"
  unfolding ban_user_def by (intro plain_keeps keeps_with_uow_transacts ban_account_ok)

lemma unban_keeps_account_ok: "keeps (db_inv2 account_ok B) (unban_user env c actor uid device)"
  unfolding unban_user_def by (intro plain_keeps keeps_with_uow_transacts unban_account_ok)

lemmas followed_account_ok =
  login_keeps_account_ok refresh_keeps_account_ok update_keeps_account_ok verify_keeps_account_ok
  delete_keeps_account_ok ban_keeps_account_ok unban_keeps_account_ok

lemmas closed_account_ok =
  keeps_logout [OF keeps_account_ok] keeps_register [OF keeps_account_ok]
  keeps_change_password [OF keeps_account_ok] keeps_forgot_password [OF keeps_account_ok]
  keeps_reset_password [OF keeps_account_ok] keeps_revoke_sessions [OF keeps_account_ok]
  keeps_access_control [OF keeps_account_ok]

lemmas use_cases_account_ok =
  followed_account_ok closed_account_ok [simplified] keeps_authenticate keeps_listings

end
