(* ===== verification/Token_State.thy ===== *)
theory Token_State
  imports Account_State
begin

text \<open>
  The invariant of one-time tokens: an account has at most one unused token of each purpose, so only
  the newest mailed link works. Only issuing a token can break it, and every issuer spends the
  earlier tokens of that purpose first.
\<close>

definition single_unused :: "database \<Rightarrow> bool" where
  "single_unused d \<longleftrightarrow>
     (\<forall>r \<in> set (tbl_tokens d). \<forall>r' \<in> set (tbl_tokens d).
        tr_used_at r = None \<and> tr_used_at r' = None \<and> tr_user_id r = tr_user_id r' \<and>
        tr_purpose r = tr_purpose r' \<longrightarrow> r = r')"

definition none_unused :: "int \<Rightarrow> token_purpose \<Rightarrow> database \<Rightarrow> bool" where
  "none_unused uid purpose d \<longleftrightarrow>
     (\<forall>r \<in> set (tbl_tokens d).
        tr_user_id r = uid \<and> tr_purpose r = token_purpose_value purpose \<longrightarrow> tr_used_at r \<noteq> None)"

lemma spend_tokens_unused:
  "r \<in> set (spend_rows tr_used_at stamp_token P m rows) \<Longrightarrow> tr_used_at r = None \<Longrightarrow>
     r \<in> set rows \<and> \<not> P r"
  by (auto simp: spend_rows_def split: if_splits)

lemma single_unused_tokens:
  assumes "single_unused d"
    and "\<And>r. r \<in> set (tbl_tokens d') \<Longrightarrow> tr_used_at r = None \<Longrightarrow> r \<in> set (tbl_tokens d)"
  shows "single_unused d'"
  using assms unfolding single_unused_def by blast

lemma single_unused_stmt:
  assumes "db_stmt k d d'" and "k \<noteq> AddToken" and "single_unused d"
  shows "single_unused d'"
  using assms(1)
proof cases
  case (add_user now u x)
  then show ?thesis by (auto dest!: db_add_user_shape intro!: single_unused_tokens [OF assms(3)])
next
  case (update_user now u x)
  then show ?thesis
    using assms(3) by (auto dest!: db_update_user_shape update_user_shape simp: single_unused_def)
next
  case (update_password now u y)
  then show ?thesis
    using assms(3) by (auto dest!: db_update_password_shape update_user_shape simp: single_unused_def)
next
  case (add_session s s')
  then show ?thesis by (auto dest!: db_add_session_shape intro!: single_unused_tokens [OF assms(3)])
next
  case (add_audit e e')
  then show ?thesis by (auto dest!: db_add_audit_shape intro!: single_unused_tokens [OF assms(3)])
next
  case (mark_used tid m y)
  then show ?thesis
    by (auto simp: db_mark_used_def dest: spend_tokens_unused intro!: single_unused_tokens [OF assms(3)])
next
  case (invalidate uid purpose m y)
  then show ?thesis
    by (auto simp: db_invalidate_def dest: spend_tokens_unused intro!: single_unused_tokens [OF assms(3)])
qed (use assms(2) in \<open>auto simp: db_assign_role_def db_revoke_role_def db_add_role_def
      db_grant_permission_def db_revoke_permission_def db_add_permission_def db_revoke_def
      db_revoke_all_def delete_role_row_def delete_permission_row_def insert_user_role_def
      insert_role_permission_def insert_role_def insert_permission_def Let_def
      split: if_splits sum.splits intro!: single_unused_tokens [OF assms(3)]\<close>)

lemma single_unused_closed: "AddToken \<notin> K \<Longrightarrow> db_closed K single_unused"
  using single_unused_stmt by (auto simp: db_closed_def)

text \<open>Spending the earlier tokens makes room for one more.\<close>

lemma invalidate_none_unused:
  "db_invalidate uid purpose m d = Inr (x, d') \<Longrightarrow> single_unused d \<Longrightarrow>
     single_unused d' \<and> none_unused uid purpose d'"
  by (auto simp: db_invalidate_def none_unused_def dest!: spend_tokens_unused
      intro!: single_unused_tokens [of d])

lemma single_unused_snoc:
  assumes "single_unused d" and "none_unused uid purpose d"
    and "tr_user_id row = uid" and "tr_purpose row = token_purpose_value purpose"
  shows "single_unused (d\<lparr>tbl_tokens := tbl_tokens d @ [row], seq_tokens := n\<rparr>)"
  unfolding single_unused_def
proof (intro ballI impI)
  fix r r'
  assume r: "r \<in> set (tbl_tokens (d\<lparr>tbl_tokens := tbl_tokens d @ [row], seq_tokens := n\<rparr>))"
    "r' \<in> set (tbl_tokens (d\<lparr>tbl_tokens := tbl_tokens d @ [row], seq_tokens := n\<rparr>))"
    and same: "tr_used_at r = None \<and> tr_used_at r' = None \<and> tr_user_id r = tr_user_id r' \<and>
      tr_purpose r = tr_purpose r'"
  have "x = row" if "x \<in> set (tbl_tokens d) \<or> x = row" "tr_used_at x = None" "tr_user_id x = uid"
    "tr_purpose x = token_purpose_value purpose" for x
    using that assms(2) by (auto simp: none_unused_def)
  with r same assms show "r = r'"
    by (cases "r = row"; cases "r' = row") (auto simp: single_unused_def)
qed

lemma add_token_single:
  assumes "db_add_token t d = Inr (x, d')" and "single_unused d"
    and "none_unused (tok_user_id t) (tok_purpose t) d"
  shows "single_unused d'"
proof -
  obtain row where row: "row = (new_token_row t)\<lparr>tr_id := seq_tokens d\<rparr>"
    and d': "d' = d\<lparr>tbl_tokens := tbl_tokens d @ [row], seq_tokens := seq_tokens d + 1\<rparr>"
    using db_add_token_shape [OF assms(1)] by blast
  show ?thesis
    unfolding d' by (rule single_unused_snoc [OF assms(2,3)]) (simp_all add: row new_token_row_def)
qed

lemma transacts_invalidate:
  assumes "transacts C (\<lambda>d. single_unused d \<and> none_unused uid purpose d) m"
  shows "transacts C single_unused (seqM (tokens_invalidate_for_user env uid purpose) m)"
  unfolding tokens_invalidate_for_user_def seqM_def bindM_assoc
  by (intro transacts_readings transacts_execute_to [OF _ assms]) (use invalidate_none_unused in blast)

lemma transacts_add_token:
  assumes "tok_user_id t = uid" "tok_purpose t = purpose" and "\<And>x. transacts C single_unused (f x)"
  shows "transacts C (\<lambda>d. single_unused d \<and> none_unused uid purpose d) (bindM (tokens_add t) f)"
  unfolding tokens_add_def
  by (rule transacts_execute_to [OF _ assms(3)]) (use assms(1,2) add_token_single in blast)

lemma transacts_issue:
  assumes "\<And>x. transacts C single_unused (f x)"
  shows "transacts C single_unused (bindM (verification_issue env c uid) f)"
  unfolding verification_issue_def prog_assoc
  by (intro transacts_invalidate transacts_bind [OF keeps_security(2)] transacts_readings
      transacts_add_token assms) (simp_all add: verification_token_def)

section \<open>Every transaction keeps it\<close>

lemma unused_keeps:
  "keeps (db_inv2 A single_unused) (users_add env u)"
  "keeps (db_inv2 A single_unused) (users_update env u)"
  "keeps (db_inv2 A single_unused) (users_assign_role uid rid)"
  "keeps (db_inv2 A single_unused) (audit_record env action who device metadata)"
  by (rule keeps_users_write(1) [of "{AddUser}"] keeps_users_write(2) [of "{UpdateUser}"]
      keeps_users_write(4) [of "{AssignRole}"] keeps_audit_record [of "{AddAudit}"];
      simp add: single_unused_closed)+

lemma forgot_single_unused:
  "transacts single_unused single_unused (forgot_transaction env c address)"
  unfolding forgot_transaction_def
  by (intro transacts_bind [OF keeps_reads(2)] transacts_case_option transacts_if transacts_basic
      transacts_invalidate transacts_bind [OF keeps_security(2)] transacts_readings
      transacts_add_token transacts_commit_seq) (simp_all add: reset_token_def)

lemma register_single_unused:
  "transacts single_unused single_unused (register_transaction env c email username data device)"
  unfolding register_transaction_def refuse_if_found_def grant_default_role_def
  by (intro transacts_bind [OF keeps_reads(2)] transacts_bind [OF keeps_reads(3)] transacts_when
      transacts_bind [OF keeps_security(1)] transacts_bind [OF unused_keeps(1)] transacts_seq
      keeps_bindM keeps_reads keeps_case_option keeps_retM unused_keeps transacts_issue
      transacts_commit_seq transacts_bind [OF keeps_reads(1)] transacts_basic)

lemma update_single_unused:
  "transacts single_unused single_unused (update_transaction env c uid data)"
  unfolding update_transaction_def
  by (auto intro!: transacts_bind [OF keeps_reads(1)] transacts_case_option transacts_basic
      transacts_bind [OF keeps_update_parts(1)] transacts_bind [OF keeps_update_parts(2)]
      transacts_bind [OF unused_keeps(2)] transacts_issue transacts_commit_seq
      simp: prog_assoc if_distrib [of "\<lambda>m. bindM m _"])

section \<open>Every use case keeps it\<close>

lemma register_keeps_unused: "keeps (db_inv2 single_unused B) (register_user env c data device)"
  unfolding register_user_def Let_def
  by (intro plain_keeps keeps_with_uow_transacts register_single_unused)

lemma update_keeps_unused: "keeps (db_inv2 single_unused B) (update_profile env c uid data)"
  unfolding update_profile_def by (intro plain_keeps keeps_with_uow_transacts update_single_unused)

lemma forgot_keeps_unused: "keeps (db_inv2 single_unused B) (forgot_password env c email device)"
  unfolding forgot_password_def Let_def
  by (intro plain_keeps keeps_with_uow_transacts forgot_single_unused)

lemmas use_cases_unused =
  register_keeps_unused update_keeps_unused forgot_keeps_unused
  keeps_login [OF single_unused_closed, simplified] keeps_refresh [OF single_unused_closed, simplified]
  keeps_authenticate keeps_logout [OF single_unused_closed, simplified]
  keeps_verify_email [OF single_unused_closed, simplified]
  keeps_change_password [OF single_unused_closed, simplified]
  keeps_reset_password [OF single_unused_closed, simplified]
  keeps_delete_user [OF single_unused_closed, simplified] keeps_ban [OF single_unused_closed, simplified]
  keeps_unban [OF single_unused_closed, simplified]
  keeps_revoke_sessions [OF single_unused_closed, simplified] keeps_listings
  keeps_access_control [OF single_unused_closed, simplified]

end
