(* ===== verification/Service.thy ===== *)
theory Service
  imports Token_State
begin

text \<open>
  The service as a state machine: a step runs one use case to its end, with any arguments and
  whatever it returns or raises. A request of the API is such a step, preceded by the authentication
  step of its caller; here every use case is open to every caller, so what holds of all reachable
  states holds whatever the routers let through. A further step takes a reading of a clock or a random
  source, as the HTTP layer does for its cookies. Steps do not interleave.
\<close>

section \<open>Steps\<close>

inductive service_step :: "'r env \<Rightarrow> config \<Rightarrow> 'r world \<Rightarrow> 'r world \<Rightarrow> bool" for env c where
  login: "service_step env c w (snd (login env c data device w))"
| refresh: "service_step env c w (snd (refresh env c token device w))"
| authenticate: "service_step env c w (snd (authenticate env c token w))"
| logout: "service_step env c w (snd (logout env c token device w))"
| register: "service_step env c w (snd (register_user env c reg device w))"
| update: "service_step env c w (snd (update_profile env c uid upd w))"
| verify: "service_step env c w (snd (verify_email env c token device w))"
| change: "service_step env c w (snd (change_password env c uid chp device w))"
| forgot: "service_step env c w (snd (forgot_password env c email device w))"
| reset: "service_step env c w (snd (reset_password env c rsp device w))"
| delete: "service_step env c w (snd (delete_user env c uid device w))"
| ban: "service_step env c w (snd (ban_user env c actor target reason device w))"
| unban: "service_step env c w (snd (unban_user env c actor target device w))"
| profile: "service_step env c w (snd (get_user_profile uid w))"
| sessions: "service_step env c w (snd (list_user_sessions env uid w))"
| revoke_all: "service_step env c w (snd (revoke_all_sessions env uid except device w))"
| revoke_one: "service_step env c w (snd (revoke_user_session env uid sid device w))"
| roles: "service_step env c w (snd (list_roles w))"
| permissions: "service_step env c w (snd (list_permissions w))"
| users: "service_step env c w (snd (list_users w))"
| new_role: "service_step env c w (snd (create_role name descr w))"
| drop_role: "service_step env c w (snd (delete_role rid w))"
| new_permission: "service_step env c w (snd (create_permission res act descr w))"
| grant: "service_step env c w (snd (grant_permission_to_role rid pid w))"
| ungrant: "service_step env c w (snd (revoke_permission_from_role rid pid w))"
| assign: "service_step env c w (snd (assign_role_to_user env c uid rid w))"
| unassign: "service_step env c w (snd (revoke_role_from_user env c uid rid w))"
| reading: "service_step env c w (w\<lparr>draws := Suc (draws w)\<rparr>)"

inductive service_run :: "'r env \<Rightarrow> config \<Rightarrow> 'r world \<Rightarrow> 'r world \<Rightarrow> bool" for env c where
  start: "service_run env c w w"
| more: "service_run env c w w' \<Longrightarrow> service_step env c w' w'' \<Longrightarrow> service_run env c w w''"

text \<open>Between requests no session is open.\<close>

definition at_rest :: "(database \<Rightarrow> bool) \<Rightarrow> 'r world \<Rightarrow> bool" where
  "at_rest I = db_inv2 I (\<lambda>_. False)"

lemma at_rest_iff: "at_rest I w \<longleftrightarrow> I (db w) \<and> session w = None"
  by (cases "session w") (auto simp: at_rest_def db_inv2_def)

lemma at_rest_keeps: "keeps (at_rest I) m \<Longrightarrow> at_rest I w \<Longrightarrow> at_rest I (snd (m w))"
  by (simp add: keeps_def)

lemma at_rest_reading [simp]: "at_rest I (w\<lparr>draws := n\<rparr>) = at_rest I w"
  by (simp add: at_rest_iff)

lemma db_inv2_reading [simp]: "db_inv2 I B (w\<lparr>draws := n\<rparr>) = db_inv2 I B w"
  by (simp add: db_inv2_def)

lemma service_step_keeps:
  assumes "service_step env c w w'" and "db_closed UNIV I" and "at_rest I w"
  shows "at_rest I w'"
proof -
  have K: "db_closed K I" for K using assms(2) by (rule db_closed_UNIV)
  note sessions = keeps_login [OF K] keeps_refresh [OF K] keeps_authenticate keeps_logout [OF K]
  note accounts = keeps_register [OF K] keeps_update_profile [OF K] keeps_verify_email [OF K]
    keeps_change_password [OF K] keeps_forgot_password [OF K] keeps_reset_password [OF K]
    keeps_delete_user [OF K]
  note admin = keeps_ban [OF K] keeps_unban [OF K] keeps_revoke_sessions [OF K] keeps_listings
    keeps_access_control [OF K]
  show ?thesis
    using assms(1,3)
    by cases (auto intro: at_rest_keeps [unfolded at_rest_def] sessions accounts admin
        simp: at_rest_def)
qed

lemma service_run_keeps:
  assumes "service_run env c w w'" and "db_closed UNIV I" and "at_rest I w"
  shows "at_rest I w'"
  using assms by (induction rule: service_run.induct) (auto intro: service_step_keeps)

section \<open>Invariants of every reachable state\<close>

lemma service_step_account_ok:
  assumes "service_step env c w w'" and "at_rest account_ok w"
  shows "at_rest account_ok w'"
  using assms
  by cases (auto intro: at_rest_keeps [unfolded at_rest_def] use_cases_account_ok simp: at_rest_def)

lemma service_run_account_ok:
  assumes "service_run env c w w'" and "at_rest account_ok w"
  shows "at_rest account_ok w'"
  using assms by (induction rule: service_run.induct) (auto intro: service_step_account_ok)

lemma service_step_unused:
  assumes "service_step env c w w'" and "at_rest single_unused w"
  shows "at_rest single_unused w'"
  using assms
  by cases (auto intro: at_rest_keeps [unfolded at_rest_def] use_cases_unused simp: at_rest_def)

lemma service_run_unused:
  assumes "service_run env c w w'" and "at_rest single_unused w"
  shows "at_rest single_unused w'"
  using assms by (induction rule: service_run.induct) (auto intro: service_step_unused)

lemma service_run_evolves:
  assumes "service_run env c w w'" and "session w = None"
  shows "db_evolves (db w) (db w')" and "session w' = None"
  using service_run_keeps [OF assms(1) db_evolves_closed, of "db w"] assms(2)
  by (auto simp: at_rest_iff db_evolves_refl)

lemma service_run_wf:
  assumes "service_run env c w w'" and "session w = None" and "wf_db (db w)"
  shows "wf_db (db w')"
  using service_run_keeps [OF assms(1) wf_db_closed] assms(2,3) by (simp add: at_rest_iff)

lemma service_run_trans:
  assumes "service_run env c w' w''" and "service_run env c w w'"
  shows "service_run env c w w''"
  using assms by (induction rule: service_run.induct) (auto intro: service_run.intros)

lemma single_unused_empty: "single_unused empty_db"
  by (simp add: single_unused_def empty_db_def)

lemma account_ok_empty: "account_ok empty_db"
  by (simp add: account_ok_def) (simp add: live_active_def empty_db_def)

end
