(* ===== verification/Outcomes.thy ===== *)
theory Outcomes
  imports Service
begin

text \<open>
  What a program leaves behind on each outcome. \<open>frames\<close>: the database and the session are as they
  were, whatever happens (the limiter, the cache, the senders, the clocks). \<open>settles\<close>: it never
  raises. \<open>clean\<close>: if it raises, the committed database is as it was; the transactions of the use
  cases are clean because nothing after their commit can raise.
\<close>

named_theorems frames_rules \<open>programs that touch neither database nor session\<close>
named_theorems settles_rules \<open>programs that never raise\<close>
named_theorems clean_rules \<open>programs that leave the committed database alone when they raise\<close>

section \<open>Frames\<close>

definition frames :: "('r, 'a) app \<Rightarrow> bool" where
  "frames m \<longleftrightarrow> (\<forall>w. db (snd (m w)) = db w \<and> session (snd (m w)) = session w)"

lemma frames_keeps: "frames m \<longleftrightarrow> (\<forall>d s. keeps (\<lambda>w. db w = d \<and> session w = s) m)"
  by (auto simp: frames_def keeps_def)

lemma frames_basic [frames_rules]:
  "frames (retM x)" "frames (raiseM e)" "frames (liftM r)" "frames (getsM g)" "frames (draw f)"
  "frames (query q)" "frames (utc_now env)" "frames (uuid4_hex env)" "frames (redis_now env)"
  "frames (monotonic env)" "frames (send_email m)"
  by (auto simp: frames_def retM_def raiseM_def liftM_def getsM_def draw_def query_def utc_now_def
      uuid4_hex_def redis_now_def monotonic_def send_email_def modifyM_def split: option.splits)

lemma frames_compose [frames_rules]:
  "frames m \<Longrightarrow> (\<And>x. frames (f x)) \<Longrightarrow> frames (bindM m f)"
  "frames n \<Longrightarrow> frames n' \<Longrightarrow> frames (seqM n n')" "frames n \<Longrightarrow> frames (whenM b n)"
  by (simp_all add: frames_keeps keeps_bindM keeps_seqM keeps_whenM)

lemma frames_cases [frames_rules]:
  "frames m \<Longrightarrow> frames n \<Longrightarrow> frames (if b then m else n)"
  "frames m \<Longrightarrow> (\<And>y. frames (f y)) \<Longrightarrow> frames (case x of None \<Rightarrow> m | Some y \<Rightarrow> f y)"
  "(\<And>a b. frames (g a b)) \<Longrightarrow> frames (case p of (a, b) \<Rightarrow> g a b)"
  by (simp_all split: option.splits prod.splits)

lemma frames_modify [frames_rules]:
  "frames (modifyM (\<lambda>w. w\<lparr>counters := f w\<rparr>))" "frames (modifyM (\<lambda>w. w\<lparr>redis := g w\<rparr>))"
  by (simp_all add: frames_def modifyM_def)

lemma frames_ports [frames_rules]:
  "frames (limiter_hit env c key limit span)" "frames (limiter_peek env c key limit)"
  "frames (limiter_reset env c key)" "frames (cache_get env c key)" "frames (cache_set env c key v ttl)"
  "frames (cache_delete env c key)" "frames (hasher_hash env c pw)" "frames (one_time_generate env)"
  "frames (issue_access env c uid jti)" "frames (issue_refresh env c uid jti)"
  "frames (decode_token env c token)"
  by (auto simp: limiter_hit_def limiter_peek_def limiter_reset_def redis_hit_def in_memory_hit_def
      cache_get_def cache_set_def cache_delete_def hasher_hash_def one_time_generate_def
      issue_access_def issue_refresh_def decode_token_def Let_def intro!: frames_rules)

lemma frames_reads [frames_rules]:
  "frames (users_get_by_id uid)" "frames (users_get_by_email email)"
  "frames (users_get_by_username username)" "frames (roles_get_by_id rid)"
  "frames (sessions_get_by_jti jti)" "frames (sessions_get_by_id sid)"
  "frames (tokens_get_by_hash h purpose)"
  by (auto simp: repository_defs intro!: frames_rules)

lemma frames_helpers [frames_rules]:
  "frames (login_guard_ip env c device)" "frames (login_guard_account env c email)"
  "frames (login_count_failure env c email device)" "frames (session_live_now env stored)"
  "frames (load_user env c uid)" "frames (charge_or_refuse env c policy key refusal)"
  "frames (register_check_rate_limit env c device)" "frames (reset_check_rate_limit env c device)"
  "frames (forgot_check_rate_limits env c address device)" "frames (verification_send c email secret)"
  by (auto simp: login_guard_ip_def login_guard_account_def login_count_failure_def charge_def
      session_live_now_def load_user_def charge_or_refuse_def register_check_rate_limit_def
      reset_check_rate_limit_def forgot_check_rate_limits_def verification_send_def
      intro!: frames_rules)

lemma wp_frames:
  assumes "frames m"
    and "\<And>x w'. db w' = db w \<Longrightarrow> session w' = session w \<Longrightarrow> m w = (Inr x, w') \<Longrightarrow> Q x w'"
    and "\<And>e w'. db w' = db w \<Longrightarrow> session w' = session w \<Longrightarrow> m w = (Inl e, w') \<Longrightarrow> E e w'"
  shows "wp m Q E w"
  using assms by (auto simp: wp_def frames_def split: prod.splits sum.splits) (metis snd_conv)+

lemma framesD: "frames m \<Longrightarrow> m w = (r, w') \<Longrightarrow> db w' = db w \<and> session w' = session w"
  by (metis frames_def snd_conv)

section \<open>Programs that never raise\<close>

definition settles :: "('r, 'a) app \<Rightarrow> bool" where
  "settles m \<longleftrightarrow> (\<forall>w e w'. m w \<noteq> (Inl e, w'))"

lemma settles_basic [settles_rules]:
  "settles (retM x)" "settles (draw f)" "settles (getsM g)" "settles (modifyM h)"
  "settles (utc_now env)" "settles (redis_now env)" "settles (monotonic env)" "settles (send_email m)"
  by (auto simp: settles_def retM_def draw_def getsM_def modifyM_def utc_now_def redis_now_def
      monotonic_def send_email_def)

lemma settles_bindM [settles_rules]:
  "settles m \<Longrightarrow> (\<And>x. settles (f x)) \<Longrightarrow> settles (bindM m f)"
  by (auto simp: settles_def bindM_def split: prod.splits sum.splits)

lemma settles_seqM [settles_rules]: "settles m \<Longrightarrow> settles n \<Longrightarrow> settles (seqM m n)"
  by (auto simp: seqM_def intro: settles_bindM)

lemma settles_cases [settles_rules]:
  "settles m \<Longrightarrow> settles n \<Longrightarrow> settles (if b then m else n)" "settles n \<Longrightarrow> settles (whenM b n)"
  by (simp_all add: whenM_def settles_basic)

lemma settles_ports [settles_rules]:
  "settles (limiter_reset env c key)" "settles (cache_delete env c key)"
  by (auto simp: limiter_reset_def cache_delete_def intro!: settles_rules)

section \<open>Clean failures\<close>

definition clean :: "('r, 'a) app \<Rightarrow> bool" where
  "clean m \<longleftrightarrow> (\<forall>w e w'. m w = (Inl e, w') \<longrightarrow> db w' = db w)"

lemma clean_uncommitted [clean_rules]: "uncommitted m \<Longrightarrow> clean m"
  by (auto simp: clean_def uncommitted_def dest: spec [of _ "_ :: _ world"]) (metis snd_conv)

lemma clean_settles: "settles m \<Longrightarrow> clean m"
  by (simp add: clean_def settles_def)

lemma clean_bind [clean_rules]:
  assumes "uncommitted m" and "\<And>x. clean (f x)"
  shows "clean (bindM m f)"
  unfolding clean_def
proof (intro allI impI)
  fix w e w' assume "bindM m f w = (Inl e, w')"
  then show "db w' = db w"
    using assms by (auto simp: bindM_def clean_def uncommitted_def split: prod.splits sum.splits)
      (metis snd_conv)+
qed

lemma clean_seq [clean_rules]: "uncommitted m \<Longrightarrow> clean n \<Longrightarrow> clean (seqM m n)"
  by (simp add: seqM_def clean_bind)

lemma clean_commit [clean_rules]: "clean commit"
  by (auto simp: clean_def commit_def split: option.splits)

lemma clean_then:
  assumes "clean m" and "\<And>x. settles (f x)"
  shows "clean (bindM m f)"
  using assms by (auto simp: clean_def settles_def bindM_def split: prod.splits sum.splits)

lemma clean_commit_then [clean_rules]: "settles n \<Longrightarrow> clean (seqM commit n)"
  by (simp add: seqM_def clean_then clean_commit)

lemma clean_with_uow [clean_rules]: "clean m \<Longrightarrow> clean (with_uow m)"
  by (auto simp: clean_def with_uow_def Let_def split: prod.splits)

lemma clean_cases [clean_rules]:
  "clean m \<Longrightarrow> clean n \<Longrightarrow> clean (if b then m else n)"
  "clean m \<Longrightarrow> (\<And>y. clean (f y)) \<Longrightarrow> clean (case x of None \<Rightarrow> m | Some y \<Rightarrow> f y)"
  "(\<And>a b. clean (g a b)) \<Longrightarrow> clean (case p of (a, b) \<Rightarrow> g a b)"
  by (simp_all split: option.splits prod.splits)

lemma clean_refresh: "clean (refresh env c token device)"
  unfolding refresh_def refresh_transaction_def refresh_rotate_def
  by (intro clean_rules uncommitted_rules settles_rules)

lemma clean_change_password: "clean (change_password env c uid data device)"
  unfolding change_password_def change_password_transaction_def
  by (intro clean_seq clean_then clean_rules uncommitted_rules settles_rules)

lemma clean_reset_password: "clean (reset_password env c data device)"
  unfolding reset_password_def reset_transaction_def Let_def
  by (intro clean_seq clean_then clean_rules uncommitted_rules settles_rules)

lemma clean_delete_user: "clean (delete_user env c uid device)"
  unfolding delete_user_def delete_transaction_def seqM_def [of "with_uow _"]
  by (intro clean_then clean_with_uow clean_bind clean_seq clean_commit clean_cases clean_uncommitted
      uncommitted_rules settles_rules)

lemma clean_ban_user: "clean (ban_user env c actor target reason device)"
  unfolding ban_user_def ban_transaction_def split_beta
  by (intro clean_seq clean_then clean_rules uncommitted_rules settles_rules)

lemma clean_unban_user: "clean (unban_user env c actor target device)"
  unfolding unban_user_def unban_transaction_def split_beta
  by (intro clean_then clean_rules uncommitted_rules settles_rules)

lemma clean_verify_email: "clean (verify_email env c token device)"
  unfolding verify_email_def verify_transaction_def
  by (intro clean_then clean_rules uncommitted_rules settles_rules)

lemma clean_session_revocation:
  "clean (revoke_all_sessions env uid except device)" "clean (revoke_user_session env uid sid device)"
  "clean (logout_transaction env payload device')"
  unfolding revoke_all_sessions_def revoke_user_session_def logout_transaction_def
  by (intro clean_rules uncommitted_rules settles_rules)+

end
