(* ===== verification/Spent_Forever.thy ===== *)
theory Spent_Forever
  imports Outcomes
begin

text \<open>
  Sessions and one-time tokens that are spent stay spent. \<open>dead_session\<close> and \<open>dead_token\<close> say that a
  row with the given key carries a stamp; no run of the service brings it back, and a bearer of such a
  session or token is refused. The lemmas at the end say which use cases leave what dead.
\<close>

section \<open>Dead keys\<close>

definition dead_session :: "string \<Rightarrow> database \<Rightarrow> bool" where
  "dead_session jti d \<longleftrightarrow> (\<exists>r \<in> set (tbl_sessions d). sr_jti r = jti \<and> sr_revoked_at r \<noteq> None)"

definition dead_token :: "string \<Rightarrow> token_purpose \<Rightarrow> database \<Rightarrow> bool" where
  "dead_token h purpose d \<longleftrightarrow>
     (\<exists>r \<in> set (tbl_tokens d).
        tr_token_hash r = h \<and> tr_purpose r = token_purpose_value purpose \<and> tr_used_at r \<noteq> None)"

lemma dead_session_evolves: "db_evolves d d' \<Longrightarrow> dead_session jti d \<Longrightarrow> dead_session jti d'"
  unfolding dead_session_def db_evolves_def using session_rows.later_stamped by blast

lemma dead_token_evolves: "db_evolves d d' \<Longrightarrow> dead_token h p d \<Longrightarrow> dead_token h p d'"
  unfolding dead_token_def db_evolves_def using token_rows.later_stamped by blast

lemma dead_session_found:
  assumes "wf_db d" and "dead_session jti d"
  shows "\<exists>s. db_session_by_jti jti d = Inr (Some s) \<and> sess_revoked_at s \<noteq> None"
proof -
  obtain r where r: "r \<in> set (tbl_sessions d)" "sr_jti r = jti" "sr_revoked_at r \<noteq> None"
    using assms(2) by (auto simp: dead_session_def)
  have "uniq sr_jti (tbl_sessions d)" using assms(1) by (simp add: wf_uniqs)
  from find_key [OF this r(1)] r show ?thesis
    by (simp add: db_session_by_jti_wf [OF assms(1)])
qed

lemma dead_token_found:
  assumes "wf_db d" and "dead_token h p d"
  shows "\<exists>t. db_token_by_hash h p d = Inr (Some t) \<and> tok_used_at t \<noteq> None"
proof -
  let ?P = "\<lambda>r. tr_token_hash r = h \<and> tr_purpose r = token_purpose_value p"
  obtain r where r: "r \<in> set (tbl_tokens d)" "?P r" "tr_used_at r \<noteq> None"
    using assms(2) by (auto simp: dead_token_def)
  have "filter ?P (tbl_tokens d) = [r]"
    using uniq_filter_single [of "\<lambda>r. (tr_token_hash r, tr_purpose r)" "tbl_tokens d" r] assms(1) r
    by (simp add: wf_uniqs)
  moreover have "token_purpose_of (tr_purpose r) = Some p" using r(2) by simp
  ultimately show ?thesis using r by (simp add: db_token_by_hash_def security_token_to_entity_def)
qed

section \<open>Refusals\<close>

text \<open>Bearers of a dead session or token are refused, and nothing is committed.\<close>

lemma dead_session_no_access:
  assumes "wf_db (db w)" and "decode_at env c (env_utcnow env (draws w)) token = Inr p"
    and "dead_session (tp_jti p) (db w)"
  shows "\<exists>m w'. authenticate env c token w = (Inl (AuthenticationError m), w') \<and> db w' = db w"
proof -
  obtain s where "db_session_by_jti (tp_jti p) (db w) = Inr (Some s)" "sess_revoked_at s \<noteq> None"
    using dead_session_found [OF assms(1,3)] by blast
  then have "wp (authenticate env c token) (\<lambda>_ _. False)
      (\<lambda>e w'. (\<exists>m. e = AuthenticationError m) \<and> db w' = db w) w"
    using assms(2)
    by (simp add: authenticate_def decode_token_def session_live_now_def repository_defs wp_rules
        session_is_valid_def session_is_revoked_def session_invalid_def)
  then show ?thesis by (auto simp: wp_def split: prod.splits sum.splits)
qed

lemma dead_session_no_refresh:
  assumes "wf_db (db w)" and "decode_at env c (env_utcnow env (draws w)) token = Inr p"
    and "dead_session (tp_jti p) (db w)"
  shows "\<exists>m w'. refresh env c token device w = (Inl (AuthenticationError m), w') \<and> db w' = db w"
proof -
  obtain s where "db_session_by_jti (tp_jti p) (db w) = Inr (Some s)" "sess_revoked_at s \<noteq> None"
    using dead_session_found [OF assms(1,3)] by blast
  then have "wp (refresh env c token device) (\<lambda>_ _. False)
      (\<lambda>e w'. (\<exists>m. e = AuthenticationError m) \<and> db w' = db w) w"
    using assms(2)
    by (simp add: refresh_def refresh_transaction_def decode_token_def session_live_now_def
        repository_defs wp_rules session_is_valid_def session_is_revoked_def refresh_invalid_def)
  then show ?thesis by (auto simp: wp_def split: prod.splits sum.splits)
qed

lemma undecodable_no_access:
  assumes "decode_at env c (env_utcnow env (draws w)) token = Inl e"
  shows "\<exists>m w'. authenticate env c token w = (Inl (AuthenticationError m), w') \<and> db w' = db w"
    and "\<exists>m w'. refresh env c token device w = (Inl (AuthenticationError m), w') \<and> db w' = db w"
  using assms decode_at_error [OF assms]
  by (auto simp: authenticate_def refresh_def decode_token_def bindM_def liftM_def utc_now_def draw_def)

lemma dead_token_unusable:
  assumes "wf_db d" and "dead_token h p d"
  shows "wp (usable_token env h p) (\<lambda>_ _. False) (\<lambda>e w'. e = invalid_token \<and> db w' = db w)
           (w\<lparr>session := Some d\<rparr>)"
proof -
  obtain t where "db_token_by_hash h p d = Inr (Some t)" "tok_used_at t \<noteq> None"
    using dead_token_found [OF assms] by blast
  then show ?thesis
    by (simp add: usable_token_def repository_defs wp_rules token_is_usable_def token_is_used_def)
qed

text \<open>The claims of one signed token do not depend on when it is read.\<close>

definition jwt_stable :: "'r env \<Rightarrow> bool" where
  "jwt_stable env \<longleftrightarrow>
     (\<forall>token secret alg now now' a b.
        env_jwt_decode env token secret alg now = Inr a \<longrightarrow>
        env_jwt_decode env token secret alg now' = Inr b \<longrightarrow> a = b)"

lemma decode_stable:
  assumes "jwt_stable env" and "decode_at env c now token = Inr p" and "decode_at env c now' token = Inr q"
  shows "q = p"
proof -
  obtain a where a: "env_jwt_decode env token (cfg_JWT_SECRET c) (cfg_JWT_ALGORITHM c) now = Inr a"
    "payload_of_claims a = Some p"
    using assms(2) by (auto simp: decode_at_def some_or_def split: sum.splits jwt_error.splits option.splits)
  obtain b where b: "env_jwt_decode env token (cfg_JWT_SECRET c) (cfg_JWT_ALGORITHM c) now' = Inr b"
    "payload_of_claims b = Some q"
    using assms(3) by (auto simp: decode_at_def some_or_def split: sum.splits jwt_error.splits option.splits)
  have "b = a" using assms(1) a(1) b(1) unfolding jwt_stable_def by metis
  with a(2) b(2) show ?thesis by simp
qed

text \<open>A token that decodes to a dead session is refused whenever it is presented.\<close>

lemma dead_bearer_refused:
  assumes "jwt_stable env" and "decode_at env c now token = Inr p" and "wf_db (db w)"
    and "dead_session (tp_jti p) (db w)"
  shows "\<exists>m w'. authenticate env c token w = (Inl (AuthenticationError m), w') \<and> db w' = db w"
    and "\<exists>m w'. refresh env c token device w = (Inl (AuthenticationError m), w') \<and> db w' = db w"
proof -
  have "(\<exists>e. decode_at env c (env_utcnow env (draws w)) token = Inl e) \<or>
      decode_at env c (env_utcnow env (draws w)) token = Inr p"
    using decode_stable [OF assms(1,2)] by (metis sumE)
  then show "\<exists>m w'. authenticate env c token w = (Inl (AuthenticationError m), w') \<and> db w' = db w"
    and "\<exists>m w'. refresh env c token device w = (Inl (AuthenticationError m), w') \<and> db w' = db w"
    using undecodable_no_access dead_session_no_access [OF assms(3) _ assms(4)]
      dead_session_no_refresh [OF assms(3) _ assms(4)] by blast+
qed

section \<open>What the use cases leave dead\<close>

text \<open>
  Only the weakest precondition of the audit helper and of the cache is needed to read a transaction
  off its definition; the database statements it ran appear as equations.
\<close>

lemma wp_audit_record:
  "wp (audit_record env action uid device metadata) Q E w =
     (case session w of
        None \<Rightarrow> E (AttributeError ''session'') (w\<lparr>draws := Suc (draws w)\<rparr>)
      | Some d \<Rightarrow>
          (case db_add_audit \<lparr> ev_id = 0, ev_action = action,
                   ev_created_at = Aware (env_utcnow env (draws w)), ev_user_id = uid,
                   ev_ip_address = dev_ip_address (device_or_default device),
                   ev_user_agent = dev_user_agent (device_or_default device),
                   ev_metadata = metadata \<rparr> d of
             Inl e \<Rightarrow> E e (w\<lparr>draws := Suc (draws w)\<rparr>)
           | Inr (x, d') \<Rightarrow> Q () (w\<lparr>draws := Suc (draws w), session := Some d'\<rparr>)))"
  by (simp add: audit_record_def audit_log_add_def wp_rules Let_def split: option.splits sum.splits prod.splits)

lemmas step_rules = wp_rules wp_audit_record repository_defs cache_delete_def

lemma revoke_kills:
  assumes "r \<in> set (tbl_sessions d)" and "sr_jti r = jti" and "db_revoke jti m d = Inr (x, d')"
  shows "dead_session jti d'"
proof -
  let ?r = "if sr_revoked_at r = None then stamp_session m r else r"
  have "?r \<in> set (tbl_sessions d')"
    using assms by (auto simp: db_revoke_def spend_rows_def)
  moreover have "sr_jti ?r = jti" "sr_revoked_at ?r \<noteq> None" using assms(2) by auto
  ultimately show ?thesis unfolding dead_session_def by blast
qed

lemma session_by_jti_row:
  assumes "db_session_by_jti jti d = Inr (Some s)"
  shows "\<exists>r \<in> set (tbl_sessions d). sr_jti r = jti \<and> s = session_to_entity r"
proof -
  obtain r where "scalar_one_or_none (filter (\<lambda>r. sr_jti r = jti) (tbl_sessions d)) = Inr (Some r)"
    "s = session_to_entity r"
    using assms by (auto simp: db_session_by_jti_def map_found_def split: sum.splits)
  moreover then have "r \<in> set (filter (\<lambda>r. sr_jti r = jti) (tbl_sessions d))"
    by (cases "filter (\<lambda>r. sr_jti r = jti) (tbl_sessions d)" rule: scalar_one_or_none.cases) auto
  ultimately show ?thesis by auto
qed

lemma add_session_evolves: "db_add_session s d = Inr (x, d') \<Longrightarrow> db_evolves d d'"
  using db_stmt_evolves db_stmt.add_session by blast

lemma add_audit_evolves: "db_add_audit e d = Inr (x, d') \<Longrightarrow> db_evolves d d'"
  using db_stmt_evolves db_stmt.add_audit by blast

lemma refresh_kills:
  assumes "refresh env c token device w = (Inr result, w')"
  shows "\<exists>p. decode_at env c (env_utcnow env (draws w)) token = Inr p \<and> dead_session (tp_jti p) (db w')"
proof -
  have "wp (refresh env c token device)
      (\<lambda>_ w'. \<exists>p. decode_at env c (env_utcnow env (draws w)) token = Inr p \<and> dead_session (tp_jti p) (db w'))
      (\<lambda>_ _. True) w"
    unfolding refresh_def refresh_transaction_def refresh_rotate_def decode_token_def
      session_live_now_def issue_access_def issue_refresh_def
    by (auto simp: step_rules split: sum.splits option.splits dest!: session_by_jti_row
        dest: revoke_kills add_session_evolves intro: dead_session_evolves)
  with assms show ?thesis by (simp add: wp_def)
qed

lemma logout_kills:
  assumes "logout env c token device w = (Inr u, w')"
    and "decode_at env c (env_utcnow env (draws w)) token = Inr p"
    and "\<exists>r \<in> set (tbl_sessions (db w)). sr_jti r = tp_jti p"
  shows "dead_session (tp_jti p) (db w')"
proof -
  have "wp (logout env c token device) (\<lambda>_ w'. dead_session (tp_jti p) (db w')) (\<lambda>_ _. True) w"
    unfolding logout_def logout_transaction_def decode_token_def using assms(2,3)
    by (auto simp: step_rules split: sum.splits dest: revoke_kills add_audit_evolves
        intro: dead_session_evolves)
  with assms(1) show ?thesis by (simp add: wp_def)
qed

text \<open>After all sessions of a user are revoked, and while the user is inactive, none is live.\<close>

definition no_live_session :: "int \<Rightarrow> database \<Rightarrow> bool" where
  "no_live_session uid d \<longleftrightarrow>
     (\<forall>r \<in> set (tbl_sessions d). sr_user_id r = uid \<longrightarrow> sr_revoked_at r \<noteq> None)"

lemma no_live_session_dead:
  "no_live_session uid d \<Longrightarrow> r \<in> set (tbl_sessions d) \<Longrightarrow> sr_user_id r = uid \<Longrightarrow>
     dead_session (sr_jti r) d"
  by (auto simp: no_live_session_def dead_session_def)

lemma no_live_session_inactive:
  "account_ok d \<Longrightarrow> \<not> active_user uid d \<Longrightarrow> no_live_session uid d"
  by (auto simp: account_ok_def live_active_def no_live_session_def)

lemma revoke_all_none_live: "db_revoke_all uid m None d = Inr (n, d') \<Longrightarrow> no_live_session uid d'"
  by (auto simp: db_revoke_all_def no_live_session_def revoke_all_selects_def dest!: spend_rows_unrevoked)

lemma no_live_session_cong:
  "tbl_sessions d' = tbl_sessions d \<Longrightarrow> no_live_session uid d' = no_live_session uid d"
  by (simp add: no_live_session_def)

lemma add_audit_frame:
  assumes "db_add_audit e d = Inr (x, d')"
  shows "tbl_users d' = tbl_users d" "tbl_sessions d' = tbl_sessions d" "tbl_tokens d' = tbl_tokens d"
    "tbl_user_roles d' = tbl_user_roles d" "tbl_roles d' = tbl_roles d"
    "tbl_role_permissions d' = tbl_role_permissions d" "tbl_permissions d' = tbl_permissions d"
  using db_add_audit_shape [OF assms] by auto

lemma revoke_all_frame:
  assumes "db_revoke_all uid m except d = Inr (n, d')"
  shows "tbl_users d' = tbl_users d" "tbl_tokens d' = tbl_tokens d" "tbl_audit d' = tbl_audit d"
  using assms by (auto simp: db_revoke_all_def)

lemma update_user_inactive:
  assumes "db_update_user now u d = Inr (x, d')" and "wf_db d" and "\<not> user_is_active u"
  shows "\<not> active_user (user_id u) d'"
proof -
  obtain row where row: "find (\<lambda>r. ur_id r = user_id u) (tbl_users d) = Some row"
    and d': "d' = d \<and> written_user_row now u row = row \<or> update_user (written_user_row now u row) d = Inr d'"
    using db_update_user_shape [OF assms(1)] by blast
  have id: "ur_id row = user_id u" using row by (auto dest: find_Some_key)
  from d' show ?thesis
  proof
    assume "d' = d \<and> written_user_row now u row = row"
    moreover then have "\<not> ur_is_active row" using assms(3) by (metis written_user_row_simps(2))
    ultimately show ?thesis
      using find_unique_row [OF wf_uniqs(1) [OF assms(2)] row] by (auto simp: active_user_def)
  next
    assume "update_user (written_user_row now u row) d = Inr d'"
    then have "d' = d\<lparr>tbl_users := replace_by ur_id (written_user_row now u row) (tbl_users d)\<rparr>"
      by (rule update_user_shape)
    then show ?thesis using assms(3) id by (auto simp: active_user_def replace_by_def)
  qed
qed

lemma active_user_cong: "tbl_users d' = tbl_users d \<Longrightarrow> active_user uid d' = active_user uid d"
  by (simp add: active_user_def)

lemma active_user_frames:
  "active_user uid d' \<Longrightarrow> db_add_audit e d = Inr (x, d') \<Longrightarrow> active_user uid d"
  "active_user uid d' \<Longrightarrow> db_revoke_all uid' m except d = Inr (n, d') \<Longrightarrow> active_user uid d"
  by (auto simp: active_user_cong [OF add_audit_frame(1)] active_user_cong [OF revoke_all_frame(1)])

lemma db_user_by_id_id: "db_user_by_id uid d = Some u \<Longrightarrow> user_id u = uid"
  by (auto simp: db_user_by_id_def dest: find_Some_key)

lemma deactivation_chain:
  assumes "wf_db d" and "db_user_by_id uid d = Some u"
    and "db_update_user now (u\<lparr>user_is_active := False\<rparr>) d = Inr (x, d1)"
    and "db_revoke_all uid m None d1 = Inr (n, d2)" and "db_add_audit e d2 = Inr (y, d3)"
  shows "\<not> active_user uid d3"
proof -
  have "user_id u = uid" by (rule db_user_by_id_id [OF assms(2)])
  with update_user_inactive [OF assms(3,1)] have "\<not> active_user uid d1" by simp
  with active_user_frames assms(4,5) show ?thesis by blast
qed

lemma ban_deactivates:
  assumes "ban_user env c actor target reason device w = (Inr u, w')" and "wf_db (db w)"
  shows "\<not> active_user target (db w')"
proof -
  have "wp (ban_user env c actor target reason device) (\<lambda>u w'. \<not> active_user target (db w')) (\<lambda>_ _. True) w"
    unfolding ban_user_def ban_transaction_def using assms(2)
    by (simp add: step_rules split: option.splits sum.splits prod.splits)
      (use assms(2) deactivation_chain found_by_id_active(2) in blast)
  with assms show ?thesis by (simp add: wp_def)
qed

lemma delete_deactivates:
  assumes "delete_user env c uid device w = (Inr u, w')" and "wf_db (db w)"
  shows "\<not> active_user uid (db w')"
proof -
  have "wp (delete_user env c uid device) (\<lambda>u w'. \<not> active_user uid (db w')) (\<lambda>_ _. True) w"
    unfolding delete_user_def delete_transaction_def using assms(2)
    by (simp add: step_rules split: option.splits sum.splits prod.splits)
      (use assms(2) deactivation_chain in blast)
  with assms show ?thesis by (simp add: wp_def)
qed

end
