(* ===== verification/Password_Laws.thy ===== *)
theory Password_Laws
  imports Spent_Forever
begin

text \<open>
  What the use cases that replace a password, or redeem a mailed token, leave in the database.
\<close>

section \<open>The stored hash\<close>

definition stored_hash :: "int \<Rightarrow> database \<Rightarrow> string option" where
  "stored_hash uid d = map_option ur_password_hash (find (\<lambda>r. ur_id r = uid) (tbl_users d))"

definition argon2_behaves :: "'r env \<Rightarrow> bool" where
  "argon2_behaves env \<longleftrightarrow>
     (\<forall>n password. env_argon2_verify env (env_argon2_hash env n password) password = Inr True)"

text \<open>\<open>accepts env c uid password d\<close>: the login of \<open>uid\<close> in \<open>d\<close> takes \<open>password\<close>.\<close>

definition accepts :: "'r env \<Rightarrow> config \<Rightarrow> int \<Rightarrow> string \<Rightarrow> database \<Rightarrow> bool" where
  "accepts env c uid password d \<longleftrightarrow>
     (case stored_hash uid d of None \<Rightarrow> False | Some h \<Rightarrow> hasher_verify env c password h = Inr True)"

lemma hasher_sound:
  "argon2_behaves env \<Longrightarrow> hash_at env c n password = Inr h \<Longrightarrow> hasher_verify env c password h = Inr True"
  by (auto simp: hash_at_def hasher_verify_def pbkdf2.verify_hash argon2_hash_at_def argon2_verify_def
      argon2_behaves_def split: if_splits)

lemma stored_hash_cong: "tbl_users d' = tbl_users d \<Longrightarrow> stored_hash uid d' = stored_hash uid d"
  by (simp add: stored_hash_def)

lemma find_replace_by:
  "find (\<lambda>r. k r = v) (replace_by k row xs) =
     (if v = k row \<and> (\<exists>x \<in> set xs. k x = v) then Some row else find (\<lambda>r. k r = v) xs)"
  by (induction xs) (auto simp: replace_by_def)

lemma update_password_stored:
  assumes "db_update_password now u d = Inr (x, d')"
  shows "stored_hash (user_id u) d' = Some (user_password_hash u)"
    and "uid \<noteq> user_id u \<Longrightarrow> stored_hash uid d' = stored_hash uid d"
    and "tbl_sessions d' = tbl_sessions d \<and> tbl_tokens d' = tbl_tokens d \<and> tbl_audit d' = tbl_audit d"
proof -
  obtain row where row: "find (\<lambda>r. ur_id r = user_id u) (tbl_users d) = Some row"
    and d': "d' = d \<and> written_password_row now u row = row \<or>
      update_user (written_password_row now u row) d = Inr d'"
    using db_update_password_shape [OF assms] by blast
  have id: "ur_id row = user_id u" and mem: "row \<in> set (tbl_users d)"
    using row by (auto dest: find_Some_key)
  have "d' = d \<and> ur_password_hash row = user_password_hash u \<or>
      d' = d\<lparr>tbl_users := replace_by ur_id (written_password_row now u row) (tbl_users d)\<rparr>"
    using d' update_user_shape by (metis written_password_row_simps(7))
  then show "stored_hash (user_id u) d' = Some (user_password_hash u)"
    and "uid \<noteq> user_id u \<Longrightarrow> stored_hash uid d' = stored_hash uid d"
    and "tbl_sessions d' = tbl_sessions d \<and> tbl_tokens d' = tbl_tokens d \<and> tbl_audit d' = tbl_audit d"
    using row id mem by (auto simp: stored_hash_def find_replace_by)
qed

section \<open>Tokens\<close>

lemma mark_used_kills:
  assumes "db_mark_used tid m d = Inr (x, d')" and "r \<in> set (tbl_tokens d)" and "tr_id r = tid"
    and "tr_purpose r = token_purpose_value p"
  shows "dead_token (tr_token_hash r) p d'"
proof -
  let ?r = "if tr_used_at r = None then stamp_token m r else r"
  have "?r \<in> set (tbl_tokens d')" using assms by (auto simp: db_mark_used_def spend_rows_def)
  moreover have "tr_token_hash ?r = tr_token_hash r" "tr_purpose ?r = token_purpose_value p"
    "tr_used_at ?r \<noteq> None" using assms(4) by auto
  ultimately show ?thesis unfolding dead_token_def by blast
qed

lemma token_by_hash_row:
  assumes "db_token_by_hash h p d = Inr (Some t)"
  shows "\<exists>r \<in> set (tbl_tokens d). tr_token_hash r = h \<and> tr_purpose r = token_purpose_value p \<and>
           tr_id r = tok_id t \<and> tr_user_id r = tok_user_id t \<and> tr_used_at r = tok_used_at t"
proof -
  let ?P = "\<lambda>r. tr_token_hash r = h \<and> tr_purpose r = token_purpose_value p"
  obtain r where r: "scalar_one_or_none (filter ?P (tbl_tokens d)) = Inr (Some r)"
    and t: "security_token_to_entity r = Inr t"
    using assms by (auto simp: db_token_by_hash_def split: sum.splits option.splits)
  then have "r \<in> set (filter ?P (tbl_tokens d))"
    by (cases "filter ?P (tbl_tokens d)" rule: scalar_one_or_none.cases) auto
  with t show ?thesis by (auto simp: security_token_to_entity_def split: option.splits)
qed

lemma invalidate_none: "db_invalidate uid p m d = Inr (x, d') \<Longrightarrow> none_unused uid p d'"
  by (auto simp: db_invalidate_def none_unused_def dest!: spend_tokens_unused)

lemma none_unused_dead:
  "none_unused uid p d \<Longrightarrow> r \<in> set (tbl_tokens d) \<Longrightarrow> tr_user_id r = uid \<Longrightarrow>
     tr_purpose r = token_purpose_value p \<Longrightarrow> dead_token (tr_token_hash r) p d"
  by (auto simp: none_unused_def dead_token_def)

lemma none_unused_cong: "tbl_tokens d' = tbl_tokens d \<Longrightarrow> none_unused uid p d' = none_unused uid p d"
  by (simp add: none_unused_def)

lemma invalidate_frame:
  assumes "db_invalidate uid p m d = Inr (x, d')"
  shows "tbl_users d' = tbl_users d" "tbl_sessions d' = tbl_sessions d" "tbl_audit d' = tbl_audit d"
  using assms by (auto simp: db_invalidate_def)

section \<open>Changing the password\<close>

lemma change_password_chain:
  assumes "change_password env c uid data device w = (Inr revoked, w')"
  shows "\<exists>u n h now x d1 m y d2 m' d3 t ip ua meta z.
     db_user_by_id uid (db w) = Some u \<and>
     hasher_verify env c (chp_current_password data) (user_password_hash u) = Inr True \<and>
     chp_current_password data \<noteq> chp_new_password data \<and>
     hash_at env c n (chp_new_password data) = Inr h \<and>
     db_update_password now (u\<lparr>user_password_hash := h\<rparr>) (db w) = Inr (x, d1) \<and>
     db_invalidate uid PASSWORD_RESET m d1 = Inr (y, d2) \<and>
     db_revoke_all uid m' None d2 = Inr (revoked, d3) \<and>
     db_add_audit \<lparr> ev_id = 0, ev_action = PASSWORD_CHANGED, ev_created_at = t, ev_user_id = Some uid,
       ev_ip_address = ip, ev_user_agent = ua, ev_metadata = meta \<rparr> d3 = Inr (z, db w')"
    (is "?P revoked w'")
proof -
  have "wp (change_password env c uid data device) ?P (\<lambda>_ _. True) w"
    unfolding change_password_def change_password_transaction_def
    by (simp add: step_rules hasher_hash_def split: option.splits sum.splits prod.splits) blast
  with assms show ?thesis by (simp add: wp_def)
qed

text \<open>The stored hash, the live sessions and the mailed reset links after the change.\<close>

lemma change_password_effect:
  assumes "change_password env c uid data device w = (Inr revoked, w')" and "argon2_behaves env"
  shows "accepts env c uid (chp_current_password data) (db w)"
    and "accepts env c uid (chp_new_password data) (db w')"
    and "no_live_session uid (db w')" and "none_unused uid PASSWORD_RESET (db w')"
    and "other \<noteq> uid \<Longrightarrow> stored_hash other (db w') = stored_hash other (db w)"
    and "revoked = spend_count sr_revoked_at (\<lambda>r. sr_user_id r = uid) (tbl_sessions (db w))"
proof -
  obtain u n h now x d1 m y d2 m' d3 e z where
    u: "db_user_by_id uid (db w) = Some u"
    and ok: "hasher_verify env c (chp_current_password data) (user_password_hash u) = Inr True"
    and h: "hash_at env c n (chp_new_password data) = Inr h"
    and d1: "db_update_password now (u\<lparr>user_password_hash := h\<rparr>) (db w) = Inr (x, d1)"
    and d2: "db_invalidate uid PASSWORD_RESET m d1 = Inr (y, d2)"
    and d3: "db_revoke_all uid m' None d2 = Inr (revoked, d3)"
    and w': "db_add_audit e d3 = Inr (z, db w')"
    using change_password_chain [OF assms(1)] by blast
  have id: "user_id u = uid" by (rule db_user_by_id_id [OF u])
  have users: "tbl_users (db w') = tbl_users d1"
    using add_audit_frame(1) [OF w'] revoke_all_frame(1) [OF d3] invalidate_frame(1) [OF d2] by simp
  show "accepts env c uid (chp_current_password data) (db w)"
    using u ok by (auto simp: accepts_def stored_hash_def db_user_by_id_def)
  show "accepts env c uid (chp_new_password data) (db w')"
    using update_password_stored(1) [OF d1] hasher_sound [OF assms(2) h] id
    by (simp add: accepts_def stored_hash_cong [OF users])
  show "no_live_session uid (db w')"
    using revoke_all_none_live [OF d3] no_live_session_cong add_audit_frame(2) [OF w'] by blast
  have "tbl_tokens (db w') = tbl_tokens d2"
    using add_audit_frame(3) [OF w'] revoke_all_frame(2) [OF d3] by simp
  then show "none_unused uid PASSWORD_RESET (db w')"
    using invalidate_none [OF d2] none_unused_cong by blast
  show "other \<noteq> uid \<Longrightarrow> stored_hash other (db w') = stored_hash other (db w)"
    using update_password_stored(2) [OF d1] id by (simp add: stored_hash_cong [OF users])
  have "tbl_sessions d2 = tbl_sessions (db w)"
    using update_password_stored(3) [OF d1] invalidate_frame(2) [OF d2] by simp
  then show "revoked = spend_count sr_revoked_at (\<lambda>r. sr_user_id r = uid) (tbl_sessions (db w))"
    using d3 by (simp add: db_revoke_all_def revoke_all_selects_def spend_count_def)
qed

section \<open>Resetting the password\<close>

lemma seq_frames:
  assumes "seqM m n w = (Inr x, w')" and "frames m"
  obtains w1 where "db w1 = db w" "session w1 = session w" "n w1 = (Inr x, w')"
proof (cases "m w")
  case (Pair r w1)
  with assms have "n w1 = (Inr x, w')" by (auto simp: seqM_def bindM_def split: sum.splits)
  with that framesD [OF assms(2) Pair] show thesis by blast
qed

lemma reset_password_chain:
  assumes "reset_password env c data device w = (Inr unit, w')"
  shows "\<exists>tok u n h now x d1 y m d2 y' m' d3 m'' revoked d4 e z.
     db_token_by_hash (one_time_hash env (rsp_token data)) PASSWORD_RESET (db w) = Inr (Some tok) \<and>
     tok_used_at tok = None \<and> db_user_by_id (tok_user_id tok) (db w) = Some u \<and> user_is_active u \<and>
     rsp_password data = rsp_password_repeat data \<and>
     hash_at env c n (rsp_password data) = Inr h \<and>
     db_update_password now (u\<lparr>user_password_hash := h\<rparr>) (db w) = Inr (x, d1) \<and>
     db_mark_used (tok_id tok) m d1 = Inr (y, d2) \<and>
     db_invalidate (user_id u) PASSWORD_RESET m' d2 = Inr (y', d3) \<and>
     db_revoke_all (user_id u) m'' None d3 = Inr (revoked, d4) \<and> db_add_audit e d4 = Inr (z, db w')"
    (is "?P w w'")
proof -
  let ?dev = "device_or_default device"
  obtain w1 where w1: "db w1 = db w"
    "seqM (whenM (rsp_password data \<noteq> rsp_password_repeat data) (raiseM password_mismatch))
         (bindM (with_uow (reset_transaction env c data ?dev)) (\<lambda>u.
          cache_delete env c (user_cache_key (user_id u)))) w1 = (Inr unit, w')"
    using assms unfolding reset_password_def Let_def by (rule seq_frames) (rule frames_helpers)
  have "wp (seqM (whenM (rsp_password data \<noteq> rsp_password_repeat data) (raiseM password_mismatch))
         (bindM (with_uow (reset_transaction env c data ?dev)) (\<lambda>u.
          cache_delete env c (user_cache_key (user_id u))))) (\<lambda>_. ?P w1) (\<lambda>_ _. True) w1"
    unfolding reset_transaction_def usable_token_def token_owner_def token_is_usable_def token_is_used_def
    by (simp add: step_rules hasher_hash_def split: option.splits sum.splits prod.splits) blast
  with w1 show ?thesis by (simp add: wp_def)
qed

lemma mark_used_frame:
  assumes "db_mark_used tid m d = Inr (x, d')"
  shows "tbl_users d' = tbl_users d" "tbl_sessions d' = tbl_sessions d" "tbl_audit d' = tbl_audit d"
  using assms by (auto simp: db_mark_used_def)

lemma invalidate_evolves: "db_invalidate uid p m d = Inr (x, d') \<Longrightarrow> db_evolves d d'"
  using db_stmt_evolves db_stmt.invalidate by blast

lemma revoke_all_evolves: "db_revoke_all uid m except d = Inr (x, d') \<Longrightarrow> db_evolves d d'"
  using db_stmt_evolves db_stmt.revoke_all by blast

text \<open>The token is spent, so are the other reset links of its owner, and the new password is stored.\<close>

lemma reset_password_effect:
  assumes "reset_password env c data device w = (Inr unit, w')" and "argon2_behaves env"
  shows "\<exists>r \<in> set (tbl_tokens (db w)).
           tr_token_hash r = one_time_hash env (rsp_token data) \<and> tr_used_at r = None \<and>
           tr_purpose r = token_purpose_value PASSWORD_RESET \<and>
           accepts env c (tr_user_id r) (rsp_password data) (db w') \<and>
           no_live_session (tr_user_id r) (db w') \<and>
           none_unused (tr_user_id r) PASSWORD_RESET (db w') \<and>
           (\<forall>other. other \<noteq> tr_user_id r \<longrightarrow> stored_hash other (db w') = stored_hash other (db w))"
    and "dead_token (one_time_hash env (rsp_token data)) PASSWORD_RESET (db w')"
proof -
  obtain tok u n h now x d1 y m d2 y' m' d3 m'' revoked d4 e z where
    tok: "db_token_by_hash (one_time_hash env (rsp_token data)) PASSWORD_RESET (db w) = Inr (Some tok)"
      "tok_used_at tok = None"
    and u: "db_user_by_id (tok_user_id tok) (db w) = Some u"
    and h: "hash_at env c n (rsp_password data) = Inr h"
    and d1: "db_update_password now (u\<lparr>user_password_hash := h\<rparr>) (db w) = Inr (x, d1)"
    and d2: "db_mark_used (tok_id tok) m d1 = Inr (y, d2)"
    and d3: "db_invalidate (user_id u) PASSWORD_RESET m' d2 = Inr (y', d3)"
    and d4: "db_revoke_all (user_id u) m'' None d3 = Inr (revoked, d4)"
    and w': "db_add_audit e d4 = Inr (z, db w')"
    using reset_password_chain [OF assms(1)] by blast
  obtain r where r: "r \<in> set (tbl_tokens (db w))" "tr_token_hash r = one_time_hash env (rsp_token data)"
    "tr_purpose r = token_purpose_value PASSWORD_RESET" "tr_id r = tok_id tok"
    "tr_user_id r = tok_user_id tok" "tr_used_at r = tok_used_at tok"
    using token_by_hash_row [OF tok(1)] by blast
  have id: "user_id u = tr_user_id r" using db_user_by_id_id [OF u] r(5) by simp
  have users: "tbl_users (db w') = tbl_users d1"
    using add_audit_frame(1) [OF w'] revoke_all_frame(1) [OF d4] invalidate_frame(1) [OF d3]
      mark_used_frame(1) [OF d2] by simp
  have "tbl_tokens (db w') = tbl_tokens d3"
    using add_audit_frame(3) [OF w'] revoke_all_frame(2) [OF d4] by simp
  then have none: "none_unused (tr_user_id r) PASSWORD_RESET (db w')"
    using invalidate_none [OF d3] none_unused_cong id by metis
  have acc: "accepts env c (tr_user_id r) (rsp_password data) (db w')"
    using update_password_stored(1) [OF d1] hasher_sound [OF assms(2) h] id
    by (simp add: accepts_def stored_hash_cong [OF users])
  have sess: "no_live_session (tr_user_id r) (db w')"
    using revoke_all_none_live [OF d4] no_live_session_cong add_audit_frame(2) [OF w'] id by metis
  have other: "\<forall>other. other \<noteq> tr_user_id r \<longrightarrow> stored_hash other (db w') = stored_hash other (db w)"
    using update_password_stored(2) [OF d1] id by (simp add: stored_hash_cong [OF users])
  show "\<exists>r \<in> set (tbl_tokens (db w)).
           tr_token_hash r = one_time_hash env (rsp_token data) \<and> tr_used_at r = None \<and>
           tr_purpose r = token_purpose_value PASSWORD_RESET \<and>
           accepts env c (tr_user_id r) (rsp_password data) (db w') \<and>
           no_live_session (tr_user_id r) (db w') \<and>
           none_unused (tr_user_id r) PASSWORD_RESET (db w') \<and>
           (\<forall>other. other \<noteq> tr_user_id r \<longrightarrow> stored_hash other (db w') = stored_hash other (db w))"
    using r tok(2) acc sess none other by force
  have "r \<in> set (tbl_tokens d1)" using update_password_stored(3) [OF d1] r(1) by simp
  then have "dead_token (tr_token_hash r) PASSWORD_RESET d2"
    using mark_used_kills [OF d2] r(3,4) by blast
  moreover have "db_evolves d2 (db w')"
    using invalidate_evolves [OF d3] revoke_all_evolves [OF d4] add_audit_evolves [OF w']
      db_evolves_trans by blast
  ultimately show "dead_token (one_time_hash env (rsp_token data)) PASSWORD_RESET (db w')"
    using dead_token_evolves r(2) by metis
qed

section \<open>Verifying an address\<close>

lemma update_user_evolves': "db_update_user now u d = Inr (x, d') \<Longrightarrow> db_evolves d d'"
  using db_stmt_evolves db_stmt.update_user by blast

lemma update_user_returns:
  assumes "db_update_user now u d = Inr (x, d')"
  shows "user_id x = user_id u \<and> user_email x = user_email u \<and> user_username x = user_username u \<and>
     user_is_active x = user_is_active u \<and> user_is_superuser x = user_is_superuser u \<and>
     user_email_verified_at x = user_email_verified_at u \<and> user_display_name x = user_display_name u \<and>
     db_user_by_id (user_id u) d' = Some x"
proof -
  obtain row where row: "find (\<lambda>r. ur_id r = user_id u) (tbl_users d) = Some row"
    and d': "d' = d \<and> written_user_row now u row = row \<or> update_user (written_user_row now u row) d = Inr d'"
    and x: "db_user_by_id (user_id u) d' = Some x"
    using db_update_user_shape [OF assms] by blast
  have id: "ur_id row = user_id u" and mem: "row \<in> set (tbl_users d)"
    using row by (auto dest: find_Some_key)
  have "find (\<lambda>r. ur_id r = user_id u) (tbl_users d') = Some (written_user_row now u row)"
    using d'
  proof
    assume "update_user (written_user_row now u row) d = Inr d'"
    then have "d' = d\<lparr>tbl_users := replace_by ur_id (written_user_row now u row) (tbl_users d)\<rparr>"
      by (rule update_user_shape)
    then show ?thesis using id mem by (auto simp: find_replace_by)
  qed (use row in simp)
  with x id show ?thesis by (auto simp: db_user_by_id_def)
qed

lemma update_user_frame:
  assumes "db_update_user now u d = Inr (x, d')"
  shows "tbl_sessions d' = tbl_sessions d" "tbl_tokens d' = tbl_tokens d" "tbl_audit d' = tbl_audit d"
  using db_update_user_shape [OF assms] by (auto dest: update_user_shape)

text \<open>The user the transaction records as verified: the one it loaded, or what the update returned.\<close>

lemma verify_email_chain:
  assumes "verify_email env c token device w = (Inr u', w')"
  shows "\<exists>tok u m y d1 d2 now stamp e z.
     db_token_by_hash (one_time_hash env token) EMAIL_VERIFICATION (db w) = Inr (Some tok) \<and>
     tok_used_at tok = None \<and> db_user_by_id (tok_user_id tok) (db w) = Some u \<and> user_is_active u \<and>
     db_mark_used (tok_id tok) m (db w) = Inr (y, d1) \<and>
     (is_email_verified u \<and> u' = u \<and> d2 = d1 \<or>
      \<not> is_email_verified u \<and>
      db_update_user now (u\<lparr>user_email_verified_at := Some (Aware stamp)\<rparr>) d1 = Inr (u', d2)) \<and>
     db_add_audit e d2 = Inr (z, db w')"
    (is "?P u' w'")
proof -
  have "wp (verify_email env c token device) ?P (\<lambda>_ _. True) w"
    unfolding verify_email_def verify_transaction_def usable_token_def token_owner_def
      stamp_verified_def token_is_usable_def token_is_used_def
    by (simp add: step_rules split: option.splits sum.splits prod.splits) blast
  with assms show ?thesis by (simp add: wp_def)
qed

lemma verify_email_effect:
  assumes "verify_email env c token device w = (Inr u', w')"
  shows "dead_token (one_time_hash env token) EMAIL_VERIFICATION (db w')"
    and "is_email_verified u'" and "user_is_active u'"
    and "\<exists>r \<in> set (tbl_tokens (db w)). tr_token_hash r = one_time_hash env token \<and>
           tr_purpose r = token_purpose_value EMAIL_VERIFICATION \<and> tr_used_at r = None \<and>
           tr_user_id r = user_id u'"
    and "tbl_sessions (db w') = tbl_sessions (db w)"
proof -
  obtain tok u m y d1 d2 now stamp e z where
    tok: "db_token_by_hash (one_time_hash env token) EMAIL_VERIFICATION (db w) = Inr (Some tok)"
      "tok_used_at tok = None"
    and u: "db_user_by_id (tok_user_id tok) (db w) = Some u" "user_is_active u"
    and d1: "db_mark_used (tok_id tok) m (db w) = Inr (y, d1)"
    and d2: "is_email_verified u \<and> u' = u \<and> d2 = d1 \<or> \<not> is_email_verified u \<and>
      db_update_user now (u\<lparr>user_email_verified_at := Some (Aware stamp)\<rparr>) d1 = Inr (u', d2)"
    and w': "db_add_audit e d2 = Inr (z, db w')"
    using verify_email_chain [OF assms] by blast
  obtain r where r: "r \<in> set (tbl_tokens (db w))" "tr_token_hash r = one_time_hash env token"
    "tr_purpose r = token_purpose_value EMAIL_VERIFICATION" "tr_id r = tok_id tok"
    "tr_user_id r = tok_user_id tok" "tr_used_at r = tok_used_at tok"
    using token_by_hash_row [OF tok(1)] by blast
  have u': "is_email_verified u' \<and> user_is_active u' \<and> user_id u' = user_id u"
    using d2 u(2) by (auto simp: is_email_verified_def dest!: update_user_returns)
  then show "is_email_verified u'" "user_is_active u'" by simp_all
  show "\<exists>r \<in> set (tbl_tokens (db w)). tr_token_hash r = one_time_hash env token \<and>
           tr_purpose r = token_purpose_value EMAIL_VERIFICATION \<and> tr_used_at r = None \<and>
           tr_user_id r = user_id u'"
    using r tok(2) u' db_user_by_id_id [OF u(1)] by force
  have "dead_token (tr_token_hash r) EMAIL_VERIFICATION d1"
    using mark_used_kills [OF d1 r(1) r(4)] r(3) by blast
  moreover have "db_evolves d1 d2" using d2 update_user_evolves' db_evolves_refl by blast
  ultimately show "dead_token (one_time_hash env token) EMAIL_VERIFICATION (db w')"
    using add_audit_evolves [OF w'] dead_token_evolves r(2) by metis
  have "tbl_sessions d2 = tbl_sessions d1" using d2 update_user_frame(1) by blast
  then show "tbl_sessions (db w') = tbl_sessions (db w)"
    using add_audit_frame(2) [OF w'] mark_used_frame(2) [OF d1] by simp
qed

end
