(* ===== verification/Login_Laws.thy ===== *)
theory Login_Laws
  imports Password_Laws
begin

text \<open>
  What a login leaves behind: on rejection one audit row, on success one session and one audit row;
  and what the caller learns from a rejection.
\<close>

section \<open>Audit rows that cannot be refused\<close>

definition device_fits :: "device_info \<Rightarrow> bool" where
  "device_fits dev \<longleftrightarrow> fits_opt 45 (dev_ip_address dev) \<and> fits_opt 400 (dev_user_agent dev)"

definition audited :: "audit_event \<Rightarrow> database \<Rightarrow> database" where
  "audited e d =
     d\<lparr>tbl_audit := tbl_audit d @ [(new_audit_row e)\<lparr>al_id := seq_audit d\<rparr>],
       seq_audit := seq_audit d + 1\<rparr>"

lemma action_value_short: "length (audit_action_value a) \<le> 32"
  by (cases a) simp_all

lemma db_add_audit_audited: "db_add_audit e d = Inr (x, d') \<Longrightarrow> d' = audited e d"
  using db_add_audit_shape [of e d x d'] by (auto simp: audited_def)

lemma db_add_audit_total:
  assumes "fits_opt 45 (ev_ip_address e)" "fits_opt 400 (ev_user_agent e)"
    and "\<forall>uid. ev_user_id e = Some uid \<longrightarrow> uid \<in> user_ids d"
  shows "\<exists>x. db_add_audit e d = Inr (x, audited e d)"
  using assms action_value_short [of "ev_action e"]
  by (auto simp: db_add_audit_def insert_audit_def new_audit_row_def audit_row_fits_def fits_def
      has_iffs audited_def audit_event_to_entity_def Let_def split: option.splits)

section \<open>The guards\<close>

definition login_guards :: "'r env \<Rightarrow> config \<Rightarrow> string \<Rightarrow> device_info \<Rightarrow> ('r, unit) app" where
  "login_guards env c email device =
     seqM (login_guard_ip env c device) (login_guard_account env c email)"

lemma login_as_guards:
  "login env c data device_opt =
     (let device = device_or_default device_opt; email = normalise_email (login_email data)
      in seqM (login_guards env c email device)
           (bindM (with_uow (login_transaction env c email (login_password data) device)) (\<lambda>result.
            seqM (limiter_reset env c (account_key email)) (retM result))))"
  by (simp add: login_def login_guards_def Let_def seqM_def bindM_assoc)

lemma frames_login_guards [frames_rules]: "frames (login_guards env c email device)"
  unfolding login_guards_def by (intro frames_rules)

text \<open>What the guards answer does not depend on the database.\<close>

definition blind :: "('r, 'a) app \<Rightarrow> bool" where
  "blind m \<longleftrightarrow> (\<forall>w d. m (w\<lparr>db := d\<rparr>) = (fst (m w), (snd (m w))\<lparr>db := d\<rparr>))"

lemma blind_bind: "blind m \<Longrightarrow> (\<And>x. blind (f x)) \<Longrightarrow> blind (bindM m f)"
  by (auto simp: blind_def bindM_def split: prod.splits sum.splits)

lemma blind_seq: "blind m \<Longrightarrow> blind n \<Longrightarrow> blind (seqM m n)"
  by (simp add: seqM_def blind_bind)

lemma blind_basic:
  "blind (retM x)" "blind (raiseM e)" "blind (liftM r)" "blind (draw f)" "blind (getsM counters)"
  "blind (getsM redis)"
  by (simp_all add: blind_def retM_def raiseM_def liftM_def draw_def getsM_def)

lemma blind_cases:
  "blind m \<Longrightarrow> blind n \<Longrightarrow> blind (if b then m else n)" "blind k \<Longrightarrow> blind (whenM b k)"
  "blind m' \<Longrightarrow> (\<And>y. blind (f y)) \<Longrightarrow> blind (case x of None \<Rightarrow> m' | Some y \<Rightarrow> f y)"
  by (simp_all add: whenM_def blind_basic split: option.splits)

lemmas blind_rules = blind_bind blind_seq blind_basic blind_cases

lemma blind_login_guards: "blind (login_guards env c email device)"
  unfolding login_guards_def login_guard_ip_def login_guard_account_def limiter_peek_def
    redis_now_def monotonic_def
  by (intro blind_rules)

lemma login_guards_blind:
  "fst (login_guards env c email device (w\<lparr>db := d\<rparr>)) = fst (login_guards env c email device w)"
  using blind_login_guards [of env c email device] by (simp add: blind_def)

lemma seq_frames_cases:
  assumes "frames m"
  obtains (raised) e w1 where "m w = (Inl e, w1)" "seqM m n w = (Inl e, w1)" "db w1 = db w" "session w1 = session w"
  | (passed) w1 where "m w = (Inr (), w1)" "seqM m n w = n w1" "db w1 = db w" "session w1 = session w"
proof (cases "m w")
  case (Pair r w1)
  with framesD [OF assms Pair] raised passed show thesis
    by (cases r) (auto simp: seqM_def bindM_def)
qed

section \<open>Rejection\<close>

definition rejection_event :: "string \<Rightarrow> device_info \<Rightarrow> user option \<Rightarrow> int \<Rightarrow> audit_event" where
  "rejection_event email device user now =
     \<lparr> ev_id = 0, ev_action = LOGIN_FAILED, ev_created_at = Aware now,
       ev_user_id = map_option user_id user, ev_ip_address = dev_ip_address device,
       ev_user_agent = dev_user_agent device,
       ev_metadata = [(''email'', MStr email), (''reason'', MStr (login_failure_reason user))] \<rparr>"

lemma settles_count_failure [settles_rules]: "settles (login_count_failure env c email device)"
  unfolding login_count_failure_def charge_def limiter_hit_def redis_hit_def in_memory_hit_def
  by (auto intro!: settles_rules split: option.splits simp: Let_def split_beta)

lemma found_user_id:
  assumes "db_user_by_email email d = Inr (Some u)"
  shows "user_id u \<in> user_ids d" and "user_email u = email"
proof -
  obtain r where r: "scalar_one_or_none (filter (\<lambda>r. ur_email r = email) (tbl_users d)) = Inr (Some r)"
    "u = user_to_entity d r"
    using assms by (auto simp: db_user_by_email_def map_found_def split: sum.splits)
  then have "r \<in> set (filter (\<lambda>r. ur_email r = email) (tbl_users d))"
    by (cases "filter (\<lambda>r. ur_email r = email) (tbl_users d)" rule: scalar_one_or_none.cases) auto
  with r(2) show "user_id u \<in> user_ids d" "user_email u = email" by (auto simp: user_ids_def)
qed

lemma login_reject_outcome:
  fixes w :: "'r world"
  assumes "session w = Some d" and "device_fits device"
    and "\<forall>u. user = Some u \<longrightarrow> user_id u \<in> user_ids d"
  shows "wp (login_reject env c email device user) (\<lambda>_ _. False)
           (\<lambda>e w'. e = invalid_credentials \<and> (\<exists>now. db w' = audited (rejection_event email device user now) d)) w"
proof -
  have ok: "\<exists>x. db_add_audit (rejection_event email device user now) d =
      Inr (x, audited (rejection_event email device user now) d)" for now
    by (rule db_add_audit_total) (use assms in \<open>auto simp: rejection_event_def device_fits_def\<close>)
  show ?thesis
    unfolding login_reject_def wp_seqM
  proof (rule wp_frames [OF frames_helpers(3)])
    fix y and w1 :: "'r world" assume w1: "session w1 = session w"
    show "wp (audit_record env LOGIN_FAILED (map_option user_id user) (Some device)
              [(''email'', MStr email), (''reason'', MStr (login_failure_reason user))])
       (\<lambda>_. wp commit (\<lambda>_. wp (raiseM invalid_credentials) (\<lambda>_ _. False)
          (\<lambda>e w'. e = invalid_credentials \<and> (\<exists>now. db w' = audited (rejection_event email device user now) d)))
          (\<lambda>e w'. e = invalid_credentials \<and> (\<exists>now. db w' = audited (rejection_event email device user now) d)))
       (\<lambda>e w'. e = invalid_credentials \<and> (\<exists>now. db w' = audited (rejection_event email device user now) d)) w1"
      using ok [of "env_utcnow env (draws w1)"] w1 assms(1)
      by (auto simp: wp_audit_record wp_rules device_or_default_def rejection_event_def)
  next
    fix e w1 assume "login_count_failure env c email device w = (Inl e, w1)"
    with settles_count_failure [of env c email device]
    show "e = invalid_credentials \<and> (\<exists>now. db w1 = audited (rejection_event email device user now) d)"
      by (simp add: settles_def)
  qed
qed

lemma login_rejected:
  assumes "db_user_by_email (normalise_email (login_email data)) (db w) = Inr user"
    and "credentials_valid env c (login_password data) user = Inr False"
    and "device_fits (device_or_default device)"
    and "login env c data device w = (r, w')"
  shows "\<exists>e. r = Inl e \<and>
    (case fst (login_guards env c (normalise_email (login_email data)) (device_or_default device) w) of
       Inl e' \<Rightarrow> e = e' \<and> db w' = db w
     | Inr _ \<Rightarrow> e = invalid_credentials \<and>
         (\<exists>now. db w' = audited (rejection_event (normalise_email (login_email data))
                                   (device_or_default device) user now) (db w)))"
proof -
  let ?email = "normalise_email (login_email data)" and ?dev = "device_or_default device"
  let ?rest = "bindM (with_uow (login_transaction env c ?email (login_password data) ?dev)) (\<lambda>result.
      seqM (limiter_reset env c (account_key ?email)) (retM result))"
  have eq: "login env c data device w = seqM (login_guards env c ?email ?dev) ?rest w"
    by (simp add: login_as_guards Let_def)
  show ?thesis
  proof (rule seq_frames_cases [OF frames_login_guards, of env c ?email ?dev w ?rest])
    fix e w1 assume "login_guards env c ?email ?dev w = (Inl e, w1)"
      "seqM (login_guards env c ?email ?dev) ?rest w = (Inl e, w1)" "db w1 = db w"
    with eq assms(4) show ?thesis by simp
  next
    fix w1 assume pass: "login_guards env c ?email ?dev w = (Inr (), w1)"
      "seqM (login_guards env c ?email ?dev) ?rest w = ?rest w1" "db w1 = db w"
    have "wp (login_reject env c ?email ?dev user) (\<lambda>_ _. False)
      (\<lambda>e w'. e = invalid_credentials \<and> (\<exists>now. db w' = audited (rejection_event ?email ?dev user now) (db w)))
      (w1\<lparr>session := Some (db w1)\<rparr>)"
      by (rule login_reject_outcome) (use assms(1,3) pass(3) found_user_id in auto)
    then have "wp (login_transaction env c ?email (login_password data) ?dev) (\<lambda>_ _. False)
      (\<lambda>e w'. e = invalid_credentials \<and> (\<exists>now. db w' = audited (rejection_event ?email ?dev user now) (db w)))
      (w1\<lparr>session := Some (db w1)\<rparr>)"
      using assms(1,2) pass(3)
      by (simp add: login_transaction_def users_get_by_email_def wp_bindM wp_query wp_liftM)
    then have "wp ?rest (\<lambda>_ _. False)
      (\<lambda>e w'. e = invalid_credentials \<and> (\<exists>now. db w' = audited (rejection_event ?email ?dev user now) (db w))) w1"
      unfolding wp_bindM wp_with_uow by (rule wp_mono) auto
    moreover have "?rest w1 = (r, w')" using eq pass(2) assms(4) by metis
    ultimately show ?thesis using pass(1) by (cases r) (simp_all add: wp_def)
  qed
qed

section \<open>Success\<close>

text \<open>What an accepted login answers and commits, as a function of the first reading it took.\<close>

definition login_refresh_token :: "'r env \<Rightarrow> config \<Rightarrow> user \<Rightarrow> nat \<Rightarrow> issued_token" where
  "login_refresh_token env c u n =
     issue_at env c (env_utcnow env (Suc (Suc n))) (user_id u) (env_uuid4_hex env n) ''refresh''
       (cfg_REFRESH_TOKEN_EXPIRE_MINUTES c)"

definition login_access_token :: "'r env \<Rightarrow> config \<Rightarrow> user \<Rightarrow> nat \<Rightarrow> issued_token" where
  "login_access_token env c u n =
     issue_at env c (env_utcnow env (Suc n)) (user_id u) (env_uuid4_hex env n) ''access''
       (cfg_ACCESS_TOKEN_EXPIRE_MINUTES c)"

definition login_event :: "device_info \<Rightarrow> user \<Rightarrow> int \<Rightarrow> audit_event" where
  "login_event device u now =
     \<lparr> ev_id = 0, ev_action = LOGIN, ev_created_at = Aware now, ev_user_id = Some (user_id u),
       ev_ip_address = dev_ip_address device, ev_user_agent = dev_user_agent device,
       ev_metadata = [(''visitor_id'', meta_opt (dev_visitor_id device))] \<rparr>"

definition login_commits ::
  "'r env \<Rightarrow> config \<Rightarrow> device_info \<Rightarrow> user \<Rightarrow> nat \<Rightarrow> database \<Rightarrow> database \<Rightarrow> bool" where
  "login_commits env c device u n d d' \<longleftrightarrow>
     (\<exists>x d1 y. db_add_session (login_session u (env_uuid4_hex env n) (env_utcnow env (Suc (Suc (Suc n))))
                 (login_refresh_token env c u n) device) d = Inr (x, d1) \<and>
        db_add_audit (login_event device u (env_utcnow env (Suc (Suc (Suc (Suc n)))))) d1 = Inr (y, d'))"

lemma login_accept_outcome:
  "wp (login_accept env c device u)
     (\<lambda>result w'. \<exists>n. result = auth_result_of (login_access_token env c u n) (login_refresh_token env c u n) u \<and>
        login_commits env c device u n d (db w'))
     (\<lambda>_ _. True) (w\<lparr>session := Some d\<rparr>)"
  by (auto simp: login_accept_def issue_access_def issue_refresh_def step_rules login_commits_def
      login_refresh_token_def login_access_token_def login_event_def device_or_default_def
      split: sum.splits)

lemma login_transaction_outcome:
  "wp (login_transaction env c email pw device)
     (\<lambda>result w'. \<exists>u n. db_user_by_email email d = Inr (Some u) \<and> user_is_active u \<and>
        hasher_verify env c pw (user_password_hash u) = Inr True \<and>
        result = auth_result_of (login_access_token env c u n) (login_refresh_token env c u n) u \<and>
        login_commits env c device u n d (db w'))
     (\<lambda>_ _. True) (w\<lparr>session := Some d\<rparr>)"
proof -
  have reject: "wp (login_reject env c email device user) Q (\<lambda>_ _. True) w'" for user Q and w' :: "'a world"
    by (auto simp: login_reject_def seqM_def bindM_def raiseM_def wp_def split: prod.splits sum.splits)
  show ?thesis
    unfolding login_transaction_def users_get_by_email_def
    by (auto simp: wp_bindM wp_query wp_liftM wp_if reject credentials_valid_def
        split: sum.splits option.splits if_splits intro!: wp_mono [OF login_accept_outcome])
qed

lemma login_success_chain:
  assumes "login env c data device w = (Inr result, w')"
  shows "\<exists>u n. db_user_by_email (normalise_email (login_email data)) (db w) = Inr (Some u) \<and>
     user_is_active u \<and> hasher_verify env c (login_password data) (user_password_hash u) = Inr True \<and>
     result = auth_result_of (login_access_token env c u n) (login_refresh_token env c u n) u \<and>
     login_commits env c (device_or_default device) u n (db w) (db w')"
    (is "?P result (db w')")
proof -
  let ?email = "normalise_email (login_email data)" and ?dev = "device_or_default device"
  let ?rest = "bindM (with_uow (login_transaction env c ?email (login_password data) ?dev)) (\<lambda>result.
      seqM (limiter_reset env c (account_key ?email)) (retM result))"
  have "seqM (login_guards env c ?email ?dev) ?rest w = (Inr result, w')"
    using assms by (simp add: login_as_guards Let_def)
  then obtain w1 where w1: "db w1 = db w" "?rest w1 = (Inr result, w')"
    by (rule seq_frames) (rule frames_login_guards, blast)
  obtain v w2 where w2: "with_uow (login_transaction env c ?email (login_password data) ?dev) w1 = (Inr v, w2)"
    "seqM (limiter_reset env c (account_key ?email)) (retM v) w2 = (Inr result, w')"
    using w1(2) by (auto simp: bindM_def split: prod.splits sum.splits)
  obtain w3 where "db w3 = db w2" "retM v w3 = (Inr result :: exn + auth_result, w')"
    using w2(2) by (rule seq_frames) (rule frames_ports, blast)
  then have v: "v = result" "db w2 = db w'" by (simp_all add: retM_def)
  have "wp (with_uow (login_transaction env c ?email (login_password data) ?dev)) (\<lambda>result w'. ?P result (db w'))
      (\<lambda>_ _. True) w1"
    unfolding wp_with_uow w1(1) by (rule wp_mono [OF login_transaction_outcome]) auto
  with w2(1) v show ?thesis by (simp add: wp_def)
qed

end
