(* ===== verification/Lockout.thy ===== *)
theory Lockout
  imports Login_Laws
begin

text \<open>
  The account lockout over a sequence of logins, with the in-process counters: rejected logins are
  charged to the account, and while its window is open no more than the configured number of them is
  answered. \<open>mild\<close> programs do not touch the counters and never raise \<open>invalid_credentials\<close>.
\<close>

section \<open>Programs that leave the counters alone\<close>

definition mild :: "('r, 'a) app \<Rightarrow> bool" where
  "mild m \<longleftrightarrow>
     (\<forall>w r w'. m w = (r, w') \<longrightarrow>
        counters w' = counters w \<and> draws w \<le> draws w' \<and> r \<noteq> Inl invalid_credentials)"

named_theorems mild_rules \<open>programs that leave the counters alone\<close>

lemma mildD: "mild m \<Longrightarrow> m w = (r, w') \<Longrightarrow> counters w' = counters w \<and> draws w \<le> draws w' \<and> r \<noteq> Inl invalid_credentials"
  by (auto simp: mild_def)

lemma mild_basic [mild_rules]:
  "mild (retM x)" "e \<noteq> invalid_credentials \<Longrightarrow> mild (raiseM e)" "mild (draw f)" "mild (getsM g)"
  "r \<noteq> Inl invalid_credentials \<Longrightarrow> mild (liftM r)"
  "(\<And>d. q d \<noteq> Inl invalid_credentials) \<Longrightarrow> mild (query q)" "mild (utc_now env)" "mild (uuid4_hex env)"
  "(\<And>d. s d \<noteq> Inl invalid_credentials) \<Longrightarrow> mild (execute s)" "mild (monotonic env)"
  by (auto simp: mild_def retM_def raiseM_def draw_def getsM_def liftM_def query_def execute_def
      utc_now_def uuid4_hex_def monotonic_def invalid_credentials_def split: option.splits sum.splits)

lemma mild_commit [mild_rules]: "mild commit"
  by (auto simp: mild_def commit_def invalid_credentials_def split: option.splits)

lemma mild_bind [mild_rules]:
  assumes "mild m" and "\<And>x. mild (f x)"
  shows "mild (bindM m f)"
  unfolding mild_def
proof (intro allI impI)
  fix w r w' assume run: "bindM m f w = (r, w')"
  show "counters w' = counters w \<and> draws w \<le> draws w' \<and> r \<noteq> Inl invalid_credentials"
  proof (cases "m w")
    case (Pair r1 w1)
    note m = mildD [OF assms(1) Pair]
    show ?thesis
    proof (cases r1)
      case (Inl e)
      with run Pair m show ?thesis by (auto simp: bindM_def)
    next
      case (Inr x)
      with run Pair have "f x w1 = (r, w')" by (simp add: bindM_def)
      from mildD [OF assms(2) this] m show ?thesis by simp
    qed
  qed
qed

lemma mild_seq [mild_rules]: "mild m \<Longrightarrow> mild n \<Longrightarrow> mild (seqM m n)"
  by (simp add: seqM_def mild_bind)

lemma mild_cases [mild_rules]:
  "mild m \<Longrightarrow> mild m' \<Longrightarrow> mild (if b then m else m')" "mild k \<Longrightarrow> mild (whenM b k)"
  "mild n \<Longrightarrow> (\<And>y. mild (f y)) \<Longrightarrow> mild (case x of None \<Rightarrow> n | Some y \<Rightarrow> f y)"
  by (simp_all add: whenM_def mild_basic split: option.splits)

lemma mild_with_uow [mild_rules]: "mild m \<Longrightarrow> mild (with_uow m)"
  by (fastforce simp: mild_def with_uow_def Let_def split: prod.splits)

section \<open>The parts of a login\<close>

lemma db_errors:
  "db_add_session s d \<noteq> Inl invalid_credentials" "db_add_audit e d \<noteq> Inl invalid_credentials"
  "db_user_by_email email d \<noteq> Inl invalid_credentials"
  by (auto simp: db_add_session_def insert_session_def db_add_audit_def insert_audit_def
      db_user_by_email_def map_found_def audit_event_to_entity_def invalid_credentials_def Let_def
      split: sum.splits if_splits option.splits
      elim: scalar_one_or_none.elims)

lemma verify_errors: "hasher_verify env c pw h \<noteq> Inl invalid_credentials"
  by (auto simp: hasher_verify_def pbkdf2_verify_def argon2_verify_def bindE_def some_or_def
      pbkdf2_derive_def invalid_credentials_def split: list.splits sum.splits option.splits if_splits
      argon2_error.splits)

lemma credentials_errors: "credentials_valid env c pw user \<noteq> Inl invalid_credentials"
  by (simp add: credentials_valid_def verify_errors split: option.splits)

lemma mild_audit [mild_rules]: "mild (audit_record env action uid device metadata)"
  unfolding audit_record_def audit_log_add_def Let_def by (intro mild_rules db_errors)

lemma mild_accept [mild_rules]: "mild (login_accept env c device u)"
  unfolding login_accept_def issue_access_def issue_refresh_def sessions_add_def
  by (intro mild_rules db_errors)

lemma mild_guards:
  assumes "\<not> redis_backend c"
  shows "mild (login_guard_ip env c device)" "mild (login_guard_account env c email)"
  unfolding login_guard_ip_def login_guard_account_def limiter_peek_def using assms
  by (simp_all add: mild_rules invalid_credentials_def split: option.splits)

section \<open>One login\<close>

text \<open>The account guard passes only while the account's window has room.\<close>

lemma account_guard_passed:
  assumes "\<not> redis_backend c" and "is_enforced (login_account_policy c)"
    and "login_guard_account env c email w = (Inr (), w')"
  shows "rld_allowed (in_memory_peek_at (env_monotonic env (draws w)) (account_key email)
           (rlp_limit (login_account_policy c)) (counters w)) \<and> draws w < draws w'"
  using assms
  by (auto simp: login_guard_account_def limiter_peek_def bindM_def monotonic_def draw_def getsM_def
      retM_def whenM_def raiseM_def split: if_splits)

lemma charge_in_memory:
  assumes "\<not> redis_backend c"
  shows "charge env c key policy w =
     (Inr (), w\<lparr>draws := Suc (draws w),
                counters := snd (in_memory_hit_at (env_monotonic env (draws w)) key (rlp_limit policy)
                                   (rlp_window_seconds policy) (counters w))\<rparr>)"
  using assms
  by (simp add: charge_def limiter_hit_def in_memory_hit_def bindM_def seqM_def monotonic_def draw_def
      getsM_def modifyM_def retM_def Let_def split_beta)

lemma keys_differ: "login_ip_key ip \<noteq> account_key email" "account_key email \<noteq> login_ip_key ip"
  by (simp_all add: login_ip_key_def account_key_def)

lemma count_failure_window:
  assumes "\<not> redis_backend c" and "is_enforced (login_account_policy c)"
    and "login_count_failure env c email device w = (r, w')"
  shows "\<exists>n. draws w \<le> n \<and> n < draws w' \<and> counter_of (counters w') (account_key email) =
     (let (k, until) = counter_of (counters w) (account_key email); t = env_monotonic env n in
      if until \<le> t then (1, t + seconds (rlp_window_seconds (login_account_policy c))) else (k + 1, until))"
  using assms
  by (auto simp: login_count_failure_def seqM_def bindM_def whenM_def retM_def charge_in_memory
      in_memory_window keys_differ split_beta Let_def split: option.splits if_splits
      intro!: exI [of _ "draws w' - 1"])

text \<open>
  A login that raises either leaves the account's window alone and does not answer
  \<open>invalid_credentials\<close>, or finds room in the window and is charged to it.
\<close>

definition charged :: "'r env \<Rightarrow> config \<Rightarrow> string \<Rightarrow> 'r world \<Rightarrow> 'r world \<Rightarrow> bool" where
  "charged env c email w w' \<longleftrightarrow>
     (\<exists>m n. draws w \<le> m \<and> m < n \<and> n < draws w' \<and>
        (let (k, until) = counter_of (counters w) (account_key email);
             policy = login_account_policy c; t = env_monotonic env n in
         (if until \<le> env_monotonic env m then 0 else k) < rlp_limit policy \<and>
         counter_of (counters w') (account_key email) =
           (if until \<le> t then (1, t + seconds (rlp_window_seconds policy)) else (k + 1, until))))"

lemma login_reject_counts:
  assumes "\<not> redis_backend c" and "is_enforced (login_account_policy c)"
    and "login_reject env c email device user w = (r, w')"
  shows "\<exists>n. draws w \<le> n \<and> n < draws w' \<and> counter_of (counters w') (account_key email) =
     (let (k, until) = counter_of (counters w) (account_key email); t = env_monotonic env n in
      if until \<le> t then (1, t + seconds (rlp_window_seconds (login_account_policy c))) else (k + 1, until))"
proof (cases "login_count_failure env c email device w")
  case (Pair r1 w1)
  let ?audit = "audit_record env LOGIN_FAILED (map_option user_id user) (Some device)
              [(''email'', MStr email), (''reason'', MStr (login_failure_reason user))]"
  from Pair settles_count_failure [of env c email device] have r1: "r1 = Inr ()"
    by (cases r1) (auto simp: settles_def)
  obtain n where n: "draws w \<le> n" "n < draws w1" "counter_of (counters w1) (account_key email) =
     (let (k, until) = counter_of (counters w) (account_key email); t = env_monotonic env n in
      if until \<le> t then (1, t + seconds (rlp_window_seconds (login_account_policy c))) else (k + 1, until))"
    using count_failure_window [OF assms(1,2) Pair] by blast
  have rest: "seqM ?audit (seqM commit (raiseM invalid_credentials)) w1 = (r, w')"
    using assms(3) Pair r1 by (simp add: login_reject_def seqM_def bindM_def)
  have "counters w' = counters w1 \<and> draws w1 \<le> draws w'"
  proof (cases "?audit w1")
    case audit: (Pair r2 w2)
    note a = mildD [OF mild_audit audit]
    show ?thesis
    proof (cases r2)
      case (Inr y)
      have "seqM commit (raiseM invalid_credentials) w2 = (r, w')"
        using rest audit Inr by (simp add: seqM_def bindM_def)
      then show ?thesis using a
        by (auto simp: seqM_def bindM_def commit_def raiseM_def split: option.splits)
    qed (use rest audit a in \<open>auto simp: seqM_def bindM_def\<close>)
  qed
  with n show ?thesis by (intro exI [of _ n]) auto
qed

definition quiet :: "'r world \<Rightarrow> exn \<Rightarrow> 'r world \<Rightarrow> bool" where
  "quiet w e w' \<longleftrightarrow> counters w' = counters w \<and> draws w \<le> draws w' \<and> e \<noteq> invalid_credentials"

lemma mild_quiet: "mild m \<Longrightarrow> m w = (Inl e, w') \<Longrightarrow> quiet w e w'"
  by (auto simp: quiet_def dest: mildD)

lemma seq_mild_error:
  assumes "seqM m n w = (Inl e, w')" and "mild m"
  obtains "quiet w e w'"
  | w1 where "m w = (Inr (), w1)" "counters w1 = counters w" "draws w \<le> draws w1" "n w1 = (Inl e, w')"
proof (cases "m w")
  case (Pair r w1)
  with assms that mildD [OF assms(2) Pair] mild_quiet [OF assms(2)] show thesis
    by (cases r) (auto simp: seqM_def bindM_def)
qed

lemma login_transaction_error:
  assumes "login_transaction env c email pw device w = (Inl e, w')"
  shows "quiet w e w' \<or> (\<exists>user. login_reject env c email device user w = (Inl e :: exn + auth_result, w'))"
proof -
  have get: "mild (users_get_by_email email)"
    unfolding users_get_by_email_def by (intro mild_rules db_errors)
  obtain r w1 where r: "users_get_by_email email w = (r, w1)" by fastforce
  have w1: "w1 = w" using r by (auto simp: users_get_by_email_def query_def split: option.splits)
  show ?thesis
  proof (cases r)
    case (Inl x)
    with r assms mild_quiet [OF get] show ?thesis by (auto simp: login_transaction_def bindM_def)
  next
    case user: (Inr user)
    let ?valid = "credentials_valid env c pw user"
    have run: "bindM (liftM ?valid) (\<lambda>valid. if \<not> valid then login_reject env c email device user
         else case user of None \<Rightarrow> raiseM AssertionError | Some u \<Rightarrow> login_accept env c device u) w = (Inl e, w')"
      using assms r w1 user by (simp add: login_transaction_def bindM_def)
    show ?thesis
    proof (cases "?valid = Inr False")
      case False
      then have "bindM (liftM ?valid) (\<lambda>valid. if \<not> valid then raiseM AssertionError
         else case user of None \<Rightarrow> raiseM AssertionError | Some u \<Rightarrow> login_accept env c device u) w = (Inl e, w')"
        using run by (auto simp: bindM_def liftM_def split: sum.splits if_splits)
      moreover have "mild (bindM (liftM ?valid) (\<lambda>valid. if \<not> valid then raiseM AssertionError
         else case user of None \<Rightarrow> raiseM AssertionError | Some u \<Rightarrow> login_accept env c device u))"
        by (intro mild_rules credentials_errors) (simp_all add: invalid_credentials_def)
      ultimately show ?thesis using mild_quiet by blast
    qed (use run in \<open>auto simp: bindM_def liftM_def\<close>)
  qed
qed

lemma login_charges:
  assumes "\<not> redis_backend c" and "is_enforced (login_account_policy c)"
    and "login env c data device w = (Inl e, w')"
  shows "charged env c (normalise_email (login_email data)) w w' \<or> quiet w e w'"
proof -
  let ?email = "normalise_email (login_email data)" and ?dev = "device_or_default device"
  let ?tx = "login_transaction env c ?email (login_password data) ?dev"
  let ?rest = "bindM (with_uow ?tx) (\<lambda>result. seqM (limiter_reset env c (account_key ?email)) (retM result))"
  have run: "seqM (login_guard_ip env c ?dev) (seqM (login_guard_account env c ?email) ?rest) w = (Inl e, w')"
    using assms(3) by (simp add: login_def Let_def)
  from run mild_guards(1) [OF assms(1)] show ?thesis
  proof (rule seq_mild_error)
    fix w1 assume w1: "counters w1 = counters w" "draws w \<le> draws w1"
      "seqM (login_guard_account env c ?email) ?rest w1 = (Inl e, w')"
    from w1(3) mild_guards(2) [OF assms(1)] show ?thesis
    proof (rule seq_mild_error)
      fix w2 assume w2: "login_guard_account env c ?email w1 = (Inr (), w2)" "counters w2 = counters w1"
        "draws w1 \<le> draws w2" "?rest w2 = (Inl e, w')"
      have "settles (seqM (limiter_reset env c (account_key ?email)) (retM v))" for v :: auth_result
        by (intro settles_rules)
      with w2(4) obtain w3 where w3: "?tx (w2\<lparr>session := Some (db w2)\<rparr>) = (Inl e, w3)"
        "w' = w3\<lparr>session := None\<rparr>"
        by (auto simp: bindM_def with_uow_def Let_def settles_def split: prod.splits sum.splits)
      from login_transaction_error [OF w3(1)] show ?thesis
      proof
        assume "\<exists>user. login_reject env c ?email ?dev user (w2\<lparr>session := Some (db w2)\<rparr>) =
          (Inl e :: exn + auth_result, w3)"
        from login_reject_counts [OF assms(1,2)] this obtain n where n: "draws w2 \<le> n" "n < draws w3"
          "counter_of (counters w3) (account_key ?email) =
             (let (k, until) = counter_of (counters w2) (account_key ?email); t = env_monotonic env n in
              if until \<le> t then (1, t + seconds (rlp_window_seconds (login_account_policy c)))
              else (k + 1, until))" by force
        note passed = account_guard_passed [OF assms(1,2) w2(1)]
        have "charged env c ?email w w'"
          unfolding charged_def
          by (rule exI [of _ "draws w1"], rule exI [of _ n])
            (use passed n w3(2) w1 w2 in \<open>auto simp: in_memory_peek_at_def in_memory_decide_def
              Let_def split_beta split: if_splits\<close>)
        then show ?thesis ..
      qed (use w1 w2 w3(2) in \<open>auto simp: quiet_def\<close>)
    qed (use w1 in \<open>auto simp: quiet_def\<close>)
  qed auto
qed

section \<open>A sequence of logins\<close>

fun login_attempts ::
  "'r env \<Rightarrow> config \<Rightarrow> (login_dto \<times> device_info option) list \<Rightarrow> 'r world \<Rightarrow>
     (exn + auth_result) list \<times> 'r world" where
  "login_attempts env c [] w = ([], w)"
| "login_attempts env c ((data, device) # as) w =
     (let (r, w1) = login env c data device w; (rs, w2) = login_attempts env c as w1 in (r # rs, w2))"

definition rejections :: "(exn + auth_result) list \<Rightarrow> int" where
  "rejections rs = int (length (filter (\<lambda>r. r = Inl invalid_credentials) rs))"

text \<open>\<open>k\<close> rejections are accounted for: no window is open and \<open>k\<close> is 0, or the open one has counted them.\<close>

definition accounted :: "config \<Rightarrow> string \<Rightarrow> int \<Rightarrow> int \<Rightarrow> 'r world \<Rightarrow> bool" where
  "accounted c email t0 k w \<longleftrightarrow>
     (let (n, until) = counter_of (counters w) (account_key email); policy = login_account_policy c in
      if until \<le> t0 then k = 0
      else k \<le> n \<and> n \<le> rlp_limit policy \<and> t0 + seconds (rlp_window_seconds policy) \<le> until)"

lemma accounted_charged:
  assumes "charged env c email w w'" and "accounted c email t0 k w"
    and "is_enforced (login_account_policy c)" and "0 < rlp_window_seconds (login_account_policy c)"
    and "\<And>n. draws w \<le> n \<Longrightarrow> n < draws w' \<Longrightarrow> t0 \<le> env_monotonic env n \<and>
           env_monotonic env n < t0 + seconds (rlp_window_seconds (login_account_policy c))"
  shows "accounted c email t0 (k + 1) w'" and "draws w \<le> draws w'"
proof -
  obtain m n where mn: "draws w \<le> m" "m < n" "n < draws w'"
    and room: "(if snd (counter_of (counters w) (account_key email)) \<le> env_monotonic env m then 0
       else fst (counter_of (counters w) (account_key email))) < rlp_limit (login_account_policy c)"
    and new: "counter_of (counters w') (account_key email) =
      (if snd (counter_of (counters w) (account_key email)) \<le> env_monotonic env n
       then (1, env_monotonic env n + seconds (rlp_window_seconds (login_account_policy c)))
       else (fst (counter_of (counters w) (account_key email)) + 1,
             snd (counter_of (counters w) (account_key email))))"
    using assms(1) by (auto simp: charged_def Let_def split_beta)
  have "t0 \<le> env_monotonic env m"
    "env_monotonic env m < t0 + seconds (rlp_window_seconds (login_account_policy c))"
    "t0 \<le> env_monotonic env n"
    "env_monotonic env n < t0 + seconds (rlp_window_seconds (login_account_policy c))"
    using assms(5) [of m] assms(5) [of n] mn by auto
  with room new assms(2-4) show "accounted c email t0 (k + 1) w'"
    by (auto simp: accounted_def Let_def split_beta is_enforced_def seconds_def split: if_splits)
  show "draws w \<le> draws w'" using mn by simp
qed

lemma accounted_le:
  "accounted c email t0 k w \<Longrightarrow> is_enforced (login_account_policy c) \<Longrightarrow> k \<le> rlp_limit (login_account_policy c)"
  by (auto simp: accounted_def Let_def split_beta is_enforced_def split: if_splits)

lemma attempts_draws:
  assumes "\<not> redis_backend c" "is_enforced (login_account_policy c)"
    and "login_attempts env c as w = (rs, w')" "list_all isl rs"
  shows "draws w \<le> draws w'"
  using assms(3,4)
proof (induction as arbitrary: w rs)
  case (Cons a as)
  obtain data device where a: "a = (data, device)" by fastforce
  obtain r w1 where login: "login env c data device w = (r, w1)" by fastforce
  obtain rs' where rest: "login_attempts env c as w1 = (rs', w')" "rs = r # rs'"
    using Cons.prems(1) a login by (auto split: prod.splits)
  obtain e where "r = Inl e" using Cons.prems(2) rest(2) by (auto simp: isl_def)
  with login_charges [OF assms(1,2), of env data device w e w1] login have "draws w \<le> draws w1"
    by (auto simp: charged_def quiet_def)
  with Cons.IH [OF rest(1)] Cons.prems(2) rest(2) show ?case by simp
qed simp

lemma attempts_bounded:
  assumes "\<not> redis_backend c" "is_enforced (login_account_policy c)"
    "0 < rlp_window_seconds (login_account_policy c)"
    and "list_all (\<lambda>a. normalise_email (login_email (fst a)) = email) as"
    and "login_attempts env c as w = (rs, w')" "list_all isl rs"
    and "\<And>n. draws w \<le> n \<Longrightarrow> n < draws w' \<Longrightarrow> t0 \<le> env_monotonic env n \<and>
           env_monotonic env n < t0 + seconds (rlp_window_seconds (login_account_policy c))"
    and "accounted c email t0 k w"
  shows "k + rejections rs \<le> rlp_limit (login_account_policy c)"
  using assms(4-)
proof (induction as arbitrary: w rs k)
  case Nil
  then show ?case using accounted_le [OF _ assms(2)] by (auto simp: rejections_def)
next
  case (Cons a as)
  obtain data device where a: "a = (data, device)" by fastforce
  obtain r w1 where login: "login env c data device w = (r, w1)" by fastforce
  obtain rs' where rest: "login_attempts env c as w1 = (rs', w')" "rs = r # rs'"
    using Cons.prems(2) a login by (auto split: prod.splits)
  have isl: "list_all isl rs'" using Cons.prems(3) rest(2) by simp
  obtain e where e: "r = Inl e" using Cons.prems(3) rest(2) by (auto simp: isl_def)
  have later: "draws w1 \<le> draws w'" by (rule attempts_draws [OF assms(1,2) rest(1) isl])
  have email: "normalise_email (login_email data) = email"
    "list_all (\<lambda>a. normalise_email (login_email (fst a)) = email) as"
    using Cons.prems(1) a by auto
  from login_charges [OF assms(1,2), of env data device w e w1] login e email
  consider "charged env c email w w1" | "quiet w e w1" by auto
  then show ?case
  proof cases
    case 1
    have acc: "accounted c email t0 (k + 1) w1" "draws w \<le> draws w1"
      by (rule accounted_charged [OF 1 Cons.prems(5) assms(2,3)]; use Cons.prems(4) later in force)+
    have "k + 1 + rejections rs' \<le> rlp_limit (login_account_policy c)"
      by (rule Cons.IH [OF email(2) rest(1) isl _ acc(1)]) (use Cons.prems(4) acc(2) in force)
    then show ?thesis using rest(2) by (simp add: rejections_def split: if_splits)
  next
    case 2
    then have acc: "accounted c email t0 k w1" "draws w \<le> draws w1" "e \<noteq> invalid_credentials"
      using Cons.prems(5) by (auto simp: quiet_def accounted_def)
    have "k + rejections rs' \<le> rlp_limit (login_account_policy c)"
      by (rule Cons.IH [OF email(2) rest(1) isl _ acc(1)]) (use Cons.prems(4) acc(2) in force)
    then show ?thesis using rest(2) acc(3) e by (simp add: rejections_def)
  qed
qed

text \<open>A locked account: the guard answers, whatever the password.\<close>

lemma locked_login:
  assumes "\<not> redis_backend c" and "is_enforced (login_account_policy c)"
    and "env_monotonic env (draws w) < snd (counter_of (counters w) (account_key (normalise_email (login_email data))))"
    and "rlp_limit (login_account_policy c) \<le>
           fst (counter_of (counters w) (account_key (normalise_email (login_email data))))"
  shows "\<exists>s w'. login env c data None w = (Inl (AccountLockedError s), w') \<and> 0 < s \<and> db w' = db w \<and>
           counters w' = counters w"
  using assms
  by (auto simp: login_def login_guard_ip_def login_guard_account_def limiter_peek_def device_or_default_def
      no_device_def seqM_def bindM_def retM_def whenM_def raiseM_def monotonic_def draw_def getsM_def
      in_memory_peek_at_def in_memory_decide_def Let_def split_beta)

end
