(* ===== verification/Demo.thy ===== *)
theory Demo
  imports Password_Laws
begin

text \<open>
  Concrete surroundings on which the hypotheses of the theorems can be met: clocks that tick with
  every reading, counted random sources, transparent stand-ins for the cryptographic primitives, and
  a small database with an ordinary account, a superuser, a live session of each and two unused
  one-time tokens. Only witnesses refer to them.
\<close>

definition demo_claims :: "string \<Rightarrow> string \<Rightarrow> string \<Rightarrow> claims" where
  "demo_claims sub jti typ =
     [(''sub'', CStr sub), (''jti'', CStr jti), (''type'', CStr typ), (''exp'', CInt 900)]"

fun demo_decode :: "string \<Rightarrow> jwt_error + claims" where
  "demo_decode token =
     (if token = ''a1'' then Inr (demo_claims ''1'' ''j1'' ''access'')
      else if token = ''r1'' then Inr (demo_claims ''1'' ''j1'' ''refresh'')
      else if token = ''a2'' then Inr (demo_claims ''2'' ''j2'' ''access'')
      else Inl InvalidJwtError)"

definition demo_base :: "redis_view env" where
  "demo_base =
     \<lparr> env_utcnow = int, env_monotonic = int, env_db_now = int,
       env_uuid4_hex = (\<lambda>n. ''u'' @ str_of_nat n), env_token_urlsafe = (\<lambda>n k. ''s'' @ str_of_nat n),
       env_urandom = (\<lambda>n k. [1, 2]), env_sha256 = take 32,
       env_pbkdf2_sha256 = (\<lambda>pw salt n. pw @ salt),
       env_argon2_hash = (\<lambda>n pw. ''h:'' @ pw),
       env_argon2_verify = (\<lambda>h pw. if h = ''h:'' @ pw then Inr True else Inl VerifyMismatchError),
       env_jwt_encode = (\<lambda>claims secret alg. ''jwt''),
       env_jwt_decode = (\<lambda>token secret alg now. demo_decode token),
       env_redis_now = int, env_redis_get = (\<lambda>t k r. None), env_redis_set_ex = (\<lambda>t k x s r. r),
       env_redis_delete = (\<lambda>t k r. r), env_redis_incr = (\<lambda>t k r. (1, r)),
       env_redis_ttl = (\<lambda>t k r. 0), env_redis_expire = (\<lambda>t k s r. r) \<rparr>"

definition demo_env :: "redis_view env" where
  "demo_env = redis_model demo_base"

definition demo_user_row :: "int \<Rightarrow> string \<Rightarrow> string \<Rightarrow> bool \<Rightarrow> user_row" where
  "demo_user_row uid name pw super =
     \<lparr> ur_id = uid, ur_email = name @ ''@x.org'', ur_username = name, ur_password_hash = ''h:'' @ pw,
       ur_display_name = None, ur_is_active = True, ur_is_superuser = super,
       ur_email_verified_at = None, ur_visitor_id = None, ur_created_at = Aware 0,
       ur_updated_at = Aware 0 \<rparr>"

definition demo_session_row :: "int \<Rightarrow> int \<Rightarrow> string \<Rightarrow> session_row" where
  "demo_session_row sid uid jti =
     \<lparr> sr_id = sid, sr_user_id = uid, sr_jti = jti, sr_created_at = Aware 0,
       sr_expires_at = Aware 900000000, sr_revoked_at = None, sr_visitor_id = None,
       sr_user_agent = None, sr_ip_address = None, sr_device = None, sr_last_seen_at = None \<rparr>"

definition demo_token_row :: "int \<Rightarrow> token_purpose \<Rightarrow> string \<Rightarrow> token_row" where
  "demo_token_row tid purpose h =
     \<lparr> tr_id = tid, tr_user_id = 1, tr_purpose = token_purpose_value purpose, tr_token_hash = h,
       tr_created_at = Aware 0, tr_expires_at = Aware 900000000, tr_used_at = None \<rparr>"

text \<open>\<open>61\<close> and \<open>62\<close> are the stored hashes of the secrets \<open>a\<close> and \<open>b\<close>.\<close>

definition demo_db :: database where
  "demo_db =
     empty_db\<lparr>
       tbl_users := [demo_user_row 1 ''ann'' ''pw'' False, demo_user_row 2 ''root'' ''pw2'' True],
       tbl_roles := [\<lparr> rr_id = 1, rr_name = ''user'', rr_description = None \<rparr>],
       tbl_permissions :=
         [\<lparr> pr_id = 1, pr_resource = ''users'', pr_action = ''ban'', pr_description = None \<rparr>],
       tbl_user_roles := [(1, 1)],
       tbl_sessions := [demo_session_row 1 1 ''j1'', demo_session_row 2 2 ''j2''],
       tbl_tokens := [demo_token_row 1 PASSWORD_RESET ''61'', demo_token_row 2 EMAIL_VERIFICATION ''62''],
       seq_users := 3, seq_roles := 2, seq_permissions := 2, seq_sessions := 3, seq_tokens := 3\<rparr>"

definition demo_world :: "redis_view world" where
  "demo_world =
     \<lparr> db = demo_db, session = None, counters = (\<lambda>_. None), redis = (\<lambda>_. None), outbox = [],
       draws = 0 \<rparr>"

lemma demo_env_simps [simp]:
  "env_utcnow demo_env n = int n" "env_monotonic demo_env n = int n" "env_db_now demo_env n = int n"
  "env_uuid4_hex demo_env n = ''u'' @ str_of_nat n" "env_sha256 demo_env bs = take 32 bs"
  "env_argon2_hash demo_env n pw = ''h:'' @ pw"
  "env_argon2_verify demo_env h pw = (if h = ''h:'' @ pw then Inr True else Inl VerifyMismatchError)"
  "env_jwt_decode demo_env token secret alg now = demo_decode token"
  by (simp_all add: demo_env_def demo_base_def redis_model_def)

lemma demo_argon2: "argon2_behaves demo_env"
  by (simp add: argon2_behaves_def)

lemma demo_jwt_stable: "jwt_stable demo_env"
  by (simp add: jwt_stable_def)

lemma purposes_in_range:
  "''password_reset'' \<in> range token_purpose_value" "''email_verification'' \<in> range token_purpose_value"
  by (rule range_eqI [of _ _ PASSWORD_RESET] range_eqI [of _ _ EMAIL_VERIFICATION], simp)+

lemma demo_db_wf: "wf_db demo_db"
  by (simp add: demo_db_def demo_user_row_def demo_session_row_def demo_token_row_def empty_db_def
      wf_db_def wf_users_def wf_roles_def wf_permissions_def wf_links_def wf_sessions_def wf_tokens_def
      wf_audit_def keyed_def uniq_def refers_def id_sets purposes_in_range user_row_fits_def fits_def
      fits_opt_def)

lemma demo_db_ok: "account_ok demo_db"
  unfolding account_ok_def
  by (simp add: demo_db_wf) (simp add: live_active_def active_user_def demo_db_def demo_user_row_def
      demo_session_row_def empty_db_def)

lemma demo_db_unused: "single_unused demo_db"
  by (simp add: single_unused_def demo_db_def demo_token_row_def empty_db_def)

lemma demo_world_simps [simp]: "db demo_world = demo_db" "session demo_world = None"
  by (simp_all add: demo_world_def)

end
