(* ===== verification/Session_Security.thy ===== *)
theory Session_Security
  imports Demo
begin

text \<open>
  The properties of login sessions, passwords and mailed links over every run of the service.
\<close>

lemma run_evolves_ok:
  assumes "service_run env c w w'" and "session w = None" and "wf_db (db w)"
  shows "db_evolves (db w) (db w')" and "wf_db (db w')"
  using assms service_run_evolves service_run_wf by blast+

text \<open>How witnesses state that a concrete run succeeds.\<close>

lemma succeedsE:
  assumes "\<not> isl (fst (m w))"
  obtains x where "m w = (Inr x, snd (m w))"
  using assms that by (metis isl_def sum.exhaust prod.collapse)

text \<open>A use case run at rest leaves the service at rest, with an intact database.\<close>

lemma step_at_rest:
  assumes "service_step env c w w'" and "session w = None" and "wf_db (db w)"
  shows "session w' = None" and "wf_db (db w')" and "db_evolves (db w) (db w')"
proof -
  have run: "service_run env c w w'" by (rule service_run.more [OF service_run.start assms(1)])
  show "session w' = None" "wf_db (db w')" "db_evolves (db w) (db w')"
    using service_run_evolves [OF run assms(2)] service_run_wf [OF run assms(2,3)] by blast+
qed

text \<open>
  C1: Refresh-token rotation. Once a refresh token has been exchanged, neither it nor an access token
  of the session it belonged to is accepted again, after any further requests: a second exchange is a
  401 and commits nothing.
\<close>
theorem refresh_token_single_use:
  assumes "jwt_stable env" and "session w = None" and "wf_db (db w)"
    and "refresh env c token device w = (Inr result, w1)"
    and "service_run env c w1 w2"
  shows "\<exists>m w3. refresh env c token device' w2 = (Inl (AuthenticationError m), w3) \<and> db w3 = db w2"
proof -
  have step: "service_step env c w w1" using service_step.refresh [of env c w token device] assms(4) by simp
  obtain p where p: "decode_at env c (env_utcnow env (draws w)) token = Inr p"
    "dead_session (tp_jti p) (db w1)"
    using refresh_kills [OF assms(4)] by blast
  note w1 = step_at_rest [OF step assms(2,3)]
  note w2 = run_evolves_ok [OF assms(5) w1(1,2)]
  show ?thesis
    by (rule dead_bearer_refused(2) [OF assms(1) p(1) w2(2) dead_session_evolves [OF w2(1) p(2)]])
qed

lemma refresh_token_single_use_witness:
  "\<exists>m w3. refresh demo_env default_config ''r1'' None
            (snd (refresh demo_env default_config ''r1'' None demo_world)) = (Inl (AuthenticationError m), w3) \<and>
          db w3 = db (snd (refresh demo_env default_config ''r1'' None demo_world))"
proof -
  let ?m = "refresh demo_env default_config ''r1'' None"
  have "\<not> isl (fst (?m demo_world))" by code_simp
  then obtain result where "?m demo_world = (Inr result, snd (?m demo_world))" by (rule succeedsE)
  from refresh_token_single_use [OF demo_jwt_stable _ _ this service_run.start]
  show ?thesis by (simp add: demo_db_wf)
qed

text \<open>
  C2: A ban is final for the sessions of the account. From the moment a ban returns, a token of any
  session the account had is refused on every later request, also after an unban; so is its refresh
  token.
\<close>
theorem ban_ends_sessions:
  assumes "jwt_stable env" and "session w = None" and "account_ok (db w)"
    and "ban_user env c actor target reason device w = (Inr u, w1)"
    and "r \<in> set (tbl_sessions (db w1))" and "sr_user_id r = target"
    and "decode_at env c now token = Inr p" and "tp_jti p = sr_jti r"
    and "service_run env c w1 w2"
  shows "(\<exists>m w3. authenticate env c token w2 = (Inl (AuthenticationError m), w3) \<and> db w3 = db w2) \<and>
         (\<exists>m w3. refresh env c token device' w2 = (Inl (AuthenticationError m), w3) \<and> db w3 = db w2)"
proof -
  have step: "service_step env c w w1"
    using service_step.ban [of env c w actor target reason device] assms(4) by simp
  have wf: "wf_db (db w)" using assms(3) by (simp add: account_ok_def)
  note w1 = step_at_rest [OF step assms(2) wf]
  have "account_ok (db w1)"
    using service_step_account_ok [OF step] assms(2,3) by (simp add: at_rest_iff)
  then have "no_live_session target (db w1)"
    using no_live_session_inactive ban_deactivates [OF assms(4) wf] by blast
  then have "dead_session (tp_jti p) (db w1)"
    using no_live_session_dead assms(5,6,8) by metis
  note w2 = run_evolves_ok [OF assms(9) w1(1,2)]
  have dead: "dead_session (tp_jti p) (db w2)"
    using dead_session_evolves [OF w2(1)] \<open>dead_session (tp_jti p) (db w1)\<close> .
  show ?thesis using dead_bearer_refused [OF assms(1,7) w2(2) dead] by blast
qed

definition demo_root :: user where
  "demo_root = user_to_entity demo_db (demo_user_row 2 ''root'' ''pw2'' True)"

lemma ban_ends_sessions_witness:
  "\<exists>m w3. authenticate demo_env default_config ''a1''
            (snd (ban_user demo_env default_config demo_root 1 None None demo_world)) =
            (Inl (AuthenticationError m), w3)"
proof -
  let ?m = "ban_user demo_env default_config demo_root 1 None None"
  have "\<not> isl (fst (?m demo_world))" by code_simp
  then obtain u where u: "?m demo_world = (Inr u, snd (?m demo_world))" by (rule succeedsE)
  have "\<exists>r \<in> set (tbl_sessions (db (snd (?m demo_world)))). sr_user_id r = 1 \<and> sr_jti r = ''j1''"
    by code_simp
  then obtain r where r: "r \<in> set (tbl_sessions (db (snd (?m demo_world))))" "sr_user_id r = 1"
    "''j1'' = sr_jti r" by auto
  have "decode_at demo_env default_config 0 ''a1'' = Inr \<lparr> tp_user_id = 1, tp_jti = ''j1'',
      tp_token_type = ''access'', tp_expires_at = Aware 900000000 \<rparr>" by code_simp
  from ban_ends_sessions [OF demo_jwt_stable _ _ u r(1,2) this _ service_run.start, of None] r(3)
  show ?thesis by (auto simp: demo_db_ok)
qed

text \<open>
  Deactivating one's own account ends every session of it in the same final way.
\<close>
theorem deactivation_ends_sessions:
  assumes "jwt_stable env" and "session w = None" and "account_ok (db w)"
    and "delete_user env c uid device w = (Inr u, w1)"
    and "r \<in> set (tbl_sessions (db w1))" and "sr_user_id r = uid"
    and "decode_at env c now token = Inr p" and "tp_jti p = sr_jti r"
    and "service_run env c w1 w2"
  shows "(\<exists>m w3. authenticate env c token w2 = (Inl (AuthenticationError m), w3) \<and> db w3 = db w2) \<and>
         (\<exists>m w3. refresh env c token device' w2 = (Inl (AuthenticationError m), w3) \<and> db w3 = db w2)"
proof -
  have step: "service_step env c w w1"
    using service_step.delete [of env c w uid device] assms(4) by simp
  have wf: "wf_db (db w)" using assms(3) by (simp add: account_ok_def)
  note w1 = step_at_rest [OF step assms(2) wf]
  have "account_ok (db w1)"
    using service_step_account_ok [OF step] assms(2,3) by (simp add: at_rest_iff)
  then have "no_live_session uid (db w1)"
    using no_live_session_inactive delete_deactivates [OF assms(4) wf] by blast
  then have "dead_session (tp_jti p) (db w1)"
    using no_live_session_dead assms(5,6,8) by metis
  note w2 = run_evolves_ok [OF assms(9) w1(1,2)]
  have dead: "dead_session (tp_jti p) (db w2)"
    using dead_session_evolves [OF w2(1)] \<open>dead_session (tp_jti p) (db w1)\<close> .
  show ?thesis using dead_bearer_refused [OF assms(1,7) w2(2) dead] by blast
qed

lemma deactivation_ends_sessions_witness:
  "\<exists>m w3. authenticate demo_env default_config ''a1''
            (snd (delete_user demo_env default_config 1 None demo_world)) =
            (Inl (AuthenticationError m), w3)"
proof -
  let ?m = "delete_user demo_env default_config 1 None"
  have "\<not> isl (fst (?m demo_world))" by code_simp
  then obtain u where u: "?m demo_world = (Inr u, snd (?m demo_world))" by (rule succeedsE)
  have "\<exists>r \<in> set (tbl_sessions (db (snd (?m demo_world)))). sr_user_id r = 1 \<and> sr_jti r = ''j1''"
    by code_simp
  then obtain r where r: "r \<in> set (tbl_sessions (db (snd (?m demo_world))))" "sr_user_id r = 1"
    "''j1'' = sr_jti r" by auto
  have "decode_at demo_env default_config 0 ''a1'' = Inr \<lparr> tp_user_id = 1, tp_jti = ''j1'',
      tp_token_type = ''access'', tp_expires_at = Aware 900000000 \<rparr>" by code_simp
  from deactivation_ends_sessions [OF demo_jwt_stable _ _ u r(1,2) this _ service_run.start, of None] r(3)
  show ?thesis by (auto simp: demo_db_ok)
qed

text \<open>
  Logging out with a token of a stored session ends that session for good: every token that names
  it, access or refresh, is refused on every later request.
\<close>
theorem logout_ends_session:
  assumes "jwt_stable env" and "session w = None" and "wf_db (db w)"
    and "logout env c token device w = (Inr u, w1)"
    and "decode_at env c (env_utcnow env (draws w)) token = Inr p"
    and "\<exists>r \<in> set (tbl_sessions (db w)). sr_jti r = tp_jti p"
    and "decode_at env c now other = Inr q" and "tp_jti q = tp_jti p"
    and "service_run env c w1 w2"
  shows "(\<exists>m w3. authenticate env c other w2 = (Inl (AuthenticationError m), w3) \<and> db w3 = db w2) \<and>
         (\<exists>m w3. refresh env c other device' w2 = (Inl (AuthenticationError m), w3) \<and> db w3 = db w2)"
proof -
  have step: "service_step env c w w1"
    using service_step.logout [of env c w token device] assms(4) by simp
  note w1 = step_at_rest [OF step assms(2,3)]
  note w2 = run_evolves_ok [OF assms(9) w1(1,2)]
  have dead: "dead_session (tp_jti q) (db w2)"
    using dead_session_evolves [OF w2(1) logout_kills [OF assms(4,5,6)]] assms(8) by simp
  show ?thesis using dead_bearer_refused [OF assms(1,7) w2(2) dead] by blast
qed

lemma logout_ends_session_witness:
  "\<exists>m w3. refresh demo_env default_config ''r1'' None
            (snd (logout demo_env default_config ''a1'' None demo_world)) =
            (Inl (AuthenticationError m), w3)"
proof -
  let ?m = "logout demo_env default_config ''a1'' None"
  have "\<not> isl (fst (?m demo_world))" by code_simp
  then obtain u where u: "?m demo_world = (Inr u, snd (?m demo_world))" by (rule succeedsE)
  have a: "decode_at demo_env default_config (env_utcnow demo_env (draws demo_world)) ''a1'' =
      Inr \<lparr> tp_user_id = 1, tp_jti = ''j1'', tp_token_type = ''access'',
            tp_expires_at = Aware 900000000 \<rparr>" by code_simp
  have b: "\<exists>r \<in> set (tbl_sessions (db demo_world)). sr_jti r = ''j1''" by code_simp
  have e: "decode_at demo_env default_config 0 ''r1'' = Inr \<lparr> tp_user_id = 1, tp_jti = ''j1'',
      tp_token_type = ''refresh'', tp_expires_at = Aware 900000000 \<rparr>" by code_simp
  from logout_ends_session [OF demo_jwt_stable _ _ u a _ e _ service_run.start, of None] b
  show ?thesis by (auto simp: demo_db_wf)
qed

end
