(* ===== verification/Login_Security.thy ===== *)
theory Login_Security
  imports Lockout Session_Security
begin

text \<open>
  The properties of logging in: what a rejection tells the caller and the audit log, what a success
  commits, and the lockout of an account.
\<close>

text \<open>
  C11: A rejected login tells nothing about the account. Whether the address is unknown, the account
  inactive or the password wrong, the answer is the same in any two databases: it depends on the
  limiter only.
\<close>
theorem login_rejection_says_nothing:
  assumes "db_user_by_email (normalise_email (login_email data)) d1 = Inr u1"
    and "credentials_valid env c (login_password data) u1 = Inr False"
    and "db_user_by_email (normalise_email (login_email data)) d2 = Inr u2"
    and "credentials_valid env c (login_password data) u2 = Inr False"
    and "device_fits (device_or_default device)"
  shows "fst (login env c data device (w\<lparr>db := d1\<rparr>)) = fst (login env c data device (w\<lparr>db := d2\<rparr>))"
proof -
  let ?g = "login_guards env c (normalise_email (login_email data)) (device_or_default device)"
  have "fst (login env c data device (w\<lparr>db := d\<rparr>)) =
      (case fst (?g w) of Inl e \<Rightarrow> Inl e | Inr _ \<Rightarrow> Inl invalid_credentials)"
    if "db_user_by_email (normalise_email (login_email data)) d = Inr u"
      "credentials_valid env c (login_password data) u = Inr False" for d u
    using login_rejected [where w = "w\<lparr>db := d\<rparr>" and user = u and env = env and c = c and data = data
        and device = device] that assms(5)
      login_guards_blind [where w = w and d = d and env = env and c = c and
        email = "normalise_email (login_email data)" and device = "device_or_default device"]
    by (cases "login env c data device (w\<lparr>db := d\<rparr>)") (auto split: sum.splits)
  from this [OF assms(1,2)] this [OF assms(3,4)] show ?thesis by simp
qed

definition demo_login :: "string \<Rightarrow> string \<Rightarrow> login_dto" where
  "demo_login email pw = \<lparr> login_email = email, login_password = pw \<rparr>"

lemma login_rejection_says_nothing_witness:
  "fst (login demo_env default_config (demo_login ''ann@x.org'' ''bad'') None demo_world) =
   fst (login demo_env default_config (demo_login ''ann@x.org'' ''bad'') None (demo_world\<lparr>db := empty_db\<rparr>))"
proof -
  let ?l = "demo_login ''ann@x.org'' ''bad''"
  have "db_user_by_email (normalise_email (login_email ?l)) demo_db =
      Inr (Some (user_to_entity demo_db (demo_user_row 1 ''ann'' ''pw'' False)))" by code_simp
  moreover have "credentials_valid demo_env default_config (login_password ?l)
      (Some (user_to_entity demo_db (demo_user_row 1 ''ann'' ''pw'' False))) = Inr False" by code_simp
  moreover have "db_user_by_email (normalise_email (login_email ?l)) empty_db = Inr None" by code_simp
  moreover have "credentials_valid demo_env default_config (login_password ?l) None = Inr False"
    by code_simp
  moreover have "device_fits (device_or_default None)" by code_simp
  ultimately have "fst (login demo_env default_config ?l None (demo_world\<lparr>db := demo_db\<rparr>)) =
      fst (login demo_env default_config ?l None (demo_world\<lparr>db := empty_db\<rparr>))"
    by (rule login_rejection_says_nothing)
  then show ?thesis by (simp add: demo_world_def)
qed

text \<open>
  A rejected login leaves its trace and nothing else: one row in the audit log naming the account
  (if there is one) and the reason, unless the limiter refused the request before, which commits
  nothing.
\<close>
theorem login_rejection_audited:
  assumes "db_user_by_email (normalise_email (login_email data)) (db w) = Inr user"
    and "credentials_valid env c (login_password data) user = Inr False"
    and "device_fits (device_or_default device)"
    and "login env c data device w = (r, w')"
  shows "r = Inl invalid_credentials \<and>
           (\<exists>now. db w' = audited (rejection_event (normalise_email (login_email data))
                                     (device_or_default device) user now) (db w)) \<or>
         (\<exists>e. r = Inl e \<and> db w' = db w \<and>
           fst (login_guards env c (normalise_email (login_email data)) (device_or_default device) w) = Inl e)"
proof -
  let ?g = "fst (login_guards env c (normalise_email (login_email data)) (device_or_default device) w)"
  show ?thesis using login_rejected [OF assms] by (cases ?g) simp_all
qed

lemma login_rejection_audited_witness:
  "\<exists>now. db (snd (login demo_env default_config (demo_login ''zoe@x.org'' ''pw'') None demo_world)) =
     audited (rejection_event ''zoe@x.org'' no_device None now) demo_db"
proof -
  let ?l = "demo_login ''zoe@x.org'' ''pw''"
  have a: "db_user_by_email (normalise_email (login_email ?l)) (db demo_world) = Inr None" by code_simp
  have b: "credentials_valid demo_env default_config (login_password ?l) None = Inr False" by code_simp
  have c: "device_fits (device_or_default None)" by code_simp
  have g: "\<not> isl (fst (login_guards demo_env default_config (normalise_email (login_email ?l))
      (device_or_default None) demo_world))" by code_simp
  have e: "normalise_email (login_email ?l) = ''zoe@x.org''" "device_or_default None = no_device" by code_simp+
  from login_rejection_audited [OF a b c prod.collapse [symmetric]] show ?thesis
  proof
    assume "\<exists>e. fst (login demo_env default_config ?l None demo_world) = Inl e \<and>
      db (snd (login demo_env default_config ?l None demo_world)) = db demo_world \<and>
      fst (login_guards demo_env default_config (normalise_email (login_email ?l))
        (device_or_default None) demo_world) = Inl e"
    then obtain e where "fst (login_guards demo_env default_config (normalise_email (login_email ?l))
        (device_or_default None) demo_world) = Inl e" by blast
    with g show ?thesis by (simp only: sum.disc simp_thms)
  qed (simp only: e demo_world_simps simp_thms)
qed

text \<open>
  A login succeeds only for an active account and a password its stored hash accepts. It then
  commits exactly one new session with a key no other session has, owned by that account and not
  revoked, and one audit row; and it answers the tokens that name this session.
\<close>
theorem login_success_opens_one_session:
  assumes "login env c data device w = (Inr result, w')" and "wf_db (db w)"
  shows "\<exists>row. tbl_sessions (db w') = tbl_sessions (db w) @ [row] \<and>
           sr_user_id row = user_id (ar_user result) \<and> sr_revoked_at row = None \<and>
           sr_jti row \<notin> sr_jti ` set (tbl_sessions (db w)) \<and>
           user_email (ar_user result) = normalise_email (login_email data) \<and>
           user_is_active (ar_user result) \<and>
           accepts env c (user_id (ar_user result)) (login_password data) (db w) \<and>
           tbl_users (db w') = tbl_users (db w) \<and> tbl_tokens (db w') = tbl_tokens (db w) \<and>
           (\<exists>e. ev_action e = LOGIN \<and> ev_user_id e = Some (user_id (ar_user result)) \<and>
              tbl_audit (db w') = tbl_audit (db w) @ [(new_audit_row e)\<lparr>al_id := seq_audit (db w)\<rparr>]) \<and>
           (\<exists>now now'. at_access_token (ar_tokens result) =
                it_token (issue_at env c now (sr_user_id row) (sr_jti row) ''access''
                  (cfg_ACCESS_TOKEN_EXPIRE_MINUTES c)) \<and>
              at_refresh_token (ar_tokens result) =
                it_token (issue_at env c now' (sr_user_id row) (sr_jti row) ''refresh''
                  (cfg_REFRESH_TOKEN_EXPIRE_MINUTES c)))"
proof -
  obtain u n where u: "db_user_by_email (normalise_email (login_email data)) (db w) = Inr (Some u)"
    "user_is_active u" "hasher_verify env c (login_password data) (user_password_hash u) = Inr True"
    and result: "result = auth_result_of (login_access_token env c u n) (login_refresh_token env c u n) u"
    and commits: "login_commits env c (device_or_default device) u n (db w) (db w')"
    using login_success_chain [OF assms(1)] by blast
  obtain r where r: "find (\<lambda>r. ur_email r = normalise_email (login_email data)) (tbl_users (db w)) = Some r"
    "u = user_to_entity (db w) r"
    using u(1) by (auto simp: db_user_by_email_wf [OF assms(2)])
  have "r \<in> set (tbl_users (db w))" using r(1) by (auto dest: find_Some_key)
  then have "stored_hash (ur_id r) (db w) = Some (ur_password_hash r)"
    using find_key [OF wf_uniqs(1) [OF assms(2)]] by (auto simp: stored_hash_def)
  then have acc: "accepts env c (user_id u) (login_password data) (db w)"
    using u(3) r(2) by (simp add: accepts_def)
  show ?thesis
    using commits result u acc found_user_id [OF u(1)]
    by (auto simp: login_commits_def auth_result_of_def new_session_row_def login_session_def
        login_event_def login_access_token_def login_refresh_token_def audited_def
        dest!: db_add_session_shape db_add_audit_audited intro!: exI [of _ "login_event _ _ _"])
qed

lemma login_success_opens_one_session_witness:
  "\<exists>row. tbl_sessions (db (snd (login demo_env default_config (demo_login ''ann@x.org'' ''pw'') None demo_world))) =
     tbl_sessions demo_db @ [row] \<and> sr_revoked_at row = None"
proof -
  let ?m = "login demo_env default_config (demo_login ''ann@x.org'' ''pw'') None"
  have "\<not> isl (fst (?m demo_world))" by code_simp
  then obtain result where "?m demo_world = (Inr result, snd (?m demo_world))" by (rule succeedsE)
  from login_success_opens_one_session [OF this] show ?thesis by (auto simp: demo_db_wf)
qed



text \<open>
  A locked account stays locked for whoever calls, even with the right password: while the window
  holds as many rejections as the limit, a login without a client address is refused with
  \<open>AccountLockedError\<close> and a positive delay, and neither the database nor the counters change.
\<close>
theorem locked_account_refuses:
  assumes "\<not> redis_backend c" and "is_enforced (login_account_policy c)"
    and "env_monotonic env (draws w) <
           snd (counter_of (counters w) (account_key (normalise_email (login_email data))))"
    and "rlp_limit (login_account_policy c) \<le>
           fst (counter_of (counters w) (account_key (normalise_email (login_email data))))"
  shows "\<exists>s w'. login env c data None w = (Inl (AccountLockedError s), w') \<and> 0 < s \<and> db w' = db w \<and>
           counters w' = counters w"
  by (rule locked_login [OF assms])

lemma locked_account_refuses_witness:
  "\<exists>s w'. login demo_env default_config (demo_login ''ann@x.org'' ''pw'') None
     (demo_world\<lparr>counters := [''login:user:ann@x.org'' \<mapsto> (5, 900)]\<rparr>) = (Inl (AccountLockedError s), w')"
proof -
  let ?w = "demo_world\<lparr>counters := [''login:user:ann@x.org'' \<mapsto> (5, 900)]\<rparr>"
  have "\<not> redis_backend default_config" "is_enforced (login_account_policy default_config)" by code_simp+
  moreover have "env_monotonic demo_env (draws ?w) < snd (counter_of (counters ?w)
      (account_key (normalise_email (login_email (demo_login ''ann@x.org'' ''pw'')))))" by code_simp
  moreover have "rlp_limit (login_account_policy default_config) \<le> fst (counter_of (counters ?w)
      (account_key (normalise_email (login_email (demo_login ''ann@x.org'' ''pw'')))))" by code_simp
  ultimately show ?thesis
    using locked_account_refuses [of default_config demo_env ?w "demo_login ''ann@x.org'' ''pw''"] by blast
qed

end
