(* ===== verification/Password_Security.thy ===== *)
theory Password_Security
  imports Session_Security
begin

text \<open>
  The properties of passwords and of the links mailed to reset them or to verify an address.
\<close>

lemma dead_token_refused:
  assumes "wf_db (db w)" and "dead_token (one_time_hash env token) EMAIL_VERIFICATION (db w)"
  shows "\<exists>w'. verify_email env c token device w = (Inl invalid_token, w') \<and> db w' = db w"
proof -
  have "wp (usable_token env (one_time_hash env token) EMAIL_VERIFICATION) (\<lambda>_ _. False)
      (\<lambda>e w'. e = invalid_token \<and> db w' = db w) (w\<lparr>session := Some (db w)\<rparr>)"
    by (rule dead_token_unusable [OF assms])
  then have "wp (verify_email env c token device) (\<lambda>_ _. False)
      (\<lambda>e w'. e = invalid_token \<and> db w' = db w) w"
    unfolding verify_email_def verify_transaction_def wp_rules by (rule wp_mono) auto
  then show ?thesis by (auto simp: wp_def split: prod.splits sum.splits)
qed

text \<open>A reset with a spent link, where the limiter lets the request through.\<close>

lemma dead_reset_refused:
  assumes "wf_db (db w)" and "dead_token (one_time_hash env (rsp_token data)) PASSWORD_RESET (db w)"
    and "rsp_password data = rsp_password_repeat data"
    and "reset_password env c data device w = (r, w')"
  shows "db w' = db w \<and>
     (r = Inl invalid_token \<or>
      (\<exists>e. r = Inl e \<and> fst (reset_check_rate_limit env c (device_or_default device) w) = Inl e))"
proof -
  let ?dev = "device_or_default device"
  have tx: "wp (with_uow (reset_transaction env c data ?dev)) (\<lambda>_ _. False)
      (\<lambda>e w'. e = invalid_token \<and> db w' = db w) w1" if "db w1 = db w" for w1
  proof -
    have "wp (usable_token env (one_time_hash env (rsp_token data)) PASSWORD_RESET) (\<lambda>_ _. False)
        (\<lambda>e w'. e = invalid_token \<and> db w' = db w1) (w1\<lparr>session := Some (db w1)\<rparr>)"
      by (rule dead_token_unusable) (use assms that in simp_all)
    then show ?thesis
      unfolding reset_transaction_def wp_rules using that by (auto elim!: wp_mono)
  qed
  have "wp (reset_password env c data device) (\<lambda>_ _. False)
      (\<lambda>e w'. db w' = db w \<and> (e = invalid_token \<or> fst (reset_check_rate_limit env c ?dev w) = Inl e)) w"
    unfolding reset_password_def Let_def wp_seqM wp_bindM wp_whenM wp_raiseM using assms(3)
    by (intro wp_frames [OF frames_helpers(8)]) (auto intro: wp_mono [OF tx])
  with assms(4) show ?thesis by (auto simp: wp_def split: sum.splits)
qed

text \<open>
  C3: Changing the password. It succeeds only with the current password, after which the stored hash
  accepts the new one, no session of the account is live, no reset link of the account is unused, the
  answer counts the sessions it ended, and no other account's hash changed.
\<close>
theorem change_password_takes_effect:
  assumes "argon2_behaves env" and "change_password env c uid data device w = (Inr revoked, w1)"
  shows "accepts env c uid (chp_current_password data) (db w) \<and>
         accepts env c uid (chp_new_password data) (db w1) \<and>
         no_live_session uid (db w1) \<and> none_unused uid PASSWORD_RESET (db w1) \<and>
         revoked = spend_count sr_revoked_at (\<lambda>r. sr_user_id r = uid) (tbl_sessions (db w)) \<and>
         (\<forall>other. other = uid \<or> stored_hash other (db w1) = stored_hash other (db w))"
  using change_password_effect [OF assms(2,1)] by blast

lemma change_password_takes_effect_witness:
  "accepts demo_env default_config 1 ''new''
     (db (snd (change_password demo_env default_config 1
       \<lparr> chp_current_password = ''pw'', chp_new_password = ''new'', chp_new_password_repeat = ''new'' \<rparr>
       None demo_world)))"
proof -
  let ?m = "change_password demo_env default_config 1
    \<lparr> chp_current_password = ''pw'', chp_new_password = ''new'', chp_new_password_repeat = ''new'' \<rparr> None"
  have "\<not> isl (fst (?m demo_world))" by code_simp
  then obtain n where "?m demo_world = (Inr n, snd (?m demo_world))" by (rule succeedsE)
  from change_password_takes_effect [OF demo_argon2 this] show ?thesis by simp
qed

text \<open>
  C4: A reset link works once. After a reset, the account whose link it was accepts the new password,
  has no live session and no unused reset link, other accounts keep their hash; and on every later
  request the link is refused with the same answer as an unknown one, unless the limiter already
  refused the request.
\<close>
theorem reset_password_single_use:
  assumes "argon2_behaves env" and "session w = None" and "wf_db (db w)"
    and "reset_password env c data device w = (Inr unit, w1)"
    and "service_run env c w1 w2"
    and "rsp_token again = rsp_token data" and "rsp_password again = rsp_password_repeat again"
    and "reset_password env c again device' w2 = (r, w3)"
  shows "(\<exists>t \<in> set (tbl_tokens (db w)).
            tr_token_hash t = one_time_hash env (rsp_token data) \<and> tr_used_at t = None \<and>
            tr_purpose t = token_purpose_value PASSWORD_RESET \<and>
            accepts env c (tr_user_id t) (rsp_password data) (db w1) \<and>
            no_live_session (tr_user_id t) (db w1) \<and>
            none_unused (tr_user_id t) PASSWORD_RESET (db w1) \<and>
            (\<forall>other. other = tr_user_id t \<or> stored_hash other (db w1) = stored_hash other (db w))) \<and>
         db w3 = db w2 \<and>
         (r = Inl invalid_token \<or>
          (\<exists>e. r = Inl e \<and> fst (reset_check_rate_limit env c (device_or_default device') w2) = Inl e))"
proof -
  have step: "service_step env c w w1"
    using service_step.reset [of env c w data device] assms(4) by simp
  note w1 = step_at_rest [OF step assms(2,3)]
  note w2 = run_evolves_ok [OF assms(5) w1(1,2)]
  have "dead_token (one_time_hash env (rsp_token again)) PASSWORD_RESET (db w2)"
    using dead_token_evolves [OF w2(1) reset_password_effect(2) [OF assms(4,1)]] assms(6) by simp
  from dead_reset_refused [OF w2(2) this assms(7,8)] reset_password_effect(1) [OF assms(4,1)]
  show ?thesis by blast
qed

definition demo_reset :: reset_password_dto where
  "demo_reset = \<lparr> rsp_token = ''a'', rsp_password = ''new'', rsp_password_repeat = ''new'' \<rparr>"

lemma reset_password_single_use_witness:
  "fst (reset_password demo_env default_config demo_reset None
     (snd (reset_password demo_env default_config demo_reset None demo_world))) = Inl invalid_token"
proof -
  let ?m = "reset_password demo_env default_config demo_reset None"
  have "\<not> isl (fst (?m demo_world))" by code_simp
  then obtain u where u: "?m demo_world = (Inr u, snd (?m demo_world))" by (rule succeedsE)
  have "rsp_password demo_reset = rsp_password_repeat demo_reset" by (simp add: demo_reset_def)
  from reset_password_single_use [OF demo_argon2 _ _ u service_run.start refl this
      prod.collapse [symmetric], of None]
  show ?thesis by (auto simp: demo_db_wf reset_check_rate_limit_def device_or_default_def no_device_def
      retM_def)
qed

text \<open>
  A verification link works once, and only for an active account: the account it returns is
  active and verified and owns the link, no session changes; and on every later request the link is
  refused and nothing is committed.
\<close>
theorem verify_email_single_use:
  assumes "session w = None" and "wf_db (db w)"
    and "verify_email env c token device w = (Inr u, w1)"
    and "service_run env c w1 w2"
  shows "is_email_verified u \<and> user_is_active u \<and> tbl_sessions (db w1) = tbl_sessions (db w) \<and>
         (\<exists>t \<in> set (tbl_tokens (db w)). tr_token_hash t = one_time_hash env token \<and>
            tr_purpose t = token_purpose_value EMAIL_VERIFICATION \<and> tr_used_at t = None \<and>
            tr_user_id t = user_id u) \<and>
         (\<exists>w3. verify_email env c token device' w2 = (Inl invalid_token, w3) \<and> db w3 = db w2)"
proof -
  have step: "service_step env c w w1"
    using service_step.verify [of env c w token device] assms(3) by simp
  note w1 = step_at_rest [OF step assms(1,2)]
  note w2 = run_evolves_ok [OF assms(4) w1(1,2)]
  note effect = verify_email_effect [OF assms(3)]
  from dead_token_refused [OF w2(2) dead_token_evolves [OF w2(1) effect(1)]] effect show ?thesis by blast
qed

lemma verify_email_single_use_witness:
  "\<exists>w3. verify_email demo_env default_config ''b'' None
     (snd (verify_email demo_env default_config ''b'' None demo_world)) = (Inl invalid_token, w3)"
proof -
  let ?m = "verify_email demo_env default_config ''b'' None"
  have "\<not> isl (fst (?m demo_world))" by code_simp
  then obtain u where u: "?m demo_world = (Inr u, snd (?m demo_world))" by (rule succeedsE)
  from verify_email_single_use [OF _ _ u service_run.start, of None] show ?thesis
    by (auto simp: demo_db_wf)
qed

end
