(* ===== verification/Http.thy ===== *)
theory Http
  imports Service
begin

text \<open>
  The HTTP layer of users-service between the framework and the routers
  (\<^verbatim>\<open>infrastructure/api/cookies.py\<close>, \<^verbatim>\<open>csrf_middleware.py\<close>, \<^verbatim>\<open>visitor_middleware.py\<close>,
  \<^verbatim>\<open>dependencies.py\<close>, \<^verbatim>\<open>serializers.py\<close>, \<^verbatim>\<open>exc_handlers.py\<close>).

  A \<open>request\<close> holds what Starlette and FastAPI hand over: the parsed cookies, the headers
  under lower-case names, the credentials of a bearer header, and the peer address. Parsing them is the
  framework's.
\<close>

section \<open>Requests and responses\<close>

record request =
  rq_cookies :: "(string \<times> string) list"
  rq_headers :: "(string \<times> string) list"
  rq_bearer :: "string option"
  rq_client :: "string option"

definition rq_cookie :: "request \<Rightarrow> string \<Rightarrow> string option" where
  "rq_cookie rq name = map_of (rq_cookies rq) name"

definition rq_header :: "request \<Rightarrow> string \<Rightarrow> string option" where
  "rq_header rq name = map_of (rq_headers rq) (str_lower name)"

record cookie =
  ck_name :: string
  ck_value :: string
  ck_max_age :: int
  ck_path :: string
  ck_domain :: "string option"
  ck_secure :: bool
  ck_httponly :: bool
  ck_samesite :: string

record role_summary =
  rs_id :: int
  rs_name :: string
  rs_description :: "string option"

record user_response =
  ur_resp_id :: int
  ur_resp_email :: string
  ur_resp_username :: string
  ur_resp_display_name :: "string option"
  ur_resp_is_active :: bool
  ur_resp_is_superuser :: bool
  ur_resp_email_verified :: bool
  ur_resp_email_verified_at :: "datetime option"
  ur_resp_visitor_id :: "string option"
  ur_resp_created_at :: "datetime option"
  ur_resp_roles :: "role_summary list"
  ur_resp_permissions :: "string list"

record public_user_response =
  pub_id :: int
  pub_username :: string
  pub_display_name :: "string option"
  pub_created_at :: "datetime option"

record session_summary =
  ss_id :: int
  ss_status :: string
  ss_created_at :: datetime
  ss_expires_at :: datetime
  ss_last_seen_at :: "datetime option"
  ss_user_agent :: "string option"
  ss_ip_address :: "string option"
  ss_device :: "string option"
  ss_current :: bool

record session_response =
  sn_user :: user_response
  sn_csrf_token :: "string option"
  sn_tokens :: "auth_tokens option"

datatype body =
    NoBody | DetailBody string | ValidationBody | StatusBody string
  | UserBody user_response | UsersBody "user_response list" | PublicUserBody public_user_response
  | SessionBody session_response | SessionsBody "session_summary list" | RevokedBody int
  | UnavailableBody string | PasswordChangedBody string int | PermissionBody permission | PermissionsBody "permission list"
  | RoleBody role | RolesBody "role list"

record response =
  resp_status :: int
  resp_body :: body
  resp_cookies :: "cookie list"
  resp_retry_after :: "string option"

definition plain_response :: "int \<Rightarrow> body \<Rightarrow> response" where
  "plain_response status b =
     \<lparr> resp_status = status, resp_body = b, resp_cookies = [], resp_retry_after = None \<rparr>"

definition with_cookies :: "cookie list \<Rightarrow> response \<Rightarrow> response" where
  "with_cookies cs r = r\<lparr>resp_cookies := resp_cookies r @ cs\<rparr>"

section \<open>Cookies\<close>

definition read_access_token :: "config \<Rightarrow> request \<Rightarrow> string option" where
  "read_access_token c rq = rq_cookie rq (cfg_ACCESS_COOKIE_NAME c)"

definition read_refresh_token :: "config \<Rightarrow> request \<Rightarrow> string option" where
  "read_refresh_token c rq = rq_cookie rq (cfg_REFRESH_COOKIE_NAME c)"

definition cookie_max_age :: "'r env \<Rightarrow> datetime \<Rightarrow> ('r, int) app" where
  "cookie_max_age env expires_at =
     bindM (utc_now env) (\<lambda>now. retM (max (whole_seconds (as_utc expires_at - now)) 0))"

definition set_cookie :: "config \<Rightarrow> string \<Rightarrow> string \<Rightarrow> string \<Rightarrow> int \<Rightarrow> bool \<Rightarrow> cookie" where
  "set_cookie c name val path max_age httponly =
     \<lparr> ck_name = name, ck_value = val, ck_max_age = max_age, ck_path = path,
      ck_domain = cfg_COOKIE_DOMAIN c, ck_secure = cfg_COOKIE_SECURE c,
      ck_httponly = httponly, ck_samesite = cfg_COOKIE_SAMESITE c \<rparr>"

definition set_tokens ::
  "'r env \<Rightarrow> config \<Rightarrow> auth_tokens \<Rightarrow> ('r, cookie list \<times> string option) app" where
  "set_tokens env c tokens =
     bindM (cookie_max_age env (at_access_expires_at tokens)) (\<lambda>access_age.
     bindM (cookie_max_age env (at_refresh_expires_at tokens)) (\<lambda>refresh_age.
     let auth =
           [set_cookie c (cfg_ACCESS_COOKIE_NAME c) (at_access_token tokens) ''/'' access_age True,
            set_cookie c (cfg_REFRESH_COOKIE_NAME c) (at_refresh_token tokens)
              (cfg_REFRESH_COOKIE_PATH c) refresh_age True]
     in if \<not> cfg_CSRF_PROTECTION c then retM (auth, None)
        else
          bindM (draw (\<lambda>n. env_token_urlsafe env n 32)) (\<lambda>csrf_token.
          bindM (cookie_max_age env (at_refresh_expires_at tokens)) (\<lambda>csrf_age.
          retM (auth @ [set_cookie c (cfg_CSRF_COOKIE_NAME c) csrf_token ''/'' csrf_age False],
                Some csrf_token)))))"

text \<open>Starlette deletes a cookie by setting it empty, with an age of zero, for the same path and domain.\<close>

definition delete_cookie :: "config \<Rightarrow> string \<Rightarrow> string \<Rightarrow> cookie" where
  "delete_cookie c name path = set_cookie c name [] path 0 False"

definition clear_tokens :: "config \<Rightarrow> cookie list" where
  "clear_tokens c =
     [delete_cookie c (cfg_ACCESS_COOKIE_NAME c) ''/'',
      delete_cookie c (cfg_REFRESH_COOKIE_NAME c) (cfg_REFRESH_COOKIE_PATH c),
      delete_cookie c (cfg_CSRF_COOKIE_NAME c) ''/'']"

section \<open>Dependencies\<close>

text \<open>\<^verbatim>\<open>_client_ip\<close>: the first element of a trusted \<^verbatim>\<open>X-Forwarded-For\<close>, else the peer.\<close>

definition client_ip :: "config \<Rightarrow> request \<Rightarrow> string option" where
  "client_ip c rq =
     (case (if cfg_TRUST_PROXY_HEADERS c then rq_header rq ''x-forwarded-for'' else None) of
        Some (ch # rest) \<Rightarrow> Some (str_strip (hd (str_split (CHR '','') (ch # rest))))
      | _ \<Rightarrow> rq_client rq)"

definition request_device :: "config \<Rightarrow> request \<Rightarrow> string \<Rightarrow> device_info" where
  "request_device c rq visitor_id =
     \<lparr> dev_visitor_id = Some visitor_id, dev_user_agent = rq_header rq ''user-agent'',
       dev_ip_address = client_ip c rq, dev_device = None \<rparr>"

definition access_token :: "config \<Rightarrow> request \<Rightarrow> exn + string" where
  "access_token c rq =
     (let from_cookie = (if cfg_COOKIE_AUTH_ENABLED c then read_access_token c rq else None)
      in case (if truthy from_cookie then from_cookie else if truthy (rq_bearer rq) then rq_bearer rq else None) of
           Some t \<Rightarrow> Inr t
         | None \<Rightarrow> Inl (AuthenticationError ''Missing access token''))"

definition current_user :: "'r env \<Rightarrow> config \<Rightarrow> request \<Rightarrow> ('r, user) app" where
  "current_user env c rq = bindM (liftM (access_token c rq)) (authenticate env c)"

definition current_jti :: "'r env \<Rightarrow> config \<Rightarrow> request \<Rightarrow> ('r, string) app" where
  "current_jti env c rq =
     bindM (liftM (access_token c rq)) (\<lambda>t.
     bindM (decode_token env c t) (\<lambda>p. retM (tp_jti p)))"

definition missing_permission :: "string \<Rightarrow> string \<Rightarrow> exn" where
  "missing_permission resource action =
     AuthorizationError (''Missing required permission: '' @ resource @ '':'' @ action)"

definition require_permission ::
  "'r env \<Rightarrow> config \<Rightarrow> request \<Rightarrow> string \<Rightarrow> string \<Rightarrow> ('r, user) app" where
  "require_permission env c rq resource action =
     bindM (current_user env c rq) (\<lambda>u.
     if \<not> has_permission u resource action then raiseM (missing_permission resource action)
     else retM u)"

section \<open>Serializers\<close>

definition to_user_response :: "user \<Rightarrow> user_response" where
  "to_user_response u =
     \<lparr> ur_resp_id = user_id u, ur_resp_email = user_email u, ur_resp_username = user_username u,
       ur_resp_display_name = user_display_name u, ur_resp_is_active = user_is_active u,
       ur_resp_is_superuser = user_is_superuser u, ur_resp_email_verified = is_email_verified u,
       ur_resp_email_verified_at = user_email_verified_at u, ur_resp_visitor_id = user_visitor_id u,
       ur_resp_created_at = user_created_at u,
       ur_resp_roles =
         map (\<lambda>r. \<lparr> rs_id = role_id r, rs_name = role_name r, rs_description = role_description r \<rparr>)
           (user_roles u),
       ur_resp_permissions = permission_codes u \<rparr>"

definition to_public_user_response :: "user \<Rightarrow> public_user_response" where
  "to_public_user_response u =
     \<lparr> pub_id = user_id u, pub_username = user_username u, pub_display_name = user_display_name u,
       pub_created_at = user_created_at u \<rparr>"

definition to_session_summary :: "auth_session \<Rightarrow> session_status \<Rightarrow> string option \<Rightarrow> session_summary" where
  "to_session_summary s st jti =
     \<lparr> ss_id = sess_id s, ss_status = session_status_value st, ss_created_at = sess_created_at s,
       ss_expires_at = sess_expires_at s, ss_last_seen_at = sess_last_seen_at s,
       ss_user_agent = sess_user_agent s, ss_ip_address = sess_ip_address s, ss_device = sess_device s,
       ss_current = (case jti of None \<Rightarrow> False | Some j \<Rightarrow> sess_jti s = j) \<rparr>"

text \<open>\<^verbatim>\<open>session.status()\<close> reads the clock only for a session that is not revoked.\<close>

definition status_now :: "'r env \<Rightarrow> auth_session \<Rightarrow> ('r, session_status) app" where
  "status_now env s =
     (if session_is_revoked s then retM REVOKED
      else bindM (utc_now env) (\<lambda>now. retM (session_get_status s now)))"

fun summarise :: "'r env \<Rightarrow> string \<Rightarrow> auth_session list \<Rightarrow> ('r, session_summary list) app" where
  "summarise env jti [] = retM []"
| "summarise env jti (s # ss) =
     bindM (status_now env s) (\<lambda>st.
     bindM (summarise env jti ss) (\<lambda>rest. retM (to_session_summary s st (Some jti) # rest)))"

definition to_session_response :: "'r env \<Rightarrow> config \<Rightarrow> auth_result \<Rightarrow> ('r, response) app" where
  "to_session_response env c result =
     (if cfg_COOKIE_AUTH_ENABLED c then
        bindM (set_tokens env c (ar_tokens result)) (\<lambda>(cookies, csrf_token).
        retM (with_cookies cookies (plain_response 200
          (SessionBody \<lparr> sn_user = to_user_response (ar_user result), sn_csrf_token = csrf_token,
                         sn_tokens = None \<rparr>))))
      else
        retM (plain_response 200
          (SessionBody \<lparr> sn_user = to_user_response (ar_user result), sn_csrf_token = None,
                         sn_tokens = Some (ar_tokens result) \<rparr>)))"

section \<open>Middleware\<close>

text \<open>
  \<^verbatim>\<open>map_exc_handlers\<close>: an exception with a handler becomes its response inside the middleware; any other
  one travels on to the server, which answers 500.
\<close>

definition error_body :: "error_response \<Rightarrow> response" where
  "error_body e =
     \<lparr> resp_status = err_status e, resp_body = DetailBody (err_detail e), resp_cookies = [],
       resp_retry_after = err_retry_after e \<rparr>"

definition exc_handlers :: "('r, response) app \<Rightarrow> ('r, response) app" where
  "exc_handlers m =
     tryM m (\<lambda>e. if lookup_handler (mro (class_of e)) = None then raiseM e
                 else retM (error_body (handle_exn e)))"

definition server_errors :: "('r, response) app \<Rightarrow> ('r, response) app" where
  "server_errors m = tryM m (\<lambda>e. retM (error_body (handle_exn e)))"

definition safe_methods :: "string list" where
  "safe_methods = [''GET'', ''HEAD'', ''OPTIONS'', ''TRACE'']"

definition csrf_requires_check :: "config \<Rightarrow> string \<Rightarrow> request \<Rightarrow> bool" where
  "csrf_requires_check c method rq \<longleftrightarrow>
     cfg_CSRF_PROTECTION c \<and> cfg_COOKIE_AUTH_ENABLED c \<and>
     method \<notin> set safe_methods \<and>
     (rq_cookie rq (cfg_ACCESS_COOKIE_NAME c) \<noteq> None \<or> rq_cookie rq (cfg_REFRESH_COOKIE_NAME c) \<noteq> None)"

text \<open>\<^verbatim>\<open>secrets.compare_digest\<close> takes strings only if both are ASCII.\<close>

definition compare_digest :: "string \<Rightarrow> string \<Rightarrow> exn + bool" where
  "compare_digest a b =
     (if list_all (\<lambda>ch. code ch < 128) a \<and> list_all (\<lambda>ch. code ch < 128) b then Inr (a = b)
      else Inl (TypeError ''comparing strings with non-ASCII characters is not supported''))"

definition csrf_token_matches :: "config \<Rightarrow> request \<Rightarrow> exn + bool" where
  "csrf_token_matches c rq =
     (case (rq_cookie rq (cfg_CSRF_COOKIE_NAME c), rq_header rq (cfg_CSRF_HEADER_NAME c)) of
        (Some (x # xs), Some (y # ys)) \<Rightarrow> compare_digest (x # xs) (y # ys)
      | _ \<Rightarrow> Inr False)"

definition csrf_refusal :: response where
  "csrf_refusal = plain_response 403 (DetailBody ''CSRF token missing or invalid'')"

definition csrf_middleware ::
  "config \<Rightarrow> string \<Rightarrow> request \<Rightarrow> ('r, response) app \<Rightarrow> ('r, response) app" where
  "csrf_middleware c method rq call_next =
     (if \<not> csrf_requires_check c method rq then call_next
      else
        bindM (liftM (csrf_token_matches c rq)) (\<lambda>ok.
        if \<not> ok then retM csrf_refusal else call_next))"

text \<open>\<^verbatim>\<open>str(uuid.uuid4())\<close>: the 32 hexadecimal digits in groups of 8, 4, 4, 4 and 12.\<close>

definition uuid_str :: "string \<Rightarrow> string" where
  "uuid_str h =
     take 8 h @ ''-'' @ take 4 (drop 8 h) @ ''-'' @ take 4 (drop 12 h) @ ''-'' @
     take 4 (drop 16 h) @ ''-'' @ drop 20 h"

definition visitor_cookie :: "config \<Rightarrow> string \<Rightarrow> cookie" where
  "visitor_cookie c visitor_id =
     set_cookie c (cfg_VISITOR_COOKIE_NAME c) visitor_id ''/''
       (cfg_VISITOR_COOKIE_MAX_AGE_DAYS c * 24 * 60 * 60) True"

definition visitor_middleware ::
  "'r env \<Rightarrow> config \<Rightarrow> request \<Rightarrow> (string \<Rightarrow> ('r, response) app) \<Rightarrow> ('r, response) app" where
  "visitor_middleware env c rq call_next =
     (case rq_cookie rq (cfg_VISITOR_COOKIE_NAME c) of
        Some (x # xs) \<Rightarrow> call_next (x # xs)
      | _ \<Rightarrow>
          bindM (uuid4_hex env) (\<lambda>h.
          bindM (call_next (uuid_str h)) (\<lambda>r.
          retM (with_cookies [visitor_cookie c (uuid_str h)] r))))"

end
