(* ===== verification/Routers.thy ===== *)
theory Routers
  imports Http
begin

text \<open>
  The endpoints (\<^verbatim>\<open>infrastructure/api/routers\<close>, \<^verbatim>\<open>infrastructure/api/models\<close>) and the stack a
  request passes (\<^verbatim>\<open>bootstrap.py\<close>): the visitor cookie outside, then the CSRF check, then the
  exception handlers, then the handler.

  An \<open>endpoint\<close> is a route with its path parameters, query and body, after the framework has found
  the types in them; the constraints the code declares on the fields are checked here, after the
  dependencies have run, as FastAPI does. \<^verbatim>\<open>EmailStr\<close> is the email-validator package: a parameter
  that accepts an address and answers its normal form, or refuses it.
\<close>

section \<open>Request bodies\<close>

definition between :: "char \<Rightarrow> char \<Rightarrow> char \<Rightarrow> bool" where
  "between lo hi ch \<longleftrightarrow> code lo \<le> code ch \<and> code ch \<le> code hi"

definition username_pattern :: "string \<Rightarrow> bool" where
  "username_pattern s \<longleftrightarrow>
     3 \<le> length s \<and> length s \<le> 30 \<and>
     list_all (\<lambda>ch. between CHR ''a'' CHR ''z'' ch \<or> between CHR ''A'' CHR ''Z'' ch \<or>
                    between CHR ''0'' CHR ''9'' ch \<or> ch = CHR ''_'') s"

definition PASSWORD_MIN_LENGTH :: nat where "PASSWORD_MIN_LENGTH = 8"

definition PASSWORD_MAX_LENGTH :: nat where "PASSWORD_MAX_LENGTH = 128"

definition password_length_ok :: "string \<Rightarrow> bool" where
  "password_length_ok s \<longleftrightarrow> PASSWORD_MIN_LENGTH \<le> length s \<and> length s \<le> PASSWORD_MAX_LENGTH"

definition length_between :: "nat \<Rightarrow> nat \<Rightarrow> string \<Rightarrow> bool" where
  "length_between lo hi s \<longleftrightarrow> lo \<le> length s \<and> length s \<le> hi"

definition max_length :: "nat \<Rightarrow> string option \<Rightarrow> bool" where
  "max_length hi s = (case s of None \<Rightarrow> True | Some x \<Rightarrow> length x \<le> hi)"

record register_request =
  rq_reg_email :: string
  rq_reg_username :: string
  rq_reg_password :: string
  rq_reg_password_repeat :: string
  rq_reg_display_name :: "string option"

record update_request =
  rq_upd_username :: "string option"
  rq_upd_display_name :: "string option"
  rq_upd_email :: "string option"

definition register_request_ok :: "register_request \<Rightarrow> bool" where
  "register_request_ok b \<longleftrightarrow>
     username_pattern (rq_reg_username b) \<and> password_length_ok (rq_reg_password b) \<and>
     password_length_ok (rq_reg_password_repeat b) \<and> max_length 100 (rq_reg_display_name b)"

definition update_request_ok :: "update_request \<Rightarrow> bool" where
  "update_request_ok b \<longleftrightarrow>
     (case rq_upd_username b of None \<Rightarrow> True | Some u \<Rightarrow> username_pattern u) \<and>
     max_length 100 (rq_upd_display_name b)"

definition reset_request_ok :: "reset_password_dto \<Rightarrow> bool" where
  "reset_request_ok b \<longleftrightarrow>
     rsp_token b \<noteq> [] \<and> password_length_ok (rsp_password b) \<and>
     password_length_ok (rsp_password_repeat b)"

definition change_request_ok :: "change_password_dto \<Rightarrow> bool" where
  "change_request_ok b \<longleftrightarrow>
     chp_current_password b \<noteq> [] \<and> password_length_ok (chp_new_password b) \<and>
     password_length_ok (chp_new_password_repeat b)"

definition create_role_request_ok :: "string \<Rightarrow> string option \<Rightarrow> bool" where
  "create_role_request_ok name description \<longleftrightarrow>
     length_between 1 100 name \<and> max_length 255 description"

definition create_permission_request_ok :: "string \<Rightarrow> string \<Rightarrow> string option \<Rightarrow> bool" where
  "create_permission_request_ok resource action description \<longleftrightarrow>
     length_between 1 100 resource \<and> length_between 1 100 action \<and> max_length 255 description"

definition ban_request_ok :: "string option \<Rightarrow> bool" where
  "ban_request_ok reason = max_length 500 reason"

text \<open>A request whose fields violate their constraints is answered 422 by the framework.\<close>

definition unprocessable :: response where
  "unprocessable = plain_response 422 ValidationBody"

definition validated :: "bool \<Rightarrow> ('r, response) app \<Rightarrow> ('r, response) app" where
  "validated ok m = (if ok then m else retM unprocessable)"

type_synonym email_str = "string \<Rightarrow> string option"

definition with_email ::
  "email_str \<Rightarrow> string \<Rightarrow> (string \<Rightarrow> ('r, response) app) \<Rightarrow> ('r, response) app" where
  "with_email es s f = (case es s of None \<Rightarrow> retM unprocessable | Some e \<Rightarrow> f e)"

section \<open>/auth\<close>

definition register_route ::
  "email_str \<Rightarrow> 'r env \<Rightarrow> config \<Rightarrow> request \<Rightarrow> string \<Rightarrow> register_request \<Rightarrow> ('r, response) app" where
  "register_route es env c rq vid b =
     with_email es (rq_reg_email b) (\<lambda>email.
     validated (register_request_ok b)
       (bindM (register_user env c
          \<lparr> reg_email = email, reg_username = rq_reg_username b, reg_password = rq_reg_password b,
            reg_password_repeat = rq_reg_password_repeat b, reg_display_name = rq_reg_display_name b,
            reg_visitor_id = Some vid \<rparr> (Some (request_device c rq vid))) (\<lambda>u.
        retM (plain_response 201 (UserBody (to_user_response u))))))"

definition login_route ::
  "email_str \<Rightarrow> 'r env \<Rightarrow> config \<Rightarrow> request \<Rightarrow> string \<Rightarrow> string \<Rightarrow> string \<Rightarrow> ('r, response) app" where
  "login_route es env c rq vid email password =
     with_email es email (\<lambda>e.
     bindM (login env c \<lparr> login_email = e, login_password = password \<rparr> (Some (request_device c rq vid)))
       (to_session_response env c))"

definition missing_refresh_token :: exn where
  "missing_refresh_token = AuthenticationError ''Missing refresh token''"

definition refresh_route ::
  "'r env \<Rightarrow> config \<Rightarrow> request \<Rightarrow> string \<Rightarrow> string option \<Rightarrow> ('r, response) app" where
  "refresh_route env c rq vid from_body =
     (case (if truthy (read_refresh_token c rq) then read_refresh_token c rq
            else if truthy from_body then from_body else None) of
        None \<Rightarrow> raiseM missing_refresh_token
      | Some token \<Rightarrow>
          bindM (refresh env c token (Some (request_device c rq vid))) (to_session_response env c))"

definition logout_route :: "'r env \<Rightarrow> config \<Rightarrow> request \<Rightarrow> string \<Rightarrow> ('r, response) app" where
  "logout_route env c rq vid =
     bindM (liftM (access_token c rq)) (\<lambda>token.
     bindM (authenticate env c token) (\<lambda>_.
     seqM (logout env c token (Some (request_device c rq vid)))
          (retM (with_cookies (clear_tokens c) (plain_response 204 NoBody)))))"

definition verify_email_route ::
  "'r env \<Rightarrow> config \<Rightarrow> request \<Rightarrow> string \<Rightarrow> string \<Rightarrow> ('r, response) app" where
  "verify_email_route env c rq vid token =
     validated (token \<noteq> [])
       (bindM (verify_email env c token (Some (request_device c rq vid))) (\<lambda>u.
        retM (plain_response 200 (UserBody (to_user_response u)))))"

definition reset_link_sent :: response where
  "reset_link_sent =
     plain_response 200 (DetailBody ''If that address has an account, a reset link is on its way.'')"

definition forgot_password_route ::
  "email_str \<Rightarrow> 'r env \<Rightarrow> config \<Rightarrow> request \<Rightarrow> string \<Rightarrow> string \<Rightarrow> ('r, response) app" where
  "forgot_password_route es env c rq vid email =
     with_email es email (\<lambda>e.
     seqM (forgot_password env c e (Some (request_device c rq vid))) (retM reset_link_sent))"

definition signed_out_detail :: string where
  "signed_out_detail = ''Password updated. All sessions have been signed out.''"

definition reset_password_route ::
  "'r env \<Rightarrow> config \<Rightarrow> request \<Rightarrow> string \<Rightarrow> reset_password_dto \<Rightarrow> ('r, response) app" where
  "reset_password_route env c rq vid b =
     validated (reset_request_ok b)
       (seqM (reset_password env c b (Some (request_device c rq vid)))
             (retM (plain_response 200 (DetailBody signed_out_detail))))"

definition read_me_route :: "'r env \<Rightarrow> config \<Rightarrow> request \<Rightarrow> ('r, response) app" where
  "read_me_route env c rq =
     bindM (current_user env c rq) (\<lambda>u. retM (plain_response 200 (UserBody (to_user_response u))))"

section \<open>/users\<close>

definition update_me_route ::
  "email_str \<Rightarrow> 'r env \<Rightarrow> config \<Rightarrow> request \<Rightarrow> update_request \<Rightarrow> ('r, response) app" where
  "update_me_route es env c rq b =
     bindM (current_user env c rq) (\<lambda>u.
     let proceed = (\<lambda>email.
       validated (update_request_ok b)
         (bindM (update_profile env c (user_id u)
            \<lparr> upd_username = rq_upd_username b, upd_display_name = rq_upd_display_name b,
              upd_email = email \<rparr>) (\<lambda>updated.
          retM (plain_response 200 (UserBody (to_user_response updated))))))
     in case rq_upd_email b of
          None \<Rightarrow> proceed None
        | Some s \<Rightarrow> with_email es s (\<lambda>e. proceed (Some e)))"

definition change_my_password_route ::
  "'r env \<Rightarrow> config \<Rightarrow> request \<Rightarrow> string \<Rightarrow> change_password_dto \<Rightarrow> ('r, response) app" where
  "change_my_password_route env c rq vid b =
     bindM (current_user env c rq) (\<lambda>u.
     validated (change_request_ok b)
       (bindM (change_password env c (user_id u) b (Some (request_device c rq vid))) (\<lambda>revoked.
        retM (with_cookies (clear_tokens c)
          (plain_response 200 (PasswordChangedBody signed_out_detail revoked))))))"

definition delete_me_route :: "'r env \<Rightarrow> config \<Rightarrow> request \<Rightarrow> string \<Rightarrow> ('r, response) app" where
  "delete_me_route env c rq vid =
     bindM (current_user env c rq) (\<lambda>u.
     seqM (delete_user env c (user_id u) (Some (request_device c rq vid)))
          (retM (with_cookies (clear_tokens c) (plain_response 204 NoBody))))"

definition list_my_sessions_route :: "'r env \<Rightarrow> config \<Rightarrow> request \<Rightarrow> ('r, response) app" where
  "list_my_sessions_route env c rq =
     bindM (current_user env c rq) (\<lambda>u.
     bindM (current_jti env c rq) (\<lambda>jti.
     bindM (list_user_sessions env (user_id u)) (\<lambda>sessions.
     bindM (summarise env jti sessions) (\<lambda>rows. retM (plain_response 200 (SessionsBody rows))))))"

definition revoke_my_sessions_route ::
  "'r env \<Rightarrow> config \<Rightarrow> request \<Rightarrow> string \<Rightarrow> bool \<Rightarrow> ('r, response) app" where
  "revoke_my_sessions_route env c rq vid keep_current =
     bindM (current_user env c rq) (\<lambda>u.
     bindM (current_jti env c rq) (\<lambda>jti.
     bindM (revoke_all_sessions env (user_id u) (if keep_current then Some jti else None)
              (Some (request_device c rq vid))) (\<lambda>revoked.
     retM (with_cookies (if keep_current then [] else clear_tokens c)
       (plain_response 200 (RevokedBody revoked))))))"

definition revoke_my_session_route ::
  "'r env \<Rightarrow> config \<Rightarrow> request \<Rightarrow> string \<Rightarrow> int \<Rightarrow> ('r, response) app" where
  "revoke_my_session_route env c rq vid sid =
     bindM (current_user env c rq) (\<lambda>u.
     seqM (revoke_user_session env (user_id u) sid (Some (request_device c rq vid)))
          (retM (plain_response 204 NoBody)))"

definition read_user_route :: "int \<Rightarrow> ('r, response) app" where
  "read_user_route uid =
     bindM (get_user_profile uid) (\<lambda>u.
     retM (plain_response 200 (PublicUserBody (to_public_user_response u))))"

section \<open>/admin\<close>

text \<open>Every route of the router depends on \<^verbatim>\<open>users:manage\<close>.\<close>

definition admin_only ::
  "'r env \<Rightarrow> config \<Rightarrow> request \<Rightarrow> ('r, response) app \<Rightarrow> ('r, response) app" where
  "admin_only env c rq m = bindM (require_permission env c rq ''users'' ''manage'') (\<lambda>_. m)"

definition list_permissions_route :: "('r, response) app" where
  "list_permissions_route =
     bindM list_permissions (\<lambda>ps. retM (plain_response 200 (PermissionsBody ps)))"

definition create_permission_route ::
  "string \<Rightarrow> string \<Rightarrow> string option \<Rightarrow> ('r, response) app" where
  "create_permission_route resource action description =
     validated (create_permission_request_ok resource action description)
       (bindM (create_permission resource action description) (\<lambda>p.
        retM (plain_response 201 (PermissionBody p))))"

definition list_roles_route :: "('r, response) app" where
  "list_roles_route = bindM list_roles (\<lambda>rs. retM (plain_response 200 (RolesBody rs)))"

definition create_role_route :: "string \<Rightarrow> string option \<Rightarrow> ('r, response) app" where
  "create_role_route name description =
     validated (create_role_request_ok name description)
       (bindM (create_role name description) (\<lambda>r. retM (plain_response 201 (RoleBody r))))"

definition delete_role_route :: "int \<Rightarrow> ('r, response) app" where
  "delete_role_route rid = seqM (delete_role rid) (retM (plain_response 204 NoBody))"

definition grant_permission_route :: "int \<Rightarrow> int \<Rightarrow> ('r, response) app" where
  "grant_permission_route rid pid =
     bindM (grant_permission_to_role rid pid) (\<lambda>r. retM (plain_response 200 (RoleBody r)))"

definition revoke_permission_route :: "int \<Rightarrow> int \<Rightarrow> ('r, response) app" where
  "revoke_permission_route rid pid =
     bindM (revoke_permission_from_role rid pid) (\<lambda>r. retM (plain_response 200 (RoleBody r)))"

definition list_users_route :: "('r, response) app" where
  "list_users_route =
     bindM list_users (\<lambda>us. retM (plain_response 200 (UsersBody (map to_user_response us))))"

definition assign_role_route :: "'r env \<Rightarrow> config \<Rightarrow> int \<Rightarrow> int \<Rightarrow> ('r, response) app" where
  "assign_role_route env c uid rid =
     bindM (assign_role_to_user env c uid rid) (\<lambda>u.
     retM (plain_response 200 (UserBody (to_user_response u))))"

definition revoke_role_route :: "'r env \<Rightarrow> config \<Rightarrow> int \<Rightarrow> int \<Rightarrow> ('r, response) app" where
  "revoke_role_route env c uid rid =
     bindM (revoke_role_from_user env c uid rid) (\<lambda>u.
     retM (plain_response 200 (UserBody (to_user_response u))))"

section \<open>/admin/users: moderation\<close>

definition ban_user_route ::
  "'r env \<Rightarrow> config \<Rightarrow> request \<Rightarrow> string \<Rightarrow> int \<Rightarrow> string option \<Rightarrow> ('r, response) app" where
  "ban_user_route env c rq vid uid reason =
     bindM (require_permission env c rq ''users'' ''ban'') (\<lambda>actor.
     validated (ban_request_ok reason)
       (bindM (ban_user env c actor uid reason (Some (request_device c rq vid))) (\<lambda>u.
        retM (plain_response 200 (UserBody (to_user_response u))))))"

definition unban_user_route ::
  "'r env \<Rightarrow> config \<Rightarrow> request \<Rightarrow> string \<Rightarrow> int \<Rightarrow> ('r, response) app" where
  "unban_user_route env c rq vid uid =
     bindM (require_permission env c rq ''users'' ''ban'') (\<lambda>actor.
     bindM (unban_user env c actor uid (Some (request_device c rq vid))) (\<lambda>u.
     retM (plain_response 200 (UserBody (to_user_response u)))))"

section \<open>Health\<close>

text \<open>
  Liveness touches nothing. Readiness runs \<^verbatim>\<open>SELECT 1\<close> on the engine: the parameter is \<open>None\<close> when it
  ran and the text of the exception when it did not.
\<close>

definition health_route :: response where
  "health_route = plain_response 200 (StatusBody ''ok'')"

definition readiness_route :: "string option \<Rightarrow> response" where
  "readiness_route probe =
     (case probe of
        None \<Rightarrow> plain_response 200 (StatusBody ''ready'')
      | Some exc \<Rightarrow> plain_response 503 (UnavailableBody exc))"

section \<open>The application\<close>

datatype endpoint =
    PostRegister register_request | PostLogin string string | PostRefresh "string option" | PostLogout
  | GetVerifyEmail string | PostForgotPassword string | PostResetPassword reset_password_dto | GetAuthMe
  | GetMe | PatchMe update_request | PostMyPassword change_password_dto | DeleteMe
  | GetMySessions | DeleteMySessions bool | DeleteMySession int | GetUser int
  | GetPermissions | PostPermission string string "string option"
  | GetRoles | PostRole string "string option" | DeleteRole int
  | PostRolePermission int int | DeleteRolePermission int int
  | GetUsers | PostUserRole int int | DeleteUserRole int int
  | PostBan int "string option" | DeleteBan int
  | GetHealth | GetReady "string option"

definition endpoint_method :: "endpoint \<Rightarrow> string" where
  "endpoint_method e =
     (case e of
        PostRegister _ \<Rightarrow> ''POST'' | PostLogin _ _ \<Rightarrow> ''POST'' | PostRefresh _ \<Rightarrow> ''POST''
      | PostLogout \<Rightarrow> ''POST'' | PostForgotPassword _ \<Rightarrow> ''POST'' | PostResetPassword _ \<Rightarrow> ''POST''
      | PostMyPassword _ \<Rightarrow> ''POST'' | PostPermission _ _ _ \<Rightarrow> ''POST'' | PostRole _ _ \<Rightarrow> ''POST''
      | PostRolePermission _ _ \<Rightarrow> ''POST'' | PostUserRole _ _ \<Rightarrow> ''POST'' | PostBan _ _ \<Rightarrow> ''POST''
      | PatchMe _ \<Rightarrow> ''PATCH''
      | DeleteMe \<Rightarrow> ''DELETE'' | DeleteMySessions _ \<Rightarrow> ''DELETE'' | DeleteMySession _ \<Rightarrow> ''DELETE''
      | DeleteRole _ \<Rightarrow> ''DELETE'' | DeleteRolePermission _ _ \<Rightarrow> ''DELETE''
      | DeleteUserRole _ _ \<Rightarrow> ''DELETE'' | DeleteBan _ \<Rightarrow> ''DELETE''
      | _ \<Rightarrow> ''GET'')"

text \<open>The path below the API prefix; the probes are mounted beside it.\<close>

definition endpoint_route :: "endpoint \<Rightarrow> string" where
  "endpoint_route e =
     (case e of
        PostRegister _ \<Rightarrow> ''/auth/register'' | PostLogin _ _ \<Rightarrow> ''/auth/login''
      | PostRefresh _ \<Rightarrow> ''/auth/refresh'' | PostLogout \<Rightarrow> ''/auth/logout''
      | GetVerifyEmail _ \<Rightarrow> ''/auth/verify-email'' | PostForgotPassword _ \<Rightarrow> ''/auth/forgot-password''
      | PostResetPassword _ \<Rightarrow> ''/auth/reset-password'' | GetAuthMe \<Rightarrow> ''/auth/me''
      | GetMe \<Rightarrow> ''/users/me'' | PatchMe _ \<Rightarrow> ''/users/me'' | DeleteMe \<Rightarrow> ''/users/me''
      | PostMyPassword _ \<Rightarrow> ''/users/me/password''
      | GetMySessions \<Rightarrow> ''/users/me/sessions'' | DeleteMySessions _ \<Rightarrow> ''/users/me/sessions''
      | DeleteMySession sid \<Rightarrow> ''/users/me/sessions/'' @ str_of_int sid
      | GetUser uid \<Rightarrow> ''/users/'' @ str_of_int uid
      | GetPermissions \<Rightarrow> ''/admin/permissions'' | PostPermission _ _ _ \<Rightarrow> ''/admin/permissions''
      | GetRoles \<Rightarrow> ''/admin/roles'' | PostRole _ _ \<Rightarrow> ''/admin/roles''
      | DeleteRole rid \<Rightarrow> ''/admin/roles/'' @ str_of_int rid
      | PostRolePermission rid _ \<Rightarrow> ''/admin/roles/'' @ str_of_int rid @ ''/permissions''
      | DeleteRolePermission rid pid \<Rightarrow>
          ''/admin/roles/'' @ str_of_int rid @ ''/permissions/'' @ str_of_int pid
      | GetUsers \<Rightarrow> ''/admin/users''
      | PostUserRole uid _ \<Rightarrow> ''/admin/users/'' @ str_of_int uid @ ''/roles''
      | DeleteUserRole uid rid \<Rightarrow> ''/admin/users/'' @ str_of_int uid @ ''/roles/'' @ str_of_int rid
      | PostBan uid _ \<Rightarrow> ''/admin/users/'' @ str_of_int uid @ ''/ban''
      | DeleteBan uid \<Rightarrow> ''/admin/users/'' @ str_of_int uid @ ''/ban''
      | GetHealth \<Rightarrow> ''/health'' | GetReady _ \<Rightarrow> ''/health/ready'')"

definition is_probe :: "endpoint \<Rightarrow> bool" where
  "is_probe e = (case e of GetHealth \<Rightarrow> True | GetReady _ \<Rightarrow> True | _ \<Rightarrow> False)"

definition endpoint_path :: "config \<Rightarrow> endpoint \<Rightarrow> string" where
  "endpoint_path c e = (if is_probe e then [] else cfg_API_PREFIX c) @ endpoint_route e"

definition handle ::
  "email_str \<Rightarrow> 'r env \<Rightarrow> config \<Rightarrow> request \<Rightarrow> endpoint \<Rightarrow> string \<Rightarrow> ('r, response) app" where
  "handle es env c rq e vid =
     (case e of
        PostRegister b \<Rightarrow> register_route es env c rq vid b
      | PostLogin email password \<Rightarrow> login_route es env c rq vid email password
      | PostRefresh b \<Rightarrow> refresh_route env c rq vid b
      | PostLogout \<Rightarrow> logout_route env c rq vid
      | GetVerifyEmail token \<Rightarrow> verify_email_route env c rq vid token
      | PostForgotPassword email \<Rightarrow> forgot_password_route es env c rq vid email
      | PostResetPassword b \<Rightarrow> reset_password_route env c rq vid b
      | GetAuthMe \<Rightarrow> read_me_route env c rq
      | GetMe \<Rightarrow> read_me_route env c rq
      | PatchMe b \<Rightarrow> update_me_route es env c rq b
      | PostMyPassword b \<Rightarrow> change_my_password_route env c rq vid b
      | DeleteMe \<Rightarrow> delete_me_route env c rq vid
      | GetMySessions \<Rightarrow> list_my_sessions_route env c rq
      | DeleteMySessions keep \<Rightarrow> revoke_my_sessions_route env c rq vid keep
      | DeleteMySession sid \<Rightarrow> revoke_my_session_route env c rq vid sid
      | GetUser uid \<Rightarrow> read_user_route uid
      | GetPermissions \<Rightarrow> admin_only env c rq list_permissions_route
      | PostPermission res act d \<Rightarrow> admin_only env c rq (create_permission_route res act d)
      | GetRoles \<Rightarrow> admin_only env c rq list_roles_route
      | PostRole name d \<Rightarrow> admin_only env c rq (create_role_route name d)
      | DeleteRole rid \<Rightarrow> admin_only env c rq (delete_role_route rid)
      | PostRolePermission rid pid \<Rightarrow> admin_only env c rq (grant_permission_route rid pid)
      | DeleteRolePermission rid pid \<Rightarrow> admin_only env c rq (revoke_permission_route rid pid)
      | GetUsers \<Rightarrow> admin_only env c rq list_users_route
      | PostUserRole uid rid \<Rightarrow> admin_only env c rq (assign_role_route env c uid rid)
      | DeleteUserRole uid rid \<Rightarrow> admin_only env c rq (revoke_role_route env c uid rid)
      | PostBan uid reason \<Rightarrow> ban_user_route env c rq vid uid reason
      | DeleteBan uid \<Rightarrow> unban_user_route env c rq vid uid
      | GetHealth \<Rightarrow> retM health_route
      | GetReady probe \<Rightarrow> retM (readiness_route probe))"

text \<open>\<^verbatim>\<open>setup_middleware\<close>: what is added last is outermost.\<close>

definition serve ::
  "email_str \<Rightarrow> 'r env \<Rightarrow> config \<Rightarrow> request \<Rightarrow> endpoint \<Rightarrow> ('r, response) app" where
  "serve es env c rq e =
     server_errors
       (visitor_middleware env c rq (\<lambda>vid.
        csrf_middleware c (endpoint_method e) rq
          (exc_handlers (handle es env c rq e vid))))"

end
