(* ===== verification/Serving.thy ===== *)
theory Serving
  imports Routers
begin

text \<open>
  Every request is a run of the service. \<open>runs m\<close>: whatever \<open>m\<close> answers, the world it leaves is
  reached from the one it found by steps of \<open>service_step\<close>. The predicate is closed under the
  combinators, every use case is one step, so the whole HTTP layer runs; the invariants of reachable
  states then hold between any two requests.
\<close>

named_theorems runs_rules \<open>programs whose effect is a run of the service\<close>

definition runs :: "'r env \<Rightarrow> config \<Rightarrow> ('r, 'a) app \<Rightarrow> bool" where
  "runs env c m \<longleftrightarrow> (\<forall>w. service_run env c w (snd (m w)))"

lemma runs_step: "(\<And>w. service_step env c w (snd (m w))) \<Longrightarrow> runs env c m"
  by (auto simp: runs_def intro: service_run.intros)

lemma runs_pure [runs_rules]:
  "runs env c (retM x)" "runs env c (raiseM e)" "runs env c (liftM r)"
  by (simp_all add: runs_def retM_def raiseM_def liftM_def service_run.start)

lemma runs_bindM [runs_rules]:
  assumes "runs env c m" and "\<And>x. runs env c (f x)"
  shows "runs env c (bindM m f)"
  unfolding runs_def
proof
  fix w
  have "service_run env c w (snd (m w))" using assms(1) by (simp add: runs_def)
  moreover have "service_run env c (snd (m w)) (snd (f x (snd (m w))))" for x
    using assms(2) by (simp add: runs_def)
  ultimately show "service_run env c w (snd (bindM m f w))"
    by (auto simp: bindM_def split: prod.splits sum.splits) (metis service_run_trans snd_conv)
qed

lemma runs_seqM [runs_rules]: "runs env c m \<Longrightarrow> runs env c n \<Longrightarrow> runs env c (seqM m n)"
  unfolding seqM_def by (rule runs_bindM)

lemma runs_tryM [runs_rules]:
  assumes "runs env c m" and "\<And>e. runs env c (h e)"
  shows "runs env c (tryM m h)"
  unfolding runs_def
proof
  fix w
  have "service_run env c w (snd (m w))" using assms(1) by (simp add: runs_def)
  moreover have "service_run env c (snd (m w)) (snd (h e (snd (m w))))" for e
    using assms(2) by (simp add: runs_def)
  ultimately show "service_run env c w (snd (tryM m h w))"
    by (auto simp: tryM_def split: prod.splits sum.splits) (metis service_run_trans snd_conv)+
qed

lemma runs_cases [runs_rules]:
  "runs env c m \<Longrightarrow> runs env c n \<Longrightarrow> runs env c (if b then m else n)"
  "runs env c m \<Longrightarrow> (\<And>y. runs env c (f y)) \<Longrightarrow> runs env c (case x of None \<Rightarrow> m | Some y \<Rightarrow> f y)"
  "(\<And>a b. runs env c (g a b)) \<Longrightarrow> runs env c (case p of (a, b) \<Rightarrow> g a b)"
  by (simp_all split: option.splits prod.splits)

section \<open>Readings\<close>

lemma runs_draw [runs_rules]:
  "runs env c (draw f)" "runs env c (utc_now env')" "runs env c (uuid4_hex env')"
  by (auto simp: draw_def utc_now_def uuid4_hex_def intro!: runs_step service_step.reading)

lemma runs_decode [runs_rules]: "runs env c (decode_token env c token)"
  by (auto simp: decode_token_def Let_def intro!: runs_rules)

section \<open>Use cases\<close>

lemma runs_use_cases [runs_rules]:
  "runs env c (login env c d dev)" "runs env c (refresh env c token dev)"
  "runs env c (authenticate env c token)" "runs env c (logout env c token dev)"
  "runs env c (register_user env c reg dev)" "runs env c (update_profile env c uid upd)"
  "runs env c (verify_email env c token dev)" "runs env c (change_password env c uid chp dev)"
  "runs env c (forgot_password env c email dev)" "runs env c (reset_password env c rsp dev)"
  "runs env c (delete_user env c uid dev)" "runs env c (ban_user env c actor target reason dev)"
  "runs env c (unban_user env c actor target dev)" "runs env c (get_user_profile uid)"
  "runs env c (list_user_sessions env uid)" "runs env c (revoke_all_sessions env uid except dev)"
  "runs env c (revoke_user_session env uid sid dev)" "runs env c list_roles"
  "runs env c list_permissions" "runs env c list_users" "runs env c (create_role name descr)"
  "runs env c (delete_role rid)" "runs env c (create_permission res act descr)"
  "runs env c (grant_permission_to_role rid pid)" "runs env c (revoke_permission_from_role rid pid)"
  "runs env c (assign_role_to_user env c uid rid)" "runs env c (revoke_role_from_user env c uid rid)"
  by (rule runs_step, rule service_step.intros)+

section \<open>The HTTP layer\<close>

lemma runs_dependencies [runs_rules]:
  "runs env c (current_user env c rq)" "runs env c (current_jti env c rq)"
  "runs env c (require_permission env c rq res act)" "runs env c (status_now env s)"
  "runs env c (to_session_response env c result)"
  by (auto simp: current_user_def current_jti_def require_permission_def status_now_def
      to_session_response_def set_tokens_def cookie_max_age_def Let_def intro!: runs_rules)

lemma runs_summarise [runs_rules]: "runs env c (summarise env jti ss)"
  by (induction ss) (auto intro!: runs_rules)

lemma runs_wrappers [runs_rules]:
  "runs env c m \<Longrightarrow> runs env c (validated ok m)"
  "(\<And>e. runs env c (f e)) \<Longrightarrow> runs env c (with_email es s f)"
  "runs env c m \<Longrightarrow> runs env c (admin_only env c rq m)"
  "runs env c m \<Longrightarrow> runs env c (exc_handlers m)"
  "runs env c m \<Longrightarrow> runs env c (server_errors m)"
  "runs env c m \<Longrightarrow> runs env c (csrf_middleware c meth rq m)"
  "(\<And>vid. runs env c (f vid)) \<Longrightarrow> runs env c (visitor_middleware env c rq f)"
  by (auto simp: validated_def with_email_def admin_only_def exc_handlers_def server_errors_def
      csrf_middleware_def visitor_middleware_def split: option.splits list.splits intro!: runs_rules)

lemmas auth_routes =
  register_route_def login_route_def refresh_route_def logout_route_def verify_email_route_def
  forgot_password_route_def reset_password_route_def read_me_route_def

lemmas user_routes =
  update_me_route_def change_my_password_route_def delete_me_route_def list_my_sessions_route_def
  revoke_my_sessions_route_def revoke_my_session_route_def read_user_route_def

lemmas admin_routes =
  list_permissions_route_def create_permission_route_def list_roles_route_def create_role_route_def
  delete_role_route_def grant_permission_route_def revoke_permission_route_def list_users_route_def
  assign_role_route_def revoke_role_route_def ban_user_route_def unban_user_route_def

lemma runs_auth_routes [runs_rules]:
  "runs env c (register_route es env c rq vid b)" "runs env c (login_route es env c rq vid mail pw)"
  "runs env c (refresh_route env c rq vid tok)" "runs env c (logout_route env c rq vid)"
  "runs env c (verify_email_route env c rq vid secret)"
  "runs env c (forgot_password_route es env c rq vid mail)"
  "runs env c (reset_password_route env c rq vid b')" "runs env c (read_me_route env c rq)"
  unfolding auth_routes by (intro runs_rules)+

lemma runs_user_routes [runs_rules]:
  "runs env c (update_me_route es env c rq b)" "runs env c (change_my_password_route env c rq vid b')"
  "runs env c (delete_me_route env c rq vid)" "runs env c (list_my_sessions_route env c rq)"
  "runs env c (revoke_my_sessions_route env c rq vid keep)"
  "runs env c (revoke_my_session_route env c rq vid sid)" "runs env c (read_user_route uid)"
  unfolding user_routes Let_def by (intro runs_rules)+

lemma runs_admin_routes [runs_rules]:
  "runs env c list_permissions_route" "runs env c (create_permission_route res act descr)"
  "runs env c list_roles_route" "runs env c (create_role_route name descr)"
  "runs env c (delete_role_route rid)" "runs env c (grant_permission_route rid pid)"
  "runs env c (revoke_permission_route rid pid)" "runs env c list_users_route"
  "runs env c (assign_role_route env c uid rid)" "runs env c (revoke_role_route env c uid rid)"
  "runs env c (ban_user_route env c rq vid uid reason)"
  "runs env c (unban_user_route env c rq vid uid)"
  unfolding admin_routes by (intro runs_rules)+

lemma runs_handle [runs_rules]: "runs env c (handle es env c rq e vid)"
  by (cases e) (simp_all add: handle_def runs_rules)

lemma runs_serve: "runs env c (serve es env c rq e)"
  unfolding serve_def by (intro runs_rules)

lemma serve_run: "service_run env c w (snd (serve es env c rq e w))"
  using runs_serve [of env c es rq e] by (simp add: runs_def)

section \<open>Sequences of requests\<close>

text \<open>A run of the application: the requests of its clients, one after the other.\<close>

fun serve_all ::
  "email_str \<Rightarrow> 'r env \<Rightarrow> config \<Rightarrow> (request \<times> endpoint) list \<Rightarrow> 'r world \<Rightarrow> 'r world" where
  "serve_all es env c [] w = w"
| "serve_all es env c ((rq, e) # rest) w = serve_all es env c rest (snd (serve es env c rq e w))"

lemma serve_all_run: "service_run env c w (serve_all es env c rqs w)"
proof (induction rqs arbitrary: w)
  case Nil
  show ?case by (simp add: service_run.start)
next
  case (Cons p rest)
  obtain rq e where p: "p = (rq, e)" by (cases p)
  show ?case
    using service_run_trans [OF Cons.IH serve_run] by (simp add: p)
qed

text \<open>Nothing escapes: the outermost handler answers every exception.\<close>

lemma serve_answers: "\<exists>r w'. serve es env c rq e w = (Inr r, w')"
  by (auto simp: serve_def server_errors_def tryM_def retM_def split: prod.splits sum.splits)

end
