(* ===== verification/Http_Security.thy ===== *)
theory Http_Security
  imports Serving Session_Security
begin

text \<open>
  What the HTTP layer adds to the use cases, over whole requests: \<open>yields P m\<close> says that whatever \<open>m\<close>
  returns satisfies \<open>P\<close>.
\<close>

named_theorems yields_rules \<open>what a program may return\<close>

definition yields :: "('a \<Rightarrow> bool) \<Rightarrow> ('r, 'a) app \<Rightarrow> bool" where
  "yields P m \<longleftrightarrow> (\<forall>w. wp m (\<lambda>x _. P x) (\<lambda>_ _. True) w)"

lemma yieldsD: "yields P m \<Longrightarrow> m w = (Inr x, w') \<Longrightarrow> P x"
  by (auto simp: yields_def dest: spec [of _ w] wp_InrD)

lemma yields_basic [yields_rules]:
  "P x \<Longrightarrow> yields P (retM x)" "yields P (raiseM e)"
  by (simp_all add: yields_def wp_rules)

lemma yields_then:
  assumes "yields Q m" and "\<And>x. Q x \<Longrightarrow> yields P (f x)"
  shows "yields P (bindM m f)"
  using assms by (auto simp: yields_def wp_bindM intro: wp_mono)

lemma yields_bindM [yields_rules]: "(\<And>x. yields P (f x)) \<Longrightarrow> yields P (bindM m f)"
  by (rule yields_then [of "\<lambda>_. True"]) (simp_all add: yields_def)

lemma yields_seqM [yields_rules]: "yields P n \<Longrightarrow> yields P (seqM m n)"
  by (simp add: seqM_def yields_bindM)

lemma yields_tryM [yields_rules]: "yields P m \<Longrightarrow> (\<And>e. yields P (h e)) \<Longrightarrow> yields P (tryM m h)"
  by (auto simp: yields_def wp_tryM intro: wp_mono)

lemma yields_cases [yields_rules]:
  "yields P m \<Longrightarrow> yields P n \<Longrightarrow> yields P (if b then m else n)"
  "yields P m \<Longrightarrow> (\<And>y. yields P (f y)) \<Longrightarrow> yields P (case x of None \<Rightarrow> m | Some y \<Rightarrow> f y)"
  "(\<And>a b. yields P (g a b)) \<Longrightarrow> yields P (case p of (a, b) \<Rightarrow> g a b)"
  by (simp_all split: option.splits prod.splits)

lemma yields_wrappers [yields_rules]:
  "yields P m \<Longrightarrow> P unprocessable \<Longrightarrow> yields P (validated ok m)"
  "(\<And>e. yields P (f e)) \<Longrightarrow> P unprocessable \<Longrightarrow> yields P (with_email es s f)"
  "yields P m \<Longrightarrow> yields P (admin_only env c rq m)"
  "yields P m \<Longrightarrow> P csrf_refusal \<Longrightarrow> yields P (csrf_middleware c meth rq m)"
  by (auto simp: validated_def with_email_def admin_only_def csrf_middleware_def
      split: option.splits intro!: yields_rules)

text \<open>A property of all answers: of the handlers', of the error answers and under the visitor cookie.\<close>

lemma yields_serve:
  assumes "\<And>vid. yields P (handle es env c rq e vid)" and "\<And>x. P (error_body (handle_exn x))"
    and "P csrf_refusal" and "\<And>h r. P r \<Longrightarrow> P (with_cookies [visitor_cookie c h] r)"
  shows "yields P (serve es env c rq e)"
proof -
  have inner: "yields P (csrf_middleware c (endpoint_method e) rq
      (exc_handlers (handle es env c rq e vid)))" for vid
    using assms by (auto simp: exc_handlers_def intro!: yields_rules)
  have minted: "yields P (bindM (csrf_middleware c (endpoint_method e) rq
      (exc_handlers (handle es env c rq e vid))) (\<lambda>r. retM (with_cookies [visitor_cookie c h] r)))" for vid h
    by (rule yields_then [OF inner]) (simp add: yields_basic assms(4))
  have "yields P (visitor_middleware env c rq (\<lambda>vid. csrf_middleware c (endpoint_method e) rq
      (exc_handlers (handle es env c rq e vid))))"
    unfolding visitor_middleware_def
    by (simp split: option.splits list.splits) (blast intro: inner minted yields_bindM)
  then show ?thesis
    using assms(2) by (auto simp: serve_def server_errors_def intro!: yields_rules)
qed

section \<open>Cookies and tokens\<close>

definition token_cookie :: "config \<Rightarrow> cookie \<Rightarrow> bool" where
  "token_cookie c ck \<longleftrightarrow> ck_name ck \<in> {cfg_ACCESS_COOKIE_NAME c, cfg_REFRESH_COOKIE_NAME c}"

definition hides_tokens :: "config \<Rightarrow> response \<Rightarrow> bool" where
  "hides_tokens c r \<longleftrightarrow>
     (\<forall>s. resp_body r = SessionBody s \<longrightarrow> sn_tokens s = None) \<and>
     (\<forall>ck \<in> set (resp_cookies r). token_cookie c ck \<longrightarrow> ck_httponly ck \<or> ck_value ck = [])"

definition plain :: "response \<Rightarrow> bool" where
  "plain r \<longleftrightarrow> (\<forall>s. resp_body r \<noteq> SessionBody s) \<and> resp_cookies r = []"

lemma plain_hides: "plain r \<Longrightarrow> hides_tokens c r"
  by (simp add: plain_def hides_tokens_def)

lemma hides_plain_response [simp]: "(\<And>s. b \<noteq> SessionBody s) \<Longrightarrow> hides_tokens c (plain_response n b)"
  by (simp add: plain_response_def hides_tokens_def)

lemma hides_cleared [simp]:
  "(\<And>s. b \<noteq> SessionBody s) \<Longrightarrow> hides_tokens c (with_cookies (clear_tokens c) (plain_response n b))"
  by (auto simp: plain_response_def hides_tokens_def with_cookies_def clear_tokens_def
      delete_cookie_def set_cookie_def)

lemma hides_no_cookies [simp]: "hides_tokens c (with_cookies [] r) = hides_tokens c r"
  by (simp add: with_cookies_def)

lemma hides_fixed [simp]:
  "hides_tokens c unprocessable" "hides_tokens c csrf_refusal" "hides_tokens c reset_link_sent"
  "hides_tokens c health_route" "hides_tokens c (readiness_route probe)"
  "hides_tokens c (error_body x)"
  by (simp_all add: unprocessable_def csrf_refusal_def reset_link_sent_def health_route_def
      readiness_route_def error_body_def hides_tokens_def plain_response_def split: option.splits)

lemma hides_visitor:
  "hides_tokens c r \<Longrightarrow> hides_tokens c (with_cookies [visitor_cookie c h] r)"
  by (auto simp: hides_tokens_def with_cookies_def visitor_cookie_def set_cookie_def)

lemma yields_to_session_response:
  assumes "cfg_COOKIE_AUTH_ENABLED c"
    and "cfg_CSRF_COOKIE_NAME c \<notin> {cfg_ACCESS_COOKIE_NAME c, cfg_REFRESH_COOKIE_NAME c}"
  shows "yields (hides_tokens c) (to_session_response env c result)"
proof -
  have "wp (to_session_response env c result) (\<lambda>r _. hides_tokens c r) (\<lambda>_ _. True) w" for w
    using assms
    by (auto simp: to_session_response_def set_tokens_def cookie_max_age_def wp_rules Let_def
        hides_tokens_def with_cookies_def plain_response_def set_cookie_def token_cookie_def)
  then show ?thesis by (simp add: yields_def)
qed

lemma yields_handle:
  assumes "cfg_COOKIE_AUTH_ENABLED c"
    and "cfg_CSRF_COOKIE_NAME c \<notin> {cfg_ACCESS_COOKIE_NAME c, cfg_REFRESH_COOKIE_NAME c}"
  shows "yields (hides_tokens c) (handle es env c rq e vid)"
  by (cases e)
    (auto simp: handle_def auth_routes user_routes admin_routes Let_def
      intro!: yields_rules yields_to_session_response [OF assms])

section \<open>Reasoning about whole requests\<close>

lemma resp_status_with_cookies [simp]: "resp_status (with_cookies cs r) = resp_status r"
  by (simp add: with_cookies_def)

lemma with_no_cookies [simp]: "with_cookies [] r = r"
  by (simp add: with_cookies_def)

lemma error_body_status [simp]: "resp_status (error_body (handle_exn x)) = documented_status x"
  by (simp add: error_body_def handle_exn_status)

lemma documented_status_range:
  "documented_status x \<in> {400, 401, 403, 404, 409, 422, 429, 500}"
  by (cases x) simp_all

lemma documented_status_error [simp]: "\<not> documented_status x < 300"
  using documented_status_range [of x] by auto

text \<open>
  To show \<open>Q\<close> of every answer it is enough to look at the handler, run in a world that differs in the
  clock readings only, and at the two answers the middleware gives itself.
\<close>

definition only_reads :: "'r world \<Rightarrow> 'r world \<Rightarrow> bool" where
  "only_reads w w' \<longleftrightarrow> (\<exists>n. w' = w\<lparr>draws := n\<rparr>)"

lemma only_reads_refl [simp]: "only_reads w w"
  unfolding only_reads_def by (rule exI [of _ "draws w"]) simp

lemma only_reads_step [simp]: "only_reads w (w\<lparr>draws := n\<rparr>)"
  by (auto simp: only_reads_def)

lemma only_reads_same: "only_reads w w' \<Longrightarrow> db w' = db w \<and> session w' = session w"
  by (auto simp: only_reads_def)

lemma wp_serve:
  assumes handler: "\<And>vid w1. only_reads w w1 \<Longrightarrow>
      wp (handle es env c rq e vid) (\<lambda>r w'. \<forall>cs. Q (with_cookies cs r) w')
        (\<lambda>x w'. \<forall>cs. Q (with_cookies cs (error_body (handle_exn x))) w') w1"
    and refusal: "\<And>w1 cs. only_reads w w1 \<Longrightarrow> csrf_requires_check c (endpoint_method e) rq \<Longrightarrow>
      Q (with_cookies cs csrf_refusal) w1"
    and crash: "\<And>w1 x. only_reads w w1 \<Longrightarrow> csrf_requires_check c (endpoint_method e) rq \<Longrightarrow>
      csrf_token_matches c rq = Inl x \<Longrightarrow>
      Q (error_body (handle_exn x)) w1"
  shows "wp (serve es env c rq e) Q (\<lambda>_ _. False) w"
proof -
  have h: "wp (exc_handlers (handle es env c rq e vid)) (\<lambda>r w'. \<forall>cs. Q (with_cookies cs r) w')
      (\<lambda>x w'. Q (error_body (handle_exn x)) w') w1" if "only_reads w w1" for vid w1
    unfolding exc_handlers_def wp_tryM
    using handler [OF that, of vid]
    by (rule wp_mono) (auto simp: wp_rules dest: spec [of _ "[]"])
  have m: "wp (csrf_middleware c (endpoint_method e) rq (exc_handlers (handle es env c rq e vid)))
      (\<lambda>r w'. \<forall>cs. Q (with_cookies cs r) w') (\<lambda>x w'. Q (error_body (handle_exn x)) w') w1"
    if "only_reads w w1" for vid w1
    using h [OF that, of vid] refusal [OF that] crash [OF that]
    by (auto simp: csrf_middleware_def wp_rules split: sum.splits)
  have v: "wp (visitor_middleware env c rq (\<lambda>vid. csrf_middleware c (endpoint_method e) rq
      (exc_handlers (handle es env c rq e vid)))) Q (\<lambda>x w'. Q (error_body (handle_exn x)) w') w"
    by (auto simp: visitor_middleware_def wp_rules split: option.splits list.splits
        intro!: wp_mono [OF m] dest: spec [of _ "[]"])
  then show ?thesis
    by (auto simp: serve_def server_errors_def wp_rules intro: wp_mono)
qed

lemma wp_uncommitted:
  "uncommitted m \<Longrightarrow> wp m (\<lambda>x w'. db w' = db w \<and> m w = (Inr x, w')) (\<lambda>_ w'. db w' = db w) w"
  by (auto simp: uncommitted_def wp_def split: prod.splits sum.splits) (metis snd_conv)+

section \<open>The properties\<close>


definition demo_request :: request where
  "demo_request = \<lparr> rq_cookies = [], rq_headers = [], rq_bearer = None, rq_client = None \<rparr>"


text \<open>
  C14: Whatever requests arrive, in any order and with any content, the stored data stays consistent:
  keys, references and column widths are respected, no inactive account has a live session, no account
  has two unused links for one purpose, rows of the audit log are never changed or removed, and spent
  sessions and links never come back.
\<close>
theorem requests_keep_data_consistent:
  assumes "session w = None" and "account_ok (db w)" and "single_unused (db w)"
    and "w' = serve_all es env c rqs w"
  shows "wf_db (db w') \<and> account_ok (db w') \<and> single_unused (db w') \<and> db_evolves (db w) (db w') \<and>
         session w' = None"
proof -
  have run: "service_run env c w w'" using serve_all_run assms(4) by metis
  show ?thesis
    using service_run_account_ok [OF run] service_run_unused [OF run]
      service_run_evolves [OF run assms(1)] assms(1-3)
    by (simp add: at_rest_iff account_ok_def)
qed

lemma requests_keep_data_consistent_witness:
  "account_ok (db (serve_all Some demo_env default_config
     [(demo_request, PostLogin ''ann@x.org'' ''pw''), (demo_request, GetUser 1)] demo_world))"
  using requests_keep_data_consistent [OF _ _ _ refl, of demo_world] demo_db_ok demo_db_unused
  by (simp del: serve_all.simps)

text \<open>
  C15: A cross-site request is stopped. An unsafe request that carries a session cookie, but not the
  CSRF cookie's value in the CSRF header, is refused before any handler runs; nothing but clock and
  random readings happens.
\<close>
theorem cross_site_request_refused:
  assumes "cfg_CSRF_PROTECTION c" and "cfg_COOKIE_AUTH_ENABLED c" and "endpoint_method e \<noteq> ''GET''"
    and "rq_cookie rq (cfg_ACCESS_COOKIE_NAME c) \<noteq> None \<or>
         rq_cookie rq (cfg_REFRESH_COOKIE_NAME c) \<noteq> None"
    and "rq_cookie rq (cfg_CSRF_COOKIE_NAME c) = None \<or>
         rq_header rq (cfg_CSRF_HEADER_NAME c) \<noteq> rq_cookie rq (cfg_CSRF_COOKIE_NAME c)"
  shows "\<exists>r n. serve es env c rq e w = (Inr r, w\<lparr>draws := n\<rparr>) \<and> resp_status r \<in> {403, 500}"
proof -
  have check: "csrf_requires_check c (endpoint_method e) rq"
    using assms(1-4)
    by (cases e) (auto simp: csrf_requires_check_def endpoint_method_def safe_methods_def)
  have refused: "csrf_token_matches c rq = Inr False \<or> (\<exists>m. csrf_token_matches c rq = Inl (TypeError m))"
    using assms(5)
    by (auto simp: csrf_token_matches_def compare_digest_def split: option.splits list.splits)
  have "wp (serve es env c rq e) (\<lambda>r w'. only_reads w w' \<and> resp_status r \<in> {403, 500}) (\<lambda>_ _. False) w"
    using check refused
    by (auto simp: serve_def server_errors_def visitor_middleware_def csrf_middleware_def wp_rules
        csrf_refusal_def plain_response_def split: option.splits list.splits sum.splits)
  then show ?thesis by (auto simp: wp_def only_reads_def split: prod.splits sum.splits)
qed

lemma cross_site_request_refused_witness:
  "\<exists>r n. serve Some demo_env default_config
      (demo_request\<lparr>rq_cookies := [(''access_token'', ''a1''), (''csrf_token'', ''x'')]\<rparr>) DeleteMe demo_world =
      (Inr r, demo_world\<lparr>draws := n\<rparr>) \<and> resp_status r \<in> {403, 500}"
  by (rule cross_site_request_refused)
    (auto simp: default_config_def endpoint_method_def rq_cookie_def rq_header_def demo_request_def)

text \<open>What the routers declare: the permission on \<^verbatim>\<open>users\<close> an endpoint needs.\<close>

definition required_permission :: "endpoint \<Rightarrow> string option" where
  "required_permission e =
     (case e of
        PostBan _ _ \<Rightarrow> Some ''ban'' | DeleteBan _ \<Rightarrow> Some ''ban''
      | GetPermissions \<Rightarrow> Some ''manage'' | PostPermission _ _ _ \<Rightarrow> Some ''manage''
      | GetRoles \<Rightarrow> Some ''manage'' | PostRole _ _ \<Rightarrow> Some ''manage'' | DeleteRole _ \<Rightarrow> Some ''manage''
      | PostRolePermission _ _ \<Rightarrow> Some ''manage'' | DeleteRolePermission _ _ \<Rightarrow> Some ''manage''
      | GetUsers \<Rightarrow> Some ''manage'' | PostUserRole _ _ \<Rightarrow> Some ''manage''
      | DeleteUserRole _ _ \<Rightarrow> Some ''manage''
      | _ \<Rightarrow> None)"

definition caller_may :: "'r env \<Rightarrow> config \<Rightarrow> request \<Rightarrow> 'r world \<Rightarrow> string \<Rightarrow> bool" where
  "caller_may env c rq w act \<longleftrightarrow>
     (\<exists>token n u w1. access_token c rq = Inr token \<and>
        authenticate env c token (w\<lparr>draws := n\<rparr>) = (Inr u, w1) \<and> has_permission u ''users'' act)"

lemma wp_require_permission:
  assumes "only_reads w w1"
  shows "wp (require_permission env c rq ''users'' act)
     (\<lambda>_ _. caller_may env c rq w act) (\<lambda>_ w'. db w' = db w) w1"
proof -
  obtain n where n: "w1 = w\<lparr>draws := n\<rparr>" using assms by (auto simp: only_reads_def)
  have "wp (authenticate env c t) (\<lambda>u. wp (if \<not> has_permission u ''users'' act
        then raiseM (missing_permission ''users'' act) else retM u)
      (\<lambda>_ _. caller_may env c rq w act) (\<lambda>_ w'. db w' = db w)) (\<lambda>_ w'. db w' = db w) w1"
    if "access_token c rq = Inr t" for t
    using that n
    by (intro wp_mono [OF wp_uncommitted [OF uncommitted_authenticate, of env c t w1]])
      (auto simp: wp_rules caller_may_def)
  then show ?thesis
    by (auto simp: require_permission_def current_user_def wp_bindM wp_liftM n split: sum.splits)
qed

lemma wp_guarded:
  assumes "required_permission e = Some act" and "only_reads w w1"
  shows "wp (handle es env c rq e vid)
     (\<lambda>_ _. caller_may env c rq w act) (\<lambda>_ w'. caller_may env c rq w act \<or> db w' = db w) w1"
proof -
  have step: "wp (bindM (require_permission env c rq ''users'' act) k)
      (\<lambda>_ _. caller_may env c rq w act) (\<lambda>_ w'. caller_may env c rq w act \<or> db w' = db w) w1"
    for k :: "user \<Rightarrow> ('a, response) app"
    unfolding wp_bindM
    by (rule wp_mono [OF wp_require_permission [OF assms(2)]])
      (auto simp: wp_def split: prod.splits sum.splits)
  show ?thesis
    using assms(1) step
    by (cases e) (auto simp: required_permission_def handle_def admin_only_def ban_user_route_def
        unban_user_route_def)
qed

text \<open>
  C16: The administrative endpoints act for permitted callers only. If one of them answers with success
  or changes stored data, then the access token of the request belongs to a live session of an active
  account that holds the permission the router declares (or is a superuser).
\<close>
theorem administration_needs_permission:
  assumes "required_permission e = Some act" and "serve es env c rq e w = (Inr r, w')"
    and "resp_status r < 300 \<or> db w' \<noteq> db w"
  shows "\<exists>token n u w1. access_token c rq = Inr token \<and>
           authenticate env c token (w\<lparr>draws := n\<rparr>) = (Inr u, w1) \<and> has_permission u ''users'' act"
proof -
  have "wp (serve es env c rq e)
      (\<lambda>r w'. resp_status r < 300 \<or> db w' \<noteq> db w \<longrightarrow> caller_may env c rq w act) (\<lambda>_ _. False) w"
    by (rule wp_serve)
      (auto intro: wp_mono [OF wp_guarded [OF assms(1)]]
        simp: csrf_refusal_def plain_response_def only_reads_same)
  from wp_InrD [OF assms(2) this] show ?thesis using assms(3) by (simp add: caller_may_def)
qed

lemma administration_needs_permission_witness:
  "\<exists>token n u w1. access_token default_config (demo_request\<lparr>rq_bearer := Some ''a2''\<rparr>) = Inr token \<and>
     authenticate demo_env default_config token (demo_world\<lparr>draws := n\<rparr>) = (Inr u, w1) \<and>
     has_permission u ''users'' ''manage''"
proof -
  let ?m = "serve Some demo_env default_config (demo_request\<lparr>rq_bearer := Some ''a2''\<rparr>) (PostRole ''mod'' None)"
  have "\<not> isl (fst (?m demo_world)) \<and> resp_status (projr (fst (?m demo_world))) < 300" by code_simp
  then obtain r where r: "?m demo_world = (Inr r, snd (?m demo_world))" and "resp_status r < 300"
    using succeedsE [of "?m" demo_world] by (metis fst_conv sum.sel(2))
  from administration_needs_permission [where act = "''manage''", OF _ r] \<open>resp_status r < 300\<close>
  show ?thesis by (simp add: required_permission_def)
qed

text \<open>
  C17: With cookie authentication no script of the page can read a session token: the token pair is
  never in a response body, and the cookies that carry it are HttpOnly.
\<close>
theorem cookie_mode_hides_tokens:
  assumes "cfg_COOKIE_AUTH_ENABLED c"
    and "cfg_CSRF_COOKIE_NAME c \<notin> {cfg_ACCESS_COOKIE_NAME c, cfg_REFRESH_COOKIE_NAME c}"
    and "serve es env c rq e w = (Inr r, w')"
  shows "(\<forall>s. resp_body r = SessionBody s \<longrightarrow> sn_tokens s = None) \<and>
         (\<forall>ck \<in> set (resp_cookies r).
            ck_name ck \<in> {cfg_ACCESS_COOKIE_NAME c, cfg_REFRESH_COOKIE_NAME c} \<longrightarrow>
            ck_httponly ck \<or> ck_value ck = [])"
proof -
  have "yields (hides_tokens c) (serve es env c rq e)"
    by (rule yields_serve) (simp_all add: yields_handle [OF assms(1,2)] hides_visitor)
  from yieldsD [OF this, of w r w'] show ?thesis
    using assms(3) by (auto simp: hides_tokens_def token_cookie_def)
qed

lemma cookie_mode_hides_tokens_witness:
  "\<exists>r w'. serve Some demo_env default_config demo_request (PostLogin ''ann@x.org'' ''pw'') demo_world = (Inr r, w') \<and>
     resp_cookies r \<noteq> [] \<and>
     (\<forall>ck \<in> set (resp_cookies r). ck_name ck = ''access_token'' \<longrightarrow> ck_httponly ck \<or> ck_value ck = [])"
proof -
  let ?m = "serve Some demo_env default_config demo_request (PostLogin ''ann@x.org'' ''pw'')"
  have "\<not> isl (fst (?m demo_world)) \<and> resp_cookies (projr (fst (?m demo_world))) \<noteq> []" by code_simp
  then obtain r where r: "?m demo_world = (Inr r, snd (?m demo_world))" and "resp_cookies r \<noteq> []"
    using succeedsE [of "?m" demo_world] by (metis fst_conv sum.sel(2))
  from cookie_mode_hides_tokens [OF _ _ r] \<open>resp_cookies r \<noteq> []\<close>
  show ?thesis using r by (auto simp: default_config_def)
qed

end
