(* ===== verification/Session_Spec.thy ===== *)
theory Session_Spec
  imports Http_Security
begin

text \<open>
  What the session table promises, as a machine of its own: names of sessions (the \<^verbatim>\<open>jti\<close>) are
  unknown, live for one account, or closed. A session is opened under a name nobody used before, a set
  of sessions may be closed, and a closed name stays closed. The tables of the service refine this
  machine: every request is a sequence of its steps.
\<close>

section \<open>The abstract machine\<close>

record session_state =
  as_live :: "string \<rightharpoonup> int"
  as_closed :: "string set"

inductive session_event :: "session_state \<Rightarrow> session_state \<Rightarrow> bool" where
  opens: "jti \<notin> dom (as_live s) \<Longrightarrow> jti \<notin> as_closed s \<Longrightarrow>
            session_event s (s\<lparr>as_live := (as_live s)(jti \<mapsto> uid)\<rparr>)"
| closes: "session_event s
             (s\<lparr>as_live := as_live s |` (- J), as_closed := as_closed s \<union> J\<rparr>)"

inductive session_history :: "session_state \<Rightarrow> session_state \<Rightarrow> bool" where
  none: "session_history s s"
| event: "session_history s s' \<Longrightarrow> session_event s' s'' \<Longrightarrow> session_history s s''"

lemma closes_to:
  "s' = s\<lparr>as_live := as_live s |` (- J), as_closed := as_closed s \<union> J\<rparr> \<Longrightarrow> session_event s s'"
  by (simp add: session_event.closes)

inductive_cases session_eventE: "session_event s s'"

text \<open>Live and closed names stay apart, a closed name stays closed, and a live one keeps its account.\<close>

definition apart :: "session_state \<Rightarrow> bool" where
  "apart s \<longleftrightarrow> dom (as_live s) \<inter> as_closed s = {}"

lemma event_apart: "session_event s s' \<Longrightarrow> apart s \<Longrightarrow> apart s'"
  by (erule session_eventE) (auto simp: apart_def restrict_map_def domIff set_eq_iff split: if_splits)

lemma history_apart: "session_history s s' \<Longrightarrow> apart s \<Longrightarrow> apart s'"
  by (induction rule: session_history.induct) (auto intro: event_apart)

lemma event_closed: "session_event s s' \<Longrightarrow> as_closed s \<subseteq> as_closed s'"
  by (erule session_eventE) auto

lemma history_closed: "session_history s s' \<Longrightarrow> as_closed s \<subseteq> as_closed s'"
  by (induction rule: session_history.induct) (use event_closed in blast)+

lemma event_owner:
  "session_event s s' \<Longrightarrow> as_live s jti = Some uid \<Longrightarrow>
     as_live s' jti = Some uid \<or> jti \<in> as_closed s'"
  by (erule session_eventE) (auto simp: restrict_map_def)

lemma history_owner:
  assumes "session_history s s'" and "as_live s jti = Some uid"
  shows "as_live s' jti = Some uid \<or> jti \<in> as_closed s'"
  using assms
proof (induction rule: session_history.induct)
  case (event s s' s'')
  then show ?case using event_owner event_closed by blast
qed simp

section \<open>The table refines it\<close>

definition live_sessions :: "session_row list \<Rightarrow> string \<rightharpoonup> int" where
  "live_sessions rows =
     map_of (map (\<lambda>r. (sr_jti r, sr_user_id r)) (filter (\<lambda>r. sr_revoked_at r = None) rows))"

definition closed_names :: "session_row list \<Rightarrow> string set" where
  "closed_names rows = sr_jti ` {r \<in> set rows. sr_revoked_at r \<noteq> None}"

definition session_view :: "database \<Rightarrow> session_state" where
  "session_view d =
     \<lparr> as_live = live_sessions (tbl_sessions d),
       as_closed = closed_names (tbl_sessions d) \<rparr>"

lemma live_sessions_dom:
  "dom (live_sessions rows) = sr_jti ` {r \<in> set rows. sr_revoked_at r = None}"
  by (auto simp: live_sessions_def dom_map_of_conv_image_fst image_image)

lemma closed_names_snoc:
  "closed_names (rows @ [r]) =
     (if sr_revoked_at r = None then closed_names rows else insert (sr_jti r) (closed_names rows))"
  by (auto simp: closed_names_def)

lemma live_sessions_snoc:
  assumes "sr_jti r \<notin> sr_jti ` set rows"
  shows "live_sessions (rows @ [r]) =
     (if sr_revoked_at r = None then (live_sessions rows)(sr_jti r \<mapsto> sr_user_id r) else live_sessions rows)"
proof -
  have "sr_jti r \<notin> dom (live_sessions rows)" using assms by (auto simp: live_sessions_dom)
  then show ?thesis
    by (auto simp: live_sessions_def map_add_def split: option.splits)
qed

lemma live_sessions_spend:
  assumes "uniq sr_jti rows"
  shows "live_sessions (spend_rows sr_revoked_at stamp_session P m rows) =
     live_sessions rows |` (- (sr_jti ` {r \<in> set rows. P r \<and> sr_revoked_at r = None}))"
  using assms
proof (induction rows)
  case Nil
  show ?case by (simp add: live_sessions_def spend_rows_def)
next
  case (Cons r rows)
  have u: "uniq sr_jti rows" "\<forall>x \<in> set rows. sr_jti x \<noteq> sr_jti r"
    using Cons.prems by (auto simp: uniq_def) (metis imageI)
  have cons: "live_sessions (x # xs) =
      (if sr_revoked_at x = None then (live_sessions xs)(sr_jti x \<mapsto> sr_user_id x) else live_sessions xs)" for x xs
    by (simp add: live_sessions_def)
  let ?J = "\<lambda>rows. sr_jti ` {r \<in> set rows. P r \<and> sr_revoked_at r = None}"
  have spend: "spend_rows sr_revoked_at stamp_session P m (r # rows) =
      (if P r \<and> sr_revoked_at r = None then stamp_session m r else r) #
      spend_rows sr_revoked_at stamp_session P m rows"
    by (simp add: spend_rows_def)
  have "sr_jti r \<notin> dom (live_sessions rows)" using u(2) by (auto simp: live_sessions_dom)
  then have fresh: "live_sessions rows (sr_jti r) = None" "sr_jti r \<notin> ?J rows"
    using u(2) by (auto simp: domIff)
  show ?case
  proof (cases "P r \<and> sr_revoked_at r = None")
    case True
    then have "?J (r # rows) = insert (sr_jti r) (?J rows)" by auto
    then show ?thesis
      using True Cons.IH [OF u(1)] fresh
      by (simp add: spend cons session_rows.stamped_stamp restrict_map_def fun_eq_iff)
  next
    case False
    then have "?J (r # rows) = ?J rows" by auto
    then show ?thesis
      using False Cons.IH [OF u(1)] fresh
      by (auto simp: spend cons restrict_map_def fun_eq_iff)
  qed
qed

lemma closed_names_spend:
  "closed_names (spend_rows sr_revoked_at stamp_session P m rows) =
     closed_names rows \<union> sr_jti ` {r \<in> set rows. P r \<and> sr_revoked_at r = None}"
proof (induction rows)
  case Nil
  show ?case by (simp add: closed_names_def spend_rows_def)
next
  case (Cons r rows)
  have cons: "closed_names (x # xs) =
      (if sr_revoked_at x = None then closed_names xs else insert (sr_jti x) (closed_names xs))" for x xs
    by (auto simp: closed_names_def)
  have spend: "spend_rows sr_revoked_at stamp_session P m (r # rows) =
      (if P r \<and> sr_revoked_at r = None then stamp_session m r else r) #
      spend_rows sr_revoked_at stamp_session P m rows"
    by (simp add: spend_rows_def)
  show ?case using Cons.IH by (auto simp: spend cons session_rows.stamped_stamp)
qed

lemma spend_closes:
  assumes "uniq sr_jti (tbl_sessions d)"
    and "tbl_sessions d' = spend_rows sr_revoked_at stamp_session P m (tbl_sessions d)"
  shows "session_event (session_view d) (session_view d')"
proof -
  let ?J = "sr_jti ` {r \<in> set (tbl_sessions d). P r \<and> sr_revoked_at r = None}"
  have "session_view d' = (session_view d)\<lparr>as_live := as_live (session_view d) |` (- ?J),
      as_closed := as_closed (session_view d) \<union> ?J\<rparr>"
    by (simp add: session_view_def assms(2) live_sessions_spend [OF assms(1)] closed_names_spend)
  then show ?thesis by (rule closes_to)
qed

lemma add_session_event:
  assumes "db_add_session s d = Inr (x, d')"
  shows "session_event (session_view d) (session_view d')"
proof -
  obtain r where d': "tbl_sessions d' = tbl_sessions d @ [r]" and "\<forall>x \<in> set (tbl_sessions d). sr_jti x \<noteq> sr_jti r"
    using assms by (auto simp: db_add_session_def insert_session_def Let_def list_ex_iff
        split: sum.splits if_splits)
  then have new: "sr_jti r \<notin> sr_jti ` set (tbl_sessions d)" by auto
  have unknown: "sr_jti r \<notin> dom (as_live (session_view d))" "sr_jti r \<notin> as_closed (session_view d)"
    using new by (auto simp: session_view_def live_sessions_dom closed_names_def)
  show ?thesis
  proof (cases "sr_revoked_at r")
    case None
    then have "session_view d' = (session_view d)
        \<lparr>as_live := (as_live (session_view d))(sr_jti r \<mapsto> sr_user_id r)\<rparr>"
      by (simp add: session_view_def d' live_sessions_snoc [OF new] closed_names_snoc)
    then show ?thesis using session_event.opens [OF unknown] by simp
  next
    case (Some t)
    then have "session_view d' = (session_view d)\<lparr>as_live := as_live (session_view d) |` (- {sr_jti r}),
        as_closed := as_closed (session_view d) \<union> {sr_jti r}\<rparr>"
      using unknown(1) by (auto simp: session_view_def d' live_sessions_snoc [OF new] closed_names_snoc
          restrict_map_def fun_eq_iff)
    then show ?thesis by (rule closes_to)
  qed
qed

lemma same_sessions_view: "tbl_sessions d' = tbl_sessions d \<Longrightarrow> session_view d' = session_view d"
  by (simp add: session_view_def)

lemma stmt_refines:
  assumes "db_stmt k d d'" and "uniq sr_jti (tbl_sessions d)"
  shows "session_view d' = session_view d \<or> session_event (session_view d) (session_view d')"
  using assms(1)
proof cases
  case (add_user now u x)
  then show ?thesis by (auto dest!: db_add_user_shape intro!: same_sessions_view)
next
  case (update_user now u x)
  then show ?thesis by (auto dest!: db_update_user_shape update_user_shape intro!: same_sessions_view)
next
  case (update_password now u y)
  then show ?thesis by (auto dest!: db_update_password_shape update_user_shape intro!: same_sessions_view)
next
  case (add_session s s')
  then show ?thesis using add_session_event by blast
next
  case (add_token t t')
  then show ?thesis by (auto dest!: db_add_token_shape intro!: same_sessions_view)
next
  case (add_audit e e')
  then show ?thesis by (auto dest!: db_add_audit_shape intro!: same_sessions_view)
next
  case (revoke_session jti m y)
  then show ?thesis using spend_closes [OF assms(2)] by (auto simp: db_revoke_def)
next
  case (revoke_all uid m except n)
  then show ?thesis using spend_closes [OF assms(2)] by (auto simp: db_revoke_all_def)
qed (auto simp: db_assign_role_def db_revoke_role_def db_add_role_def db_grant_permission_def
      db_revoke_permission_def db_add_permission_def db_mark_used_def db_invalidate_def
      delete_role_row_def delete_permission_row_def insert_user_role_def insert_role_permission_def
      insert_role_def insert_permission_def Let_def
      split: if_splits sum.splits intro!: same_sessions_view)

lemma wf_uniq_jti: "wf_db d \<Longrightarrow> uniq sr_jti (tbl_sessions d)"
  by (simp add: wf_db_def wf_sessions_def)

lemma history_db_closed:
  "db_closed K (\<lambda>d. wf_db d \<and> session_history (session_view d0) (session_view d))"
  unfolding db_closed_def
proof (intro ballI allI impI)
  fix k d d'
  assume d: "wf_db d \<and> session_history (session_view d0) (session_view d)" and st: "db_stmt k d d'"
  have "wf_db d'" using db_closedD [OF wf_db_closed UNIV_I] d st by blast
  moreover have "session_history (session_view d0) (session_view d')"
    using stmt_refines [OF st wf_uniq_jti] d session_history.event by metis
  ultimately show "wf_db d' \<and> session_history (session_view d0) (session_view d')" ..
qed

lemma run_refines:
  assumes "service_run env c w w'" and "session w = None" and "wf_db (db w)"
  shows "session_history (session_view (db w)) (session_view (db w'))"
  using service_run_keeps [OF assms(1) history_db_closed, of "db w"] assms(2,3)
  by (simp add: at_rest_iff session_history.none)

section \<open>The property\<close>

text \<open>
  C25: The session table refines the abstract session machine. Whatever requests arrive, what they do
  to the sessions is a sequence of openings under unused names and of closings; so a name closed once
  is never live again, and a live name never changes hands.
\<close>
theorem sessions_refine_machine:
  assumes "session w = None" and "wf_db (db w)" and "w' = serve_all es env c rqs w"
  shows "session_history (session_view (db w)) (session_view (db w')) \<and>
         as_closed (session_view (db w)) \<inter> dom (as_live (session_view (db w'))) = {} \<and>
         (\<forall>jti uid uid'. as_live (session_view (db w)) jti = Some uid \<and>
            as_live (session_view (db w')) jti = Some uid' \<longrightarrow> uid' = uid)"
proof -
  have h: "session_history (session_view (db w)) (session_view (db w'))"
    using run_refines [OF serve_all_run] assms by metis
  have "apart (session_view (db w))"
    using wf_uniq_jti [OF assms(2)]
    by (auto simp: apart_def session_view_def live_sessions_dom closed_names_def) (metis uniq_inj option.distinct(1))
  then have a: "apart (session_view (db w'))" by (rule history_apart [OF h])
  have "as_closed (session_view (db w)) \<inter> dom (as_live (session_view (db w'))) = {}"
    using a history_closed [OF h] by (auto simp: apart_def)
  moreover have "uid' = uid" if "as_live (session_view (db w)) jti = Some uid"
    "as_live (session_view (db w')) jti = Some uid'" for jti uid uid'
    using history_owner [OF h that(1)] that(2) a by (auto simp: apart_def)
  ultimately show ?thesis using h by blast
qed

lemma sessions_refine_machine_witness:
  "session_history (session_view (db demo_world)) (session_view (db (serve_all Some demo_env default_config
     [(demo_request, PostLogin ''ann@x.org'' ''pw''), (demo_request, PostRefresh (Some ''r1''))] demo_world)))"
  using sessions_refine_machine [OF _ _ refl, of demo_world] demo_db_wf by (simp del: serve_all.simps)

end
