(* ===== verification/Token_Use.thy ===== *)
theory Token_Use
  imports Http_Security Login_Security
begin

text \<open>
  What a bearer token is good for: the pair a login hands out works until it expires or its session
  ends, and neither token is accepted in the place of the other.
\<close>

section \<open>Times of tokens\<close>

text \<open>A JWT carries whole seconds; cutting the fraction off does not leave the calendar.\<close>

lemma calendar_seconds:
  assumes "in_calendar (Aware t)"
  shows "in_calendar (Aware (seconds (whole_seconds t)))"
proof (cases "t < 0")
  case True
  then have "t \<le> seconds (whole_seconds t)" "seconds (whole_seconds t) \<le> 0"
    using mult_div_mod_eq [of 1000000 "- t"] pos_mod_sign [of 1000000 "- t"]
    by (auto simp: seconds_def whole_seconds_def)
  then have "t div 86400000000 \<le> seconds (whole_seconds t) div 86400000000"
    "seconds (whole_seconds t) div 86400000000 \<le> 0"
    using zdiv_mono1 [of _ _ 86400000000] by fastforce+
  then show ?thesis using assms by (simp add: in_calendar_def)
next
  case False
  then have "0 \<le> seconds (whole_seconds t)" "seconds (whole_seconds t) \<le> t"
    using mult_div_mod_eq [of 1000000 t] pos_mod_sign [of 1000000 t]
    by (auto simp: seconds_def whole_seconds_def)
  then have "0 \<le> seconds (whole_seconds t) div 86400000000"
    "seconds (whole_seconds t) div 86400000000 \<le> t div 86400000000"
    using zdiv_mono1 [of _ _ 86400000000] by fastforce+
  then show ?thesis using assms by (simp add: in_calendar_def)
qed

section \<open>A token of a live session is accepted\<close>

lemma live_token_accepted:
  assumes "\<not> redis_backend c" and "wf_db (db w)"
    and "decode_at env c (env_utcnow env (draws w)) token = Inr p" and "tp_token_type p = ''access''"
    and "r \<in> set (tbl_sessions (db w))" and "sr_jti r = tp_jti p" and "sr_revoked_at r = None"
    and "env_utcnow env (Suc (draws w)) < as_utc (sr_expires_at r)"
    and "db_user_by_id (tp_user_id p) (db w) = Some u" and "user_is_active u"
  shows "\<exists>w'. authenticate env c token w = (Inr u, w') \<and> db w' = db w"
proof -
  have "db_session_by_jti (tp_jti p) (db w) = Inr (Some (session_to_entity r))"
    using find_key [OF wf_uniqs(8) [OF assms(2)] assms(5)] assms(2,5,6)
    by (simp add: db_session_by_jti_wf wf_uniqs)
  then have "wp (authenticate env c token) (\<lambda>x w'. x = u \<and> db w' = db w) (\<lambda>_ _. False) w"
    using assms(1,3,4,7-10)
    by (simp add: authenticate_def decode_token_def wp_rules sessions_get_by_jti_def session_live_now_def
        load_user_def cache_get_def cache_set_def null_get_def null_set_def users_get_by_id_def
        session_is_valid_def session_is_revoked_def session_not_expired_def)
  then show ?thesis by (auto simp: wp_def split: prod.splits sum.splits)
qed

section \<open>The fresh session after any requests\<close>

text \<open>What a login left in the tables is found there later, up to a revocation.\<close>

lemma login_row_later:
  assumes "login env c data device w = (Inr result, w1)" and "wf_db (db w)" and "session w = None"
    and "service_run env c w1 w2"
  obtains n r where "r \<in> set (tbl_sessions (db w2))"
    and "sr_jti r = env_uuid4_hex env n" and "sr_user_id r = user_id (ar_user result)"
    and "sr_expires_at r = at_refresh_expires_at (ar_tokens result)"
    and "ar_tokens result = ar_tokens (auth_result_of (login_access_token env c (ar_user result) n)
           (login_refresh_token env c (ar_user result) n) (ar_user result))"
    and "wf_db (db w2)"
proof -
  obtain u n where result: "result = auth_result_of (login_access_token env c u n) (login_refresh_token env c u n) u"
    and commits: "login_commits env c (device_or_default device) u n (db w) (db w1)"
    using login_success_chain [OF assms(1)] by blast
  have "\<exists>r1 \<in> set (tbl_sessions (db w1)). sr_jti r1 = env_uuid4_hex env n \<and> sr_user_id r1 = user_id u \<and>
      sr_expires_at r1 = it_expires_at (login_refresh_token env c u n)"
    using commits
    by (auto simp: login_commits_def new_session_row_def login_session_def audited_def
        dest!: db_add_session_shape db_add_audit_audited)
  then obtain r1 where r1: "r1 \<in> set (tbl_sessions (db w1))" "sr_jti r1 = env_uuid4_hex env n"
    "sr_user_id r1 = user_id u" "sr_expires_at r1 = it_expires_at (login_refresh_token env c u n)"
    by blast
  have step: "service_step env c w w1" using service_step.login [of env c w data device] assms(1) by simp
  note w1 = step_at_rest [OF step assms(3,2)]
  note w2 = run_evolves_ok [OF assms(4) w1(1,2)]
  obtain r where r: "r \<in> set (tbl_sessions (db w2))" "session_rows.ages r1 r"
    using session_rows.later_member [OF _ r1(1)] w2(1) by (auto simp: db_evolves_def)
  have same: "r\<lparr>sr_revoked_at := None\<rparr> = r1\<lparr>sr_revoked_at := None\<rparr>"
    using r(2) by (simp add: session_rows.ages_def)
  have fields: "sr_jti r = sr_jti r1" "sr_user_id r = sr_user_id r1" "sr_expires_at r = sr_expires_at r1"
    using arg_cong [OF same, of sr_jti] arg_cong [OF same, of sr_user_id]
      arg_cong [OF same, of sr_expires_at] by simp_all
  have "sr_jti r = env_uuid4_hex env n" "sr_user_id r = user_id (ar_user result)"
    "sr_expires_at r = at_refresh_expires_at (ar_tokens result)"
    using fields r1 by (simp_all add: result auth_result_of_def)
  moreover have "ar_tokens result = ar_tokens (auth_result_of (login_access_token env c (ar_user result) n)
      (login_refresh_token env c (ar_user result) n) (ar_user result))"
    by (simp add: result auth_result_of_def)
  ultimately show thesis using that [OF r(1)] w2(2) by blast
qed


section \<open>Token types\<close>

lemma issued_type:
  assumes "jwt_behaves env"
    and "decode_at env c later (it_token (issue_at env c now uid jti kind mins)) = Inr p"
  shows "tp_token_type p = kind"
proof -
  have "payload_of_claims (token_claims uid jti kind (now + minutes mins)) = Some p"
    using assms claims_exp [of uid jti kind "now + minutes mins"]
    by (auto simp: decode_at_def issue_at_def Let_def jwt_behaves_def some_or_def
        split: if_splits option.splits)
  then show ?thesis
    by (auto simp: payload_of_claims_def token_claims_def split: option.splits)
qed

text \<open>
  The two tokens of a pair are not interchangeable. Whenever it is presented, an access token is
  refused where a refresh token is needed, and the other way round, and nothing is committed.
\<close>
theorem token_types_kept_apart:
  assumes "jwt_behaves env"
  shows "(\<exists>m w'. authenticate env c (it_token (issue_at env c now uid jti ''refresh'' mins)) w =
            (Inl (AuthenticationError m), w') \<and> db w' = db w) \<and>
         (\<exists>m w'. refresh env c (it_token (issue_at env c now uid jti ''access'' mins)) device w =
            (Inl (AuthenticationError m), w') \<and> db w' = db w)"
proof -
  let ?a = "it_token (issue_at env c now uid jti ''refresh'' mins)"
  let ?r = "it_token (issue_at env c now uid jti ''access'' mins)"
  have "wp (authenticate env c ?a) (\<lambda>_ _. False)
      (\<lambda>e w'. (\<exists>m. e = AuthenticationError m) \<and> db w' = db w) w"
    using decode_at_error [of env c "env_utcnow env (draws w)" ?a]
      issued_type [OF assms, of c "env_utcnow env (draws w)" now uid jti "''refresh''" mins]
    by (auto simp: authenticate_def decode_token_def wp_rules split: sum.splits)
  moreover have "wp (refresh env c ?r device) (\<lambda>_ _. False)
      (\<lambda>e w'. (\<exists>m. e = AuthenticationError m) \<and> db w' = db w) w"
    using decode_at_error [of env c "env_utcnow env (draws w)" ?r]
      issued_type [OF assms, of c "env_utcnow env (draws w)" now uid jti "''access''" mins]
    by (auto simp: refresh_def decode_token_def wp_rules split: sum.splits)
  ultimately show ?thesis
    by (auto simp: wp_def split: prod.splits sum.splits)
qed

section \<open>A signing environment\<close>

text \<open>Tokens that carry their claims, secret and algorithm in the open, for the witnesses.\<close>

fun wrap :: "string \<Rightarrow> string" where
  "wrap [] = ''.''"
| "wrap (c # cs) = CHR ''x'' # c # wrap cs"

fun unwrap :: "string \<Rightarrow> string \<times> string" where
  "unwrap (a # c # cs) =
     (if a = CHR ''x'' then (c # fst (unwrap cs), snd (unwrap cs)) else ([], c # cs))"
| "unwrap _ = ([], [])"

fun claim_text :: "string \<times> claim_value \<Rightarrow> string" where
  "claim_text (k, CStr s) = wrap k @ CHR ''s'' # wrap s"
| "claim_text (k, CInt i) = wrap k @ CHR ''i'' # wrap (str_of_int i)"

fun read_claims :: "nat \<Rightarrow> string \<Rightarrow> claims" where
  "read_claims 0 s = []"
| "read_claims (Suc n) s =
     (case unwrap s of
        (k, t # rest) \<Rightarrow>
          (let (v, rest') = unwrap rest
           in (k, if t = CHR ''s'' then CStr v else CInt (the (int_of_str v))) # read_claims n rest')
      | _ \<Rightarrow> [])"

definition sign :: "claims \<Rightarrow> string \<Rightarrow> string \<Rightarrow> string" where
  "sign claims secret alg = wrap secret @ wrap alg @ concat (map claim_text claims)"

definition check_signature :: "string \<Rightarrow> string \<Rightarrow> string \<Rightarrow> int \<Rightarrow> jwt_error + claims" where
  "check_signature token secret alg now =
     (let (s, rest) = unwrap token; (a, body) = unwrap rest; claims = read_claims (length body) body
      in if s \<noteq> secret \<or> a \<noteq> alg then Inl InvalidJwtError
         else
           (case map_of claims ''exp'' of
              Some (CInt e) \<Rightarrow> if seconds e \<le> now then Inl ExpiredSignatureError else Inr claims
            | _ \<Rightarrow> Inl InvalidJwtError))"

definition signing_env :: "redis_view env" where
  "signing_env = demo_env\<lparr>env_jwt_encode := sign, env_jwt_decode := check_signature\<rparr>"

text \<open>Concrete evaluation leaves signatures alone.\<close>

declare sign_def [code del]

lemma unwrap_wrap [simp]: "unwrap (wrap s @ rest) = (s, rest)"
proof (induction s)
  case Nil
  show ?case by (cases rest) simp_all
qed simp

lemma read_claim_texts: "length claims \<le> n \<Longrightarrow> read_claims n (concat (map claim_text claims)) = claims"
proof (induction n arbitrary: claims)
  case (Suc n)
  show ?case
  proof (cases claims)
    case (Cons kv rest)
    obtain k v where "kv = (k, v)" by (cases kv)
    with Cons Suc show ?thesis by (cases v) simp_all
  qed simp
qed simp

lemma claim_text_length: "length claims \<le> length (concat (map claim_text claims))"
proof (induction claims)
  case (Cons kv claims)
  obtain k v where "kv = (k, v)" by (cases kv)
  with Cons show ?case by (cases v) simp_all
qed simp

lemma signing_behaves: "jwt_behaves signing_env"
  by (simp add: jwt_behaves_def signing_env_def sign_def check_signature_def
      read_claim_texts [OF claim_text_length])

lemma token_types_kept_apart_witness:
  "\<exists>m w'. authenticate signing_env default_config
     (it_token (issue_at signing_env default_config 0 1 ''j1'' ''refresh'' 60)) demo_world =
     (Inl (AuthenticationError m), w') \<and> db w' = db demo_world"
  using token_types_kept_apart [OF signing_behaves] by blast


end
