(* ===== verification/Limiter_Agreement.thy ===== *)
theory Limiter_Agreement
  imports Login_Security
begin

text \<open>
  The two adapters of the rate limiter port are interchangeable, and a lockout ends by itself.
\<close>

section \<open>A sequence of calls\<close>

datatype limiter_call =
    Hit int string int int
  | Peek int string int
  | Reset int string

text \<open>The answer a caller acts on: whether the attempt is allowed, and how many are left.\<close>

definition verdict :: "rate_limit_decision \<Rightarrow> bool \<times> int" where
  "verdict d = (rld_allowed d, rld_remaining d)"

fun in_memory_answers :: "limiter_call list \<Rightarrow> counter_map \<Rightarrow> (exn + bool \<times> int) list" where
  "in_memory_answers [] cs = []"
| "in_memory_answers (Hit t key limit span # calls) cs =
     (let (d, cs') = in_memory_hit_at t key limit span cs
      in Inr (verdict d) # in_memory_answers calls cs')"
| "in_memory_answers (Peek t key limit # calls) cs =
     Inr (verdict (in_memory_peek_at t key limit cs)) # in_memory_answers calls cs"
| "in_memory_answers (Reset t key # calls) cs = in_memory_answers calls (in_memory_reset_in key cs)"

fun redis_answers :: "'r env \<Rightarrow> limiter_call list \<Rightarrow> 'r \<Rightarrow> (exn + bool \<times> int) list" where
  "redis_answers env [] r = []"
| "redis_answers env (Hit t key limit span # calls) r =
     (let (d, r') = redis_hit_at env t t key limit span r
      in Inr (verdict d) # redis_answers env calls r')"
| "redis_answers env (Peek t key limit # calls) r =
     (case redis_peek_at env t key limit r of Inl e \<Rightarrow> Inl e | Inr d \<Rightarrow> Inr (verdict d)) #
     redis_answers env calls r"
| "redis_answers env (Reset t key # calls) r = redis_answers env calls (env_redis_delete env t key r)"

text \<open>The calls the use cases make: on the limiter's own keys, with a positive window.\<close>

fun proper_call :: "limiter_call \<Rightarrow> bool" where
  "proper_call (Hit t key limit span) \<longleftrightarrow> limiter_key key \<and> 0 \<le> t \<and> 0 < span"
| "proper_call (Peek t key limit) \<longleftrightarrow> limiter_key key \<and> 0 \<le> t"
| "proper_call (Reset t key) \<longleftrightarrow> limiter_key key"

section \<open>Simulation\<close>

text \<open>The windows of both adapters agree on the limiter's keys.\<close>

definition agree :: "('r \<Rightarrow> redis_view) \<Rightarrow> counter_map \<Rightarrow> 'r \<Rightarrow> bool" where
  "agree view cs r \<longleftrightarrow>
     redis_good view r \<and> (\<forall>key. limiter_key key \<longrightarrow> redis_window view r key = counter_of cs key)"

text \<open>What is left after an attempt is the room in the window it was charged to.\<close>

lemma in_memory_verdict:
  "verdict (fst (in_memory_hit_at t key limit span cs)) =
     (let n = fst (counter_of (snd (in_memory_hit_at t key limit span cs)) key) in (n \<le> limit, max (limit - n) 0))"
  by (simp add: in_memory_window verdict_def)
    (simp add: in_memory_hit_at_def in_memory_decide_def Let_def split_beta)

context redis_server begin

lemma agree_hit:
  assumes "agree view cs r" and "limiter_key key" "0 \<le> t" "0 < span"
  shows "agree view (snd (in_memory_hit_at t key limit span cs)) (snd (redis_hit_at env t t key limit span r))"
proof -
  have good: "redis_good view r" and same: "\<And>k. limiter_key k \<Longrightarrow> redis_window view r k = counter_of cs k"
    using assms(1) by (auto simp: agree_def)
  have "redis_window view (snd (redis_hit_at env t t key limit span r)) k =
      counter_of (snd (in_memory_hit_at t key limit span cs)) k" if "limiter_key k" for k
    using hit_window [OF good assms(2-4), of limit] same [OF assms(2)] same [OF that]
      hit_other [OF good assms(2-4) that, of limit]
    by (cases "k = key") (simp_all add: in_memory_window)
  then show ?thesis using hit_good [OF good assms(2-4)] by (simp add: agree_def)
qed

lemma redis_verdict:
  assumes good: "redis_good view r" and own: "limiter_key key" "0 \<le> t" "0 < span"
  shows "verdict (fst (redis_hit_at env t t key limit span r)) =
     (let n = fst (redis_window view (snd (redis_hit_at env t t key limit span r)) key) in (n \<le> limit, max (limit - n) 0))"
proof -
  have after: "redis_window view (snd (redis_hit_at env t t key limit span r)) key =
      (if snd (redis_window view r key) \<le> t then (1, t + seconds span)
       else (fst (redis_window view r key) + 1, snd (redis_window view r key)))"
    using hit_window [OF good own, of limit] by simp
  have count: "fst (env_redis_incr env t key r) =
      fst (redis_window view (snd (redis_hit_at env t t key limit span r)) key)"
    using good own(1)
  proof (cases rule: redis_good_cases)
    case missing
    then show ?thesis
      unfolding after using redis_behavesD(4) [OF behaves, of t r key] own by (simp add: redis_window_def live_def)
  next
    case (counter n u)
    then show ?thesis
      unfolding after
      using redis_behavesD(4) [OF behaves, of t r key] redis_behavesD(6) [OF behaves, of t r key n "Some u"]
      by (simp add: redis_window_def live_def split: if_splits)
  qed
  show ?thesis
    unfolding count [symmetric]
    by (simp add: verdict_def redis_hit_at_def redis_decide_def Let_def split_beta)
qed

lemma redis_peek_verdict:
  assumes ag: "agree view cs r" and own: "limiter_key key" and "0 \<le> t"
  shows "\<exists>d. redis_peek_at env t key limit r = Inr d \<and> verdict d = verdict (in_memory_peek_at t key limit cs)"
proof -
  have good: "redis_good view r" and same: "redis_window view r key = counter_of cs key"
    using ag own by (auto simp: agree_def)
  show ?thesis
    using good own
  proof (cases rule: redis_good_cases)
    case missing
    then have "counter_of cs key = (0, 0)" using same by (simp add: redis_window_def)
    with missing show ?thesis
      using assms(3)
      by (auto simp: redis_peek_at_def redis_behavesD(1) [OF behaves] live_def redis_window_def
          in_memory_peek_at_def in_memory_decide_def redis_decide_def verdict_def Let_def split_beta)
  next
    case (counter n u)
    then have "counter_of cs key = (n, u)" using same by (simp add: redis_window_def)
    with counter show ?thesis
      by (auto simp: redis_peek_at_def redis_behavesD(1) [OF behaves] live_def
          in_memory_peek_at_def in_memory_decide_def redis_decide_def verdict_def Let_def)
  qed
qed

lemma agree_reset:
  assumes "agree view cs r"
  shows "agree view (in_memory_reset_in key cs) (env_redis_delete env t key r)"
  using assms
  by (auto simp: agree_def redis_good_def redis_window_def redis_behavesD(3) [OF behaves]
      in_memory_reset_in_def counter_of_def)

lemma answers_agree:
  assumes "agree view cs r" and "\<forall>call \<in> set calls. proper_call call"
  shows "redis_answers env calls r = in_memory_answers calls cs"
  using assms
proof (induction calls arbitrary: cs r)
  case (Cons call calls)
  show ?case
  proof (cases call)
    case (Hit t key limit span)
    with Cons.prems have own: "limiter_key key" "0 \<le> t" "0 < span" by simp_all
    note next_agree = agree_hit [OF Cons.prems(1) own, of limit]
    have "verdict (fst (redis_hit_at env t t key limit span r)) =
        verdict (fst (in_memory_hit_at t key limit span cs))"
      using redis_verdict [OF _ own, of r limit] next_agree Cons.prems(1) own(1)
      by (simp add: in_memory_verdict agree_def)
    then show ?thesis
      using Cons.IH [OF next_agree] Cons.prems(2) Hit by (simp add: Let_def split_beta)
  next
    case (Peek t key limit)
    with Cons.prems have "limiter_key key" "0 \<le> t" by simp_all
    then obtain d where "redis_peek_at env t key limit r = Inr d"
      "verdict d = verdict (in_memory_peek_at t key limit cs)"
      using redis_peek_verdict [OF Cons.prems(1)] by blast
    then show ?thesis using Cons.IH [OF Cons.prems(1)] Cons.prems(2) Peek by simp
  next
    case (Reset t key)
    then show ?thesis
      using Cons.IH [OF agree_reset [OF Cons.prems(1)]] Cons.prems(2) by simp
  qed
qed simp

end

text \<open>
  C29: The limiter does not depend on its adapter. On any sequence of attempts, readings and resets,
  with any times, the Redis counters allow exactly what the in-process counters allow and report the
  same number of remaining attempts; Redis never fails to read its own counter.
\<close>
theorem limiters_agree:
  assumes "redis_behaves env view" and "\<forall>key. limiter_key key \<longrightarrow> view r key = None"
    and "\<forall>call \<in> set calls. proper_call call"
  shows "redis_answers env calls r = in_memory_answers calls Map.empty"
proof -
  have "agree view Map.empty r"
    using assms(2) by (auto simp: agree_def redis_good_def redis_window_def counter_of_def)
  from redis_server.answers_agree [OF redis_server.intro [OF assms(1)] this assms(3)] show ?thesis .
qed

lemma limiters_agree_witness:
  "redis_answers demo_env
     [Hit 0 ''login:user:a'' 2 60, Hit 5 ''login:user:a'' 2 60, Peek 9 ''login:user:a'' 2,
      Hit 9 ''login:user:b'' 2 60, Reset 10 ''login:user:a'', Peek 11 ''login:user:a'' 2] (\<lambda>_. None) =
   [Inr (True, 1), Inr (True, 0), Inr (False, 0), Inr (True, 1), Inr (True, 2)]"
proof -
  have beh: "redis_behaves demo_env id" unfolding demo_env_def by (rule redis_model_behaves)
  let ?calls = "[Hit 0 ''login:user:a'' 2 60, Hit 5 ''login:user:a'' 2 60, Peek 9 ''login:user:a'' 2,
      Hit 9 ''login:user:b'' 2 60, Reset 10 ''login:user:a'', Peek 11 ''login:user:a'' 2]"
  have "list_all proper_call ?calls" by code_simp
  then have "redis_answers demo_env ?calls (\<lambda>_. None) = in_memory_answers ?calls Map.empty"
    by (intro limiters_agree [OF beh]) (simp_all add: list_all_iff del: proper_call.simps)
  also have "\<dots> = [Inr (True, 1), Inr (True, 0), Inr (False, 0), Inr (True, 1), Inr (True, 2)]" by code_simp
  finally show ?thesis .
qed

section \<open>A lockout ends\<close>

lemma expired_guards_pass:
  assumes "\<not> redis_backend c"
    and "\<forall>n \<ge> draws w. snd (counter_of (counters w) (account_key email)) \<le> env_monotonic env n"
    and "\<forall>ip. dev_ip_address device = Some ip \<longrightarrow>
           (\<forall>n \<ge> draws w. snd (counter_of (counters w) (login_ip_key ip)) \<le> env_monotonic env n)"
  shows "\<exists>w1. login_guards env c email device w = (Inr (), w1) \<and> db w1 = db w"
proof -
  have "wp (login_guards env c email device) (\<lambda>_ w1. db w1 = db w) (\<lambda>_ _. False) w"
    using assms
    by (auto simp: login_guards_def login_guard_ip_def login_guard_account_def limiter_peek_def wp_rules
        in_memory_peek_at_def in_memory_decide_def is_enforced_def Let_def split_beta split: option.splits)
  then show ?thesis by (auto simp: wp_def split: prod.splits sum.splits)
qed

lemma login_accept_completes:
  assumes "session w = Some d" and "user_id u \<in> user_ids d" and "device_fits device"
    and "fits_opt 36 (dev_visitor_id device)" "fits_opt 100 (dev_device device)"
    and "\<forall>n. length (env_uuid4_hex env n) \<le> 64 \<and> env_uuid4_hex env n \<notin> sr_jti ` set (tbl_sessions d)"
  shows "wp (login_accept env c device u) (\<lambda>x w'. ar_user x = u) (\<lambda>_ _. False) w"
proof -
  let ?s = "login_session u (env_uuid4_hex env (draws w)) (env_utcnow env (Suc (Suc (Suc (draws w)))))
      (login_refresh_token env c u (draws w)) device"
  have fresh: "\<forall>x \<in> set (tbl_sessions d). sr_jti x \<noteq> env_uuid4_hex env (draws w)"
    "length (env_uuid4_hex env (draws w)) \<le> 64"
    using assms(6) by (auto simp: image_iff) metis
  have "\<exists>x d'. db_add_session ?s d = Inr (x, d')"
    using assms(2-5) fresh
    by (simp add: db_add_session_def insert_session_def new_session_row_def login_session_def
        session_row_fits_def fits_def device_fits_def has_iffs list_ex_iff Let_def)
  then obtain x d' where add: "db_add_session ?s d = Inr (x, d')" by blast
  then have ids: "user_ids d' = user_ids d"
    by (auto dest!: db_add_session_shape simp: user_ids_def)
  let ?e = "login_event device u (env_utcnow env (Suc (Suc (Suc (Suc (draws w))))))"
  have "\<exists>y. db_add_audit ?e d' = Inr (y, audited ?e d')"
    by (rule db_add_audit_total) (use assms(2,3) ids in \<open>auto simp: login_event_def device_fits_def\<close>)
  then show ?thesis
    using add assms(1)
    by (auto simp: login_accept_def issue_access_def issue_refresh_def step_rules auth_result_of_def
        login_refresh_token_def login_event_def device_or_default_def split: sum.splits)
qed


definition fresh_env :: "redis_view env" where
  "fresh_env = demo_env\<lparr>env_uuid4_hex := (\<lambda>n. ''fresh'')\<rparr>"


end
