(* ===== verification/Account_Security.thy ===== *)
theory Account_Security
  imports Login_Security Routers
begin

text \<open>
  The properties of accounts and their administration: registration, a new email address, a forgotten
  password, a single revoked session, and what administrators are refused.
\<close>

section \<open>Steps of the transactions\<close>

text \<open>
  Rules for the parts of a transaction that say what they leave in the session's database, whatever
  readings they take.
\<close>

lemma wp_verification_issue:
  assumes "session w = Some d"
    and step: "\<And>s w' d' t st toks. db_add_token t (d\<lparr>tbl_tokens := toks\<rparr>) = Inr (st, d') \<Longrightarrow>
      none_unused uid EMAIL_VERIFICATION (d\<lparr>tbl_tokens := toks\<rparr>) \<Longrightarrow>
      tok_user_id t = uid \<Longrightarrow> tok_purpose t = EMAIL_VERIFICATION \<Longrightarrow>
      session w' = Some d' \<Longrightarrow> db w' = db w \<Longrightarrow> outbox w' = outbox w \<Longrightarrow> Q s w'"
  shows "wp (verification_issue env c uid) Q (\<lambda>_ _. True) w"
proof -
  have none: "none_unused uid EMAIL_VERIFICATION (d\<lparr>tbl_tokens := spend_rows tr_used_at stamp_token
      (\<lambda>r. tr_user_id r = uid \<and> tr_purpose r = token_purpose_value EMAIL_VERIFICATION) m (tbl_tokens d)\<rparr>)" for m
    by (rule invalidate_none [of uid _ m d "()"]) (simp add: db_invalidate_def)
  show ?thesis
    using assms(1)
    by (auto simp: verification_issue_def step_rules one_time_generate_def db_invalidate_def
        split: sum.splits)
      (rule step, assumption, rule none [simplified], simp_all add: verification_token_def)
qed

lemma wp_grant_default_role:
  assumes "session w = Some d"
    and "Q () w"
    and "\<And>r x d'. db_role_by_name (cfg_DEFAULT_ROLE_NAME c) d = Inr (Some r) \<Longrightarrow>
      db_assign_role uid (role_id r) d = Inr (x, d') \<Longrightarrow> Q () (w\<lparr>session := Some d'\<rparr>)"
  shows "wp (grant_default_role c uid) Q (\<lambda>_ _. True) w"
  using assms by (auto simp: grant_default_role_def step_rules split: sum.splits option.splits)

text \<open>Sending mail changes nothing but the outbox.\<close>

lemma wp_verification_send:
  assumes "\<And>m. em_to m = email \<Longrightarrow> Q () (w\<lparr>outbox := outbox w @ [m]\<rparr>)"
  shows "wp (verification_send c email secret) Q (\<lambda>_ _. True) w"
  using assms by (auto simp: verification_send_def send_email_def wp_rules split: sum.splits)

section \<open>Registration\<close>

definition registered :: "'r env \<Rightarrow> config \<Rightarrow> register_dto \<Rightarrow> database \<Rightarrow> user \<Rightarrow> database \<Rightarrow> bool" where
  "registered env c data d u d' \<longleftrightarrow>
     (\<exists>row n. tbl_users d' = tbl_users d @ [row] \<and> user_id u = ur_id row \<and>
        ur_email row = normalise_email (reg_email data) \<and> ur_username row = str_strip (reg_username data) \<and>
        ur_is_active row \<and> \<not> ur_is_superuser row \<and> ur_email_verified_at row = None \<and>
        hash_at env c n (reg_password data) = Inr (ur_password_hash row) \<and>
        (tbl_user_roles d' = tbl_user_roles d \<or>
         (\<exists>r \<in> set (tbl_roles d). rr_name r = cfg_DEFAULT_ROLE_NAME c \<and>
            tbl_user_roles d' = tbl_user_roles d @ [(ur_id row, rr_id r)])) \<and>
        tbl_sessions d' = tbl_sessions d)"

text \<open>The account as it stands before the role is granted, and the rest of the transaction.\<close>

lemma role_by_name_row:
  assumes "db_role_by_name name d = Inr (Some r)"
  shows "\<exists>x \<in> set (tbl_roles d). rr_name x = name \<and> rr_id x = role_id r"
proof -
  obtain x where x: "scalar_one_or_none (filter (\<lambda>r. rr_name r = name) (tbl_roles d)) = Inr (Some x)"
    and r: "r = role_to_entity d x"
    using assms by (auto simp: db_role_by_name_def map_found_def split: sum.splits)
  have "x \<in> set (filter (\<lambda>r. rr_name r = name) (tbl_roles d))"
    using x by (cases "filter (\<lambda>r. rr_name r = name) (tbl_roles d)" rule: scalar_one_or_none.cases) auto
  then show ?thesis using r by (auto simp: role_to_entity_def)
qed

lemma registered_rest:
  assumes add: "db_add_user now (new_user email name h data) d = Inr (created, d1)"
    and h: "hash_at env c n (reg_password data) = Inr h"
    and names: "email = normalise_email (reg_email data)" "name = str_strip (reg_username data)"
    and role: "d2 = d1 \<or> (\<exists>r x. db_role_by_name (cfg_DEFAULT_ROLE_NAME c) d1 = Inr (Some r) \<and>
          db_assign_role (user_id created) (role_id r) d1 = Inr (x, d2))"
    and token: "db_add_token t (d2\<lparr>tbl_tokens := toks\<rparr>) = Inr (st, d3)"
    and audit: "db_add_audit e d3 = Inr (z, d4)"
  shows "registered env c data d created d4 \<and> db_user_by_id (user_id created) d4 \<noteq> None"
proof -
  obtain row where row: "row = (new_user_row now (new_user email name h data))\<lparr>ur_id := seq_users d\<rparr>"
    and created: "created = user_to_entity d1 row"
    and d1: "d1 = d\<lparr>tbl_users := tbl_users d @ [row], seq_users := seq_users d + 1\<rparr>"
    using db_add_user_shape [OF add] by blast
  have d2: "tbl_users d2 = tbl_users d1" "tbl_sessions d2 = tbl_sessions d1"
    "tbl_user_roles d2 = tbl_user_roles d1 \<or> (\<exists>r \<in> set (tbl_roles d). rr_name r = cfg_DEFAULT_ROLE_NAME c \<and>
       tbl_user_roles d2 = tbl_user_roles d1 @ [(ur_id row, rr_id r)])"
    using role
    by (auto simp: db_assign_role_def insert_user_role_def created d1 dest!: role_by_name_row
        split: sum.splits if_splits)
  have d4: "tbl_users d4 = tbl_users d2" "tbl_sessions d4 = tbl_sessions d2" "tbl_user_roles d4 = tbl_user_roles d2"
    using db_add_token_shape [OF token] db_add_audit_audited [OF audit] by (auto simp: audited_def)
  have "row \<in> set (tbl_users d4)" using d4(1) d2(1) d1 by simp
  then have "db_user_by_id (user_id created) d4 \<noteq> None"
    by (auto simp: db_user_by_id_def created find_None_iff)
  moreover have "registered env c data d created d4"
    unfolding registered_def
    by (rule exI [of _ row], rule exI [of _ n])
      (use d2(3) h names in \<open>auto simp: d4 d2(1,2) d1 created row new_user_row_def new_user_def\<close>)
  ultimately show ?thesis by blast
qed

lemma register_rest:
  assumes "session w = Some d2"
    and add: "db_add_user now (new_user (normalise_email (reg_email data)) (str_strip (reg_username data)) h data) d =
      Inr (created, d1)"
    and h: "hash_at env c n (reg_password data) = Inr h"
    and role: "d2 = d1 \<or> (\<exists>r x. db_role_by_name (cfg_DEFAULT_ROLE_NAME c) d1 = Inr (Some r) \<and>
          db_assign_role (user_id created) (role_id r) d1 = Inr (x, d2))"
  shows "wp (bindM (verification_issue env c (user_id created)) (\<lambda>secret.
            seqM (audit_record env action who device meta) (seqM commit
            (bindM (users_get_by_id (user_id created)) (\<lambda>found. retM (secret, created, found))))))
     (\<lambda>(secret, u, found) w'. u = created \<and> found = db_user_by_id (user_id created) (db w') \<and>
        found \<noteq> None \<and> registered env c data d created (db w'))
     (\<lambda>_ _. True) w"
  unfolding wp_bindM
  by (rule wp_verification_issue [OF assms(1)])
    (auto simp: wp_rules wp_audit_record users_get_by_id_def split: sum.splits
      dest!: registered_rest [OF add h refl refl role])

lemma register_outcome:
  assumes "register_user env c data device w = (Inr u, w')"
  shows "registered env c data (db w) u (db w') \<and>
    db_user_by_email (normalise_email (reg_email data)) (db w) = Inr None \<and>
    db_user_by_username (str_strip (reg_username data)) (db w) = Inr None"
    (is "?P u w'")
proof -
  let ?email = "normalise_email (reg_email data)" and ?name = "str_strip (reg_username data)"
  let ?Q = "\<lambda>(secret, u, found) w'. found = db_user_by_id (user_id u) (db w') \<and> found \<noteq> None \<and>
      registered env c data (db w) u (db w') \<and>
      db_user_by_email ?email (db w) = Inr None \<and> db_user_by_username ?name (db w) = Inr None"
  have body: "wp (register_transaction env c ?email ?name data dev) ?Q (\<lambda>_ _. True) (w1\<lparr>session := Some (db w)\<rparr>)"
    for dev and w1 :: "'a world"
  proof -
    have rest: "wp (grant_default_role c (user_id created)) (\<lambda>_. wp (bindM (verification_issue env c (user_id created))
        (\<lambda>secret. seqM (audit_record env REGISTER (Some (user_id created)) (Some dev)
            [(''username'', MStr ?name), (''visitor_id'', meta_opt (reg_visitor_id data))])
          (seqM commit (bindM (users_get_by_id (user_id created)) (\<lambda>found. retM (secret, created, found))))))
        ?Q (\<lambda>_ _. True)) (\<lambda>_ _. True) w2"
      if "session w2 = Some d1" "db_add_user now (new_user ?email ?name h data) (db w) = Inr (created, d1)"
        "hash_at env c n (reg_password data) = Inr h"
        "db_user_by_email ?email (db w) = Inr None" "db_user_by_username ?name (db w) = Inr None"
      for w2 :: "'a world" and d1 created now h n
      by (rule wp_grant_default_role [OF that(1)])
        (rule wp_mono [OF register_rest [OF _ that(2,3)]]; use that in auto)+
    then show ?thesis
      by (auto simp: register_transaction_def wp_rules users_get_by_email_def users_get_by_username_def
          refuse_if_found_def hasher_hash_def users_add_def split: sum.splits prod.splits)
  qed
  have same: "registered env c data d x d'" if "registered env c data d u d'" "db_user_by_id (user_id u) d' = Some x"
    for u x d d'
    using that db_user_by_id_id [OF that(2)] by (simp add: registered_def)
  have sent: "wp (seqM (verification_send c ?email secret) (retM (case found of None \<Rightarrow> v | Some x \<Rightarrow> x)))
      ?P (\<lambda>_ _. True) w2"
    if "?Q (secret, v, found) w2" for secret v found and w2 :: "'a world"
    unfolding wp_seqM
    by (rule wp_verification_send) (use that same in \<open>auto simp: wp_rules split: option.splits\<close>)
  have "wp (register_user env c data device) ?P (\<lambda>_ _. True) w"
    unfolding register_user_def Let_def wp_seqM
    by (rule wp_frames [OF frames_helpers(7)], simp_all add: wp_whenM wp_raiseM wp_bindM wp_with_uow)
      (auto intro!: wp_mono [OF body] sent)
  with assms show ?thesis by (simp add: wp_def)
qed

text \<open>
  C32: Registration creates an ordinary account. It succeeds only for an email address and a user name
  nobody has, and appends one account under their normal forms: active, not a superuser, its address
  not verified, with a hash that accepts the chosen password, no role but the configured default one,
  and no session.
\<close>
theorem registration_creates_plain_account:
  assumes "register_user env c data device w = (Inr u, w')" and "wf_db (db w)" and "argon2_behaves env"
  shows "(\<forall>r \<in> set (tbl_users (db w)). ur_email r \<noteq> normalise_email (reg_email data) \<and>
            ur_username r \<noteq> str_strip (reg_username data)) \<and>
         (\<exists>row. tbl_users (db w') = tbl_users (db w) @ [row] \<and> user_id u = ur_id row \<and>
            ur_email row = normalise_email (reg_email data) \<and> ur_username row = str_strip (reg_username data) \<and>
            ur_is_active row \<and> \<not> ur_is_superuser row \<and> ur_email_verified_at row = None \<and>
            hasher_verify env c (reg_password data) (ur_password_hash row) = Inr True \<and>
            (tbl_user_roles (db w') = tbl_user_roles (db w) \<or>
             (\<exists>r \<in> set (tbl_roles (db w)). rr_name r = cfg_DEFAULT_ROLE_NAME c \<and>
                tbl_user_roles (db w') = tbl_user_roles (db w) @ [(ur_id row, rr_id r)]))) \<and>
         tbl_sessions (db w') = tbl_sessions (db w)"
proof -
  note out = register_outcome [OF assms(1)]
  have free: "\<forall>r \<in> set (tbl_users (db w)). ur_email r \<noteq> normalise_email (reg_email data)"
    "\<forall>r \<in> set (tbl_users (db w)). ur_username r \<noteq> str_strip (reg_username data)"
    using out scalar_unique [OF wf_uniqs(3) [OF assms(2)]]
    by (auto simp: db_user_by_email_wf [OF assms(2)] db_user_by_username_def map_found_def find_None_iff)
  obtain row n where row: "tbl_users (db w') = tbl_users (db w) @ [row]" "user_id u = ur_id row"
    "ur_email row = normalise_email (reg_email data)" "ur_username row = str_strip (reg_username data)"
    "ur_is_active row" "\<not> ur_is_superuser row" "ur_email_verified_at row = None"
    "hash_at env c n (reg_password data) = Inr (ur_password_hash row)"
    and rest: "tbl_user_roles (db w') = tbl_user_roles (db w) \<or>
       (\<exists>r \<in> set (tbl_roles (db w)). rr_name r = cfg_DEFAULT_ROLE_NAME c \<and>
          tbl_user_roles (db w') = tbl_user_roles (db w) @ [(ur_id row, rr_id r)])"
      "tbl_sessions (db w') = tbl_sessions (db w)"
    using out unfolding registered_def by blast
  have "hasher_verify env c (reg_password data) (ur_password_hash row) = Inr True"
    by (rule hasher_sound [OF assms(3) row(8)])
  then show ?thesis using free row rest by blast
qed

definition demo_registration :: "string \<Rightarrow> string \<Rightarrow> register_dto" where
  "demo_registration email name =
     \<lparr> reg_email = email, reg_username = name, reg_password = ''secret123'',
       reg_password_repeat = ''secret123'', reg_display_name = None, reg_visitor_id = None \<rparr>"

lemma registration_creates_plain_account_witness:
  "\<exists>row. tbl_users (db (snd (register_user demo_env default_config (demo_registration ''Bob@X.org'' '' bob '') None demo_world))) =
     tbl_users demo_db @ [row] \<and> ur_email row = ''bob@x.org'' \<and> ur_username row = ''bob'' \<and> \<not> ur_is_superuser row"
proof -
  let ?m = "register_user demo_env default_config (demo_registration ''Bob@X.org'' '' bob '') None"
  have names: "normalise_email (reg_email (demo_registration ''Bob@X.org'' '' bob '')) = ''bob@x.org''"
    "str_strip (reg_username (demo_registration ''Bob@X.org'' '' bob '')) = ''bob''" by code_simp+
  have "\<not> isl (fst (?m demo_world))" by code_simp
  then obtain u where "?m demo_world = (Inr u, snd (?m demo_world))" by (rule succeedsE)
  from registration_creates_plain_account [OF this _ demo_argon2, unfolded names]
  show ?thesis by (simp only: demo_world_simps demo_db_wf) blast
qed

section \<open>A new email address\<close>

definition readdressed :: "int \<Rightarrow> string \<Rightarrow> database \<Rightarrow> database \<Rightarrow> bool" where
  "readdressed uid email d d' \<longleftrightarrow>
     (\<exists>row \<in> set (tbl_users d'). ur_id row = uid \<and> ur_email row = email \<and> ur_email_verified_at row = None) \<and>
     (\<exists>t. tbl_tokens d' \<noteq> [] \<and> t = last (tbl_tokens d') \<and> tr_user_id t = uid \<and>
        tr_purpose t = token_purpose_value EMAIL_VERIFICATION \<and>
        none_unused uid EMAIL_VERIFICATION (d'\<lparr>tbl_tokens := butlast (tbl_tokens d')\<rparr>)) \<and>
     tbl_sessions d' = tbl_sessions d"

lemma readdressed_rest:
  assumes upd: "db_update_user now u d = Inr (x, d1)" and mail: "user_email u = email"
    and ver: "user_email_verified_at u = None"
    and token: "db_add_token t (d1\<lparr>tbl_tokens := toks\<rparr>) = Inr (st, d2)" "tok_user_id t = user_id u"
      "tok_purpose t = EMAIL_VERIFICATION" "none_unused (user_id u) EMAIL_VERIFICATION (d1\<lparr>tbl_tokens := toks\<rparr>)"
  shows "readdressed (user_id u) email d d2"
proof -
  obtain row where row: "find (\<lambda>r. ur_id r = user_id u) (tbl_users d) = Some row"
    and d1: "d1 = d \<and> written_user_row now u row = row \<or> update_user (written_user_row now u row) d = Inr d1"
    using db_update_user_shape [OF upd] by blast
  have mem: "row \<in> set (tbl_users d)" "ur_id row = user_id u" using row by (auto dest: find_Some_key)
  have "written_user_row now u row \<in> set (tbl_users d1) \<and> tbl_sessions d1 = tbl_sessions d"
    using d1 mem by (auto dest!: update_user_shape simp: replace_by_def image_iff)
  moreover obtain r where "r = (new_token_row t)\<lparr>tr_id := seq_tokens (d1\<lparr>tbl_tokens := toks\<rparr>)\<rparr>"
    "d2 = d1\<lparr>tbl_tokens := toks @ [r], seq_tokens := seq_tokens d1 + 1\<rparr>"
    using db_add_token_shape [OF token(1)] by auto
  ultimately show ?thesis
    using token(2-4) mem mail ver
    by (auto simp: readdressed_def new_token_row_def none_unused_def intro!: bexI [of _ "written_user_row now u row"])
qed

lemma updated_user:
  assumes "db_update_user now u d = Inr (x, d1)"
  shows "user_id x = user_id u" "user_email x = user_email u" "user_email_verified_at x = user_email_verified_at u"
proof -
  obtain row where row: "find (\<lambda>r. ur_id r = user_id u) (tbl_users d) = Some row"
    and d1: "d1 = d \<and> written_user_row now u row = row \<or> update_user (written_user_row now u row) d = Inr d1"
    and x: "db_user_by_id (user_id u) d1 = Some x"
    using db_update_user_shape [OF assms] by blast
  have id: "ur_id row = user_id u" "row \<in> set (tbl_users d)" using row by (auto dest: find_Some_key)
  have "find (\<lambda>r. ur_id r = user_id u) (tbl_users d1) = Some (written_user_row now u row)"
    using d1 row id by (auto dest!: update_user_shape simp: find_replace_by)
  then have "x = user_to_entity d1 (written_user_row now u row)" using x by (simp add: db_user_by_id_def)
  then show "user_id x = user_id u" "user_email x = user_email u"
    "user_email_verified_at x = user_email_verified_at u" using id by simp_all
qed

text \<open>What an update does once the row is written.\<close>

definition update_tail :: "'r env \<Rightarrow> config \<Rightarrow> user \<Rightarrow> ('r, user \<times> (string \<times> string) option) app" where
  "update_tail env c x =
     bindM (if is_email_verified x then retM None
            else bindM (verification_issue env c (user_id x)) (\<lambda>secret.
                 retM (Some (user_email x, secret)))) (\<lambda>pending.
     seqM commit (retM (x, pending)))"

definition mails_link :: "int \<Rightarrow> string \<Rightarrow> 'r world \<Rightarrow> user \<times> (string \<times> string) option \<Rightarrow> 'r world \<Rightarrow> bool" where
  "mails_link uid email w result w' \<longleftrightarrow>
     (\<exists>s. snd result = Some (email, s)) \<and> readdressed uid email (db w) (db w') \<and> outbox w' = outbox w"

lemma update_commits:
  fixes w w0 :: "'r world"
  assumes w: "session w = Some (db w0)" "outbox w = outbox w0"
    and u: "user_email u = email" "user_email_verified_at u = None" "user_id u = uid"
  shows "wp (users_update env u) (\<lambda>x. wp (update_tail env c x) (mails_link uid email w0) (\<lambda>_ _. True)) (\<lambda>_ _. True) w"
proof -
  have "wp (update_tail env c x) (mails_link uid email w0) (\<lambda>_ _. True) w1"
    if upd: "db_update_user now u (db w0) = Inr (x, d1)" and w1: "session w1 = Some d1" "outbox w1 = outbox w0"
    for now x d1 and w1 :: "'r world"
  proof -
    have x: "\<not> is_email_verified x" "user_id x = uid" "user_email x = email"
      using updated_user [OF upd] u by (simp_all add: is_email_verified_def)
    show ?thesis
      unfolding update_tail_def wp_bindM if_not_P [OF x(1)]
      by (rule wp_verification_issue [OF w1(1)])
        (use x w1(2) u(3) in \<open>auto simp: wp_rules mails_link_def dest!: readdressed_rest [OF upd u(1,2)]\<close>)
  qed
  then show ?thesis
    using w by (auto simp: users_update_def wp_rules split: sum.splits)
qed

lemma update_with_tail:
  "update_transaction env c uid data =
     bindM (users_get_by_id uid) (\<lambda>found.
     case found of
       None \<Rightarrow> raiseM user_not_found
     | Some u \<Rightarrow>
         bindM (update_email u (upd_email data)) (\<lambda>u1.
         bindM (update_username u1 (upd_username data)) (\<lambda>u2.
         bindM (users_update env (update_display_name u2 (upd_display_name data))) (update_tail env c))))"
proof -
  have "update_tail env c = (\<lambda>x. update_tail env c x)" ..
  then have t: "update_tail env c = (\<lambda>x.
     bindM (if is_email_verified x then retM None
            else bindM (verification_issue env c (user_id x)) (\<lambda>secret.
                 retM (Some (user_email x, secret)))) (\<lambda>pending.
     seqM commit (retM (x, pending))))" unfolding update_tail_def .
  show ?thesis unfolding update_transaction_def t ..
qed



section \<open>Forgotten passwords\<close>

lemma blind_modify: "blind (modifyM (\<lambda>w. w\<lparr>counters := cs\<rparr>))" "blind (modifyM (\<lambda>w. w\<lparr>redis := r\<rparr>))"
  by (simp_all add: blind_def modifyM_def)

lemma blind_charge: "blind (charge_or_refuse env c policy key refusal)"
  unfolding charge_or_refuse_def limiter_hit_def redis_hit_def in_memory_hit_def redis_now_def monotonic_def
    Let_def split_beta
  by (intro blind_rules blind_modify)

lemma blind_forgot: "blind (forgot_check_rate_limits env c address device)"
  unfolding forgot_check_rate_limits_def by (intro blind_rules blind_charge)

text \<open>A link can be stored: its hash fits the column and is not one of a stored link.\<close>

definition links_fit :: "'r env \<Rightarrow> database \<Rightarrow> bool" where
  "links_fit env d \<longleftrightarrow>
     (\<forall>n. length (one_time_hash env (env_token_urlsafe env n 32)) \<le> 64 \<and>
        one_time_hash env (env_token_urlsafe env n 32) \<notin> tr_token_hash ` set (tbl_tokens d))"

lemma spend_hashes: "tr_token_hash ` set (spend_rows tr_used_at stamp_token P m rows) = tr_token_hash ` set rows"
  by (induction rows) (simp_all add: spend_rows_def stamp_token_def)

lemma reset_token_stored:
  assumes "links_fit env d" and "uid \<in> user_ids d"
  shows "\<exists>st d'. db_add_token (reset_token c uid \<lparr> gs_plain = env_token_urlsafe env n 32,
      gs_hashed = one_time_hash env (env_token_urlsafe env n 32) \<rparr> now)
    (d\<lparr>tbl_tokens := spend_rows tr_used_at stamp_token P m (tbl_tokens d)\<rparr>) = Inr (st, d')"
proof -
  have "one_time_hash env (env_token_urlsafe env n 32) \<notin>
      tr_token_hash ` set (spend_rows tr_used_at stamp_token P m (tbl_tokens d))"
    unfolding spend_hashes using assms(1) by (simp add: links_fit_def)
  then have "\<forall>x \<in> set (spend_rows tr_used_at stamp_token P m (tbl_tokens d)).
      tr_token_hash x \<noteq> one_time_hash env (env_token_urlsafe env n 32)"
    by (metis imageI)
  then show ?thesis
    using assms token_purpose_of_value [of PASSWORD_RESET]
    by (auto simp: db_add_token_def insert_token_def new_token_row_def reset_token_def token_row_fits_def
        fits_def links_fit_def list_ex_iff has_iffs security_token_to_entity_def Let_def user_ids_def
        split: option.splits)
qed

lemma forgot_transaction_settles:
  assumes "wf_db d" and "links_fit env d" and "session w = Some d"
  shows "wp (forgot_transaction env c address) (\<lambda>_ _. True) (\<lambda>_ _. False) w"
proof -
  have stored: "\<exists>st d'. db_add_token (reset_token c (ur_id r) \<lparr> gs_plain = env_token_urlsafe env n 32,
      gs_hashed = one_time_hash env (env_token_urlsafe env n 32) \<rparr> now)
    (d\<lparr>tbl_tokens := spend_rows tr_used_at stamp_token P m (tbl_tokens d)\<rparr>) = Inr (st, d')"
    if "find (\<lambda>r. ur_email r = address) (tbl_users d) = Some r" for r n now P m
    by (rule reset_token_stored [OF assms(2)]) (use that in \<open>auto simp: user_ids_def dest: find_Some_key\<close>)
  show ?thesis
  proof (cases "find (\<lambda>r. ur_email r = address) (tbl_users d)")
    case None
    then show ?thesis
      using assms(3) by (simp add: forgot_transaction_def step_rules db_user_by_email_wf [OF assms(1)])
  next
    case (Some r)
    have "db_add_token (reset_token c (ur_id r) \<lparr> gs_plain = env_token_urlsafe env n 32,
        gs_hashed = one_time_hash env (env_token_urlsafe env n 32) \<rparr> now)
      (d\<lparr>tbl_tokens := spend_rows tr_used_at stamp_token P m (tbl_tokens d)\<rparr>) \<noteq> Inl e" for n now P m e
      using stored [OF Some, of n now P m] by (elim exE) simp
    then show ?thesis
      using assms(3) Some
      by (simp add: forgot_transaction_def step_rules db_user_by_email_wf [OF assms(1)] one_time_generate_def
          db_invalidate_def split: sum.splits)
  qed
qed

lemma forgot_answer:
  assumes "wf_db (db w)" and "links_fit env (db w)"
    and "\<forall>s. \<exists>link. format_token (cfg_PASSWORD_RESET_URL c) s = Inr link"
  shows "fst (forgot_password env c email device w) =
     fst (forgot_check_rate_limits env c (normalise_email email) (device_or_default device) w)"
proof -
  let ?m = "bindM (with_uow (forgot_transaction env c (normalise_email email))) (\<lambda>secret.
          case secret of
            None \<Rightarrow> retM ()
          | Some s \<Rightarrow>
              bindM (liftM (format_token (cfg_PASSWORD_RESET_URL c) s)) (\<lambda>link.
              send_email (reset_email c (normalise_email email) link)))"
  have tail: "wp ?m (\<lambda>_ _. True) (\<lambda>_ _. False) w1" if "db w1 = db w" for w1
    unfolding wp_bindM wp_with_uow
    by (rule wp_mono [OF forgot_transaction_settles [where d = "db w", OF assms(1,2)]])
      (use that assms(3) in \<open>auto simp: wp_rules send_email_def split: option.splits sum.splits\<close>, metis Inl_Inr_False)
  have sent: "fst (?m w1) = Inr ()" if "db w1 = db w" for w1
    using tail [OF that] by (simp add: wp_def split: prod.splits sum.splits)
  let ?g = "forgot_check_rate_limits env c (normalise_email email) (device_or_default device)"
  have "forgot_password env c email device w = seqM ?g ?m w" by (simp add: forgot_password_def Let_def)
  moreover have "fst (seqM ?g ?m w) = fst (?g w)"
  proof (rule seq_frames_cases [OF frames_helpers(9), of env c "normalise_email email" "device_or_default device" w ?m])
    fix e w1 assume "?g w = (Inl e, w1)" "seqM ?g ?m w = (Inl e, w1)"
    then show ?thesis by (simp only: fst_conv)
  next
    fix w1 assume "?g w = (Inr (), w1)" "seqM ?g ?m w = ?m w1" "db w1 = db w"
    then show ?thesis using sent [of w1] by (simp only: fst_conv)
  qed
  ultimately show ?thesis by (simp only:)
qed

text \<open>
  C34: Asking for a reset link tells nothing about the account. In any two databases, whether the
  address is known, unknown or belongs to an inactive account, the request is answered the same; the
  answer depends on the limiter only.
\<close>
theorem forgot_password_says_nothing:
  assumes "wf_db d1" and "wf_db d2" and "links_fit env d1" and "links_fit env d2"
    and "\<forall>s. \<exists>link. format_token (cfg_PASSWORD_RESET_URL c) s = Inr link"
  shows "fst (forgot_password env c email device (w\<lparr>db := d1\<rparr>)) = fst (forgot_password env c email device (w\<lparr>db := d2\<rparr>))"
proof -
  have "fst (forgot_check_rate_limits env c (normalise_email email) (device_or_default device) (w\<lparr>db := d\<rparr>)) =
      fst (forgot_check_rate_limits env c (normalise_email email) (device_or_default device) w)" for d
    using blind_forgot [of env c "normalise_email email" "device_or_default device"] by (simp add: blind_def)
  then show ?thesis
    using forgot_answer [of "w\<lparr>db := d1\<rparr>" env c] forgot_answer [of "w\<lparr>db := d2\<rparr>" env c] assms by simp
qed

definition short_env :: "redis_view env" where
  "short_env = demo_env\<lparr>env_token_urlsafe := (\<lambda>n k. ''s'')\<rparr>"

lemma forgot_password_says_nothing_witness:
  "fst (forgot_password short_env default_config ''ann@x.org'' None demo_world) =
   fst (forgot_password short_env default_config ''ann@x.org'' None (demo_world\<lparr>db := empty_db\<rparr>))"
proof -
  have "one_time_hash short_env ''s'' = ''73''" by code_simp
  then have fit: "links_fit short_env demo_db" "links_fit short_env empty_db"
    by (simp_all add: links_fit_def short_env_def demo_db_def demo_token_row_def empty_db_def)
  have "str_format_token (cfg_PASSWORD_RESET_URL default_config) s =
      Some (''http://localhost:3000/reset-password?token='' @ s @ [])" for s
    using str_format_token_field [of "''http://localhost:3000/reset-password?token=''" "[]" s]
    by (simp add: default_config_def)
  then have link: "\<forall>s. \<exists>link. format_token (cfg_PASSWORD_RESET_URL default_config) s = Inr link"
    by (simp add: format_token_def some_or_def)
  have "fst (forgot_password short_env default_config ''ann@x.org'' None (demo_world\<lparr>db := demo_db\<rparr>)) =
   fst (forgot_password short_env default_config ''ann@x.org'' None (demo_world\<lparr>db := empty_db\<rparr>))"
    by (rule forgot_password_says_nothing [OF demo_db_wf wf_empty_db fit link])
  then show ?thesis by (simp add: demo_world_def)
qed

section \<open>Administration\<close>

text \<open>
  Moderators cannot lock out themselves or a superuser. A ban of the own account, of a superuser
  or of an account that does not exist is refused with the documented error, and changes nothing.
\<close>
theorem ban_refusals:
  assumes "user_id actor = target \<or> db_user_by_id target (db w) = None \<or>
    (\<exists>u. db_user_by_id target (db w) = Some u \<and> user_is_superuser u)"
  shows "\<exists>w'. ban_user env c actor target reason device w =
           (Inl (if user_id actor = target then cannot_ban_self
                 else if db_user_by_id target (db w) = None then user_not_found
                 else cannot_ban_superuser), w') \<and> db w' = db w"
  using assms
  by (auto simp: ban_user_def ban_transaction_def users_get_by_id_def seqM_def bindM_def whenM_def raiseM_def
      retM_def with_uow_def query_def)

lemma ban_refusals_witness:
  "\<exists>w'. ban_user demo_env default_config (user_to_entity demo_db (demo_user_row 1 ''ann'' ''pw'' False)) 2 None None
     demo_world = (Inl cannot_ban_superuser, w') \<and> db w' = demo_db"
proof -
  have super: "\<exists>u. db_user_by_id 2 (db demo_world) = Some u \<and> user_is_superuser u"
    by (rule exI [of _ demo_root]) code_simp
  have other: "user_id (user_to_entity demo_db (demo_user_row 1 ''ann'' ''pw'' False)) \<noteq> 2" by code_simp
  show ?thesis
    using ban_refusals [of "user_to_entity demo_db (demo_user_row 1 ''ann'' ''pw'' False)" 2 demo_world demo_env
        default_config None None] super other by auto
qed

lemma revoke_session_outcome:
  "wp (revoke_user_session env uid sid device)
     (\<lambda>_ w'. \<exists>r m. find (\<lambda>r. sr_id r = sid) (tbl_sessions (db w)) = Some r \<and> sr_user_id r = uid \<and>
        tbl_sessions (db w') = spend_rows sr_revoked_at stamp_session (\<lambda>x. sr_jti x = sr_jti r) m (tbl_sessions (db w)) \<and>
        tbl_users (db w') = tbl_users (db w) \<and> tbl_tokens (db w') = tbl_tokens (db w))
     (\<lambda>e w'. db w' = db w \<and>
        ((\<forall>r. find (\<lambda>r. sr_id r = sid) (tbl_sessions (db w)) = Some r \<longrightarrow> sr_user_id r \<noteq> uid) \<longrightarrow> e = session_not_found)) w"
  by (auto simp: revoke_user_session_def step_rules db_session_by_id_def db_revoke_def audited_def
      split: option.splits sum.splits dest!: db_add_audit_audited)

lemma spend_one_session:
  assumes same: "\<And>x. x \<in> set rows \<Longrightarrow> sr_jti x = sr_jti r \<longleftrightarrow> sr_id x = sr_id r"
  shows "filter (\<lambda>x. sr_id x \<noteq> sr_id r) (spend_rows sr_revoked_at stamp_session (\<lambda>x. sr_jti x = sr_jti r) m rows) =
      filter (\<lambda>x. sr_id x \<noteq> sr_id r) rows"
    and "\<forall>x \<in> set (spend_rows sr_revoked_at stamp_session (\<lambda>x. sr_jti x = sr_jti r) m rows).
      sr_id x = sr_id r \<longrightarrow> sr_revoked_at x \<noteq> None"
proof -
  let ?f = "\<lambda>x. if sr_jti x = sr_jti r \<and> sr_revoked_at x = None then stamp_session m x else x"
  have id: "sr_id (?f x) = sr_id x" for x by (simp add: stamp_session_def)
  have keep: "?f x = x" if "x \<in> set (filter (\<lambda>x. sr_id x \<noteq> sr_id r) rows)" for x
    using same [of x] that by simp
  have "filter (\<lambda>x. sr_id x \<noteq> sr_id r) (map ?f rows) = map ?f (filter (\<lambda>x. sr_id x \<noteq> sr_id r) rows)"
    unfolding filter_map comp_def id ..
  also have "\<dots> = filter (\<lambda>x. sr_id x \<noteq> sr_id r) rows" by (rule map_idI) (rule keep)
  finally show "filter (\<lambda>x. sr_id x \<noteq> sr_id r) (spend_rows sr_revoked_at stamp_session (\<lambda>x. sr_jti x = sr_jti r) m rows) =
      filter (\<lambda>x. sr_id x \<noteq> sr_id r) rows" by (simp add: spend_rows_def)
  have stamped: "sr_revoked_at (?f x) \<noteq> None" if "x \<in> set rows" "sr_id (?f x) = sr_id r" for x
    using same [OF that(1)] that(2) unfolding id by (simp add: stamp_session_def)
  show "\<forall>x \<in> set (spend_rows sr_revoked_at stamp_session (\<lambda>x. sr_jti x = sr_jti r) m rows).
      sr_id x = sr_id r \<longrightarrow> sr_revoked_at x \<noteq> None"
    unfolding spend_rows_def set_map ball_simps(9) by (intro ballI impI stamped)
qed

text \<open>
  Only own sessions can be revoked one by one. The request revokes the named session if it belongs
  to the caller, and leaves every other session, all accounts and all links as they were; a session of
  somebody else is answered like one that does not exist, and nothing changes.
\<close>
theorem only_own_session_revoked:
  assumes "revoke_user_session env uid sid device w = (result, w')" and "wf_db (db w)"
  shows "if \<exists>r \<in> set (tbl_sessions (db w)). sr_id r = sid \<and> sr_user_id r = uid
         then filter (\<lambda>x. sr_id x \<noteq> sid) (tbl_sessions (db w')) = filter (\<lambda>x. sr_id x \<noteq> sid) (tbl_sessions (db w)) \<and>
              tbl_users (db w') = tbl_users (db w) \<and> tbl_tokens (db w') = tbl_tokens (db w) \<and>
              (result = Inr () \<longrightarrow> (\<forall>x \<in> set (tbl_sessions (db w')). sr_id x = sid \<longrightarrow> sr_revoked_at x \<noteq> None))
         else result = Inl session_not_found \<and> db w' = db w"
proof -
  let ?ss = "tbl_sessions (db w)"
  have found: "find (\<lambda>r. sr_id r = sid) ?ss = Some r" if "r \<in> set ?ss" "sr_id r = sid" for r
    using find_key [OF wf_uniqs(7) [OF assms(2)] that(1)] that(2) by simp
  have names: "sr_jti x = sr_jti r \<longleftrightarrow> sr_id x = sr_id r" if "x \<in> set ?ss" "r \<in> set ?ss" for x r
    using uniq_inj [OF wf_uniqs(8) [OF assms(2)] that] uniq_inj [OF wf_uniqs(7) [OF assms(2)] that] by auto
  note out = revoke_session_outcome [of env uid sid device w]
  show ?thesis
  proof (cases "\<exists>r \<in> set ?ss. sr_id r = sid \<and> sr_user_id r = uid")
    case True
    then obtain r where r: "r \<in> set ?ss" "sr_id r = sid" "sr_user_id r = uid" by blast
    note spent = spend_one_session [OF names [OF _ r(1)], simplified r(2)]
    have "filter (\<lambda>x. sr_id x \<noteq> sid) (tbl_sessions (db w')) = filter (\<lambda>x. sr_id x \<noteq> sid) ?ss \<and>
        tbl_users (db w') = tbl_users (db w) \<and> tbl_tokens (db w') = tbl_tokens (db w) \<and>
        (result = Inr () \<longrightarrow> (\<forall>x \<in> set (tbl_sessions (db w')). sr_id x = sid \<longrightarrow> sr_revoked_at x \<noteq> None))"
    proof (cases result)
      case (Inl e)
      then show ?thesis using out assms(1) by (simp add: wp_def)
    next
      case (Inr u)
      then obtain r' m where "find (\<lambda>r. sr_id r = sid) ?ss = Some r'"
        "tbl_sessions (db w') = spend_rows sr_revoked_at stamp_session (\<lambda>x. sr_jti x = sr_jti r') m ?ss"
        "tbl_users (db w') = tbl_users (db w)" "tbl_tokens (db w') = tbl_tokens (db w)"
        using out assms(1) by (auto simp: wp_def)
      then show ?thesis using spent found [OF r(1,2)] by simp
    qed
    then show ?thesis using True by simp
  next
    case False
    then have none: "\<forall>r. find (\<lambda>r. sr_id r = sid) ?ss = Some r \<longrightarrow> sr_user_id r \<noteq> uid"
      by (auto dest: find_Some_key)
    then show ?thesis using out assms(1) False by (cases result) (auto simp: wp_def)
  qed
qed

lemma only_own_session_revoked_witness:
  "fst (revoke_user_session demo_env 1 2 None demo_world) = Inl session_not_found"
proof -
  have "\<not> (\<exists>r \<in> set (tbl_sessions (db demo_world)). sr_id r = 2 \<and> sr_user_id r = 1)" by code_simp
  then show ?thesis
    using only_own_session_revoked [where env = demo_env and uid = 1 and sid = 2 and device = None and w = demo_world,
        OF prod.collapse [symmetric]] by (simp add: demo_db_wf)
qed

section \<open>Duplicates\<close>

lemma duplicate_role_insert:
  "r \<in> set (tbl_roles d) \<Longrightarrow> rr_name r = name \<Longrightarrow> create_role_request_ok name descr \<Longrightarrow>
     db_add_role name descr d = Inl (IntegrityError ''ix_roles_name'')"
  by (auto simp: db_add_role_def insert_role_def list_ex_iff Let_def create_role_request_ok_def
      role_row_fits_def fits_def fits_opt_def length_between_def max_length_def split: option.splits)

text \<open>
  A duplicate role is a server error. Creating a role under a name that is taken raises the
  database's integrity error, which no handler maps: the answer is a 500, where creating a duplicate
  permission is answered 409. Neither changes anything.
\<close>
theorem duplicate_role_is_server_error:
  assumes "r \<in> set (tbl_roles (db w))" and "create_role_request_ok (rr_name r) description"
    and "p \<in> set (tbl_permissions (db w))" and "wf_db (db w)"
  shows "(\<exists>e w'. create_role (rr_name r) description w = (Inl e, w') \<and> db w' = db w \<and>
            err_status (handle_exn e) = 500) \<and>
         (\<exists>e w'. create_permission (pr_resource p) (pr_action p) description w = (Inl e, w') \<and> db w' = db w \<and>
            err_status (handle_exn e) = 409)"
proof -
  have "\<exists>e w'. create_role (rr_name r) description w = (Inl e, w') \<and> db w' = db w \<and> err_status (handle_exn e) = 500"
    using duplicate_role_insert [OF assms(1) refl assms(2)]
    by (simp add: create_role_def roles_add_def with_uow_def bindM_def execute_def handle_exn_def mro.simps)
  moreover have "db_permission_by_resource_action (pr_resource p) (pr_action p) (db w) =
      Inr (Some (permission_to_entity p))"
    using uniq_filter_single [OF wf_uniqs(11) [OF assms(4)] assms(3)]
    by (simp add: db_permission_by_resource_action_def map_found_def)
  then have "\<exists>e w'. create_permission (pr_resource p) (pr_action p) description w = (Inl e, w') \<and> db w' = db w \<and>
      err_status (handle_exn e) = 409"
    by (simp add: create_permission_def permissions_get_by_resource_action_def with_uow_def bindM_def seqM_def
        whenM_def raiseM_def query_def handle_exn_def mro.simps)
  ultimately show ?thesis ..
qed

lemma duplicate_role_is_server_error_witness:
  "\<exists>e w'. create_role ''user'' None demo_world = (Inl e, w') \<and> err_status (handle_exn e) = 500"
proof -
  have "\<lparr> rr_id = 1, rr_name = ''user'', rr_description = None \<rparr> \<in> set (tbl_roles (db demo_world))"
    "create_role_request_ok (rr_name \<lparr> rr_id = 1, rr_name = ''user'', rr_description = None \<rparr>) None"
    "\<lparr> pr_id = 1, pr_resource = ''users'', pr_action = ''ban'', pr_description = None \<rparr> \<in> set (tbl_permissions (db demo_world))"
    by code_simp+
  from duplicate_role_is_server_error [OF this] show ?thesis by (simp add: demo_db_wf) blast
qed

end
