(* ===== verification/Http_Types.thy ===== *)
theory Http_Types
  imports Http_Security
begin

text \<open>
  The answers of the API have the types the route decorators declare (\<^verbatim>\<open>response_model\<close> and
  \<^verbatim>\<open>status_code\<close>): \<open>declared_status\<close> and \<open>has_model\<close> are the declarations, read off the routers. And
  every cookie carries the attributes the configuration prescribes.
\<close>

definition declared_status :: "endpoint \<Rightarrow> int" where
  "declared_status e =
     (case e of
        PostRegister _ \<Rightarrow> 201 | PostPermission _ _ _ \<Rightarrow> 201 | PostRole _ _ \<Rightarrow> 201
      | PostLogout \<Rightarrow> 204 | DeleteMe \<Rightarrow> 204 | DeleteMySession _ \<Rightarrow> 204 | DeleteRole _ \<Rightarrow> 204
      | _ \<Rightarrow> 200)"

definition has_model :: "endpoint \<Rightarrow> body \<Rightarrow> bool" where
  "has_model e b =
     (case e of
        PostRegister _ \<Rightarrow> (\<exists>u. b = UserBody u)
      | PostLogin _ _ \<Rightarrow> (\<exists>s. b = SessionBody s) | PostRefresh _ \<Rightarrow> (\<exists>s. b = SessionBody s)
      | PostLogout \<Rightarrow> b = NoBody
      | GetVerifyEmail _ \<Rightarrow> (\<exists>u. b = UserBody u)
      | PostForgotPassword _ \<Rightarrow> (\<exists>m. b = DetailBody m) | PostResetPassword _ \<Rightarrow> (\<exists>m. b = DetailBody m)
      | GetAuthMe \<Rightarrow> (\<exists>u. b = UserBody u) | GetMe \<Rightarrow> (\<exists>u. b = UserBody u)
      | PatchMe _ \<Rightarrow> (\<exists>u. b = UserBody u)
      | PostMyPassword _ \<Rightarrow> (\<exists>m n. b = PasswordChangedBody m n)
      | DeleteMe \<Rightarrow> b = NoBody
      | GetMySessions \<Rightarrow> (\<exists>ss. b = SessionsBody ss)
      | DeleteMySessions _ \<Rightarrow> (\<exists>n. b = RevokedBody n)
      | DeleteMySession _ \<Rightarrow> b = NoBody
      | GetUser _ \<Rightarrow> (\<exists>u. b = PublicUserBody u)
      | GetPermissions \<Rightarrow> (\<exists>ps. b = PermissionsBody ps)
      | PostPermission _ _ _ \<Rightarrow> (\<exists>p. b = PermissionBody p)
      | GetRoles \<Rightarrow> (\<exists>rs. b = RolesBody rs)
      | PostRole _ _ \<Rightarrow> (\<exists>r. b = RoleBody r) | DeleteRole _ \<Rightarrow> b = NoBody
      | PostRolePermission _ _ \<Rightarrow> (\<exists>r. b = RoleBody r) | DeleteRolePermission _ _ \<Rightarrow> (\<exists>r. b = RoleBody r)
      | GetUsers \<Rightarrow> (\<exists>us. b = UsersBody us)
      | PostUserRole _ _ \<Rightarrow> (\<exists>u. b = UserBody u) | DeleteUserRole _ _ \<Rightarrow> (\<exists>u. b = UserBody u)
      | PostBan _ _ \<Rightarrow> (\<exists>u. b = UserBody u) | DeleteBan _ \<Rightarrow> (\<exists>u. b = UserBody u)
      | GetHealth \<Rightarrow> (\<exists>s. b = StatusBody s) | GetReady _ \<Rightarrow> (\<exists>s. b = StatusBody s))"

text \<open>An error answer explains itself and tells a throttled caller when to come back.\<close>

definition error_answer :: "response \<Rightarrow> bool" where
  "error_answer r \<longleftrightarrow>
     400 \<le> resp_status r \<and>
     ((\<exists>m. resp_body r = DetailBody m) \<or> resp_body r = ValidationBody \<or> (\<exists>m. resp_body r = UnavailableBody m)) \<and>
     (resp_retry_after r \<noteq> None \<longleftrightarrow> resp_status r = 429)"

definition well_typed_answer :: "endpoint \<Rightarrow> response \<Rightarrow> bool" where
  "well_typed_answer e r \<longleftrightarrow>
     resp_status r = declared_status e \<and> has_model e (resp_body r) \<and> resp_retry_after r = None \<or> error_answer r"

lemma error_body_typed: "error_answer (error_body (handle_exn x))"
  by (cases x) (simp_all add: error_answer_def error_body_def handle_exn_def mro.simps)

lemma typed_with_cookies: "well_typed_answer e r \<Longrightarrow> well_typed_answer e (with_cookies cs r)"
  by (simp add: well_typed_answer_def error_answer_def with_cookies_def)

lemma typed_errors:
  "well_typed_answer e unprocessable" "well_typed_answer e csrf_refusal"
  "well_typed_answer e (error_body (handle_exn x))"
  using error_body_typed
  by (simp_all add: well_typed_answer_def error_answer_def unprocessable_def csrf_refusal_def plain_response_def)

lemma typed_handle: "yields (well_typed_answer e) (handle es env c rq e vid)"
  by (cases e)
    (auto simp: handle_def auth_routes user_routes admin_routes Let_def to_session_response_def
      health_route_def readiness_route_def reset_link_sent_def plain_response_def
      well_typed_answer_def declared_status_def has_model_def error_answer_def with_cookies_def
      unprocessable_def split: option.splits intro!: yields_rules)



section \<open>Cookie attributes\<close>

definition cookies_configured :: "config \<Rightarrow> response \<Rightarrow> bool" where
  "cookies_configured c r \<longleftrightarrow>
     (\<forall>ck \<in> set (resp_cookies r). ck_secure ck = cfg_COOKIE_SECURE c \<and> ck_samesite ck = cfg_COOKIE_SAMESITE c)"

lemma configured_cookies [simp]:
  "cookies_configured c (plain_response n b)" "cookies_configured c (error_body x)"
  "cookies_configured c unprocessable" "cookies_configured c csrf_refusal"
  "cookies_configured c r \<Longrightarrow> cookies_configured c (with_cookies [visitor_cookie c h] r)"
  "cookies_configured c (with_cookies [] r) = cookies_configured c r"
  "cookies_configured c (with_cookies (clear_tokens c) (plain_response n b))"
  by (auto simp: cookies_configured_def plain_response_def error_body_def unprocessable_def csrf_refusal_def
      with_cookies_def visitor_cookie_def set_cookie_def clear_tokens_def delete_cookie_def)

lemma configured_session: "yields (cookies_configured c) (to_session_response env c result)"
proof -
  have "wp (to_session_response env c result) (\<lambda>r _. cookies_configured c r) (\<lambda>_ _. True) w" for w
    by (auto simp: to_session_response_def set_tokens_def cookie_max_age_def wp_rules Let_def
        cookies_configured_def with_cookies_def plain_response_def set_cookie_def)
  then show ?thesis by (simp add: yields_def)
qed

lemma configured_handle: "yields (cookies_configured c) (handle es env c rq e vid)"
  by (cases e)
    (auto simp: handle_def auth_routes user_routes admin_routes Let_def health_route_def readiness_route_def
      reset_link_sent_def split: option.splits intro!: yields_rules configured_session)

text \<open>
  C40: A process that starts in production is safe to use from a browser. If the start-up check accepts
  a production configuration with cookie authentication, then every cookie of every answer is \<^verbatim>\<open>Secure\<close>,
  cross-site requests are checked, the rate limits are on and shared through Redis, and tokens are not
  signed with the published default secret.
\<close>
theorem production_is_hardened:
  assumes "check_production_safety c = Inr c'" and "is_production c" and "cfg_COOKIE_AUTH_ENABLED c"
    and "serve es env c rq e w = (Inr r, w')"
  shows "(\<forall>ck \<in> set (resp_cookies r). ck_secure ck) \<and> cfg_CSRF_PROTECTION c \<and>
         redis_backend c \<and> cfg_RATE_LIMIT_ENABLED c \<and>
         cfg_JWT_SECRET c \<noteq> ''change_me_to_a_long_random_secret'' \<and> 32 \<le> length (cfg_JWT_SECRET c)"
proof -
  have "yields (cookies_configured c) (serve es env c rq e)"
    by (rule yields_serve) (simp_all add: configured_handle)
  from yieldsD [OF this assms(4)] have "\<forall>ck \<in> set (resp_cookies r). ck_secure ck = cfg_COOKIE_SECURE c"
    by (simp add: cookies_configured_def)
  moreover have "production_safe c" using assms(1,2) by (simp add: check_production_safety_iff)
  ultimately show ?thesis
    using assms(3) by (simp add: production_safe_def redis_backend_def default_config_def)
qed

definition production_config :: config where
  "production_config =
     default_config\<lparr>cfg_ENVIRONMENT := ''production'', cfg_JWT_SECRET := ''0123456789012345678901234567890123456789'',
       cfg_EMAIL_BACKEND := ''smtp'', cfg_REDIS_URL := Some ''redis://r'', cfg_SEED_ON_STARTUP := False\<rparr>"

lemma production_is_hardened_witness:
  "\<exists>r w'. serve Some demo_env production_config demo_request (PostLogin ''ann@x.org'' ''pw'') demo_world = (Inr r, w') \<and>
     (\<forall>ck \<in> set (resp_cookies r). ck_secure ck)"
proof -
  have prod: "is_production production_config" "cfg_COOKIE_AUTH_ENABLED production_config"
    "production_problems production_config = []" by code_simp+
  then have check: "check_production_safety production_config = Inr production_config"
    by (simp add: check_production_safety_def)
  obtain r w' where r: "serve Some demo_env production_config demo_request (PostLogin ''ann@x.org'' ''pw'') demo_world = (Inr r, w')"
    using serve_answers by blast
  from production_is_hardened [OF check prod(1,2) r] r show ?thesis by blast
qed

end
