(* ===== verification/Gateway_Routes.thy ===== *)
theory Gateway_Routes
  imports Py_Strings Complex_Main
begin

text \<open>
  The gateway's settings and routing table (\<^verbatim>\<open>gateway/config.py\<close>, \<^verbatim>\<open>gateway/routes.py\<close>). The two timeouts
  are Python floats, which are rational numbers.
\<close>

record gateway_config =
  gw_HOST :: string
  gw_PORT :: int
  gw_TITLE :: string
  gw_VERSION :: string
  gw_API_PREFIX :: string
  gw_USERS_SERVICE_URL :: string
  gw_CONTENT_SERVICE_URL :: "string option"
  gw_REQUEST_TIMEOUT_SECONDS :: rat
  gw_CONNECT_TIMEOUT_SECONDS :: rat
  gw_VISITOR_COOKIE_NAME :: string
  gw_CORS_ORIGINS :: "string list"
  gw_TRUST_PROXY_HEADERS :: bool

definition default_gateway_config :: gateway_config where
  "default_gateway_config =
     \<lparr> gw_HOST = ''0.0.0.0'', gw_PORT = 8000, gw_TITLE = ''Video Site Gateway'', gw_VERSION = ''0.1.0'',
       gw_API_PREFIX = ''/api/v1'', gw_USERS_SERVICE_URL = ''http://localhost:8001'',
       gw_CONTENT_SERVICE_URL = None, gw_REQUEST_TIMEOUT_SECONDS = 30, gw_CONNECT_TIMEOUT_SECONDS = 5,
       gw_VISITOR_COOKIE_NAME = ''visitor_id'',
       gw_CORS_ORIGINS = [], gw_TRUST_PROXY_HEADERS = False \<rparr>"

section \<open>The table\<close>

record route =
  rt_prefix :: string
  rt_upstream :: "string option"
  rt_inject_identity :: bool
  rt_require_identity :: bool

definition route_table :: "gateway_config \<Rightarrow> route list" where
  "route_table c =
     [\<lparr> rt_prefix = ''/auth'', rt_upstream = Some (gw_USERS_SERVICE_URL c),
        rt_inject_identity = False, rt_require_identity = False \<rparr>,
      \<lparr> rt_prefix = ''/users'', rt_upstream = Some (gw_USERS_SERVICE_URL c),
        rt_inject_identity = False, rt_require_identity = False \<rparr>,
      \<lparr> rt_prefix = ''/admin'', rt_upstream = Some (gw_USERS_SERVICE_URL c),
        rt_inject_identity = False, rt_require_identity = False \<rparr>,
      \<lparr> rt_prefix = ''/content'', rt_upstream = gw_CONTENT_SERVICE_URL c,
        rt_inject_identity = True, rt_require_identity = False \<rparr>]"

text \<open>\<^verbatim>\<open>sorted(routes, key=..., reverse=True)\<close>: longest first, and stable.\<close>

definition longest_first :: "route list \<Rightarrow> route list" where
  "longest_first rs = sort_key (\<lambda>r. - int (length (rt_prefix r))) rs"

definition build_routes :: "gateway_config \<Rightarrow> route list" where
  "build_routes c = longest_first (route_table c)"

definition owns_path :: "route \<Rightarrow> string \<Rightarrow> bool" where
  "owns_path r path \<longleftrightarrow> path = rt_prefix r \<or> str_startswith path (rt_prefix r @ ''/'')"

fun match_route :: "route list \<Rightarrow> string \<Rightarrow> route option" where
  "match_route [] path = None"
| "match_route (r # rs) path = (if owns_path r path then Some r else match_route rs path)"

section \<open>First match and longest match\<close>

lemma match_route_find: "match_route rs path = find (\<lambda>r. owns_path r path) rs"
  by (induction rs) simp_all

lemma match_route_Some:
  "match_route rs path = Some r \<longleftrightarrow>
     (\<exists>before after. rs = before @ r # after \<and> owns_path r path \<and> (\<forall>r' \<in> set before. \<not> owns_path r' path))"
proof (induction rs)
  case (Cons s rs)
  show ?case
  proof (cases "owns_path s path")
    case True
    then show ?thesis by (auto simp: Cons_eq_append_conv)
  next
    case False
    then show ?thesis using Cons by (auto simp: Cons_eq_append_conv) (metis set_ConsD)
  qed
qed simp

lemma match_route_None: "match_route rs path = None \<longleftrightarrow> (\<forall>r \<in> set rs. \<not> owns_path r path)"
  by (induction rs) simp_all

lemma longest_first_set [simp]: "set (longest_first rs) = set rs"
  by (simp add: longest_first_def)

lemma longest_first_sorted:
  assumes "longest_first rs = before @ r # after" and "r' \<in> set after"
  shows "length (rt_prefix r') \<le> length (rt_prefix r)"
proof -
  have "sorted (map (\<lambda>r. - int (length (rt_prefix r))) (before @ r # after))"
    using sorted_sort_key assms(1) by (metis longest_first_def)
  then show ?thesis using assms(2) by (auto simp: sorted_append)
qed

text \<open>In a table sorted that way the first match is a longest match.\<close>

lemma match_longest:
  assumes "match_route (longest_first rs) path = Some r"
  shows "r \<in> set rs \<and> owns_path r path \<and>
         (\<forall>r' \<in> set rs. owns_path r' path \<longrightarrow> length (rt_prefix r') \<le> length (rt_prefix r))"
proof -
  obtain before after where split: "longest_first rs = before @ r # after" "owns_path r path"
    "\<forall>r' \<in> set before. \<not> owns_path r' path"
    using assms by (auto simp: match_route_Some)
  have "set rs = set before \<union> insert r (set after)"
    using longest_first_set [of rs] split(1) by simp
  then show ?thesis using split longest_first_sorted [OF split(1)] by auto
qed

end
