(* ===== verification/Identity.thy ===== *)
theory Identity
  imports Json Errors "HOL-Library.AList"
begin

text \<open>
  Who is calling (\<^verbatim>\<open>gateway/identity.py\<close>). A Python \<^verbatim>\<open>dict\<close> of headers is an association list in
  insertion order with distinct keys; assigning to a key it has keeps the position
  (\<open>AList.update\<close>).
\<close>

type_synonym header_dict = "(string \<times> string) list"

definition dict_update :: "header_dict \<Rightarrow> header_dict \<Rightarrow> header_dict" where
  "dict_update d new = foldl (\<lambda>d (k, v). AList.update k v d) d new"

definition dict_of_items :: "(string \<times> string) list \<Rightarrow> header_dict" where
  "dict_of_items items = dict_update [] items"

definition dict_setdefault :: "string \<Rightarrow> string \<Rightarrow> header_dict \<Rightarrow> header_dict" where
  "dict_setdefault k v d = (case map_of d k of None \<Rightarrow> d @ [(k, v)] | Some _ \<Rightarrow> d)"

section \<open>Python conversions of decoded JSON\<close>

definition json_truthy :: "json \<Rightarrow> bool" where
  "json_truthy j =
     (case j of JNull \<Rightarrow> False | JBool b \<Rightarrow> b | JInt i \<Rightarrow> i \<noteq> 0 | JStr s \<Rightarrow> s \<noteq> []
      | JArr xs \<Rightarrow> xs \<noteq> [] | JObj ms \<Rightarrow> ms \<noteq> [])"

definition py_int :: "json \<Rightarrow> exn + int" where
  "py_int j =
     (case j of JBool b \<Rightarrow> Inr (if b then 1 else 0) | JInt i \<Rightarrow> Inr i
      | JStr s \<Rightarrow> (case int_of_str s of None \<Rightarrow> Inl (ValueError ''invalid literal for int()'') | Some i \<Rightarrow> Inr i)
      | _ \<Rightarrow> Inl (TypeError ''int() argument must be a string, a bytes-like object or a real number''))"

text \<open>\<^verbatim>\<open>repr\<close> of a string: single quotes unless only they occur in it.\<close>

definition repr_char :: "char \<Rightarrow> char \<Rightarrow> string" where
  "repr_char quote ch =
     (if ch = quote \<or> ch = CHR 0x5C then [CHR 0x5C, ch]
      else if ch = CHR 0x0A then [CHR 0x5C, CHR ''n'']
      else if ch = CHR 0x0D then [CHR 0x5C, CHR ''r'']
      else if ch = CHR 0x09 then [CHR 0x5C, CHR ''t'']
      else if code ch < 32 \<or> 127 \<le> code ch \<and> code ch \<le> 160 \<or> code ch = 173 then
        [CHR 0x5C, CHR ''x'', hex_digit (code ch div 16), hex_digit (code ch mod 16)]
      else [ch])"

definition repr_str :: "string \<Rightarrow> string" where
  "repr_str s =
     (let quote = (if CHR 0x27 \<in> set s \<and> CHR 0x22 \<notin> set s then CHR 0x22 else CHR 0x27)
      in quote # concat (map (repr_char quote) s) @ [quote])"

text \<open>A decoded object is a \<^verbatim>\<open>dict\<close>: a repeated key keeps its first place and its last value.\<close>

definition json_dict :: "(string \<times> 'a) list \<Rightarrow> (string \<times> 'a) list" where
  "json_dict ms = foldl (\<lambda>d (k, v). AList.update k v d) [] ms"

fun py_repr :: "json \<Rightarrow> string" where
  "py_repr JNull = ''None''"
| "py_repr (JBool b) = (if b then ''True'' else ''False'')"
| "py_repr (JInt i) = str_of_int i"
| "py_repr (JStr s) = repr_str s"
| "py_repr (JArr xs) = ''['' @ str_join '', '' (map py_repr xs) @ '']''"
| "py_repr (JObj ms) =
     ''{'' @ str_join '', '' (map (\<lambda>m. repr_str (fst m) @ '': '' @ snd m)
       (json_dict (map (\<lambda>m. (fst m, py_repr (snd m))) ms))) @ ''}''"

definition py_str :: "json \<Rightarrow> string" where
  "py_str j = (case j of JStr s \<Rightarrow> s | _ \<Rightarrow> py_repr j)"

definition py_list :: "json \<Rightarrow> exn + json list" where
  "py_list j =
     (case j of JArr xs \<Rightarrow> Inr xs | JStr s \<Rightarrow> Inr (map (\<lambda>ch. JStr [ch]) s)
      | JObj ms \<Rightarrow> Inr (map (\<lambda>m. JStr (fst m)) (json_dict ms))
      | _ \<Rightarrow> Inl (TypeError ''object is not iterable''))"

section \<open>The caller\<close>

definition IDENTITY_HEADERS :: "string list" where
  "IDENTITY_HEADERS =
     [''x-user-id'', ''x-user-username'', ''x-user-permissions'', ''x-user-superuser'',
      ''x-user-email-verified'', ''x-visitor-id'']"

record identity =
  id_user_id :: int
  id_username :: string
  id_permissions :: "json list"
  id_is_superuser :: bool
  id_email_verified :: bool
  id_visitor_id :: "json option"

text \<open>\<^verbatim>\<open>profile[key]\<close>: only an object has string keys.\<close>

definition subscript :: "json \<Rightarrow> string \<Rightarrow> exn + json" where
  "subscript j k =
     (case j of
        JObj _ \<Rightarrow> (case json_field k j of None \<Rightarrow> Inl (KeyError k) | Some v \<Rightarrow> Inr v)
      | _ \<Rightarrow> Inl (TypeError ''indices must be integers''))"

definition field_truthy :: "string \<Rightarrow> json \<Rightarrow> bool" where
  "field_truthy k j = (case json_field k j of None \<Rightarrow> False | Some v \<Rightarrow> json_truthy v)"

definition from_profile :: "json \<Rightarrow> exn + identity" where
  "from_profile profile =
     bindE (bindE (subscript profile ''id'') py_int) (\<lambda>uid.
     bindE (subscript profile ''username'') (\<lambda>username.
     bindE (case json_field ''permissions'' profile of
              Some ps \<Rightarrow> if json_truthy ps then py_list ps else Inr []
            | None \<Rightarrow> Inr []) (\<lambda>permissions.
     Inr \<lparr> id_user_id = uid, id_username = py_str username, id_permissions = permissions,
           id_is_superuser = field_truthy ''is_superuser'' profile,
           id_email_verified = field_truthy ''email_verified'' profile,
           id_visitor_id = json_field ''visitor_id'' profile \<rparr>)))"

fun join_strings :: "json list \<Rightarrow> exn + string list" where
  "join_strings [] = Inr []"
| "join_strings (JStr s # js) = bindE (join_strings js) (\<lambda>ss. Inr (s # ss))"
| "join_strings (_ # js) = Inl (TypeError ''sequence item: expected str instance'')"

definition bool_header :: "bool \<Rightarrow> string" where
  "bool_header b = (if b then ''true'' else ''false'')"

definition as_headers :: "identity \<Rightarrow> exn + header_dict" where
  "as_headers i =
     bindE (join_strings (id_permissions i)) (\<lambda>ps.
     Inr [(''X-User-Id'', str_of_int (id_user_id i)), (''X-User-Username'', id_username i),
          (''X-User-Permissions'', str_join '','' ps),
          (''X-User-Superuser'', bool_header (id_is_superuser i)),
          (''X-User-Email-Verified'', bool_header (id_email_verified i))])"

definition strip_client_identity :: "header_dict \<Rightarrow> header_dict" where
  "strip_client_identity headers = filter (\<lambda>h. str_lower (fst h) \<notin> set IDENTITY_HEADERS) headers"

section \<open>Asking users-service\<close>

text \<open>
  The HTTP client is a parameter: a program over the state of everything behind the gateway that
  answers a request or fails, by a timeout or otherwise. \<open>None\<close> as the decoded body is one that is not
  JSON. A body that is streamed on is opaque.
\<close>

datatype transport_error = TimeoutException string | OtherHTTPError string

fun transport_message :: "transport_error \<Rightarrow> string" where
  "transport_message (TimeoutException m) = m"
| "transport_message (OtherHTTPError m) = m"

record upstream_request =
  up_method :: string
  up_url :: string
  up_headers :: header_dict
  up_cookies :: header_dict
  up_query :: string
  up_body :: string

record upstream_reply =
  reply_status :: int
  reply_headers :: "(string \<times> string) list"
  reply_json :: "json option"
  reply_body :: string

type_synonym 'w http_client = "upstream_request \<Rightarrow> 'w \<Rightarrow> (transport_error + upstream_reply) \<times> 'w"

definition http_get :: "string \<Rightarrow> header_dict \<Rightarrow> header_dict \<Rightarrow> upstream_request" where
  "http_get url headers cookies =
     \<lparr> up_method = ''GET'', up_url = url, up_headers = headers, up_cookies = cookies,
       up_query = [], up_body = [] \<rparr>"

definition resolver_url :: "string \<Rightarrow> string \<Rightarrow> string" where
  "resolver_url users_service_url api_prefix =
     str_rstrip_by (\<lambda>ch. ch = CHR ''/'') users_service_url @ api_prefix @ ''/auth/me''"

definition resolve ::
  "'w http_client \<Rightarrow> string \<Rightarrow> header_dict \<Rightarrow> header_dict \<Rightarrow> ('w, exn, identity option) prog" where
  "resolve client url headers cookies = (\<lambda>w.
     let forwarded = filter (\<lambda>h. str_lower (fst h) \<in> {''authorization'', ''cookie''}) headers
     in case client (http_get url forwarded cookies) w of
          (Inl _, w') \<Rightarrow> (Inr None, w')
        | (Inr reply, w') \<Rightarrow>
            if reply_status reply \<noteq> 200 then (Inr None, w')
            else (case reply_json reply of
                    None \<Rightarrow> (Inl (ValueError ''Expecting value''), w')
                  | Some j \<Rightarrow> (bindE (from_profile j) (\<lambda>i. Inr (Some i)), w')))"

end
