(* ===== verification/Gateway.thy ===== *)
theory Gateway
  imports Gateway_Routes Identity
begin

text \<open>
  Forwarding (\<^verbatim>\<open>gateway/proxy.py\<close>), the catch-all route (\<^verbatim>\<open>gateway/gateway_router.py\<close>) and the probes
  (\<^verbatim>\<open>gateway/bootstrap.py\<close>).

  A \<open>gateway_request\<close> is what Starlette hands over: \<open>gq_headers\<close> is the raw header list, names in
  lower case, in order, with repetitions; \<open>gq_path\<close> is what follows the API prefix and its slash.
\<close>

section \<open>Incoming requests\<close>

record gateway_request =
  gq_method :: string
  gq_path :: string
  gq_query :: string
  gq_scheme :: string
  gq_headers :: "(string \<times> string) list"
  gq_cookies :: header_dict
  gq_client :: "string option"
  gq_body :: string

text \<open>
  \<^verbatim>\<open>headers.get\<close> finds the first line of a name. \<^verbatim>\<open>dict(headers)\<close> reads every key through it; a
  comprehension over \<^verbatim>\<open>headers.items()\<close> keeps the last line of a repeated name.
\<close>

definition header_get :: "gateway_request \<Rightarrow> string \<Rightarrow> string option" where
  "header_get rq name = map_of (gq_headers rq) (str_lower name)"

definition headers_as_dict :: "gateway_request \<Rightarrow> header_dict" where
  "headers_as_dict rq =
     dict_of_items (map (\<lambda>h. (fst h, the (map_of (gq_headers rq) (fst h)))) (gq_headers rq))"

section \<open>Forwarded headers\<close>

definition HOP_BY_HOP :: "string list" where
  "HOP_BY_HOP =
     [''connection'', ''keep-alive'', ''proxy-authenticate'', ''proxy-authorization'', ''te'',
      ''trailer'', ''transfer-encoding'', ''upgrade'', ''content-length'', ''host'']"

definition REQUEST_ID_HEADER :: string where "REQUEST_ID_HEADER = ''X-Request-Id''"

text \<open>\<open>fresh\<close> is the hexadecimal UUID drawn for the request if it has no id of its own.\<close>

definition end_to_end :: "gateway_request \<Rightarrow> header_dict" where
  "end_to_end rq =
     dict_of_items (filter (\<lambda>h. str_lower (fst h) \<notin> set HOP_BY_HOP) (gq_headers rq))"

definition forwarded_for :: "gateway_request \<Rightarrow> string \<Rightarrow> string" where
  "forwarded_for rq ip =
     (case header_get rq ''x-forwarded-for'' of
        Some (ch # rest) \<Rightarrow> (ch # rest) @ '', '' @ ip
      | _ \<Rightarrow> ip)"

definition request_id :: "gateway_request \<Rightarrow> string \<Rightarrow> string" where
  "request_id rq fresh =
     (case header_get rq REQUEST_ID_HEADER of Some (ch # rest) \<Rightarrow> ch # rest | _ \<Rightarrow> fresh)"

definition add_visitor :: "string option \<Rightarrow> header_dict \<Rightarrow> header_dict" where
  "add_visitor visitor_id headers =
     (if truthy visitor_id then AList.update ''X-Visitor-Id'' (the visitor_id) headers else headers)"

definition add_forwarded_for :: "gateway_request \<Rightarrow> string option \<Rightarrow> header_dict \<Rightarrow> header_dict" where
  "add_forwarded_for rq client_ip headers =
     (if truthy client_ip
      then AList.update ''X-Forwarded-For'' (forwarded_for rq (the client_ip)) headers else headers)"

definition build_forward_headers ::
  "gateway_request \<Rightarrow> identity option \<Rightarrow> string option \<Rightarrow> string option \<Rightarrow> string \<Rightarrow> exn + header_dict" where
  "build_forward_headers rq ident client_ip visitor_id fresh =
     bindE (case ident of None \<Rightarrow> Inr [] | Some i \<Rightarrow> as_headers i) (\<lambda>idh.
     let headers = dict_update (strip_client_identity (end_to_end rq)) idh;
         headers = add_visitor visitor_id headers;
         headers = add_forwarded_for rq client_ip headers;
         headers = AList.update ''X-Forwarded-Proto'' (gq_scheme rq) headers
     in Inr (dict_setdefault REQUEST_ID_HEADER (request_id rq fresh) headers))"

section \<open>Forwarding\<close>

record gateway_response =
  gr_status :: int
  gr_headers :: "(string \<times> string) list"
  gr_body :: string

datatype gateway_answer = Relayed gateway_response | Own int json

definition detail :: "int \<Rightarrow> string \<Rightarrow> gateway_answer" where
  "detail status msg = Own status (JObj [(''detail'', JStr msg)])"

definition unavailable :: "string \<Rightarrow> gateway_answer" where
  "unavailable service = detail 503 (service @ '' is not available'')"

datatype proxy_error = ProxyError int string

definition proxy_error_of :: "transport_error \<Rightarrow> proxy_error" where
  "proxy_error_of e =
     (case e of
        TimeoutException _ \<Rightarrow> ProxyError 504 ''The upstream service timed out''
      | OtherHTTPError _ \<Rightarrow> ProxyError 502 ''The upstream service is unreachable'')"

definition relay :: "upstream_reply \<Rightarrow> gateway_response" where
  "relay reply =
     \<lparr> gr_status = reply_status reply,
       gr_headers = filter (\<lambda>h. str_lower (fst h) \<notin> set HOP_BY_HOP) (reply_headers reply),
       gr_body = reply_body reply \<rparr>"

definition forward ::
  "'w http_client \<Rightarrow> gateway_request \<Rightarrow> string \<Rightarrow> header_dict \<Rightarrow> ('w, proxy_error, gateway_response) prog" where
  "forward client rq target_url headers = (\<lambda>w.
     case client \<lparr> up_method = gq_method rq, up_url = target_url, up_headers = headers,
                   up_cookies = [], up_query = gq_query rq, up_body = gq_body rq \<rparr> w of
       (Inl e, w') \<Rightarrow> (Inl (proxy_error_of e), w')
     | (Inr reply, w') \<Rightarrow> (Inr (relay reply), w'))"

section \<open>The catch-all route\<close>

definition gateway_client_ip :: "gateway_config \<Rightarrow> gateway_request \<Rightarrow> string option" where
  "gateway_client_ip c rq =
     (case (if gw_TRUST_PROXY_HEADERS c then header_get rq ''x-forwarded-for'' else None) of
        Some (ch # rest) \<Rightarrow> Some (str_strip (hd (str_split (CHR '','') (ch # rest))))
      | _ \<Rightarrow> gq_client rq)"

definition target_url :: "gateway_config \<Rightarrow> string \<Rightarrow> string \<Rightarrow> string" where
  "target_url c upstream path =
     str_rstrip_by (\<lambda>ch. ch = CHR ''/'') upstream @ gw_API_PREFIX c @ ''/'' @ path"

definition deliver ::
  "'w http_client \<Rightarrow> gateway_config \<Rightarrow> gateway_request \<Rightarrow> string \<Rightarrow> string \<Rightarrow> identity option \<Rightarrow>
     ('w, exn, gateway_answer) prog" where
  "deliver client c rq fresh upstream ident =
     bindM (liftM (build_forward_headers rq ident (gateway_client_ip c rq)
              (map_of (gq_cookies rq) (gw_VISITOR_COOKIE_NAME c)) fresh)) (\<lambda>headers w.
     case forward client rq (target_url c upstream (gq_path rq)) headers w of
       (Inl (ProxyError status msg), w') \<Rightarrow> (Inr (detail status msg), w')
     | (Inr r, w') \<Rightarrow> (Inr (Relayed r), w'))"

definition proxy ::
  "'w http_client \<Rightarrow> gateway_config \<Rightarrow> route list \<Rightarrow> gateway_request \<Rightarrow> string \<Rightarrow>
     ('w, exn, gateway_answer) prog" where
  "proxy client c routes rq fresh =
     (case match_route routes (''/'' @ gq_path rq) of
        None \<Rightarrow> retM (detail 404 ''Unknown route'')
      | Some rt \<Rightarrow>
          (case rt_upstream rt of
             None \<Rightarrow> retM (unavailable (str_lstrip_by (\<lambda>ch. ch = CHR ''/'') (rt_prefix rt)))
           | Some upstream \<Rightarrow>
               bindM (if rt_inject_identity rt \<or> rt_require_identity rt
                      then resolve client (resolver_url (gw_USERS_SERVICE_URL c) (gw_API_PREFIX c))
                             (headers_as_dict rq) (gq_cookies rq)
                      else retM None) (\<lambda>ident.
               if ident = None \<and> rt_require_identity rt
               then retM (detail 401 ''Authentication required'')
               else deliver client c rq fresh upstream ident)))"

text \<open>An exception of the handler is a plain 500 of the server.\<close>

definition gateway_serve ::
  "'w http_client \<Rightarrow> gateway_config \<Rightarrow> gateway_request \<Rightarrow> string \<Rightarrow> 'w \<Rightarrow> gateway_answer \<times> 'w" where
  "gateway_serve client c rq fresh w =
     (case proxy client c (build_routes c) rq fresh w of
        (Inl _, w') \<Rightarrow> (Own 500 (JStr ''Internal Server Error''), w')
      | (Inr a, w') \<Rightarrow> (a, w'))"

section \<open>Probes\<close>

definition gateway_health :: gateway_answer where
  "gateway_health = Own 200 (JObj [(''status'', JStr ''ok'')])"

definition gateway_readiness :: "'w http_client \<Rightarrow> gateway_config \<Rightarrow> 'w \<Rightarrow> gateway_answer \<times> 'w" where
  "gateway_readiness client c w =
     (case client (http_get (str_rstrip_by (\<lambda>ch. ch = CHR ''/'') (gw_USERS_SERVICE_URL c) @ ''/health/ready'')
                     [] []) w of
        (Inl e, w') \<Rightarrow>
          (Own 503 (JObj [(''status'', JStr ''unavailable''), (''users_service'', JStr (transport_message e))]), w')
      | (Inr reply, w') \<Rightarrow>
          if reply_status reply \<noteq> 200 then
            (Own 503 (JObj [(''status'', JStr ''unavailable''), (''users_service'', JInt (reply_status reply))]), w')
          else (Own 200 (JObj [(''status'', JStr ''ready'')]), w'))"

end
