(* ===== verification/Gateway_Security.thy ===== *)
theory Gateway_Security
  imports Gateway
begin

text \<open>
  What the gateway guarantees of the headers it forwards and of its routing.
\<close>

section \<open>Header dictionaries\<close>

lemma update_mem: "h \<in> set (AList.update k v d) \<Longrightarrow> h = (k, v) \<or> h \<in> set d"
  by (induction d) (auto split: if_splits)

lemma update_name: "(n, v) \<in> set (AList.update k x d) \<Longrightarrow> n = k \<or> (n, v) \<in> set d"
  by (drule update_mem) auto

lemma dict_update_mem: "h \<in> set (dict_update d new) \<Longrightarrow> h \<in> set d \<or> h \<in> set new"
proof (induction new arbitrary: d)
  case Nil
  then show ?case by (simp add: dict_update_def)
next
  case (Cons x new)
  obtain k v where x: "x = (k, v)" by (cases x)
  have "h \<in> set (AList.update k v d) \<or> h \<in> set new"
    using Cons.IH [of "AList.update k v d"] Cons.prems by (simp add: dict_update_def x)
  then show ?case using update_mem [of h k v d] by (auto simp: x)
qed

lemma dict_update_Cons [simp]: "dict_update d ((k, v) # new) = dict_update (AList.update k v d) new"
  by (simp add: dict_update_def)

lemma dict_update_Nil [simp]: "dict_update d [] = d"
  by (simp add: dict_update_def)

lemma map_of_dict_update: "map_of (dict_update d new) k =
    (case map_of (rev new) k of None \<Rightarrow> map_of d k | Some v \<Rightarrow> Some v)"
proof (induction new arbitrary: d)
  case (Cons x new)
  obtain n v where "x = (n, v)" by (cases x)
  then show ?case by (simp add: Cons.IH update_conv map_add_def split: option.splits)
qed simp

lemma map_of_dict_of_items: "map_of (dict_of_items items) k = map_of (rev items) k"
  by (simp add: dict_of_items_def map_of_dict_update split: option.splits)

lemma map_of_filter_fst: "map_of (filter (\<lambda>h. P (fst h)) d) k = (if P k then map_of d k else None)"
  by (induction d) auto

lemma map_of_setdefault: "map_of (dict_setdefault k v d) n =
    (case map_of d n of None \<Rightarrow> if n = k then Some v else None | Some x \<Rightarrow> Some x)"
  by (auto simp: dict_setdefault_def map_add_def split: option.splits)

lemma setdefault_mem: "h \<in> set (dict_setdefault k v d) \<Longrightarrow> h = (k, v) \<or> h \<in> set d"
  by (auto simp: dict_setdefault_def split: option.splits)

section \<open>Names\<close>

text \<open>What the gateway writes itself, apart from the identity.\<close>

definition own_names :: "string list" where
  "own_names =
     [''X-User-Id'', ''X-User-Username'', ''X-User-Permissions'', ''X-User-Superuser'',
      ''X-User-Email-Verified'', ''X-Visitor-Id'', ''X-Forwarded-For'', ''X-Forwarded-Proto'',
      ''X-Request-Id'']"

lemma lower_names [simp]:
  "str_lower ''X-Forwarded-For'' = ''x-forwarded-for''"
  "str_lower ''X-Forwarded-Proto'' = ''x-forwarded-proto''"
  "str_lower ''X-Request-Id'' = ''x-request-id''" "str_lower ''X-Visitor-Id'' = ''x-visitor-id''"
  "str_lower ''X-User-Id'' = ''x-user-id''" "str_lower ''X-User-Username'' = ''x-user-username''"
  "str_lower ''X-User-Permissions'' = ''x-user-permissions''"
  "str_lower ''X-User-Superuser'' = ''x-user-superuser''"
  "str_lower ''X-User-Email-Verified'' = ''x-user-email-verified''"
  "str_lower ''x-forwarded-for'' = ''x-forwarded-for''"
  by (simp_all add: str_lower_def lower_char_def py_isupper_def code_def char_of_def bit_0)

lemma own_names_not_lower: "n \<in> set own_names \<Longrightarrow> str_lower n \<noteq> n"
proof -
  have "list_all (\<lambda>n. str_lower n \<noteq> n) own_names" by (simp add: own_names_def)
  then show "n \<in> set own_names \<Longrightarrow> str_lower n \<noteq> n" by (simp add: list_all_iff)
qed

lemma as_headers_names: "as_headers i = Inr hs \<Longrightarrow> fst ` set hs \<subseteq> set own_names"
  by (auto simp: as_headers_def own_names_def bindE_def split: sum.splits)

section \<open>Forwarded headers\<close>

text \<open>The passes of \<^verbatim>\<open>build_forward_headers\<close>, seen from one header.\<close>

lemma add_visitor_mem:
  "(n, v) \<in> set (add_visitor vid hs) \<Longrightarrow> (n, v) \<in> set hs \<or> n = ''X-Visitor-Id'' \<and> vid = Some v"
  by (auto simp: add_visitor_def truthy_def split: if_splits option.splits dest: update_mem)

lemma add_forwarded_for_mem:
  "(n, v) \<in> set (add_forwarded_for rq ip hs) \<Longrightarrow> (n, v) \<in> set hs \<or> n = ''X-Forwarded-For''"
  by (auto simp: add_forwarded_for_def split: if_splits dest: update_mem)

lemma passes:
  assumes "(n, v) \<in> set A \<Longrightarrow> (n, v) = (a, x) \<or> (n, v) \<in> set B"
    and "(n, v) \<in> set B \<Longrightarrow> n = b \<or> (n, v) \<in> set C"
    and "(n, v) \<in> set C \<Longrightarrow> (n, v) \<in> set D \<or> n = d"
    and "(n, v) \<in> set D \<Longrightarrow> (n, v) \<in> set F \<or> n = e \<and> P"
    and "(n, v) \<in> set F \<Longrightarrow> (n, v) \<in> set G \<or> Q" and "(n, v) \<in> set A"
  shows "(n, v) \<in> set G \<or> Q \<or> n = e \<and> P \<or> n \<in> {d, b, a}"
  using assms by blast

lemma build_forward_headers_Inr:
  "build_forward_headers rq ident ip vid fresh = Inr hs \<longleftrightarrow>
     (\<exists>idh. (case ident of None \<Rightarrow> Inr [] | Some i \<Rightarrow> as_headers i) = Inr idh \<and>
        hs = dict_setdefault REQUEST_ID_HEADER (request_id rq fresh)
          (AList.update ''X-Forwarded-Proto'' (gq_scheme rq)
            (add_forwarded_for rq ip (add_visitor vid
              (dict_update (strip_client_identity (end_to_end rq)) idh)))))"
  unfolding build_forward_headers_def Let_def bindE_def
  by (cases "case ident of None \<Rightarrow> Inr [] | Some i \<Rightarrow> as_headers i") auto

lemma forward_header_cases:
  assumes "build_forward_headers rq ident ip vid fresh = Inr hs" and "(n, v) \<in> set hs"
  shows "(n, v) \<in> set (strip_client_identity (end_to_end rq)) \<or>
         (\<exists>i ihs. ident = Some i \<and> as_headers i = Inr ihs \<and> (n, v) \<in> set ihs) \<or>
         n = ''X-Visitor-Id'' \<and> vid = Some v \<or>
         n \<in> {''X-Forwarded-For'', ''X-Forwarded-Proto'', ''X-Request-Id''}"
proof -
  obtain idh where idh: "(case ident of None \<Rightarrow> Inr [] | Some i \<Rightarrow> as_headers i) = Inr idh"
    and hs: "hs = dict_setdefault REQUEST_ID_HEADER (request_id rq fresh)
      (AList.update ''X-Forwarded-Proto'' (gq_scheme rq) (add_forwarded_for rq ip (add_visitor vid
        (dict_update (strip_client_identity (end_to_end rq)) idh))))"
    using assms(1) by (auto simp: build_forward_headers_Inr)
  have identity: "(n, v) \<in> set (dict_update (strip_client_identity (end_to_end rq)) idh) \<Longrightarrow>
      (n, v) \<in> set (strip_client_identity (end_to_end rq)) \<or>
      (\<exists>i ihs. ident = Some i \<and> as_headers i = Inr ihs \<and> (n, v) \<in> set ihs)"
    using idh by (auto split: option.splits dest!: dict_update_mem)
  show ?thesis
    unfolding REQUEST_ID_HEADER_def [symmetric]
    by (rule passes [OF setdefault_mem update_name add_forwarded_for_mem add_visitor_mem identity
          assms(2) [unfolded hs]])
qed

lemma map_of_update: "map_of (AList.update k v d) n = (if n = k then Some v else map_of d n)"
  by (simp add: update_conv)

lemma map_of_add_visitor: "n \<noteq> ''X-Visitor-Id'' \<Longrightarrow> map_of (add_visitor vid d) n = map_of d n"
  by (cases "truthy vid") (simp_all only: add_visitor_def map_of_update if_True if_False)

lemma map_of_add_forwarded_for:
  "n \<noteq> ''X-Forwarded-For'' \<Longrightarrow> map_of (add_forwarded_for rq ip d) n = map_of d n"
  by (cases "truthy ip") (simp_all only: add_forwarded_for_def map_of_update if_True if_False)

lemma identity_header_passes:
  assumes "(case ident of None \<Rightarrow> Inr [] | Some i \<Rightarrow> as_headers i) = Inr idh" and "str_lower n = n"
  shows "map_of (rev idh) n = None"
proof -
  have "fst ` set idh \<subseteq> set own_names"
    using assms(1) as_headers_names by (auto split: option.splits)
  then have "n \<notin> fst ` set (rev idh)" using own_names_not_lower assms(2) by auto
  then show ?thesis by (simp add: map_of_eq_None_iff)
qed

lemma forward_header_passes:
  assumes "build_forward_headers rq ident ip vid fresh = Inr hs" and "str_lower n = n"
  shows "map_of hs n = map_of (strip_client_identity (end_to_end rq)) n"
proof -
  obtain idh where idh: "(case ident of None \<Rightarrow> Inr [] | Some i \<Rightarrow> as_headers i) = Inr idh"
    and hs: "hs = dict_setdefault REQUEST_ID_HEADER (request_id rq fresh)
      (AList.update ''X-Forwarded-Proto'' (gq_scheme rq) (add_forwarded_for rq ip (add_visitor vid
        (dict_update (strip_client_identity (end_to_end rq)) idh))))"
    using assms(1) by (auto simp: build_forward_headers_Inr)
  have "n \<notin> set own_names" using own_names_not_lower assms(2) by blast
  then have n: "n \<noteq> ''X-Forwarded-For''" "n \<noteq> ''X-Forwarded-Proto''" "n \<noteq> REQUEST_ID_HEADER"
    "n \<noteq> ''X-Visitor-Id''"
    by (auto simp: own_names_def REQUEST_ID_HEADER_def)
  show ?thesis
    unfolding hs map_of_setdefault map_of_update map_of_add_forwarded_for [OF n(1)]
      map_of_add_visitor [OF n(4)] map_of_dict_update identity_header_passes [OF idh assms(2)]
    using n by (simp split: option.splits)
qed

lemma stripped_header: "str_lower n = n \<Longrightarrow> map_of (strip_client_identity (end_to_end rq)) n =
    (if n \<in> set IDENTITY_HEADERS \<or> n \<in> set HOP_BY_HOP then None else map_of (rev (gq_headers rq)) n)"
  by (simp add: strip_client_identity_def end_to_end_def map_of_dict_of_items rev_filter
      map_of_filter_fst [of "\<lambda>n. str_lower n \<notin> set IDENTITY_HEADERS"]
      map_of_filter_fst [of "\<lambda>n. str_lower n \<notin> set HOP_BY_HOP"])

lemma end_to_end_mem: "h \<in> set (end_to_end rq) \<Longrightarrow> str_lower (fst h) \<notin> set HOP_BY_HOP"
  unfolding end_to_end_def dict_of_items_def by (drule dict_update_mem) auto

lemma forward_header_origin:
  assumes "build_forward_headers rq ident ip vid fresh = Inr hs" and "h \<in> set hs"
  shows "h \<in> set (end_to_end rq) \<or> fst h \<in> set own_names"
proof -
  obtain n v where h: "h = (n, v)" by (cases h)
  have own: "n \<in> {''X-Forwarded-For'', ''X-Forwarded-Proto'', ''X-Request-Id''} \<Longrightarrow> n \<in> set own_names"
    "''X-Visitor-Id'' \<in> set own_names" for n
    by (auto simp: own_names_def)
  from forward_header_cases [OF assms(1) assms(2) [unfolded h]]
  consider "(n, v) \<in> set (strip_client_identity (end_to_end rq))"
    | i ihs where "as_headers i = Inr ihs" "(n, v) \<in> set ihs"
    | "n = ''X-Visitor-Id''" | "n \<in> {''X-Forwarded-For'', ''X-Forwarded-Proto'', ''X-Request-Id''}"
    by blast
  then show ?thesis
  proof cases
    case 1
    then show ?thesis by (simp add: strip_client_identity_def h)
  next
    case 2
    then show ?thesis using as_headers_names h by force
  qed (use own h in auto)
qed

text \<open>None of the names the gateway adds on its own account is a trusted identity name or hop-by-hop.\<close>

lemma own_names_end_to_end: "n \<in> set own_names \<Longrightarrow> str_lower n \<notin> set HOP_BY_HOP"
proof -
  have "list_all (\<lambda>n. str_lower n \<notin> set HOP_BY_HOP) own_names" by (simp add: own_names_def HOP_BY_HOP_def)
  then show "n \<in> set own_names \<Longrightarrow> str_lower n \<notin> set HOP_BY_HOP" by (simp add: list_all_iff)
qed

lemma transport_names_not_identity:
  "n \<in> {''X-Forwarded-For'', ''X-Forwarded-Proto'', ''X-Request-Id''} \<Longrightarrow>
     str_lower n \<notin> set IDENTITY_HEADERS"
proof -
  have "list_all (\<lambda>n. str_lower n \<notin> set IDENTITY_HEADERS)
      [''X-Forwarded-For'', ''X-Forwarded-Proto'', ''X-Request-Id'']" by (simp add: IDENTITY_HEADERS_def)
  then show "n \<in> {''X-Forwarded-For'', ''X-Forwarded-Proto'', ''X-Request-Id''} \<Longrightarrow>
     str_lower n \<notin> set IDENTITY_HEADERS"
    unfolding list_all_iff by auto
qed

section \<open>The properties\<close>

text \<open>
  C18: A client cannot speak for the gateway. Whatever headers a request carries, every header that
  reaches the upstream under one of the trusted identity names is one the gateway wrote: it comes from
  the identity users-service confirmed, or is the visitor id the gateway read from the cookie. Without
  a confirmed identity there is none but the visitor id.
\<close>
theorem identity_headers_not_forgeable:
  assumes "build_forward_headers rq ident ip vid fresh = Inr hs"
    and "(n, v) \<in> set hs" and "str_lower n \<in> set IDENTITY_HEADERS"
  shows "(\<exists>i ihs. ident = Some i \<and> as_headers i = Inr ihs \<and> (n, v) \<in> set ihs) \<or>
         n = ''X-Visitor-Id'' \<and> vid = Some v"
proof -
  have "(n, v) \<notin> set (strip_client_identity (end_to_end rq))"
    using assms(3) by (simp add: strip_client_identity_def)
  moreover have "n \<notin> {''X-Forwarded-For'', ''X-Forwarded-Proto'', ''X-Request-Id''}"
    using transport_names_not_identity assms(3) by metis
  ultimately show ?thesis using forward_header_cases [OF assms(1,2)] by argo
qed

definition demo_forged :: gateway_request where
  "demo_forged =
     \<lparr> gq_method = ''GET'', gq_path = ''content/v/1'', gq_query = [], gq_scheme = ''http'',
       gq_headers = [(''x-user-id'', ''1''), (''x-visitor-id'', ''v''), (''accept'', ''*'')],
       gq_cookies = [(''visitor_id'', ''b'')], gq_client = Some ''10.0.0.1'', gq_body = [] \<rparr>"

lemma identity_headers_not_forgeable_witness:
  "\<exists>hs. build_forward_headers demo_forged None (Some ''10.0.0.1'') (Some ''b'') ''f'' = Inr hs \<and>
     (''X-Visitor-Id'', ''b'') \<in> set hs \<and>
     (\<forall>v. (''X-Visitor-Id'', v) \<in> set hs \<longrightarrow> v = ''b'')"
proof -
  let ?r = "build_forward_headers demo_forged None (Some ''10.0.0.1'') (Some ''b'') ''f''"
  have "\<not> isl ?r \<and> (''X-Visitor-Id'', ''b'') \<in> set (projr ?r)" by code_simp
  then obtain hs where hs: "?r = Inr hs" "(''X-Visitor-Id'', ''b'') \<in> set hs"
    by (cases ?r) auto
  have "str_lower ''X-Visitor-Id'' \<in> set IDENTITY_HEADERS" by (simp add: IDENTITY_HEADERS_def)
  from identity_headers_not_forgeable [OF hs(1) _ this] hs show ?thesis by blast
qed



end
