(* ===== verification/Gateway_Users.thy ===== *)
theory Gateway_Users
  imports Gateway_Security Http_Security
begin

text \<open>
  The gateway in front of users-service: every endpoint is reached through the routing table, the
  identity passed downstream is the account users-service authenticates, and what the caller address
  recorded by users-service is worth.

  What lies between the two is the network and the frameworks: \<open>decode\<close> finds the endpoint of a
  request (or answers itself), \<open>render\<close> writes a response. They are parameters of \<open>users_upstream\<close>.
\<close>

section \<open>users-service as an upstream\<close>

definition opt_json :: "string option \<Rightarrow> json" where
  "opt_json s = (case s of None \<Rightarrow> JNull | Some x \<Rightarrow> JStr x)"

definition user_response_json :: "(datetime option \<Rightarrow> json) \<Rightarrow> user_response \<Rightarrow> json" where
  "user_response_json time r =
     JObj [(''id'', JInt (ur_resp_id r)), (''email'', JStr (ur_resp_email r)),
           (''username'', JStr (ur_resp_username r)),
           (''display_name'', opt_json (ur_resp_display_name r)),
           (''is_active'', JBool (ur_resp_is_active r)),
           (''is_superuser'', JBool (ur_resp_is_superuser r)),
           (''email_verified'', JBool (ur_resp_email_verified r)),
           (''email_verified_at'', time (ur_resp_email_verified_at r)),
           (''visitor_id'', opt_json (ur_resp_visitor_id r)),
           (''created_at'', time (ur_resp_created_at r)),
           (''roles'', JArr (map (\<lambda>s. JObj [(''id'', JInt (rs_id s)), (''name'', JStr (rs_name s)),
              (''description'', opt_json (rs_description s))]) (ur_resp_roles r))),
           (''permissions'', JArr (map JStr (ur_resp_permissions r)))]"

type_synonym decoder = "upstream_request \<Rightarrow> upstream_reply + request \<times> endpoint"

type_synonym renderer = "response \<Rightarrow> upstream_reply"

definition users_upstream ::
  "decoder \<Rightarrow> renderer \<Rightarrow> email_str \<Rightarrow> 'r env \<Rightarrow> config \<Rightarrow> 'r world http_client" where
  "users_upstream decode render es env c = (\<lambda>req w.
     case decode req of
       Inl reply \<Rightarrow> (Inr reply, w)
     | Inr (rq, e) \<Rightarrow>
         (case serve es env c rq e w of
            (Inr r, w') \<Rightarrow> (Inr (render r), w')
          | (Inl x, w') \<Rightarrow> (Inl (OtherHTTPError (exn_message x)), w')))"

text \<open>What FastAPI and pydantic do with a profile: its status line, and the model's fields as JSON.\<close>

definition renders_profiles :: "renderer \<Rightarrow> (datetime option \<Rightarrow> json) \<Rightarrow> bool" where
  "renders_profiles render time \<longleftrightarrow>
     (\<forall>r. reply_status (render r) = resp_status r) \<and>
     (\<forall>r u. resp_body r = UserBody u \<longrightarrow> reply_json (render r) = Some (user_response_json time u))"

definition identity_of :: "user \<Rightarrow> identity" where
  "identity_of u =
     \<lparr> id_user_id = user_id u, id_username = user_username u,
       id_permissions = map JStr (permission_codes u), id_is_superuser = user_is_superuser u,
       id_email_verified = is_email_verified u, id_visitor_id = Some (opt_json (user_visitor_id u)) \<rparr>"

lemma from_profile_of_user:
  "from_profile (user_response_json time (to_user_response u)) = Inr (identity_of u)"
  by (auto simp: from_profile_def user_response_json_def to_user_response_def subscript_def
      json_field_def py_int_def py_list_def py_str_def field_truthy_def json_truthy_def identity_of_def)

section \<open>Asking who the caller is\<close>

definition caller :: "'r env \<Rightarrow> config \<Rightarrow> request \<Rightarrow> 'r world \<Rightarrow> user option" where
  "caller env c rq w =
     (case access_token c rq of
        Inl _ \<Rightarrow> None
      | Inr token \<Rightarrow> (case fst (authenticate env c token w) of Inl _ \<Rightarrow> None | Inr u \<Rightarrow> Some u))"

definition me_answer :: "user option \<Rightarrow> response \<Rightarrow> bool" where
  "me_answer who r =
     (case who of None \<Rightarrow> resp_status r \<noteq> 200
      | Some u \<Rightarrow> resp_status r = 200 \<and> resp_body r = UserBody (to_user_response u))"

lemma me_answer_with_cookies [simp]: "me_answer who (with_cookies cs r) = me_answer who r"
  by (simp add: me_answer_def with_cookies_def split: option.splits)

lemma me_answer_error: "me_answer None (error_body (handle_exn x))"
  using documented_status_range [of x] by (auto simp: me_answer_def)

lemma read_me_answer:
  "wp (read_me_route env c rq) (\<lambda>r _. me_answer (caller env c rq w) r)
     (\<lambda>_ _. caller env c rq w = None) w"
  by (auto simp: read_me_route_def current_user_def caller_def me_answer_def wp_def bindM_def
      liftM_def retM_def plain_response_def split: sum.splits prod.splits)

lemma serve_me:
  "wp (serve es env c rq GetAuthMe)
     (\<lambda>r _. \<exists>n. me_answer (caller env c rq (w\<lparr>draws := n\<rparr>)) r) (\<lambda>_ _. False) w"
proof (rule wp_serve)
  fix vid :: string and w1 :: "'a world"
  assume "only_reads w w1"
  then obtain n where w1: "w1 = w\<lparr>draws := n\<rparr>" by (auto simp: only_reads_def)
  show "wp (handle es env c rq GetAuthMe vid)
      (\<lambda>r w'. \<forall>cs. \<exists>n. me_answer (caller env c rq (w\<lparr>draws := n\<rparr>)) (with_cookies cs r))
      (\<lambda>x w'. \<forall>cs. \<exists>n. me_answer (caller env c rq (w\<lparr>draws := n\<rparr>))
         (with_cookies cs (error_body (handle_exn x)))) w1"
    unfolding handle_def endpoint.case me_answer_with_cookies
    by (rule wp_mono [OF read_me_answer]) (auto simp: w1 intro!: exI [of _ n] me_answer_error)
qed (simp_all add: csrf_requires_check_def endpoint_method_def safe_methods_def)

section \<open>The properties\<close>


definition demo_decode_http :: decoder where
  "demo_decode_http req =
     Inr (demo_request\<lparr>rq_bearer := map_of (up_headers req) ''authorization''\<rparr>, GetAuthMe)"

definition demo_render :: renderer where
  "demo_render r =
     \<lparr> reply_status = resp_status r, reply_headers = [],
       reply_json = (case resp_body r of UserBody u \<Rightarrow> Some (user_response_json (\<lambda>_. JNull) u) | _ \<Rightarrow> None),
       reply_body = [] \<rparr>"


lemma build_routes_eq: "build_routes gc = [route_table gc ! 3, route_table gc ! 1, route_table gc ! 2, route_table gc ! 0]"
  by (simp add: build_routes_def longest_first_def route_table_def)

text \<open>
  C21: One address for the whole API. If gateway and service agree on the API prefix, every endpoint of
  the service is reached through the gateway at its own path, is forwarded to users-service, and costs
  no identity lookup.
\<close>
theorem gateway_reaches_every_endpoint:
  assumes "\<not> is_probe e" and "gw_API_PREFIX gc = cfg_API_PREFIX c"
    and "endpoint_route e = ''/'' @ path"
  shows "\<exists>rt upstream. match_route (build_routes gc) (''/'' @ path) = Some rt \<and>
           rt_upstream rt = Some upstream \<and> upstream = gw_USERS_SERVICE_URL gc \<and>
           \<not> rt_inject_identity rt \<and> \<not> rt_require_identity rt \<and>
           target_url gc upstream path =
             str_rstrip_by (\<lambda>ch. ch = CHR ''/'') upstream @ endpoint_path c e"
proof -
  have "target_url gc u path = str_rstrip_by (\<lambda>ch. ch = CHR ''/'') u @ endpoint_path c e" for u
    using assms by (simp add: target_url_def endpoint_path_def)
  moreover have "\<exists>rt. match_route (build_routes gc) (endpoint_route e) = Some rt \<and>
      rt_upstream rt = Some (gw_USERS_SERVICE_URL gc) \<and> \<not> rt_inject_identity rt \<and>
      \<not> rt_require_identity rt"
    using assms(1) unfolding build_routes_eq
    by (cases e) (simp_all add: is_probe_def endpoint_route_def route_table_def owns_path_def
        str_startswith_def)
  ultimately show ?thesis using assms(3) by metis
qed

lemma gateway_reaches_every_endpoint_witness:
  "\<exists>rt upstream. match_route (build_routes default_gateway_config) ''/users/me'' = Some rt \<and>
     rt_upstream rt = Some upstream \<and>
     target_url default_gateway_config upstream ''users/me'' =
       str_rstrip_by (\<lambda>ch. ch = CHR ''/'') upstream @ endpoint_path default_config GetMe"
  using gateway_reaches_every_endpoint [of GetMe default_gateway_config default_config "''users/me''"]
  by (auto simp: is_probe_def endpoint_route_def default_gateway_config_def default_config_def)

text \<open>
  The routing table is a longest-prefix table over path segments: a path is unknown exactly when
  no prefix of the table covers it, and otherwise goes to the service with the longest prefix that
  does; a prefix covers itself and what follows it after a slash, never a mere string extension.
\<close>
theorem routing_takes_longest_prefix:
  "(match_route (build_routes gc) path = None \<longleftrightarrow>
      (\<forall>r \<in> set (route_table gc). path \<noteq> rt_prefix r \<and> (\<forall>rest. path \<noteq> rt_prefix r @ ''/'' @ rest))) \<and>
   (\<forall>r. match_route (build_routes gc) path = Some r \<longrightarrow>
      r \<in> set (route_table gc) \<and> (path = rt_prefix r \<or> (\<exists>rest. path = rt_prefix r @ ''/'' @ rest)) \<and>
      (\<forall>r' \<in> set (route_table gc). (\<exists>rest. path = rt_prefix r' @ ''/'' @ rest) \<longrightarrow>
         length (rt_prefix r') \<le> length (rt_prefix r)))"
proof -
  have owns: "owns_path r path \<longleftrightarrow> path = rt_prefix r \<or> (\<exists>rest. path = rt_prefix r @ ''/'' @ rest)" for r
    by (simp add: owns_path_def str_startswith_iff)
  show ?thesis
    unfolding build_routes_def match_route_None longest_first_set
    using match_longest [of "route_table gc" path] by (auto simp: owns simp del: append_Cons)
qed

lemma routing_takes_longest_prefix_witness:
  "match_route (build_routes default_gateway_config) ''/usersx'' = None"
  using routing_takes_longest_prefix [of default_gateway_config "''/usersx''"]
  by (simp add: route_table_def)

section \<open>The caller's address\<close>

lemma update_append: "k \<notin> fst ` set d \<Longrightarrow> AList.update k v (d @ s) = d @ AList.update k v s"
  by (induction d) auto

lemma dict_update_append:
  "fst ` set new \<inter> fst ` set d = {} \<Longrightarrow> dict_update (d @ s) new = d @ dict_update s new"
proof (induction new arbitrary: s)
  case (Cons x new)
  obtain k v where "x = (k, v)" by (cases x)
  then show ?case using Cons by (simp add: update_append)
qed simp

text \<open>The server hands header names over in lower case, as ASGI requires.\<close>

definition asgi_headers :: "gateway_request \<Rightarrow> bool" where
  "asgi_headers rq \<longleftrightarrow> (\<forall>h \<in> set (gq_headers rq). str_lower (fst h) = fst h)"

lemma end_to_end_lower: "asgi_headers rq \<Longrightarrow> h \<in> set (end_to_end rq) \<Longrightarrow> str_lower (fst h) = fst h"
  unfolding end_to_end_def dict_of_items_def by (drule dict_update_mem) (auto simp: asgi_headers_def)

lemma add_visitor_append: "''X-Visitor-Id'' \<notin> fst ` set d \<Longrightarrow> \<exists>t. add_visitor vid (d @ s) = d @ t"
  by (auto simp: add_visitor_def update_append)

lemma add_forwarded_for_append:
  "''X-Forwarded-For'' \<notin> fst ` set d \<Longrightarrow> \<exists>t. add_forwarded_for rq ip (d @ s) = d @ t"
  by (auto simp: add_forwarded_for_def update_append)

text \<open>What the gateway adds comes after what the client sent.\<close>

lemma client_headers_first:
  assumes "build_forward_headers rq ident ip vid fresh = Inr hs" and "asgi_headers rq"
  shows "\<exists>s. hs = strip_client_identity (end_to_end rq) @ s"
proof -
  let ?d = "strip_client_identity (end_to_end rq)"
  have fresh_names: "fst ` set ?d \<inter> set own_names = {}"
    using own_names_not_lower end_to_end_lower [OF assms(2)] by (force simp: strip_client_identity_def)
  obtain idh where idh: "(case ident of None \<Rightarrow> Inr [] | Some i \<Rightarrow> as_headers i) = Inr idh"
    and hs: "hs = dict_setdefault REQUEST_ID_HEADER (request_id rq fresh)
      (AList.update ''X-Forwarded-Proto'' (gq_scheme rq) (add_forwarded_for rq ip (add_visitor vid
        (dict_update ?d idh))))"
    using assms(1) by (auto simp: build_forward_headers_Inr)
  have "fst ` set idh \<subseteq> set own_names"
    using idh as_headers_names by (auto split: option.splits)
  then have a: "dict_update ?d idh = ?d @ dict_update [] idh"
    using dict_update_append [of idh ?d "[]"] fresh_names by auto
  have new: "''X-Visitor-Id'' \<notin> fst ` set ?d" "''X-Forwarded-For'' \<notin> fst ` set ?d"
    "''X-Forwarded-Proto'' \<notin> fst ` set ?d"
    using fresh_names by (simp_all add: own_names_def)
  obtain t where b: "add_visitor vid (dict_update ?d idh) = ?d @ t"
    using add_visitor_append [OF new(1)] unfolding a by blast
  obtain t' where c: "add_forwarded_for rq ip (?d @ t) = ?d @ t'"
    using add_forwarded_for_append [OF new(2)] by blast
  show ?thesis
    unfolding hs b c update_append [OF new(3)]
    by (auto simp: dict_setdefault_def split: option.splits)
qed

lemma map_of_lowered:
  "(\<And>h. h \<in> set d \<Longrightarrow> f (fst h) = fst h) \<Longrightarrow> map_of (map (apfst f) d) n = map_of d n"
  by (induction d) auto

text \<open>
  C22: The address users-service records for a request through the gateway can be chosen by the client.
  The gateway keeps the \<^verbatim>\<open>X-Forwarded-For\<close> the client sent and only appends the true address;
  users-service, told to trust the proxy, takes the first element. The peer address plays no part.
\<close>
theorem forwarded_address_is_forgeable:
  assumes "build_forward_headers gq ident ip vid fresh = Inr hs" and "asgi_headers gq"
    and "map_of (rev (gq_headers gq)) ''x-forwarded-for'' = Some claimed" and "claimed \<noteq> []"
    and "cfg_TRUST_PROXY_HEADERS c" and "rq_headers rq = map (apfst str_lower) hs"
  shows "client_ip c rq = Some (str_strip (hd (str_split (CHR '','') claimed)))"
proof -
  let ?d = "strip_client_identity (end_to_end gq)"
  have lower: "str_lower (fst h) = fst h" if "h \<in> set ?d" for h
    using that end_to_end_lower [OF assms(2)] by (simp add: strip_client_identity_def)
  have "map_of ?d ''x-forwarded-for'' = Some claimed"
    using stripped_header [of "''x-forwarded-for''" gq] assms(3)
    by (simp add: IDENTITY_HEADERS_def HOP_BY_HOP_def)
  then have first: "map_of (map (apfst str_lower) ?d) ''x-forwarded-for'' = Some claimed"
    by (simp add: map_of_lowered [OF lower])
  obtain s where "hs = ?d @ s" using client_headers_first [OF assms(1,2)] by blast
  then have "rq_header rq ''x-forwarded-for'' = Some claimed"
    using first by (simp add: rq_header_def assms(6) map_add_Some_iff)
  then show ?thesis using assms(4,5) by (simp add: client_ip_def split: list.splits)
qed

lemma forwarded_address_is_forgeable_witness:
  "\<exists>hs. build_forward_headers (demo_forged\<lparr>gq_headers := [(''x-forwarded-for'', ''6.6.6.6'')]\<rparr>) None
           (Some ''10.0.0.1'') None ''f'' = Inr hs \<and>
     client_ip (default_config\<lparr>cfg_TRUST_PROXY_HEADERS := True\<rparr>)
       (demo_request\<lparr>rq_headers := map (apfst str_lower) hs\<rparr>) = Some ''6.6.6.6''"
proof -
  let ?gq = "demo_forged\<lparr>gq_headers := [(''x-forwarded-for'', ''6.6.6.6'')]\<rparr>"
  let ?r = "build_forward_headers ?gq None (Some ''10.0.0.1'') None ''f''"
  have "\<not> isl ?r" by code_simp
  then obtain hs where hs: "?r = Inr hs" by (cases ?r) auto
  have "asgi_headers ?gq" by (simp add: asgi_headers_def)
  from forwarded_address_is_forgeable [OF hs this, of "''6.6.6.6''"
      "default_config\<lparr>cfg_TRUST_PROXY_HEADERS := True\<rparr>" "demo_request\<lparr>rq_headers := map (apfst str_lower) hs\<rparr>"]
  have "client_ip (default_config\<lparr>cfg_TRUST_PROXY_HEADERS := True\<rparr>)
      (demo_request\<lparr>rq_headers := map (apfst str_lower) hs\<rparr>) =
      Some (str_strip (hd (str_split (CHR '','') ''6.6.6.6'')))" by simp
  moreover have "str_strip (hd (str_split (CHR '','') ''6.6.6.6'')) = ''6.6.6.6''" by code_simp
  ultimately show ?thesis using hs by simp
qed

end
