(* ===== verification/Schema.thy ===== *)
theory Schema
  imports Database
begin

text \<open>
  The schema twice: as the Alembic revision \<^verbatim>\<open>migrations/versions/0001_initial_schema.py\<close> builds it,
  statement by statement, and as the ORM models and link tables declare it. A \<open>catalogue\<close> is what
  the database knows of tables and indexes; a statement that PostgreSQL refuses (an unknown table or
  column, a name in use, a table another one still references) has no result.
\<close>

section \<open>Catalogues\<close>

datatype column_type = IntegerT | StringT nat | BooleanT | TimestampT | JsonT

datatype on_delete = Cascade | SetNull

record schema_column =
  sc_name :: string
  sc_type :: column_type
  sc_nullable :: bool
  sc_primary_key :: bool
  sc_references :: "(string \<times> string \<times> on_delete) option"
  sc_server_now :: bool

record schema_table =
  st_name :: string
  st_columns :: "schema_column list"
  st_uniques :: "(string \<times> string list) list"

record schema_index =
  sx_name :: string
  sx_table :: string
  sx_columns :: "string list"
  sx_unique :: bool

record catalogue =
  cat_tables :: "schema_table list"
  cat_indexes :: "schema_index list"

definition no_schema :: catalogue where
  "no_schema = \<lparr> cat_tables = [], cat_indexes = [] \<rparr>"

definition table_names :: "catalogue \<Rightarrow> string list" where
  "table_names cat = map st_name (cat_tables cat)"

definition table_columns :: "schema_table list \<Rightarrow> string \<Rightarrow> string list" where
  "table_columns ts name = concat (map (\<lambda>t. if st_name t = name then map sc_name (st_columns t) else []) ts)"

definition references :: "schema_table \<Rightarrow> (string \<times> string) list" where
  "references t =
     concat (map (\<lambda>col. case sc_references col of None \<Rightarrow> [] | Some (tab, key, _) \<Rightarrow> [(tab, key)])
       (st_columns t))"

section \<open>Statements\<close>

datatype statement = CreateTable schema_table | CreateIndex schema_index | DropTable string

fun execute_ddl :: "statement \<Rightarrow> catalogue \<Rightarrow> catalogue option" where
  "execute_ddl (CreateTable t) cat =
     (if st_name t \<in> set (table_names cat) \<or>
         \<not> list_all (\<lambda>(tab, key). key \<in> set (table_columns (t # cat_tables cat) tab)) (references t) \<or>
         \<not> list_all (\<lambda>(_, keys). set keys \<subseteq> set (map sc_name (st_columns t))) (st_uniques t)
      then None
      else Some (cat\<lparr>cat_tables := cat_tables cat @ [t]\<rparr>))"
| "execute_ddl (CreateIndex x) cat =
     (if sx_name x \<in> set (map sx_name (cat_indexes cat)) \<or>
         sx_table x \<notin> set (table_names cat) \<or>
         \<not> set (sx_columns x) \<subseteq> set (table_columns (cat_tables cat) (sx_table x))
      then None
      else Some (cat\<lparr>cat_indexes := cat_indexes cat @ [x]\<rparr>))"
| "execute_ddl (DropTable name) cat =
     (if name \<notin> set (table_names cat) \<or>
         list_ex (\<lambda>t. st_name t \<noteq> name \<and> name \<in> set (map fst (references t))) (cat_tables cat)
      then None
      else Some \<lparr> cat_tables = filter (\<lambda>t. st_name t \<noteq> name) (cat_tables cat),
                  cat_indexes = filter (\<lambda>x. sx_table x \<noteq> name) (cat_indexes cat) \<rparr>)"

fun execute_all :: "statement list \<Rightarrow> catalogue \<Rightarrow> catalogue option" where
  "execute_all [] cat = Some cat"
| "execute_all (s # ss) cat = Option.bind (execute_ddl s cat) (execute_all ss)"

subsection \<open>Columns\<close>

definition column :: "string \<Rightarrow> column_type \<Rightarrow> bool \<Rightarrow> schema_column" where
  "column name ctype nullable =
     \<lparr> sc_name = name, sc_type = ctype, sc_nullable = nullable, sc_primary_key = False,
       sc_references = None, sc_server_now = False \<rparr>"

definition id_column :: schema_column where
  "id_column = (column ''id'' IntegerT False)\<lparr>sc_primary_key := True\<rparr>"

definition foreign_key :: "string \<Rightarrow> bool \<Rightarrow> string \<Rightarrow> on_delete \<Rightarrow> schema_column" where
  "foreign_key name nullable table action =
     (column name IntegerT nullable)\<lparr>sc_references := Some (table, ''id'', action)\<rparr>"

definition link_key :: "string \<Rightarrow> string \<Rightarrow> schema_column" where
  "link_key name table = (foreign_key name False table Cascade)\<lparr>sc_primary_key := True\<rparr>"

definition stamped_now :: "string \<Rightarrow> schema_column" where
  "stamped_now name = (column name TimestampT False)\<lparr>sc_server_now := True\<rparr>"

section \<open>The migration\<close>

definition create_index :: "string \<Rightarrow> string \<Rightarrow> string list \<Rightarrow> bool \<Rightarrow> statement" where
  "create_index name table columns unique =
     CreateIndex \<lparr> sx_name = name, sx_table = table, sx_columns = columns, sx_unique = unique \<rparr>"

definition upgrade_access :: "statement list" where
  "upgrade_access =
     [CreateTable \<lparr> st_name = ''users'', st_columns =
        [id_column, column ''email'' (StringT 320) False, column ''username'' (StringT 50) False,
         column ''password_hash'' (StringT 255) False, column ''display_name'' (StringT 100) True,
         column ''is_active'' BooleanT False, column ''is_superuser'' BooleanT False,
         column ''email_verified_at'' TimestampT True, column ''visitor_id'' (StringT 36) True,
         stamped_now ''created_at'', stamped_now ''updated_at''], st_uniques = [] \<rparr>,
      create_index ''ix_users_email'' ''users'' [''email''] True,
      create_index ''ix_users_username'' ''users'' [''username''] True,
      create_index ''ix_users_visitor_id'' ''users'' [''visitor_id''] False,
      CreateTable \<lparr> st_name = ''roles'', st_columns =
        [id_column, column ''name'' (StringT 100) False, column ''description'' (StringT 255) True],
        st_uniques = [] \<rparr>,
      create_index ''ix_roles_name'' ''roles'' [''name''] True,
      CreateTable \<lparr> st_name = ''permissions'', st_columns =
        [id_column, column ''resource'' (StringT 100) False, column ''action'' (StringT 100) False,
         column ''description'' (StringT 255) True],
        st_uniques = [(''uq_permission_resource_action'', [''resource'', ''action''])] \<rparr>,
      create_index ''ix_permissions_resource'' ''permissions'' [''resource''] False,
      CreateTable \<lparr> st_name = ''user_roles'', st_columns =
        [link_key ''user_id'' ''users'', link_key ''role_id'' ''roles''], st_uniques = [] \<rparr>,
      CreateTable \<lparr> st_name = ''role_permissions'', st_columns =
        [link_key ''role_id'' ''roles'', link_key ''permission_id'' ''permissions''], st_uniques = [] \<rparr>]"

definition upgrade_sessions :: "statement list" where
  "upgrade_sessions =
     [CreateTable \<lparr> st_name = ''sessions'', st_columns =
        [id_column, foreign_key ''user_id'' False ''users'' Cascade, column ''jti'' (StringT 64) False,
         column ''created_at'' TimestampT False, column ''expires_at'' TimestampT False,
         column ''revoked_at'' TimestampT True, column ''visitor_id'' (StringT 36) True,
         column ''user_agent'' (StringT 400) True, column ''ip_address'' (StringT 45) True,
         column ''device'' (StringT 100) True, column ''last_seen_at'' TimestampT True],
        st_uniques = [] \<rparr>,
      create_index ''ix_sessions_jti'' ''sessions'' [''jti''] True,
      create_index ''ix_sessions_user_id'' ''sessions'' [''user_id''] False,
      CreateTable \<lparr> st_name = ''security_tokens'', st_columns =
        [id_column, foreign_key ''user_id'' False ''users'' Cascade,
         column ''purpose'' (StringT 32) False, column ''token_hash'' (StringT 64) False,
         column ''created_at'' TimestampT False, column ''expires_at'' TimestampT False,
         column ''used_at'' TimestampT True],
        st_uniques = [(''uq_security_token_hash'', [''token_hash'', ''purpose''])] \<rparr>,
      create_index ''ix_security_tokens_user_id'' ''security_tokens'' [''user_id''] False,
      create_index ''ix_security_tokens_purpose'' ''security_tokens'' [''purpose''] False,
      create_index ''ix_security_tokens_token_hash'' ''security_tokens'' [''token_hash''] False,
      CreateTable \<lparr> st_name = ''audit_logs'', st_columns =
        [id_column, foreign_key ''user_id'' True ''users'' SetNull, column ''action'' (StringT 32) False,
         column ''ip_address'' (StringT 45) True, column ''user_agent'' (StringT 400) True,
         column ''event_metadata'' JsonT False, column ''created_at'' TimestampT False],
        st_uniques = [] \<rparr>,
      create_index ''ix_audit_logs_user_id'' ''audit_logs'' [''user_id''] False,
      create_index ''ix_audit_logs_action'' ''audit_logs'' [''action''] False,
      create_index ''ix_audit_logs_created_at'' ''audit_logs'' [''created_at''] False]"

definition upgrade :: "statement list" where
  "upgrade = upgrade_access @ upgrade_sessions"

definition downgrade :: "statement list" where
  "downgrade =
     map DropTable [''audit_logs'', ''security_tokens'', ''sessions'', ''role_permissions'', ''user_roles'',
       ''permissions'', ''roles'', ''users'']"

section \<open>The declarations\<close>

text \<open>A \<^verbatim>\<open>mapped_column\<close>: the column, \<^verbatim>\<open>index=True\<close> and \<^verbatim>\<open>unique=True\<close>.\<close>

record mapped_column =
  mc_column :: schema_column
  mc_index :: bool
  mc_unique :: bool

record orm_model =
  om_table :: string
  om_columns :: "mapped_column list"
  om_uniques :: "(string \<times> string list) list"

definition mapped :: "schema_column \<Rightarrow> mapped_column" where
  "mapped col = \<lparr> mc_column = col, mc_index = False, mc_unique = False \<rparr>"

definition indexed :: "schema_column \<Rightarrow> mapped_column" where
  "indexed col = (mapped col)\<lparr>mc_index := True\<rparr>"

definition unique_indexed :: "schema_column \<Rightarrow> mapped_column" where
  "unique_indexed col = (indexed col)\<lparr>mc_unique := True\<rparr>"

definition user_model :: orm_model where
  "user_model = \<lparr> om_table = ''users'', om_columns =
     [mapped id_column, unique_indexed (column ''email'' (StringT 320) False),
      unique_indexed (column ''username'' (StringT 50) False),
      mapped (column ''password_hash'' (StringT 255) False),
      mapped (column ''display_name'' (StringT 100) True), mapped (column ''is_active'' BooleanT False),
      mapped (column ''is_superuser'' BooleanT False), mapped (column ''email_verified_at'' TimestampT True),
      indexed (column ''visitor_id'' (StringT 36) True), mapped (stamped_now ''created_at''),
      mapped (stamped_now ''updated_at'')], om_uniques = [] \<rparr>"

definition role_model :: orm_model where
  "role_model = \<lparr> om_table = ''roles'', om_columns =
     [mapped id_column, unique_indexed (column ''name'' (StringT 100) False),
      mapped (column ''description'' (StringT 255) True)], om_uniques = [] \<rparr>"

definition permission_model :: orm_model where
  "permission_model = \<lparr> om_table = ''permissions'', om_columns =
     [mapped id_column, indexed (column ''resource'' (StringT 100) False),
      mapped (column ''action'' (StringT 100) False), mapped (column ''description'' (StringT 255) True)],
     om_uniques = [(''uq_permission_resource_action'', [''resource'', ''action''])] \<rparr>"

definition session_model :: orm_model where
  "session_model = \<lparr> om_table = ''sessions'', om_columns =
     [mapped id_column, indexed (foreign_key ''user_id'' False ''users'' Cascade),
      unique_indexed (column ''jti'' (StringT 64) False), mapped (column ''created_at'' TimestampT False),
      mapped (column ''expires_at'' TimestampT False), mapped (column ''revoked_at'' TimestampT True),
      mapped (column ''visitor_id'' (StringT 36) True), mapped (column ''user_agent'' (StringT 400) True),
      mapped (column ''ip_address'' (StringT 45) True), mapped (column ''device'' (StringT 100) True),
      mapped (column ''last_seen_at'' TimestampT True)], om_uniques = [] \<rparr>"

definition security_token_model :: orm_model where
  "security_token_model = \<lparr> om_table = ''security_tokens'', om_columns =
     [mapped id_column, indexed (foreign_key ''user_id'' False ''users'' Cascade),
      indexed (column ''purpose'' (StringT 32) False), indexed (column ''token_hash'' (StringT 64) False),
      mapped (column ''created_at'' TimestampT False), mapped (column ''expires_at'' TimestampT False),
      mapped (column ''used_at'' TimestampT True)],
     om_uniques = [(''uq_security_token_hash'', [''token_hash'', ''purpose''])] \<rparr>"

definition audit_event_model :: orm_model where
  "audit_event_model = \<lparr> om_table = ''audit_logs'', om_columns =
     [mapped id_column, indexed (foreign_key ''user_id'' True ''users'' SetNull),
      indexed (column ''action'' (StringT 32) False), mapped (column ''ip_address'' (StringT 45) True),
      mapped (column ''user_agent'' (StringT 400) True), mapped (column ''event_metadata'' JsonT False),
      indexed (column ''created_at'' TimestampT False)], om_uniques = [] \<rparr>"

definition user_roles_table :: orm_model where
  "user_roles_table = \<lparr> om_table = ''user_roles'', om_columns =
     [mapped (link_key ''user_id'' ''users''), mapped (link_key ''role_id'' ''roles'')], om_uniques = [] \<rparr>"

definition role_permissions_table :: orm_model where
  "role_permissions_table = \<lparr> om_table = ''role_permissions'', om_columns =
     [mapped (link_key ''role_id'' ''roles''), mapped (link_key ''permission_id'' ''permissions'')],
     om_uniques = [] \<rparr>"

text \<open>\<^verbatim>\<open>Base.metadata\<close>, sorted by dependency as \<^verbatim>\<open>create_all\<close> does.\<close>

definition metadata :: "orm_model list" where
  "metadata =
     [permission_model, role_model, user_model, user_roles_table, role_permissions_table, session_model,
      security_token_model, audit_event_model]"

definition model_table :: "orm_model \<Rightarrow> schema_table" where
  "model_table m =
     \<lparr> st_name = om_table m, st_columns = map mc_column (om_columns m), st_uniques = om_uniques m \<rparr>"

text \<open>An indexed column gets the index \<^verbatim>\<open>ix_table_column\<close>, unique if the column is.\<close>

definition model_indexes :: "orm_model \<Rightarrow> schema_index list" where
  "model_indexes m =
     map (\<lambda>col. \<lparr> sx_name = ''ix_'' @ om_table m @ ''_'' @ sc_name (mc_column col), sx_table = om_table m,
                  sx_columns = [sc_name (mc_column col)], sx_unique = mc_unique col \<rparr>)
       (filter mc_index (om_columns m))"

definition create_model :: "orm_model \<Rightarrow> statement list" where
  "create_model m = CreateTable (model_table m) # map CreateIndex (model_indexes m)"

text \<open>\<^verbatim>\<open>create_all\<close> skips the tables that exist.\<close>

definition create_schema :: "catalogue \<Rightarrow> catalogue option" where
  "create_schema cat =
     execute_all (concat (map create_model (filter (\<lambda>m. om_table m \<notin> set (table_names cat)) metadata))) cat"

section \<open>Widths\<close>

definition widths :: "schema_table \<Rightarrow> (string \<times> nat) list" where
  "widths t =
     concat (map (\<lambda>col. case sc_type col of StringT n \<Rightarrow> [(sc_name col, n)] | _ \<Rightarrow> []) (st_columns t))"

definition row_fits :: "catalogue \<Rightarrow> string \<Rightarrow> (string \<times> string option) list \<Rightarrow> bool" where
  "row_fits cat table values \<longleftrightarrow>
     list_all (\<lambda>t. st_name t = table \<longrightarrow>
        list_all (\<lambda>(name, n). case map_of values name of Some s \<Rightarrow> fits_opt n s | None \<Rightarrow> False) (widths t))
       (cat_tables cat)"

lemma row_fits_widths: "row_fits cat table values \<longleftrightarrow>
    list_all (\<lambda>(name, ws). name = table \<longrightarrow>
        list_all (\<lambda>(key, n). case map_of values key of Some s \<Rightarrow> fits_opt n s | None \<Rightarrow> False) ws)
      (map (\<lambda>t. (st_name t, widths t)) (cat_tables cat))"
  by (simp add: row_fits_def list_all_iff)

lemma migrated_widths:
  "map_option (\<lambda>cat. map (\<lambda>t. (st_name t, widths t)) (cat_tables cat)) (execute_all upgrade no_schema) = Some
     [(''users'', [(''email'', 320), (''username'', 50), (''password_hash'', 255), (''display_name'', 100),
         (''visitor_id'', 36)]),
      (''roles'', [(''name'', 100), (''description'', 255)]),
      (''permissions'', [(''resource'', 100), (''action'', 100), (''description'', 255)]),
      (''user_roles'', []), (''role_permissions'', []),
      (''sessions'', [(''jti'', 64), (''visitor_id'', 36), (''user_agent'', 400), (''ip_address'', 45),
         (''device'', 100)]),
      (''security_tokens'', [(''purpose'', 32), (''token_hash'', 64)]),
      (''audit_logs'', [(''action'', 32), (''ip_address'', 45), (''user_agent'', 400)])]"
  by code_simp

section \<open>The properties\<close>

text \<open>
  C23: The two descriptions of the schema agree. Running the migration on an empty database gives the
  tables, columns, foreign keys, unique constraints and indexes that the ORM models declare; creating
  the schema from the models afterwards changes nothing; and the downgrade can run in its order and
  removes everything again.
\<close>
theorem migration_builds_declared_schema:
  "\<exists>migrated declared. execute_all upgrade no_schema = Some migrated \<and>
     create_schema no_schema = Some declared \<and>
     set (cat_tables migrated) = set (cat_tables declared) \<and>
     set (cat_indexes migrated) = set (cat_indexes declared) \<and>
     create_schema migrated = Some migrated \<and> execute_all downgrade migrated = Some no_schema"
proof -
  let ?up = "execute_all upgrade no_schema" and ?orm = "create_schema no_schema"
  have "?up \<noteq> None \<and> ?orm \<noteq> None \<and> set (cat_tables (the ?up)) = set (cat_tables (the ?orm)) \<and>
      set (cat_indexes (the ?up)) = set (cat_indexes (the ?orm)) \<and>
      create_schema (the ?up) = Some (the ?up) \<and> execute_all downgrade (the ?up) = Some no_schema"
    by code_simp
  then show ?thesis by (metis option.collapse)
qed

text \<open>
  The length checks of the table model are those of the migrated schema: a row is refused with a
  data error exactly when one of its strings is longer than the column the migration creates for it.
\<close>
theorem length_checks_follow_schema:
  assumes "execute_all upgrade no_schema = Some cat"
  shows "(user_row_fits u \<longleftrightarrow> row_fits cat ''users''
            [(''email'', Some (ur_email u)), (''username'', Some (ur_username u)),
             (''password_hash'', Some (ur_password_hash u)), (''display_name'', ur_display_name u),
             (''visitor_id'', ur_visitor_id u)]) \<and>
         (role_row_fits r \<longleftrightarrow> row_fits cat ''roles''
            [(''name'', Some (rr_name r)), (''description'', rr_description r)]) \<and>
         (permission_row_fits p \<longleftrightarrow> row_fits cat ''permissions''
            [(''resource'', Some (pr_resource p)), (''action'', Some (pr_action p)),
             (''description'', pr_description p)]) \<and>
         (session_row_fits s \<longleftrightarrow> row_fits cat ''sessions''
            [(''jti'', Some (sr_jti s)), (''visitor_id'', sr_visitor_id s),
             (''user_agent'', sr_user_agent s), (''ip_address'', sr_ip_address s),
             (''device'', sr_device s)]) \<and>
         (token_row_fits t \<longleftrightarrow> row_fits cat ''security_tokens''
            [(''purpose'', Some (tr_purpose t)), (''token_hash'', Some (tr_token_hash t))]) \<and>
         (audit_row_fits a \<longleftrightarrow> row_fits cat ''audit_logs''
            [(''action'', Some (al_action a)), (''ip_address'', al_ip_address a),
             (''user_agent'', al_user_agent a)])"
proof -
  note widths = migrated_widths [unfolded assms option.map option.inject]
  show ?thesis
    unfolding row_fits_widths widths
    by (simp add: user_row_fits_def role_row_fits_def permission_row_fits_def session_row_fits_def
        token_row_fits_def audit_row_fits_def fits_opt_def)
qed

lemma length_checks_follow_schema_witness:
  "\<exists>cat. execute_all upgrade no_schema = Some cat \<and>
     \<not> row_fits cat ''roles'' [(''name'', Some (replicate 101 CHR ''x'')), (''description'', None)]"
proof -
  obtain cat where cat: "execute_all upgrade no_schema = Some cat"
    using migrated_widths by (cases "execute_all upgrade no_schema") auto
  from length_checks_follow_schema [OF this] have
    "role_row_fits r \<longleftrightarrow> row_fits cat ''roles''
       [(''name'', Some (rr_name r)), (''description'', rr_description r)]" for r by blast
  from this [of "\<lparr> rr_id = 1, rr_name = replicate 101 CHR ''x'', rr_description = None \<rparr>"] cat
  show ?thesis by (auto simp: role_row_fits_def fits_def)
qed

end
