(* ===== verification/Seed.thy ===== *)
theory Seed
  imports Serving Demo
begin

text \<open>
  The demo data (\<^verbatim>\<open>adapter/seed_data.py\<close>, \<^verbatim>\<open>adapter/database/seed.py\<close>) and the start-up hook that
  loads it (\<^verbatim>\<open>lifespan\<close> of \<^verbatim>\<open>bootstrap.py\<close>). The session collects the new objects and writes them at
  the commit: permissions, roles and users, each in the order they were added, then the rows of the
  two link tables.
\<close>

section \<open>The data\<close>

definition PERMISSIONS :: "(string \<times> string \<times> string) list" where
  "PERMISSIONS =
     [(''content'', ''read'', ''Watch published content''),
      (''content'', ''moderate'', ''Take content down and review reports''),
      (''users'', ''read'', ''View any account, including soft-deleted ones''),
      (''users'', ''ban'', ''Deactivate or restore an account''),
      (''users'', ''manage'', ''Administer roles and permissions'')]"

definition ROLE_GRANTS :: "(string \<times> (string \<times> string) list) list" where
  "ROLE_GRANTS =
     [(''admin'', map (\<lambda>(resource, action, _). (resource, action)) PERMISSIONS),
      (''moderator'', [(''content'', ''read''), (''content'', ''moderate''), (''users'', ''read''),
         (''users'', ''ban'')]),
      (''user'', [(''content'', ''read'')])]"

definition ROLE_DESCRIPTIONS :: "(string \<times> string) list" where
  "ROLE_DESCRIPTIONS =
     [(''admin'', ''Full access, including role and permission administration''),
      (''moderator'', ''Reviews content and accounts''),
      (''user'', ''Default role for a registered visitor'')]"

record seed_user =
  su_email :: string
  su_username :: string
  su_password :: string
  su_display :: string
  su_is_super :: bool
  su_role :: string

definition SEED_USERS :: "seed_user list" where
  "SEED_USERS =
     [\<lparr> su_email = ''admin@example.com'', su_username = ''admin'', su_password = ''admin123'',
        su_display = ''Alice'', su_is_super = True, su_role = ''admin'' \<rparr>,
      \<lparr> su_email = ''moderator@example.com'', su_username = ''moderator'', su_password = ''moderator123'',
        su_display = ''Mod'', su_is_super = False, su_role = ''moderator'' \<rparr>,
      \<lparr> su_email = ''viewer@example.com'', su_username = ''viewer'', su_password = ''viewer123'',
        su_display = ''Vic'', su_is_super = False, su_role = ''user'' \<rparr>]"

section \<open>Writing it\<close>

fun each :: "('a \<Rightarrow> database \<Rightarrow> exn + database) \<Rightarrow> 'a list \<Rightarrow> database \<Rightarrow> exn + database" where
  "each f [] d = Inr d"
| "each f (x # xs) d = bindE (f x d) (each f xs)"

definition seed_permission :: "string \<times> string \<times> string \<Rightarrow> database \<Rightarrow> exn + database" where
  "seed_permission = (\<lambda>(resource, action, description) d.
     bindE (insert_permission \<lparr> pr_id = 0, pr_resource = resource, pr_action = action,
              pr_description = Some description \<rparr> d) (\<lambda>(_, d'). Inr d'))"

definition seed_role :: "string \<times> (string \<times> string) list \<Rightarrow> database \<Rightarrow> exn + database" where
  "seed_role = (\<lambda>(name, _) d.
     case map_of ROLE_DESCRIPTIONS name of
       None \<Rightarrow> Inl (KeyError name)
     | Some description \<Rightarrow>
         bindE (insert_role \<lparr> rr_id = 0, rr_name = name, rr_description = Some description \<rparr> d)
           (\<lambda>(_, d'). Inr d'))"

definition seed_user_row :: "int \<Rightarrow> seed_user \<Rightarrow> string \<Rightarrow> user_row" where
  "seed_user_row now u password_hash =
     \<lparr> ur_id = 0, ur_email = su_email u, ur_username = su_username u, ur_password_hash = password_hash,
       ur_display_name = Some (su_display u), ur_is_active = True, ur_is_superuser = su_is_super u,
       ur_email_verified_at = Some (Aware now), ur_visitor_id = None, ur_created_at = Aware now,
       ur_updated_at = Aware now \<rparr>"

definition seed_account :: "int \<Rightarrow> seed_user \<times> string \<Rightarrow> database \<Rightarrow> exn + database" where
  "seed_account now = (\<lambda>(u, password_hash) d.
     bindE (insert_user (seed_user_row now u password_hash) d) (\<lambda>(_, d'). Inr d'))"

text \<open>The objects of the in-memory dictionaries, found again by their unique columns.\<close>

definition role_named :: "string \<Rightarrow> database \<Rightarrow> exn + int" where
  "role_named name d =
     (case find (\<lambda>r. rr_name r = name) (tbl_roles d) of None \<Rightarrow> Inl (KeyError name) | Some r \<Rightarrow> Inr (rr_id r))"

definition permission_keyed :: "string \<times> string \<Rightarrow> database \<Rightarrow> exn + int" where
  "permission_keyed key d =
     (case find (\<lambda>p. (pr_resource p, pr_action p) = key) (tbl_permissions d) of
        None \<Rightarrow> Inl (KeyError (fst key)) | Some p \<Rightarrow> Inr (pr_id p))"

definition user_named :: "string \<Rightarrow> database \<Rightarrow> exn + int" where
  "user_named name d =
     (case find (\<lambda>u. ur_username u = name) (tbl_users d) of None \<Rightarrow> Inl (KeyError name) | Some u \<Rightarrow> Inr (ur_id u))"

definition seed_grants :: "string \<times> (string \<times> string) list \<Rightarrow> database \<Rightarrow> exn + database" where
  "seed_grants = (\<lambda>(name, grants) d.
     bindE (role_named name d) (\<lambda>rid.
     each (\<lambda>key d. bindE (permission_keyed key d) (\<lambda>pid. insert_role_permission rid pid d)) grants d))"

definition seed_membership :: "seed_user \<Rightarrow> database \<Rightarrow> exn + database" where
  "seed_membership u d =
     bindE (user_named (su_username u) d) (\<lambda>uid.
     bindE (role_named (su_role u) d) (\<lambda>rid. insert_user_role uid rid d))"

definition seed_rows :: "int \<Rightarrow> string list \<Rightarrow> database \<Rightarrow> exn + database" where
  "seed_rows now hashes d =
     bindE (each seed_permission PERMISSIONS d) (\<lambda>d.
     bindE (each seed_role ROLE_GRANTS d) (\<lambda>d.
     bindE (each (seed_account now) (zip SEED_USERS hashes) d) (\<lambda>d.
     bindE (each seed_grants ROLE_GRANTS d) (\<lambda>d.
     each seed_membership SEED_USERS d))))"

fun hash_each :: "'r env \<Rightarrow> config \<Rightarrow> string list \<Rightarrow> ('r, string list) app" where
  "hash_each env c [] = retM []"
| "hash_each env c (p # ps) =
     bindM (hasher_hash env c p) (\<lambda>h. bindM (hash_each env c ps) (\<lambda>hs. retM (h # hs)))"

definition seed_demo_data :: "'r env \<Rightarrow> config \<Rightarrow> ('r, unit) app" where
  "seed_demo_data env c =
     with_uow
       (bindM (query (\<lambda>d. Inr (tbl_users d \<noteq> []))) (\<lambda>existing.
        if existing then retM ()
        else
          bindM (utc_now env) (\<lambda>now.
          bindM (hash_each env c (map su_password SEED_USERS)) (\<lambda>hashes.
          seqM (execute (\<lambda>d. bindE (seed_rows now hashes d) (\<lambda>d'. Inr ((), d')))) commit))))"

text \<open>\<^verbatim>\<open>lifespan\<close>, as far as it touches the rows: the tables exist or are created empty.\<close>

definition start_up :: "'r env \<Rightarrow> config \<Rightarrow> ('r, unit) app" where
  "start_up env c = whenM (cfg_SEED_ON_STARTUP c) (seed_demo_data env c)"

section \<open>What is in the database afterwards\<close>

definition seeded_db :: "int \<Rightarrow> string \<Rightarrow> string \<Rightarrow> string \<Rightarrow> database" where
  "seeded_db now h1 h2 h3 =
     empty_db\<lparr>
       tbl_users := [(seed_user_row now (SEED_USERS ! 0) h1)\<lparr>ur_id := 1\<rparr>,
         (seed_user_row now (SEED_USERS ! 1) h2)\<lparr>ur_id := 2\<rparr>,
         (seed_user_row now (SEED_USERS ! 2) h3)\<lparr>ur_id := 3\<rparr>],
       tbl_roles := [\<lparr> rr_id = 1, rr_name = ''admin'', rr_description = map_of ROLE_DESCRIPTIONS ''admin'' \<rparr>,
         \<lparr> rr_id = 2, rr_name = ''moderator'', rr_description = map_of ROLE_DESCRIPTIONS ''moderator'' \<rparr>,
         \<lparr> rr_id = 3, rr_name = ''user'', rr_description = map_of ROLE_DESCRIPTIONS ''user'' \<rparr>],
       tbl_permissions := map (\<lambda>(i, res, act, descr).
         \<lparr> pr_id = i, pr_resource = res, pr_action = act, pr_description = Some descr \<rparr>) (zip [1, 2, 3, 4, 5] PERMISSIONS),
       tbl_user_roles := [(1, 1), (2, 2), (3, 3)],
       tbl_role_permissions :=
         [(1, 1), (1, 2), (1, 3), (1, 4), (1, 5), (2, 1), (2, 2), (2, 3), (2, 4), (3, 1)],
       seq_users := 4, seq_roles := 4, seq_permissions := 6\<rparr>"

lemma seed_rows_empty:
  assumes "length h1 \<le> 255" and "length h2 \<le> 255" and "length h3 \<le> 255"
  shows "seed_rows now [h1, h2, h3] empty_db = Inr (seeded_db now h1 h2 h3)"
  using assms
  by (simp add: seed_rows_def seeded_db_def PERMISSIONS_def ROLE_GRANTS_def ROLE_DESCRIPTIONS_def
      SEED_USERS_def seed_permission_def seed_role_def seed_account_def seed_grants_def
      seed_membership_def insert_permission_def insert_role_def insert_user_def
      insert_role_permission_def insert_user_role_def permission_row_fits_def role_row_fits_def
      user_row_fits_def fits_def fits_opt_def seed_user_row_def role_named_def permission_keyed_def
      user_named_def has_user_def has_role_def has_perm_def empty_db_def Let_def)

text \<open>The hasher's output fits the column it is stored in.\<close>

definition hashes_fit :: "'r env \<Rightarrow> config \<Rightarrow> bool" where
  "hashes_fit env c \<longleftrightarrow>
     (\<forall>n password h. hash_at env c n password = Inr h \<longrightarrow> length h \<le> 255)"

lemma hash_at_total: "\<exists>h. hash_at env c n password = Inr h"
  by (simp add: hash_at_def argon2_hash_at_def pbkdf2.hash_total)

lemma hash_each_reads:
  "\<exists>hs n. hash_each env c ps w = (Inr hs, w\<lparr>draws := n\<rparr>) \<and>
     list_all2 (\<lambda>p h. \<exists>k. hash_at env c k p = Inr h) ps hs"
proof (induction ps arbitrary: w)
  case Nil
  show ?case by (auto simp: retM_def intro: exI [of _ "draws w"])
next
  case (Cons p ps)
  obtain h where h: "hash_at env c (draws w) p = Inr h" using hash_at_total by blast
  obtain hs n where hs: "hash_each env c ps (w\<lparr>draws := Suc (draws w)\<rparr>) = (Inr hs, w\<lparr>draws := n\<rparr>)"
    "list_all2 (\<lambda>p h. \<exists>k. hash_at env c k p = Inr h) ps hs"
    using Cons.IH [of "w\<lparr>draws := Suc (draws w)\<rparr>"] by auto
  have "hash_each env c (p # ps) w = (Inr (h # hs), w\<lparr>draws := n\<rparr>)"
    by (simp add: hasher_hash_def bindM_def draw_def liftM_def retM_def h hs(1))
  then show ?case using h hs(2) by auto
qed

lemma seed_empty:
  assumes "db w = empty_db"
    and "hashes_fit env c"
  shows "\<exists>now n h1 h2 h3. seed_demo_data env c w =
           (Inr (), w\<lparr>db := seeded_db now h1 h2 h3, session := None, draws := n\<rparr>) \<and>
         (\<exists>k. hash_at env c k ''admin123'' = Inr h1) \<and> (\<exists>k. hash_at env c k ''moderator123'' = Inr h2) \<and>
         (\<exists>k. hash_at env c k ''viewer123'' = Inr h3)"
proof -
  let ?w0 = "w\<lparr>session := Some empty_db, draws := Suc (draws w)\<rparr>"
  obtain hs n where run: "hash_each env c (map su_password SEED_USERS) ?w0 = (Inr hs, ?w0\<lparr>draws := n\<rparr>)"
    and hs: "list_all2 (\<lambda>p h. \<exists>k. hash_at env c k p = Inr h) (map su_password SEED_USERS) hs"
    using hash_each_reads by blast
  obtain h1 h2 h3 where h: "hs = [h1, h2, h3]" "\<exists>k. hash_at env c k ''admin123'' = Inr h1"
    "\<exists>k. hash_at env c k ''moderator123'' = Inr h2" "\<exists>k. hash_at env c k ''viewer123'' = Inr h3"
    using hs by (auto simp: SEED_USERS_def list_all2_Cons1)
  have "seed_rows (env_utcnow env (draws w)) hs empty_db =
      Inr (seeded_db (env_utcnow env (draws w)) h1 h2 h3)"
    unfolding h(1) by (rule seed_rows_empty) (use assms(2) h(2-) in \<open>auto simp: hashes_fit_def\<close>)+
  then have "seed_demo_data env c w = (Inr (), w\<lparr>db := seeded_db (env_utcnow env (draws w)) h1 h2 h3,
      session := None, draws := n\<rparr>)"
    using assms(1) run
    by (simp add: seed_demo_data_def with_uow_def bindM_def seqM_def query_def execute_def utc_now_def
        draw_def commit_def empty_db_def Let_def)
  then show ?thesis using h(2-) by blast
qed

lemma seeded_wf: "length h1 \<le> 255 \<Longrightarrow> length h2 \<le> 255 \<Longrightarrow> length h3 \<le> 255 \<Longrightarrow>
    wf_db (seeded_db now h1 h2 h3)"
  by (simp add: seeded_db_def empty_db_def SEED_USERS_def PERMISSIONS_def ROLE_DESCRIPTIONS_def
      seed_user_row_def wf_db_def wf_users_def wf_roles_def wf_permissions_def wf_links_def
      wf_sessions_def wf_tokens_def wf_audit_def keyed_def uniq_def refers_def id_sets
      user_row_fits_def fits_def fits_opt_def)

lemma seeded_users:
  "stored_hash 1 (seeded_db now h1 h2 h3) = Some h1" "stored_hash 2 (seeded_db now h1 h2 h3) = Some h2"
  "stored_hash 3 (seeded_db now h1 h2 h3) = Some h3"
  by (simp_all add: stored_hash_def seeded_db_def SEED_USERS_def seed_user_row_def)

lemma seeded_ok:
  assumes "wf_db (seeded_db now h1 h2 h3)"
  shows "account_ok (seeded_db now h1 h2 h3)" and "single_unused (seeded_db now h1 h2 h3)"
  using assms by (simp_all add: account_ok_def live_active_def single_unused_def)
    (simp_all add: seeded_db_def empty_db_def)


definition bounded_env :: "redis_view env" where
  "bounded_env = demo_env\<lparr>env_argon2_hash := (\<lambda>n pw. ''h:'' @ take 200 pw),
     env_argon2_verify := (\<lambda>h pw. if h = ''h:'' @ take 200 pw then Inr True else Inl VerifyMismatchError)\<rparr>"


end
