(* ===== verification/User_View.thy ===== *)
theory User_View
  imports Outcomes
begin

text \<open>
  Which statements change what a lookup of a user returns. \<open>kept D d0 d\<close>: every user that \<open>d0\<close> holds
  under a key outside \<open>D\<close> is the same user in \<open>d\<close>, roles and permissions included. Sessions, one-time
  tokens, audit rows, new users, new roles and new permissions change no user; a statement on the row or
  the role links of one user changes that user only. \<open>account_part\<close> is a user without its roles, which
  no statement on roles changes.
\<close>

section \<open>Users that stay as they are\<close>

definition kept_by :: "(user \<Rightarrow> 'a) \<Rightarrow> int set \<Rightarrow> database \<Rightarrow> database \<Rightarrow> bool" where
  "kept_by f D d0 d \<longleftrightarrow>
     wf_db d \<and>
     (\<forall>x u. x \<notin> D \<longrightarrow> db_user_by_id x d0 = Some u \<longrightarrow> (\<exists>v. db_user_by_id x d = Some v \<and> f v = f u))"

definition kept :: "int set \<Rightarrow> database \<Rightarrow> database \<Rightarrow> bool" where
  "kept D d0 d \<longleftrightarrow> wf_db d \<and> (\<forall>x u. x \<notin> D \<longrightarrow> db_user_by_id x d0 = Some u \<longrightarrow> db_user_by_id x d = Some u)"

definition account_part :: "user \<Rightarrow> user" where
  "account_part u = u\<lparr>user_roles := []\<rparr>"

lemma kept_refl: "wf_db d \<Longrightarrow> kept D d d"
  by (simp add: kept_def)

lemma kept_mono: "kept D d0 d \<Longrightarrow> D \<subseteq> E \<Longrightarrow> kept E d0 d"
  by (auto simp: kept_def)

lemma kept_any: "kept D d0 d \<Longrightarrow> kept_by f D d0 d"
  by (force simp: kept_def kept_by_def)

lemma kept_step:
  assumes "kept D d0 d" and "wf_db d'"
    and "\<And>x u. x \<notin> D \<Longrightarrow> db_user_by_id x d = Some u \<Longrightarrow> db_user_by_id x d' = Some u"
  shows "kept D d0 d'"
  using assms by (auto simp: kept_def)

section \<open>Statements that change no user\<close>

definition user_tables ::
  "database \<Rightarrow> user_row list \<times> role_row list \<times> permission_row list \<times> (int \<times> int) list \<times> (int \<times> int) list"
  where
  "user_tables d = (tbl_users d, tbl_roles d, tbl_permissions d, tbl_user_roles d, tbl_role_permissions d)"

lemma entity_by_tables:
  assumes "tbl_roles d' = tbl_roles d" "tbl_permissions d' = tbl_permissions d"
    "tbl_user_roles d' = tbl_user_roles d" "tbl_role_permissions d' = tbl_role_permissions d"
  shows "user_to_entity d' = user_to_entity d"
  by (rule ext) (simp add: user_to_entity_def roles_of_user_def role_to_entity_def [abs_def]
      permissions_of_role_def case_prod_unfold assms cong: if_cong)

lemma user_by_tables: "user_tables d' = user_tables d \<Longrightarrow> db_user_by_id x d' = db_user_by_id x d"
  by (simp add: user_tables_def db_user_by_id_def entity_by_tables [of d' d])

lemma db_stmt_user_tables:
  assumes "db_stmt k d d'" and "k \<in> {AddSession, RevokeSessions, AddToken, SpendTokens, AddAudit}"
  shows "user_tables d' = user_tables d"
  using assms(1)
proof cases
  case (add_session s s')
  then show ?thesis by (auto dest!: db_add_session_shape simp: user_tables_def)
next
  case (add_token t t')
  then show ?thesis by (auto dest!: db_add_token_shape simp: user_tables_def)
next
  case (add_audit e e')
  then show ?thesis by (auto dest!: db_add_audit_shape simp: user_tables_def)
qed (use assms(2) in \<open>auto simp: user_tables_def db_revoke_def db_revoke_all_def db_mark_used_def db_invalidate_def\<close>)

text \<open>A new role or permission is linked to nothing yet.\<close>

lemma filter_snoc_other: "k x \<noteq> v \<Longrightarrow> filter (\<lambda>r. k r = v) (xs @ [x]) = filter (\<lambda>r. k r = v) xs"
  by simp

lemma permissions_of_role_cong:
  assumes "tbl_role_permissions d' = tbl_role_permissions d"
    and "\<And>rid pid. (rid, pid) \<in> set (tbl_role_permissions d) \<Longrightarrow>
           filter (\<lambda>p. pr_id p = pid) (tbl_permissions d') = filter (\<lambda>p. pr_id p = pid) (tbl_permissions d)"
  shows "permissions_of_role d' row = permissions_of_role d row"
  unfolding permissions_of_role_def assms(1)
  by (rule arg_cong [of _ _ concat], rule map_cong) (use assms(2) in auto)

lemma roles_of_user_cong:
  assumes "tbl_user_roles d' = tbl_user_roles d"
    and "\<And>uid rid. (uid, rid) \<in> set (tbl_user_roles d) \<Longrightarrow>
           filter (\<lambda>r. rr_id r = rid) (tbl_roles d') = filter (\<lambda>r. rr_id r = rid) (tbl_roles d)"
  shows "roles_of_user d' row = roles_of_user d row"
  unfolding roles_of_user_def assms(1)
  by (rule arg_cong [of _ _ concat], rule map_cong) (use assms(2) in auto)

lemma linked_ids:
  assumes "wf_db d"
  shows "(uid, rid) \<in> set (tbl_user_roles d) \<Longrightarrow> rid \<in> role_ids d"
    and "(rid, pid) \<in> set (tbl_role_permissions d) \<Longrightarrow> pid \<in> perm_ids d"
    and "rid \<in> role_ids d \<Longrightarrow> rid < seq_roles d" and "pid \<in> perm_ids d \<Longrightarrow> pid < seq_permissions d"
    and "uid \<in> user_ids d \<Longrightarrow> uid < seq_users d"
  using assms
  by (auto simp: wf_db_def wf_links_def refers_def wf_roles_def wf_permissions_def wf_users_def keyed_def
      id_sets)

lemma add_role_users:
  assumes "db_add_role name descr d = Inr (r, d')" and "wf_db d"
  shows "db_user_by_id x d' = db_user_by_id x d"
proof -
  obtain row where d': "d' = d\<lparr>tbl_roles := tbl_roles d @ [row], seq_roles := seq_roles d + 1\<rparr>"
    and id: "rr_id row = seq_roles d"
    using assms(1) by (auto simp: db_add_role_def insert_role_def Let_def split: sum.splits if_splits)
  have roles: "roles_of_user d' u = roles_of_user d u" for u
    by (rule roles_of_user_cong) (use linked_ids [OF assms(2)] id in \<open>fastforce simp: d'\<close>)+
  have "role_to_entity d' = role_to_entity d"
    by (rule ext) (simp add: role_to_entity_def permissions_of_role_def case_prod_unfold d' cong: if_cong)
  then show ?thesis
    by (simp add: db_user_by_id_def user_to_entity_def [abs_def] roles) (simp add: d')
qed

lemma add_permission_users:
  assumes "db_add_permission res act descr d = Inr (p, d')" and "wf_db d"
  shows "db_user_by_id x d' = db_user_by_id x d"
proof -
  obtain row where d': "d' = d\<lparr>tbl_permissions := tbl_permissions d @ [row], seq_permissions := seq_permissions d + 1\<rparr>"
    and id: "pr_id row = seq_permissions d"
    using assms(1) by (auto simp: db_add_permission_def insert_permission_def Let_def split: sum.splits if_splits)
  have "permissions_of_role d' u = permissions_of_role d u" for u
    by (rule permissions_of_role_cong) (use linked_ids [OF assms(2)] id in \<open>fastforce simp: d'\<close>)+
  then have "role_to_entity d' = role_to_entity d"
    by (simp add: role_to_entity_def fun_eq_iff)
  then have "user_to_entity d' = user_to_entity d"
    by (simp add: user_to_entity_def roles_of_user_def case_prod_unfold fun_eq_iff) (simp add: d' cong: if_cong)
  then show ?thesis by (simp add: db_user_by_id_def) (simp add: d')
qed

lemma add_user_users:
  assumes "db_add_user now u d = Inr (v, d')" and "db_user_by_id x d = Some w"
  shows "db_user_by_id x d' = Some w"
proof -
  obtain row where d': "d' = d\<lparr>tbl_users := tbl_users d @ [row], seq_users := seq_users d + 1\<rparr>"
    using db_add_user_shape [OF assms(1)] by blast
  have found: "find P (xs @ ys) = Some y" if "find P xs = Some y" for P and xs ys :: "user_row list" and y
    using that by (induction xs) (auto split: if_splits)
  obtain r where r: "find (\<lambda>r. ur_id r = x) (tbl_users d) = Some r" "w = user_to_entity d r"
    using assms(2) by (auto simp: db_user_by_id_def)
  have "user_to_entity d' = user_to_entity d" by (rule entity_by_tables) (simp_all add: d')
  then show ?thesis using found [OF r(1)] r(2) by (simp add: db_user_by_id_def d')
qed

definition harmless :: "stmt_kind set" where
  "harmless = {AddUser, AddRole, AddPermission, AddSession, RevokeSessions, AddToken, SpendTokens, AddAudit}"

lemma kept_closed: "db_closed harmless (kept D d0)"
  unfolding db_closed_def
proof (intro ballI allI impI)
  fix k d d' assume k: "k \<in> harmless" and kept: "kept D d0 d" and stmt: "db_stmt k d d'"
  have wf: "wf_db d" using kept by (simp add: kept_def)
  show "kept D d0 d'"
  proof (rule kept_step [OF kept])
    show "wf_db d'" using db_stmt_wf [OF stmt wf] .
    fix x u assume u: "db_user_by_id x d = Some u"
    show "db_user_by_id x d' = Some u"
    proof (cases "k \<in> {AddSession, RevokeSessions, AddToken, SpendTokens, AddAudit}")
      case True
      then show ?thesis using u user_by_tables [OF db_stmt_user_tables [OF stmt]] by simp
    next
      case False
      with stmt k show ?thesis
        by cases (use u wf add_user_users add_role_users add_permission_users in \<open>auto simp: harmless_def\<close>)
    qed
  qed
qed

lemma kept_closed_sub: "K \<subseteq> harmless \<Longrightarrow> db_closed K (kept D d0)"
  using kept_closed by (rule db_closed_subset)

section \<open>Statements that change one user\<close>

lemma find_replace_other:
  "ur_id row \<noteq> x \<Longrightarrow> find (\<lambda>r. ur_id r = x) (replace_by ur_id row xs) = find (\<lambda>r. ur_id r = x) xs"
  by (induction xs) auto

lemma update_user_others:
  assumes "update_user row d = Inr d'" and "x \<noteq> ur_id row"
  shows "db_user_by_id x d' = db_user_by_id x d"
proof -
  have d': "d' = d\<lparr>tbl_users := replace_by ur_id row (tbl_users d)\<rparr>"
    by (rule update_user_shape [OF assms(1)])
  have "user_to_entity d' = user_to_entity d" by (rule entity_by_tables) (simp_all add: d')
  moreover have "find (\<lambda>r. ur_id r = x) (tbl_users d') = find (\<lambda>r. ur_id r = x) (tbl_users d)"
    using assms(2) by (simp add: d' find_replace_other)
  ultimately show ?thesis by (simp add: db_user_by_id_def)
qed

lemma kept_update_user:
  assumes "db_update_user now u d = Inr (x, d')" and "kept D d0 d" and "user_id u \<in> D"
  shows "kept D d0 d'"
proof (rule kept_step [OF assms(2)])
  show "wf_db d'" using db_stmt_wf [OF update_user [OF assms(1)]] assms(2) by (simp add: kept_def)
  obtain row where row: "find (\<lambda>r. ur_id r = user_id u) (tbl_users d) = Some row"
    and d': "d' = d \<or> update_user (written_user_row now u row) d = Inr d'"
    using db_update_user_shape [OF assms(1)] by blast
  then have "ur_id row = user_id u" by (auto dest: find_Some_key)
  with assms(3) show "db_user_by_id y d' = Some v" if "y \<notin> D" "db_user_by_id y d = Some v" for y v
    using d' that update_user_others [of _ d d' y] by force
qed

lemma kept_update_password:
  assumes "db_update_password now u d = Inr (x, d')" and "kept D d0 d" and "user_id u \<in> D"
  shows "kept D d0 d'"
proof (rule kept_step [OF assms(2)])
  show "wf_db d'" using db_stmt_wf [OF update_password [OF assms(1)]] assms(2) by (simp add: kept_def)
  obtain row where row: "find (\<lambda>r. ur_id r = user_id u) (tbl_users d) = Some row"
    and d': "d' = d \<or> update_user (written_password_row now u row) d = Inr d'"
    using db_update_password_shape [OF assms(1)] by blast
  then have "ur_id row = user_id u" by (auto dest: find_Some_key)
  with assms(3) show "db_user_by_id y d' = Some v" if "y \<notin> D" "db_user_by_id y d = Some v" for y v
    using d' that update_user_others [of _ d d' y] by force
qed

lemma roles_of_user_links:
  assumes "tbl_roles d' = tbl_roles d"
    and "filter (\<lambda>l. fst l = ur_id row) (tbl_user_roles d') = filter (\<lambda>l. fst l = ur_id row) (tbl_user_roles d)"
  shows "roles_of_user d' row = roles_of_user d row"
proof -
  have "roles_of_user e row = concat (map (\<lambda>l. filter (\<lambda>r. rr_id r = snd l) (tbl_roles e))
      (filter (\<lambda>l. fst l = ur_id row) (tbl_user_roles e)))" for e
  proof -
    have "concat (map (\<lambda>(uid, rid). if uid = ur_id row then filter (\<lambda>r. rr_id r = rid) (tbl_roles e) else []) ls) =
        concat (map (\<lambda>l. filter (\<lambda>r. rr_id r = snd l) (tbl_roles e)) (filter (\<lambda>l. fst l = ur_id row) ls))" for ls
      by (induction ls) auto
    then show ?thesis by (simp add: roles_of_user_def)
  qed
  then show ?thesis using assms by simp
qed

lemma links_others:
  assumes "tbl_users d' = tbl_users d" "tbl_roles d' = tbl_roles d" "tbl_permissions d' = tbl_permissions d"
    "tbl_role_permissions d' = tbl_role_permissions d"
    and "filter (\<lambda>l. fst l = x) (tbl_user_roles d') = filter (\<lambda>l. fst l = x) (tbl_user_roles d)"
  shows "db_user_by_id x d' = db_user_by_id x d"
proof -
  have "role_to_entity d' = role_to_entity d"
    by (rule ext) (simp add: role_to_entity_def permissions_of_role_def case_prod_unfold assms cong: if_cong)
  then have "user_to_entity d' row = user_to_entity d row" if "ur_id row = x" for row
    using roles_of_user_links [of d' d row] that assms by (simp add: user_to_entity_def)
  then show ?thesis
    by (auto simp: db_user_by_id_def assms(1) dest: find_Some_key intro!: map_option_cong)
qed

lemma kept_assign_role:
  assumes "db_assign_role uid rid d = Inr (y, d')" and "kept D d0 d" and "uid \<in> D"
  shows "kept D d0 d'"
proof (rule kept_step [OF assms(2)])
  show "wf_db d'" using db_stmt_wf [OF assign_role [OF assms(1)]] assms(2) by (simp add: kept_def)
  show "db_user_by_id x d' = Some u" if "x \<notin> D" "db_user_by_id x d = Some u" for x u
  proof -
    have "db_user_by_id x d' = db_user_by_id x d"
      using assms(1,3) that(1)
      by (intro links_others) (auto simp: db_assign_role_def insert_user_role_def split: if_splits sum.splits)
    with that(2) show ?thesis by simp
  qed
qed

lemma kept_revoke_role:
  assumes "db_revoke_role uid rid d = Inr (y, d')" and "kept D d0 d" and "uid \<in> D"
  shows "kept D d0 d'"
proof (rule kept_step [OF assms(2)])
  show "wf_db d'" using db_stmt_wf [OF revoke_role [OF assms(1)]] assms(2) by (simp add: kept_def)
  show "db_user_by_id x d' = Some u" if "x \<notin> D" "db_user_by_id x d = Some u" for x u
  proof -
    have "filter (\<lambda>l. fst l = x) (filter (\<lambda>l. l \<noteq> (uid, rid)) ls) = filter (\<lambda>l. fst l = x) ls" for ls :: "(int \<times> int) list"
      using that(1) assms(3) by (induction ls) auto
    then have "db_user_by_id x d' = db_user_by_id x d"
      using assms(1) by (intro links_others) (auto simp: db_revoke_role_def)
    with that(2) show ?thesis by simp
  qed
qed

end
