(* ===== verification/Cache_State.thy ===== *)
theory Cache_State
  imports User_View
begin

text \<open>
  What the cache can still say. \<open>cache_holds X N P w\<close>: every user entry that Redis yields at time \<open>X\<close> or
  later satisfies \<open>P\<close> (claimed as long as at most \<open>N\<close> readings were taken, which bounds the times at
  which entries were written). Whatever a use case does, it only removes user entries; only
  \<open>authenticate\<close> stores one. \<open>coherent\<close> adds that \<open>P\<close> is agreement with the committed database, and is
  kept by a use case that changes a user only if it drops that user's entry afterwards.
\<close>

section \<open>Entries of the user cache\<close>

definition entries :: "'r env \<Rightarrow> int \<Rightarrow> (int \<Rightarrow> string \<Rightarrow> bool) \<Rightarrow> 'r \<Rightarrow> bool" where
  "entries env X P r \<longleftrightarrow>
     (\<forall>uid t raw. X \<le> t \<longrightarrow> env_redis_get env t (user_cache_key uid) r = Some raw \<longrightarrow> P uid raw)"

definition cache_holds ::
  "'r env \<Rightarrow> config \<Rightarrow> int \<Rightarrow> nat \<Rightarrow> (int \<Rightarrow> string \<Rightarrow> bool) \<Rightarrow> 'r world \<Rightarrow> bool" where
  "cache_holds env c X N P w \<longleftrightarrow> (redis_backend c \<longrightarrow> draws w \<le> N \<longrightarrow> entries env X P (redis w))"

lemma entries_mono: "entries env X P r \<Longrightarrow> (\<And>uid raw. P uid raw \<Longrightarrow> Q uid raw) \<Longrightarrow> entries env X Q r"
  unfolding entries_def by blast

lemma cache_holds_mono:
  "cache_holds env c X N P w \<Longrightarrow> (\<And>uid raw. P uid raw \<Longrightarrow> Q uid raw) \<Longrightarrow> cache_holds env c X N Q w"
  unfolding cache_holds_def using entries_mono by metis

lemma cache_holds_frame:
  "redis w' = redis w \<Longrightarrow> draws w \<le> draws w' \<Longrightarrow> cache_holds env c X N P w \<Longrightarrow> cache_holds env c X N P w'"
  by (simp add: cache_holds_def)

definition spares_users :: "string \<Rightarrow> bool" where
  "spares_users key \<longleftrightarrow> (\<forall>uid. user_cache_key uid \<noteq> key)"

lemma limiter_keys_spare [simp]:
  "spares_users (login_ip_key ip)" "spares_users (account_key email)"
  "spares_users (''register:ip:'' @ ip)" "spares_users (''reset-password:ip:'' @ ip)"
  "spares_users (''forgot-password:'' @ email)" "spares_users (''forgot-password:ip:'' @ ip)"
  by (simp_all add: spares_users_def user_cache_key_def login_ip_key_def account_key_def)

named_theorems holds_rules \<open>programs that store no user in the cache\<close>

lemma holds_basic [holds_rules]:
  "keeps (cache_holds env c X N P) (query q)" "keeps (cache_holds env c X N P) (execute s)"
  "keeps (cache_holds env c X N P) (draw f)" "keeps (cache_holds env c X N P) (utc_now env')"
  "keeps (cache_holds env c X N P) (monotonic env')" "keeps (cache_holds env c X N P) (db_now env')"
  "keeps (cache_holds env c X N P) (redis_now env')" "keeps (cache_holds env c X N P) (uuid4_hex env')"
  "keeps (cache_holds env c X N P) commit" "keeps (cache_holds env c X N P) (send_email m)"
  "keeps (cache_holds env c X N P) (modifyM (\<lambda>w. w\<lparr>counters := g w\<rparr>))"
  by (auto simp: keeps_def query_def execute_def draw_def utc_now_def monotonic_def db_now_def redis_now_def
      uuid4_hex_def commit_def send_email_def modifyM_def cache_holds_def split: option.splits sum.splits)

lemma holds_with_uow [holds_rules]:
  assumes "keeps (cache_holds env c X N P) m"
  shows "keeps (cache_holds env c X N P) (with_uow m)"
proof (rule keepsI)
  fix w assume "cache_holds env c X N P w"
  then have "cache_holds env c X N P (w\<lparr>session := Some (db w)\<rparr>)" by (simp add: cache_holds_def)
  then have "cache_holds env c X N P (snd (m (w\<lparr>session := Some (db w)\<rparr>)))"
    using assms by (simp add: keeps_def)
  then show "cache_holds env c X N P (snd (with_uow m w))"
    by (simp add: with_uow_def Let_def split_beta cache_holds_def)
qed

lemma holds_repositories [holds_rules]:
  "keeps (cache_holds env c X N P) (users_add env' u)" "keeps (cache_holds env c X N P) (users_update env' u)"
  "keeps (cache_holds env c X N P) (users_update_password env' u)"
  "keeps (cache_holds env c X N P) (users_get_by_id uid)" "keeps (cache_holds env c X N P) (users_get_by_email email)"
  "keeps (cache_holds env c X N P) (users_get_by_username name)" "keeps (cache_holds env c X N P) users_list_all"
  "keeps (cache_holds env c X N P) (users_assign_role uid rid)"
  "keeps (cache_holds env c X N P) (users_revoke_role uid rid)"
  "keeps (cache_holds env c X N P) (roles_add name descr)" "keeps (cache_holds env c X N P) (roles_get_by_id rid)"
  "keeps (cache_holds env c X N P) (roles_get_by_name name)" "keeps (cache_holds env c X N P) roles_list_all"
  "keeps (cache_holds env c X N P) (roles_delete rid)"
  "keeps (cache_holds env c X N P) (roles_grant_permission rid pid)"
  "keeps (cache_holds env c X N P) (roles_revoke_permission rid pid)"
  "keeps (cache_holds env c X N P) (permissions_add res act descr)"
  "keeps (cache_holds env c X N P) (permissions_get_by_id pid)"
  "keeps (cache_holds env c X N P) (permissions_get_by_resource_action res act)"
  "keeps (cache_holds env c X N P) permissions_list_all"
  "keeps (cache_holds env c X N P) (sessions_add s)" "keeps (cache_holds env c X N P) (sessions_get_by_id sid)"
  "keeps (cache_holds env c X N P) (sessions_get_by_jti jti)"
  "keeps (cache_holds env c X N P) (sessions_revoke jti m)"
  "keeps (cache_holds env c X N P) (sessions_revoke_all_for_user uid m except)"
  "keeps (cache_holds env c X N P) (tokens_add t)" "keeps (cache_holds env c X N P) (tokens_get_by_hash h p)"
  "keeps (cache_holds env c X N P) (tokens_mark_used env' t)"
  "keeps (cache_holds env c X N P) (tokens_invalidate_for_user env' uid p)"
  "keeps (cache_holds env c X N P) (audit_log_add e)"
  by (auto simp: repository_defs intro!: keeps_bindM holds_basic)

lemma holds_filter_valid [holds_rules]: "keeps (cache_holds env c X N P) (filter_valid env' ss)"
  by (induction ss) (auto intro!: keeps_bindM keeps_retM holds_basic)

lemma holds_security [holds_rules]:
  "keeps (cache_holds env c X N P) (hasher_hash env' c' pw)"
  "keeps (cache_holds env c X N P) (one_time_generate env')"
  "keeps (cache_holds env c X N P) (issue_access env' c' uid jti)"
  "keeps (cache_holds env c X N P) (issue_refresh env' c' uid jti)"
  "keeps (cache_holds env c X N P) (decode_token env' c' token)"
  by (auto simp: hasher_hash_def one_time_generate_def issue_access_def issue_refresh_def decode_token_def
      Let_def intro!: keeps_rules holds_basic)

lemma holds_helpers [holds_rules]:
  "keeps (cache_holds env c X N P) (audit_record env' action who device metadata)"
  "keeps (cache_holds env c X N P) (verification_issue env' c' uid)"
  "keeps (cache_holds env c X N P) (verification_send c' email secret)"
  "keeps (cache_holds env c X N P) (refuse_if_found e found)"
  "keeps (cache_holds env c X N P) (session_live_now env' stored)"
  "keeps (cache_holds env c X N P) (assert_found x)"
  by (auto simp: audit_record_def verification_issue_def verification_send_def refuse_if_found_def
      session_live_now_def assert_found_def Let_def intro!: keeps_rules holds_rules)

section \<open>A server whose commands touch their own key\<close>

context redis_keys begin

lemma entries_cong:
  assumes "\<And>uid. view r' (user_cache_key uid) = view r (user_cache_key uid)"
  shows "entries env X P r' = entries env X P r"
  by (simp add: entries_def redis_behavesD(1) [OF behaves] live_def assms)

lemma entries_other_key:
  assumes "spares_users key"
  shows "entries env X P (env_redis_delete env t key r) = entries env X P r"
    and "entries env X P (snd (env_redis_incr env t key r)) = entries env X P r"
    and "entries env X P (env_redis_expire env t key s r) = entries env X P r"
  by (rule entries_cong, rule redis_localD [OF own_key], use assms in \<open>simp add: spares_users_def\<close>)+

lemma entries_drop:
  assumes "entries env X P r"
  shows "entries env X (\<lambda>x raw. x \<noteq> uid \<and> P x raw) (env_redis_delete env t (user_cache_key uid) r)"
  unfolding entries_def
proof (intro allI impI)
  fix x u raw
  assume u: "X \<le> u" "env_redis_get env u (user_cache_key x) (env_redis_delete env t (user_cache_key uid) r) = Some raw"
  then have "x \<noteq> uid" using cache.get_delete by force
  with u assms show "x \<noteq> uid \<and> P x raw" using cache.delete_other by (force simp: entries_def)
qed

lemma entries_store:
  assumes "entries env X P r" and "0 < ttl" and "P uid v \<or> t + seconds ttl \<le> X"
  shows "entries env X P (env_redis_set_ex env t (user_cache_key uid) v ttl r)"
  unfolding entries_def
proof (intro allI impI)
  fix x u raw
  assume u: "X \<le> u" "env_redis_get env u (user_cache_key x) (env_redis_set_ex env t (user_cache_key uid) v ttl r) = Some raw"
  show "P x raw"
  proof (cases "x = uid")
    case True
    with u assms(2) have "raw = v" "u < t + seconds ttl"
      by (auto simp: redis_behavesD(1,2) [OF behaves] live_def split: if_splits)
    with True assms(3) u(1) show ?thesis by auto
  next
    case False
    with u assms(1,2) show ?thesis using cache.set_other by (force simp: entries_def)
  qed
qed

lemma holds_limiter:
  assumes "spares_users key"
  shows "keeps (cache_holds env c X N P) (limiter_hit env c key limit span)"
    and "keeps (cache_holds env c X N P) (limiter_peek env c key limit)"
    and "keeps (cache_holds env c X N P) (limiter_reset env c key)"
proof -
  have "keeps (cache_holds env c X N P) (redis_hit env key limit span)"
    by (auto simp: keeps_def redis_hit_def redis_hit_at_def redis_now_def draw_def bindM_def seqM_def getsM_def
        modifyM_def retM_def cache_holds_def entries_other_key [OF assms] Let_def split_beta)
  then show "keeps (cache_holds env c X N P) (limiter_hit env c key limit span)"
    by (auto simp: limiter_hit_def in_memory_hit_def Let_def split_beta intro!: keeps_rules holds_basic)
  show "keeps (cache_holds env c X N P) (limiter_peek env c key limit)"
    by (auto simp: limiter_peek_def intro!: keeps_rules holds_basic)
  show "keeps (cache_holds env c X N P) (limiter_reset env c key)"
    by (auto simp: limiter_reset_def keeps_def redis_now_def draw_def bindM_def modifyM_def cache_holds_def
        entries_other_key [OF assms])
qed

lemma cache_delete_drops:
  assumes "cache_holds env c X N P w"
  shows "cache_holds env c X N (\<lambda>x raw. x \<noteq> uid \<and> P x raw) (snd (cache_delete env c (user_cache_key uid) w))"
  using assms entries_drop
  by (auto simp: cache_holds_def cache_delete_def redis_now_def draw_def bindM_def modifyM_def)

lemma holds_cache_delete [holds_rules]:
  "keeps (cache_holds env c X N P) (cache_delete env c (user_cache_key uid))"
  by (rule keepsI) (blast intro: cache_holds_mono [OF cache_delete_drops])

lemma holds_cache_set:
  assumes "0 < ttl" and "P uid v \<or> (\<forall>n < N. env_redis_now env n + seconds ttl \<le> X)"
  shows "keeps (cache_holds env c X N P) (cache_set env c (user_cache_key uid) v ttl)"
  using assms entries_store
  by (auto simp: keeps_def cache_holds_def cache_set_def redis_now_def draw_def bindM_def modifyM_def)

lemma holds_guards [holds_rules]:
  "keeps (cache_holds env c X N P) (login_guard_ip env c device)"
  "keeps (cache_holds env c X N P) (login_guard_account env c email)"
  "keeps (cache_holds env c X N P) (login_count_failure env c email device)"
  "keeps (cache_holds env c X N P) (limiter_reset env c (account_key email))"
  "keeps (cache_holds env c X N P) (register_check_rate_limit env c device)"
  "keeps (cache_holds env c X N P) (reset_check_rate_limit env c device)"
  "keeps (cache_holds env c X N P) (forgot_check_rate_limits env c address device)"
  by (auto simp: login_guard_ip_def login_guard_account_def login_count_failure_def charge_def
      register_check_rate_limit_def reset_check_rate_limit_def forgot_check_rate_limits_def
      charge_or_refuse_def intro!: keeps_rules holds_limiter)
    (simp_all add: spares_users_def user_cache_key_def)

section \<open>No use case but one stores a user\<close>

lemma holds_transactions:
  "keeps (cache_holds env c X N P) (login_transaction env c email pw device)"
  "keeps (cache_holds env c X N P) (refresh_transaction env c payload device)"
  "keeps (cache_holds env c X N P) (logout_transaction env payload device')"
  "keeps (cache_holds env c X N P) (register_transaction env c email name reg device)"
  "keeps (cache_holds env c X N P) (update_transaction env c uid upd)"
  "keeps (cache_holds env c X N P) (verify_transaction env h device')"
  "keeps (cache_holds env c X N P) (change_password_transaction env c uid chp device')"
  "keeps (cache_holds env c X N P) (forgot_transaction env c email)"
  "keeps (cache_holds env c X N P) (reset_transaction env c rsp device)"
  "keeps (cache_holds env c X N P) (delete_transaction env uid device')"
  "keeps (cache_holds env c X N P) (ban_transaction env actor uid reason device')"
  "keeps (cache_holds env c X N P) (unban_transaction env actor uid device')"
  unfolding login_transaction_def login_reject_def login_accept_def refresh_transaction_def refresh_rotate_def
    logout_transaction_def register_transaction_def grant_default_role_def update_transaction_def
    update_email_def update_username_def verify_transaction_def usable_token_def token_owner_def
    stamp_verified_def change_password_transaction_def forgot_transaction_def reset_transaction_def
    delete_transaction_def ban_transaction_def unban_transaction_def Let_def
  by (intro keeps_retM keeps_raiseM keeps_liftM keeps_bindM keeps_seqM keeps_whenM keeps_if keeps_case_option
      keeps_case_prod holds_rules)+

end

end
