(* ===== verification/Cache_Coherence.thy ===== *)
theory Cache_Coherence
  imports Cache_State
begin

text \<open>
  The user cache agrees with the database. \<open>fresh f d\<close>: an entry is the text of a user that agrees with
  the stored one on \<open>f\<close>, where \<open>f\<close> is the whole user or its \<open>account_part\<close>. Every use case keeps the
  account part fresh; those that change the permissions of a role, or delete one, may leave the roles
  of a cached user behind, for at most the lifetime of an entry.
\<close>

section \<open>Fresh entries\<close>

definition fresh :: "(user \<Rightarrow> 'a) \<Rightarrow> database \<Rightarrow> int \<Rightarrow> string \<Rightarrow> bool" where
  "fresh f d uid raw \<longleftrightarrow> (\<exists>u v. db_user_by_id uid d = Some u \<and> raw = user_dumps v \<and> f v = f u)"

lemma fresh_current: "db_user_by_id uid d = Some u \<Longrightarrow> fresh f d uid (user_dumps u)"
  by (auto simp: fresh_def)

lemma fresh_kept: "fresh f d x raw \<Longrightarrow> kept_by f D d d' \<Longrightarrow> x \<notin> D \<Longrightarrow> fresh f d' x raw"
  unfolding fresh_def kept_by_def by metis

definition coherent :: "'r env \<Rightarrow> config \<Rightarrow> int \<Rightarrow> nat \<Rightarrow> (user \<Rightarrow> 'a) \<Rightarrow> 'r world \<Rightarrow> bool" where
  "coherent env c X N f w \<longleftrightarrow> at_rest wf_db w \<and> cache_holds env c X N (fresh f (db w)) w"

lemma coherentI:
  assumes "coherent env c X N f w" and "kept_by f D (db w) (db w')" and "session w' = None"
    and "cache_holds env c X N (\<lambda>x raw. x \<notin> D \<and> fresh f (db w) x raw) w'"
  shows "coherent env c X N f w'"
proof -
  have "cache_holds env c X N (fresh f (db w')) w'"
    using assms(4) by (rule cache_holds_mono) (use assms(2) fresh_kept in blast)
  then show ?thesis using assms(2,3) by (simp add: coherent_def at_rest_iff kept_by_def)
qed

section \<open>Use cases that change no user\<close>

lemma coherent_neutral:
  assumes "\<And>d0. keeps (at_rest (kept {} d0)) m" and "\<And>P. keeps (cache_holds env c X N P) m"
  shows "keeps (coherent env c X N f) m"
proof (rule keepsI)
  fix w assume w: "coherent env c X N f w"
  then have "at_rest (kept {} (db w)) w" by (simp add: coherent_def at_rest_iff kept_refl)
  then have "at_rest (kept {} (db w)) (snd (m w))" using assms(1) by (simp add: keeps_def)
  moreover have "cache_holds env c X N (fresh f (db w)) (snd (m w))"
    using assms(2) w by (simp add: coherent_def keeps_def)
  ultimately show "coherent env c X N f (snd (m w))"
    using coherentI [OF w, of "{}"] by (simp add: at_rest_iff kept_any)
qed

lemma coherent_frame:
  assumes "frames m" and "\<And>P. keeps (cache_holds env c X N P) m"
  shows "keeps (coherent env c X N f) m"
proof (rule coherent_neutral [OF _ assms(2)])
  show "keeps (at_rest (kept {} d0)) m" for d0
    using assms(1) by (auto simp: keeps_def at_rest_iff frames_def)
qed

lemmas neutral_db = kept_closed_sub [unfolded harmless_def]

section \<open>Use cases that change one user\<close>

text \<open>\<open>writes g m\<close>: of the users present at the start of a transaction, only \<open>g x\<close> may be another one after it returned \<open>x\<close>.\<close>

definition writes :: "('a \<Rightarrow> int) \<Rightarrow> ('r, 'a) app \<Rightarrow> bool" where
  "writes g m \<longleftrightarrow>
     (\<forall>d0 w x w'. db_inv2 (kept {} d0) (kept {} d0) w \<longrightarrow> m w = (Inr x, w') \<longrightarrow> kept {g x} d0 (db w'))"

lemma writes_bind:
  assumes "\<And>d0. keeps (db_inv2 (kept {} d0) (kept {} d0)) m" and "\<And>y. writes g (f y)"
  shows "writes g (bindM m f)"
  unfolding writes_def
proof (intro allI impI)
  fix d0 w x w'
  assume inv: "db_inv2 (kept {} d0) (kept {} d0) w" and run: "bindM m f w = (Inr x, w')"
  then obtain y w1 where m: "m w = (Inr y, w1)" and f: "f y w1 = (Inr x, w')"
    by (auto simp: bindM_def split: prod.splits sum.splits)
  have "db_inv2 (kept {} d0) (kept {} d0) w1" using keepsD [OF assms(1) inv m] .
  with assms(2) f show "kept {g x} d0 (db w')" by (auto simp: writes_def)
qed

lemma writes_one:
  assumes "\<And>d0. keeps (db_inv2 (kept {uid} d0) (kept {uid} d0)) m" and "returns (\<lambda>x. g x = uid) m"
  shows "writes g m"
  unfolding writes_def
proof (intro allI impI)
  fix d0 w x w'
  assume inv: "db_inv2 (kept {} d0) (kept {} d0) w" and run: "m w = (Inr x, w')"
  then have "db_inv2 (kept {uid} d0) (kept {uid} d0) w"
    by (auto simp: db_inv2_def intro: kept_mono [of "{}"])
  then have "db_inv2 (kept {uid} d0) (kept {uid} d0) w'" using keepsD [OF assms(1) _ run] by blast
  moreover have "g x = uid" using assms(2) run wp_InrD by (fastforce simp: returns_def)
  ultimately show "kept {g x} d0 (db w')" by (simp add: db_inv2_def)
qed

lemma writes_const:
  assumes "\<And>d0. keeps (db_inv2 (kept {uid} d0) (kept {uid} d0)) m"
  shows "writes (\<lambda>_. uid) m"
  by (rule writes_one [OF assms]) (simp add: returns_def wp_def split: prod.splits sum.splits)

text \<open>
  The transaction, then the removal of the entry, unless the transaction reports that it changed
  nothing, then what does not touch the database.
\<close>


context redis_keys begin

lemma coherent_change:
  assumes holds: "\<And>P. keeps (cache_holds env c X N P) T" and "writes g T" and "clean T"
    and skipped: "\<And>w x w'. T w = (Inr x, w') \<Longrightarrow> \<not> b x \<Longrightarrow> db w' = db w"
    and rest: "\<And>x. frames (rest x)" "\<And>P x. keeps (cache_holds env c X N P) (rest x)"
  shows "keeps (coherent env c X N f)
           (bindM (with_uow T) (\<lambda>x. seqM (whenM (b x) (cache_delete env c (user_cache_key (g x)))) (rest x)))"
    (is "keeps _ ?m")
proof (rule keepsI)
  fix w assume w: "coherent env c X N f w"
  let ?w0 = "w\<lparr>session := Some (db w)\<rparr>"
  have wf: "wf_db (db w)" and "session w = None" using w by (simp_all add: coherent_def at_rest_iff)
  have start: "cache_holds env c X N (fresh f (db w)) ?w0"
    using w by (simp add: coherent_def cache_holds_def)
  have inv: "db_inv2 (kept {} (db w)) (kept {} (db w)) ?w0"
    using wf by (simp add: db_inv2_def kept_refl)
  obtain r w1 where T: "T ?w0 = (r, w1)" by fastforce
  have h1: "cache_holds env c X N (fresh f (db w)) (w1\<lparr>session := None\<rparr>)"
    using keepsD [OF holds start T] by (simp add: cache_holds_def)
  show "coherent env c X N f (snd (?m w))"
  proof (cases r)
    case (Inl e)
    then have "db w1 = db w" using assms(3) T by (force simp: clean_def)
    with h1 wf Inl T show ?thesis
      by (simp add: bindM_def with_uow_def Let_def coherent_def at_rest_iff)
  next
    case (Inr x)
    let ?w1 = "w1\<lparr>session := None\<rparr>"
    obtain r2 w2 where del: "whenM (b x) (cache_delete env c (user_cache_key (g x))) ?w1 = (r2, w2)" by fastforce
    have frame2: "frames (whenM (b x) (cache_delete env c (user_cache_key (g x))))"
      by (intro frames_rules)
    have "settles (whenM (b x) (cache_delete env c (user_cache_key (g x))))" by (intro settles_rules)
    with del obtain y where r2: "r2 = Inr y" by (cases r2) (auto simp: settles_def)
    obtain r3 w3 where rest3: "rest x w2 = (r3, w3)" by fastforce
    have m: "snd (?m w) = w3"
      using T Inr del r2 rest3 by (simp add: bindM_def seqM_def with_uow_def Let_def)
    have db3: "db w3 = db w1" "session w3 = None"
      using framesD [OF frame2 del] framesD [OF rest(1) rest3] by simp_all
    have kept: "kept {g x} (db w) (db w1)" using assms(2) inv T Inr by (auto simp: writes_def)
    show ?thesis
    proof (cases "b x")
      case True
      have "cache_holds env c X N (\<lambda>y raw. y \<noteq> g x \<and> fresh f (db w) y raw) w2"
        using cache_delete_drops [OF h1, of "g x"] del True by (simp add: whenM_def)
      then have "cache_holds env c X N (\<lambda>y raw. y \<noteq> g x \<and> fresh f (db w) y raw) w3"
        using keepsD [OF rest(2) _ rest3] by blast
      then show ?thesis
        unfolding m by (intro coherentI [OF w, of "{g x}"]) (simp_all add: kept_any [OF kept] db3)
    next
      case False
      then have same: "db w1 = db w" using skipped [OF T [unfolded Inr]] by simp
      have "w2 = ?w1" using del False by (simp add: whenM_def retM_def)
      then have "cache_holds env c X N (fresh f (db w)) w3"
        using keepsD [OF rest(2) _ rest3] h1 by blast
      then show ?thesis
        unfolding m using wf db3 same by (simp add: coherent_def at_rest_iff)
    qed
  qed
qed

lemma coherent_change_always:
  assumes "\<And>P. keeps (cache_holds env c X N P) T" and "writes g T" and "clean T"
    and "\<And>x. frames (rest x)" "\<And>P x. keeps (cache_holds env c X N P) (rest x)"
  shows "keeps (coherent env c X N f)
           (bindM (with_uow T) (\<lambda>x. seqM (cache_delete env c (user_cache_key (g x))) (rest x)))"
  using coherent_change [where b = "\<lambda>_. True", OF assms(1-3) _ assms(4,5)] by (simp add: whenM_def)

end

section \<open>The writes of each transaction\<close>

lemma keeps_bind_returns:
  fixes m :: "('r, 'a) app"
  assumes "keeps I m" and "returns R m" and "\<And>x. R x \<Longrightarrow> keeps I (f x)"
  shows "keeps I (bindM m f)"
proof (rule keepsI)
  fix w :: "'r world" assume "I w"
  then have I: "I (snd (m w))" using assms(1) by (simp add: keeps_def)
  show "I (snd (bindM m f w))"
  proof (cases "m w")
    case (Pair r w')
    then show ?thesis
      using I assms(2,3) wp_InrD
      by (cases r) (fastforce simp: bindM_def keeps_def returns_def)+
  qed
qed

lemma keeps_case_option_eq:
  "(x = None \<Longrightarrow> keeps I m) \<Longrightarrow> (\<And>y. x = Some y \<Longrightarrow> keeps I (f y)) \<Longrightarrow>
     keeps I (case x of None \<Rightarrow> m | Some y \<Rightarrow> f y)"
  by (simp split: option.splits)

lemmas keeps_load_user = keeps_bind_returns [OF _ users_get_by_id_same]

lemma keeps_user_writes:
  assumes "user_id u \<in> D"
  shows "keeps (db_inv2 A (kept D d0)) (users_update env u)"
    and "keeps (db_inv2 A (kept D d0)) (users_update_password env u)"
  unfolding users_update_def users_update_password_def
  by (intro keeps_bindM keeps_readings keeps_execute; use assms kept_update_user kept_update_password in blast)+

lemma keeps_role_writes:
  assumes "uid \<in> D"
  shows "keeps (db_inv2 A (kept D d0)) (users_assign_role uid rid)"
    and "keeps (db_inv2 A (kept D d0)) (users_revoke_role uid rid)"
  unfolding users_assign_role_def users_revoke_role_def
  by (intro keeps_execute; use assms kept_assign_role kept_revoke_role in blast)+

lemma keeps_harmless:
  "keeps (db_inv2 A (kept D d0)) (audit_record env action who device metadata)"
  "keeps (db_inv2 A (kept D d0)) (verification_issue env c uid)"
  "keeps (db_inv2 A (kept D d0)) (tokens_mark_used env t)"
  "keeps (db_inv2 A (kept D d0)) (tokens_invalidate_for_user env uid purpose)"
  "keeps (db_inv2 A (kept D d0)) (sessions_revoke_all_for_user uid m except)"
  by (rule keeps_audit_record [OF kept_closed] keeps_verification_issue [OF kept_closed]
      keeps_sessions_write [OF kept_closed]; simp add: harmless_def)+

lemmas keeps_one_user =
  keeps_retM keeps_raiseM keeps_liftM keeps_load_user keeps_seqM keeps_whenM keeps_if keeps_case_option_eq
  keeps_reads keeps_readings keeps_security keeps_commit keeps_harmless keeps_user_writes keeps_role_writes

lemma writes_update: "writes (\<lambda>_. uid) (update_transaction env c uid upd)"
proof (rule writes_const)
  fix d0
  have rest: "keeps (db_inv2 (kept {uid} d0) (kept {uid} d0))
      (bindM (users_update env v) (\<lambda>updated.
       bindM (if is_email_verified updated then retM None
              else bindM (verification_issue env c (user_id updated)) (\<lambda>secret.
                   retM (Some (user_email updated, secret)))) (\<lambda>pending.
       seqM commit (retM (updated, pending)))))" if "user_id v = uid" for v
    by (intro keeps_bindM keeps_one_user) (use that in simp_all)
  show "keeps (db_inv2 (kept {uid} d0) (kept {uid} d0)) (update_transaction env c uid upd)"
    unfolding update_transaction_def
    by (intro keeps_load_user keeps_case_option_eq keeps_reads keeps_raiseM rest
        keeps_bind_returns [OF keeps_update_parts(1) update_email_same]
        keeps_bind_returns [OF keeps_update_parts(2) update_username_same])
      (auto simp: same_activity_def update_display_name_def split: option.splits)
qed

lemma writes_by_id:
  "writes (\<lambda>_. uid) (change_password_transaction env c uid chp device)"
  "writes (\<lambda>_. uid) (delete_transaction env uid device)"
  "writes (\<lambda>_. uid) (ban_transaction env actor uid reason device)"
  "writes (\<lambda>_. uid) (unban_transaction env actor uid device)"
  unfolding change_password_transaction_def delete_transaction_def ban_transaction_def unban_transaction_def
  by (rule writes_const; intro keeps_one_user keeps_bindM; auto)+

text \<open>The two transactions that find their user through a one-time token.\<close>

lemma same_owner: "returns (\<lambda>u. user_id u = tok_user_id t) (token_owner t)"
  by (auto simp: returns_def token_owner_def users_get_by_id_def wp_rules db_user_by_id_def split: option.splits
      dest: find_Some_key)

lemma wp_all_trivial: "(\<And>x w. Q x w) \<Longrightarrow> wp m Q (\<lambda>_ _. True) w"
  by (simp add: wp_def split: prod.splits sum.splits)

lemma users_update_same_id: "returns (\<lambda>v. user_id v = user_id u) (users_update env u)"
  by (auto simp: returns_def users_update_def wp_rules wp_db_now wp_execute db_update_user_def db_user_by_id_def
      split: option.splits sum.splits dest: find_Some_key)

lemma returns_last:
  fixes m :: "('r, 'a) app" and n :: "('r, unit) app"
  shows "(\<And>x. returns R (f x)) \<Longrightarrow> returns R (bindM m f)" "returns R p \<Longrightarrow> returns R (seqM n p)"
  by (simp_all add: returns_def wp_bindM wp_seqM wp_all_trivial)

lemma returns_bind: "returns S m \<Longrightarrow> (\<And>x. S x \<Longrightarrow> returns R (f x)) \<Longrightarrow> returns R (bindM m f)"
  unfolding returns_def wp_bindM by (blast intro: wp_mono)

lemma returns_retM: "R x \<Longrightarrow> returns R (retM x)"
  by (simp add: returns_def wp_rules)

lemma stamped_same_id: "returns (\<lambda>v. user_id v = user_id u) (stamp_verified env u)"
proof (cases "is_email_verified u")
  case False
  then show ?thesis
    using users_update_same_id [of "u\<lparr>user_email_verified_at := Some (Aware now)\<rparr>" env for now]
    by (auto simp: stamp_verified_def intro!: returns_last)
qed (simp add: stamp_verified_def returns_retM)

lemma keeps_stamp:
  "user_id u \<in> D \<Longrightarrow> keeps (db_inv2 A (kept D d0)) (stamp_verified env u)"
  unfolding stamp_verified_def by (intro keeps_if keeps_bindM keeps_one_user) simp_all

lemma writes_verify: "writes user_id (verify_transaction env h device)"
proof -
  have owner: "writes user_id
      (bindM (token_owner t) (\<lambda>u.
       seqM (tokens_mark_used env t)
       (bindM (stamp_verified env u) (\<lambda>u'.
        seqM (audit_record env EMAIL_VERIFIED (Some (user_id u')) device [(''email'', MStr (user_email u'))])
        (seqM commit (retM u'))))))" for t
    by (rule writes_one [of "tok_user_id t"])
      (intro keeps_bind_returns [OF keeps_token_parts(2) same_owner] keeps_bindM keeps_stamp keeps_one_user, simp_all,
       intro returns_bind [OF same_owner] returns_bind [OF stamped_same_id] returns_last returns_retM, simp)
  then show ?thesis
    unfolding verify_transaction_def by (intro writes_bind [OF keeps_token_parts(1)])
qed

lemma writes_reset: "writes user_id (reset_transaction env c rsp device)"
proof -
  have owner: "writes user_id
      (bindM (token_owner t) (\<lambda>u.
       bindM (utc_now env) (\<lambda>now.
       bindM (hasher_hash env c (rsp_password rsp)) (\<lambda>h.
       seqM (users_update_password env (u\<lparr>user_password_hash := h\<rparr>))
       (seqM (tokens_mark_used env t)
       (seqM (tokens_invalidate_for_user env (user_id u) PASSWORD_RESET)
       (bindM (sessions_revoke_all_for_user (user_id u) (Aware now) None) (\<lambda>revoked.
        seqM (audit_record env PASSWORD_WAS_RESET (Some (user_id u)) (Some device)
                [(''sessions_revoked'', MInt revoked)])
        (seqM commit (retM (u\<lparr>user_password_hash := h\<rparr>)))))))))))" for t
    by (rule writes_one [of "tok_user_id t"])
      (intro keeps_bind_returns [OF keeps_token_parts(2) same_owner] keeps_bindM keeps_one_user, simp_all,
       intro returns_bind [OF same_owner] returns_last returns_retM, simp)
  then show ?thesis
    unfolding reset_transaction_def by (intro writes_bind [OF keeps_token_parts(1)])
qed

section \<open>Clean transactions\<close>

lemma clean_transactions:
  "clean (update_transaction env c uid upd)" "clean (change_password_transaction env c uid chp device')"
  "clean (delete_transaction env uid device')" "clean (ban_transaction env actor uid reason device')"
  "clean (unban_transaction env actor uid device')" "clean (verify_transaction env h device')"
  "clean (reset_transaction env c rsp device)"
  unfolding update_transaction_def change_password_transaction_def delete_transaction_def ban_transaction_def
    unban_transaction_def verify_transaction_def reset_transaction_def
  by (intro clean_seq clean_bind clean_commit clean_commit_then clean_cases clean_uncommitted uncommitted_rules
      settles_rules)+

section \<open>Every use case\<close>

context redis_keys begin

lemmas holds_steps =
  keeps_retM keeps_raiseM keeps_liftM keeps_bindM keeps_seqM keeps_whenM keeps_if keeps_case_option
  keeps_case_prod keeps_tryM holds_rules holds_transactions

lemma coherent_update: "keeps (coherent env c X N f) (update_profile env c uid upd)"
  unfolding update_profile_def split_beta
  by (rule coherent_change_always [OF holds_transactions(5) writes_update clean_transactions(1)])
    (intro frames_rules, intro holds_steps)

lemma coherent_verify: "keeps (coherent env c X N f) (verify_email env c token device)"
  unfolding verify_email_def
  by (rule coherent_change_always [OF holds_transactions(6) writes_verify clean_transactions(6)])
    (intro frames_rules, intro holds_steps)

lemma coherent_change_password: "keeps (coherent env c X N f) (change_password env c uid chp device)"
  unfolding change_password_def
  by (intro keeps_seqM coherent_frame frames_rules holds_steps
      coherent_change_always [OF holds_transactions(7) writes_by_id(1) clean_transactions(2)])

lemma seqM_retM_unit: "seqM m (retM ()) = m"
  by (rule ext) (simp add: seqM_def bindM_def retM_def split: prod.splits sum.splits)

lemma coherent_change_last:
  assumes "\<And>P. keeps (cache_holds env c X N P) T" and "writes g T" and "clean T"
  shows "keeps (coherent env c X N f) (bindM (with_uow T) (\<lambda>x. cache_delete env c (user_cache_key (g x))))"
  using coherent_change_always [where rest = "\<lambda>_. retM ()", OF assms frames_basic(1) keeps_retM]
  by (simp add: seqM_retM_unit)

lemma coherent_reset: "keeps (coherent env c X N f) (reset_password env c rsp device)"
  unfolding reset_password_def Let_def
  by (intro keeps_seqM coherent_frame frames_rules holds_steps
      coherent_change_last [OF holds_transactions(9) writes_reset clean_transactions(7)])

lemma coherent_delete: "keeps (coherent env c X N f) (delete_user env c uid device)"
  unfolding delete_user_def seqM_def [of "with_uow _"]
  by (rule coherent_change_last [OF holds_transactions(10) writes_by_id(2) clean_transactions(3)])

lemma unchanged_ban:
  "ban_transaction env actor uid reason device w = (Inr (u, False), w') \<Longrightarrow> db w' = db w"
  "unban_transaction env actor uid device w = (Inr (u, False), w') \<Longrightarrow> db w' = db w"
  unfolding ban_transaction_def unban_transaction_def
  by (auto simp: bindM_def seqM_def whenM_def retM_def raiseM_def users_get_by_id_def query_def
      split: option.splits prod.splits sum.splits if_splits)

lemma coherent_ban: "keeps (coherent env c X N f) (ban_user env c actor uid reason device)"
  unfolding ban_user_def case_prod_unfold
  by (intro keeps_seqM coherent_frame frames_rules holds_steps
      coherent_change [OF holds_transactions(11) writes_by_id(3) clean_transactions(4)])
    (auto dest: unchanged_ban)

lemma coherent_unban: "keeps (coherent env c X N f) (unban_user env c actor uid device)"
  unfolding unban_user_def case_prod_unfold
  by (intro frames_rules holds_steps
      coherent_change [OF holds_transactions(12) writes_by_id(4) clean_transactions(5)])
    (auto dest: unchanged_ban)

subsection \<open>Roles of a user\<close>

lemma assign_clean:
  "clean (bindM (users_get_by_id uid) (\<lambda>u.
          seqM (whenM (u = None) (raiseM user_not_found))
          (bindM (roles_get_by_id rid) (\<lambda>r.
           seqM (whenM (r = None) (raiseM role_not_found))
           (seqM (users_assign_role uid rid) (seqM commit (bindM (users_get_by_id uid) assert_found)))))))"
  (is "clean ?m")
proof -
  have "wp ?m (\<lambda>_ _. True) (\<lambda>_ w'. db w' = db w) w" for w
    by (auto simp: users_get_by_id_def roles_get_by_id_def users_assign_role_def assert_found_def wp_rules
        wp_execute wp_commit db_assign_role_def insert_user_role_def db_user_by_id_def
        split: option.splits sum.splits if_splits)
  then show ?thesis by (auto simp: clean_def dest: wp_InlD)
qed

lemma revoke_clean:
  "clean (bindM (users_get_by_id uid) (\<lambda>u.
          seqM (whenM (u = None) (raiseM user_not_found))
          (seqM (users_revoke_role uid rid) (seqM commit (bindM (users_get_by_id uid) assert_found)))))"
  (is "clean ?m")
proof -
  have "wp ?m (\<lambda>_ _. True) (\<lambda>_ w'. db w' = db w) w" for w
    by (auto simp: users_get_by_id_def users_revoke_role_def assert_found_def wp_rules
        wp_execute wp_commit db_revoke_role_def db_user_by_id_def
        split: option.splits sum.splits if_splits)
  then show ?thesis by (auto simp: clean_def dest: wp_InlD)
qed

lemma coherent_assign: "keeps (coherent env c X N f) (assign_role_to_user env c uid rid)"
  unfolding assign_role_to_user_def
  by (rule coherent_change_always [OF _ writes_const assign_clean];
      ((intro keeps_bindM keeps_assert_found keeps_one_user; simp; fail) | intro frames_rules | intro holds_steps))

lemma coherent_unassign: "keeps (coherent env c X N f) (revoke_role_from_user env c uid rid)"
  unfolding revoke_role_from_user_def
  by (rule coherent_change_always [OF _ writes_const revoke_clean];
      ((intro keeps_bindM keeps_assert_found keeps_one_user; simp; fail) | intro frames_rules | intro holds_steps))

end

subsection \<open>Registration\<close>

lemma keeps_bind_from:
  fixes m :: "('r, 'a) app"
  assumes "keeps I m" and "\<And>w x w'. I w \<Longrightarrow> m w = (Inr x, w') \<Longrightarrow> R x" and "\<And>x. R x \<Longrightarrow> keeps I (f x)"
  shows "keeps I (bindM m f)"
proof (rule keepsI)
  fix w :: "'r world" assume I: "I w"
  show "I (snd (bindM m f w))"
  proof (cases "m w")
    case (Pair r w')
    have "I w'" using keepsD [OF assms(1) I Pair] .
    then show ?thesis
      using Pair assms(2) [OF I] assms(3) by (cases r) (auto simp: bindM_def keeps_def)
  qed
qed

lemma kept_absent: "kept {uid} d0 d \<Longrightarrow> db_user_by_id uid d0 = None \<Longrightarrow> kept {} d0 d"
  by (metis kept_def option.simps(3) singletonD)

lemma keeps_new_user:
  assumes "\<And>x. db_user_by_id (user_id x) d0 = None \<Longrightarrow> keeps (db_inv2 (kept {} d0) (kept {} d0)) (f x)"
  shows "keeps (db_inv2 (kept {} d0) (kept {} d0)) (bindM (users_add env u) f)"
proof (rule keeps_bind_from [OF _ _ assms])
  show "keeps (db_inv2 (kept {} d0) (kept {} d0)) (users_add env u)"
    by (rule keeps_users_write [OF kept_closed]) (simp add: harmless_def)
  fix w x w'
  assume inv: "db_inv2 (kept {} d0) (kept {} d0) w" and run: "users_add env u w = (Inr x, w')"
  then obtain d d' now where d: "session w = Some d" "db_add_user now u d = Inr (x, d')" "kept {} d0 d"
    by (auto simp: users_add_def db_now_def draw_def bindM_def execute_def db_inv2_def
        split: option.splits sum.splits prod.splits)
  then have "user_id x = seq_users d"
    using db_add_user_shape [OF d(2)] by (auto simp: user_to_entity_def)
  moreover have "seq_users d \<notin> user_ids d" using d(3) linked_ids(5) by (force simp: kept_def)
  ultimately have "db_user_by_id (user_id x) d = None"
    by (force simp: db_user_by_id_def id_sets find_None_iff)
  then show "db_user_by_id (user_id x) d0 = None" using d(3) by (cases "db_user_by_id (user_id x) d0") (auto simp: kept_def)
qed

lemma keeps_default_role:
  assumes "db_user_by_id uid d0 = None"
  shows "keeps (db_inv2 (kept {} d0) (kept {} d0)) (grant_default_role c uid)"
proof -
  have "keeps (db_inv2 (kept {} d0) (kept {} d0)) (users_assign_role uid rid)" for rid
    unfolding users_assign_role_def
    by (rule keeps_execute) (use assms kept_assign_role [of uid] kept_absent kept_mono [of "{}" d0 _ "{uid}"] in blast)
  then show ?thesis
    unfolding grant_default_role_def by (intro keeps_bindM keeps_case_option keeps_reads keeps_retM)
qed

lemma coherent_neutral_uow:
  assumes "\<And>d0. keeps (db_inv2 (kept {} d0) (kept {} d0)) T" and "\<And>P. keeps (cache_holds env c X N P) T"
  shows "keeps (coherent env c X N f) (with_uow T)"
proof (rule coherent_neutral)
  show "keeps (at_rest (kept {} d0)) (with_uow T)" for d0
    unfolding at_rest_def by (rule keeps_with_uow [OF assms(1)])
qed (intro holds_rules assms(2))

lemma keeps_refuse: "keeps (db_inv2 A I) (refuse_if_found e found)"
  by (auto simp: refuse_if_found_def intro!: keeps_rules)

context redis_keys begin

lemma coherent_register: "keeps (coherent env c X N f) (register_user env c reg device)"
proof -
  have T: "keeps (coherent env c X N f) (with_uow (register_transaction env c email name reg dev))" for email name dev
  proof (rule coherent_neutral_uow [OF _ holds_transactions(4)])
    show "keeps (db_inv2 (kept {} d0) (kept {} d0)) (register_transaction env c email name reg dev)" for d0
      unfolding register_transaction_def
      by (rule keeps_bindM keeps_seqM keeps_new_user | intro keeps_one_user keeps_refuse keeps_default_role; simp; fail)+
  qed
  show ?thesis
    unfolding register_user_def Let_def case_prod_unfold
    by (rule keeps_seqM keeps_bindM T | rule coherent_frame; (intro frames_rules | intro holds_steps); fail)+
qed

end

section \<open>The remaining use cases\<close>

lemma keeps_at_rest: "(\<And>B. keeps (db_inv2 I B) m) \<Longrightarrow> keeps (at_rest I) m"
  by (simp add: at_rest_def)

text \<open>Inside the transaction of \<^verbatim>\<open>authenticate\<close> the session's view is the committed database.\<close>

definition viewing :: "database \<Rightarrow> ('r world \<Rightarrow> bool) \<Rightarrow> 'r world \<Rightarrow> bool" where
  "viewing d G w \<longleftrightarrow> db_inv2 (\<lambda>e. e = d) (\<lambda>e. e = d) w \<and> G w"

definition resting :: "database \<Rightarrow> ('r world \<Rightarrow> bool) \<Rightarrow> 'r world \<Rightarrow> bool" where
  "resting d G w \<longleftrightarrow> db w = d \<and> session w = None \<and> G w"

context redis_keys begin

lemma holds_use_cases:
  "keeps (cache_holds env c X N P) (login env c data device)"
  "keeps (cache_holds env c X N P) (refresh env c token device)"
  "keeps (cache_holds env c X N P) (logout env c token device)"
  "keeps (cache_holds env c X N P) (register_user env c reg device)"
  "keeps (cache_holds env c X N P) (update_profile env c uid upd)"
  "keeps (cache_holds env c X N P) (verify_email env c token device)"
  "keeps (cache_holds env c X N P) (change_password env c uid chp device)"
  "keeps (cache_holds env c X N P) (forgot_password env c email device)"
  "keeps (cache_holds env c X N P) (reset_password env c rsp device)"
  "keeps (cache_holds env c X N P) (delete_user env c uid device)"
  "keeps (cache_holds env c X N P) (ban_user env c actor uid reason device)"
  "keeps (cache_holds env c X N P) (unban_user env c actor uid device)"
  "keeps (cache_holds env c X N P) (assign_role_to_user env c uid rid)"
  "keeps (cache_holds env c X N P) (revoke_role_from_user env c uid rid)"
  unfolding login_def refresh_def logout_def register_user_def update_profile_def verify_email_def
    change_password_def forgot_password_def reset_password_def delete_user_def ban_user_def unban_user_def
    assign_role_to_user_def revoke_role_from_user_def Let_def
  by (intro holds_steps)+

lemma holds_plain_use_cases:
  "keeps (cache_holds env c X N P) (get_user_profile uid)" "keeps (cache_holds env c X N P) (list_user_sessions env uid)"
  "keeps (cache_holds env c X N P) list_roles" "keeps (cache_holds env c X N P) list_permissions"
  "keeps (cache_holds env c X N P) list_users"
  "keeps (cache_holds env c X N P) (revoke_all_sessions env uid except device)"
  "keeps (cache_holds env c X N P) (revoke_user_session env uid sid device)"
  "keeps (cache_holds env c X N P) (create_role name descr)" "keeps (cache_holds env c X N P) (delete_role rid)"
  "keeps (cache_holds env c X N P) (create_permission res act descr)"
  "keeps (cache_holds env c X N P) (grant_permission_to_role rid pid)"
  "keeps (cache_holds env c X N P) (revoke_permission_from_role rid pid)"
  unfolding get_user_profile_def list_user_sessions_def list_roles_def list_permissions_def list_users_def
    sessions_list_active_for_user_def revoke_all_sessions_def revoke_user_session_def create_role_def
    delete_role_def create_permission_def grant_permission_to_role_def revoke_permission_from_role_def
  by (intro holds_steps)+

lemma coherent_plain:
  "keeps (coherent env c X N f) (login env c data device)"
  "keeps (coherent env c X N f) (refresh env c token device)"
  "keeps (coherent env c X N f) (logout env c token device)"
  "keeps (coherent env c X N f) (forgot_password env c email device)"
  "keeps (coherent env c X N f) (revoke_all_sessions env uid except device)"
  "keeps (coherent env c X N f) (revoke_user_session env uid sid device)"
  "keeps (coherent env c X N f) (create_role name descr)"
  "keeps (coherent env c X N f) (create_permission res act descr)"
  by (rule coherent_neutral [OF keeps_at_rest];
      (rule holds_use_cases holds_plain_use_cases
        | rule keeps_login keeps_refresh keeps_logout keeps_forgot_password keeps_revoke_sessions keeps_access_control,
          rule kept_closed_sub, simp add: harmless_def))+

lemma coherent_listings:
  "keeps (coherent env c X N f) (get_user_profile uid)" "keeps (coherent env c X N f) (list_user_sessions env uid)"
  "keeps (coherent env c X N f) list_roles" "keeps (coherent env c X N f) list_permissions"
  "keeps (coherent env c X N f) list_users"
  by (rule coherent_neutral [OF keeps_at_rest]; rule keeps_listings holds_plain_use_cases)+

lemma coherent_reading: "coherent env c X N f w \<Longrightarrow> coherent env c X N f (w\<lparr>draws := Suc (draws w)\<rparr>)"
  by (simp add: coherent_def cache_holds_def)

subsection \<open>Authentication\<close>

lemma holds_authenticate:
  assumes "0 < cfg_AUTH_CACHE_TTL_SECONDS c"
    and "\<forall>n < N. env_redis_now env n + seconds (cfg_AUTH_CACHE_TTL_SECONDS c) \<le> X"
  shows "keeps (cache_holds env c X N P) (authenticate env c token)"
proof -
  have "keeps (cache_holds env c X N P) (cache_get env c key)" for key
    by (auto simp: cache_get_def intro!: keeps_rules holds_basic)
  then have "keeps (cache_holds env c X N P) (load_user env c uid)" for uid
    unfolding load_user_def by (intro holds_steps holds_cache_set disjI2 assms)
  then show ?thesis unfolding authenticate_def by (intro holds_steps)
qed

lemma viewing_keeps: "frames m \<Longrightarrow> keeps G m \<Longrightarrow> keeps (viewing d G) m"
  by (auto simp: keeps_def viewing_def db_inv2_def frames_def)

lemma found_user: "viewing d G w \<Longrightarrow> users_get_by_id uid w = (Inr x, w') \<Longrightarrow> x = db_user_by_id uid d"
  by (auto simp: viewing_def db_inv2_def users_get_by_id_def query_def split: option.splits)

lemma viewing_load_user:
  assumes "0 < cfg_AUTH_CACHE_TTL_SECONDS c"
  shows "keeps (viewing d (cache_holds env c X N (fresh f d))) (load_user env c uid)"
    (is "keeps ?V _")
proof -
  have get: "keeps ?V (cache_get env c key)" for key
    by (rule viewing_keeps) (auto simp: cache_get_def intro!: frames_rules keeps_rules holds_basic)
  have set_to: "keeps ?V (cache_set env c (user_cache_key uid) (user_dumps u) (cfg_AUTH_CACHE_TTL_SECONDS c))"
    if "db_user_by_id uid d = Some u" for u
    by (rule viewing_keeps [OF frames_ports(5) holds_cache_set [OF assms]]) (use that fresh_current in blast)
  have load: "keeps ?V (bindM (users_get_by_id uid) (\<lambda>user. case user of
           None \<Rightarrow> retM None
         | Some u \<Rightarrow>
             seqM (cache_set env c (user_cache_key uid) (user_dumps u) (cfg_AUTH_CACHE_TTL_SECONDS c)) (retM (Some u))))"
    by (rule keeps_bind_from [where R = "\<lambda>x. x = db_user_by_id uid d"])
      (auto intro!: viewing_keeps frames_rules holds_rules keeps_case_option_eq keeps_retM keeps_seqM set_to
        dest: found_user)
  show ?thesis
    unfolding load_user_def by (intro keeps_bindM get load keeps_case_option keeps_retM keeps_liftM)
qed

lemma resting_keeps: "frames m \<Longrightarrow> keeps G m \<Longrightarrow> keeps (resting d G) m"
  by (auto simp: keeps_def resting_def frames_def)

lemma resting_with_uow:
  assumes "\<And>w s. G (w\<lparr>session := s\<rparr>) = G w" and "keeps (viewing d G) m"
  shows "keeps (resting d G) (with_uow m)"
proof (rule keepsI)
  fix w assume "resting d G w"
  then have "viewing d G (w\<lparr>session := Some (db w)\<rparr>)"
    using assms(1) by (simp add: resting_def viewing_def db_inv2_def)
  then have "viewing d G (snd (m (w\<lparr>session := Some (db w)\<rparr>)))"
    using assms(2) by (simp add: keeps_def)
  then show "resting d G (snd (with_uow m w))"
    using assms(1) by (simp add: with_uow_def Let_def split_beta resting_def viewing_def db_inv2_def)
qed

lemma coherent_authenticate:
  assumes "0 < cfg_AUTH_CACHE_TTL_SECONDS c"
  shows "keeps (coherent env c X N f) (authenticate env c token)"
proof (rule keepsI)
  fix w assume w: "coherent env c X N f w"
  let ?H = "cache_holds env c X N (fresh f (db w))"
  have read: "keeps (viewing (db w) ?H) (sessions_get_by_jti jti)"
    "keeps (viewing (db w) ?H) (session_live_now env s)" for jti s
    by (rule viewing_keeps; (intro frames_rules | intro holds_rules))+
  have decode: "keeps (resting (db w) ?H) (decode_token env c token)"
    by (rule resting_keeps; (intro frames_rules | intro holds_rules))
  have "keeps (resting (db w) ?H) (authenticate env c token)"
    unfolding authenticate_def
    by (intro keeps_bindM keeps_if keeps_raiseM keeps_retM keeps_case_option decode resting_with_uow read
        viewing_load_user assms) (simp add: cache_holds_def)
  moreover have "resting (db w) ?H w" using w by (simp add: resting_def coherent_def at_rest_iff)
  ultimately have "resting (db w) ?H (snd (authenticate env c token w))" by (simp add: keeps_def)
  then show "coherent env c X N f (snd (authenticate env c token w))"
    using w by (simp add: resting_def coherent_def at_rest_iff)
qed

end

end
