(* ===== verification/Cache_Security.thy ===== *)
theory Cache_Security
  imports Cache_Coherence Demo
begin

text \<open>
  What the user behind an access token is worth when users are cached: the account itself is always the
  stored one, and the rights it gets from its roles are the stored ones unless a role was edited within
  the lifetime of a cache entry.
\<close>

section \<open>Edits of a role\<close>

text \<open>The use cases that change what an existing role grants; none of them looks for the users that hold it.\<close>

inductive role_edit :: "'r world \<Rightarrow> 'r world \<Rightarrow> bool" where
  dropped: "role_edit w (snd (delete_role rid w))"
| granted: "role_edit w (snd (grant_permission_to_role rid pid w))"
| revoked: "role_edit w (snd (revoke_permission_from_role rid pid w))"

inductive quiet_run :: "'r env \<Rightarrow> config \<Rightarrow> 'r world \<Rightarrow> 'r world \<Rightarrow> bool" for env c where
  rest: "quiet_run env c w w"
| step: "quiet_run env c w w' \<Longrightarrow> service_step env c w' w'' \<Longrightarrow> \<not> role_edit w' w'' \<Longrightarrow> quiet_run env c w w''"

lemma role_statements_users:
  "db_closed {DeleteRole, GrantPermission, RevokePermission} (\<lambda>d. wf_db d \<and> tbl_users d = us)"
proof -
  have "tbl_users d' = tbl_users d" if "db_stmt k d d'" "k \<in> {DeleteRole, GrantPermission, RevokePermission}" for k d d'
    using that
    by cases (auto simp: delete_role_row_def db_grant_permission_def insert_role_permission_def
        db_revoke_permission_def split: if_splits sum.splits)
  then show ?thesis unfolding db_closed_def using db_stmt_wf by metis
qed

lemma account_by_users:
  "tbl_users d' = tbl_users d \<Longrightarrow> wf_db d' \<Longrightarrow> kept_by account_part {} d d'"
  by (auto simp: kept_by_def db_user_by_id_def account_part_def user_to_entity_def)

context redis_keys begin

lemma coherent_role_edit:
  assumes "role_edit w w'" and "coherent env c X N account_part w"
  shows "coherent env c X N account_part w'"
proof -
  have run: "coherent env c X N account_part (snd (m w))"
    if "\<And>us. keeps (at_rest (\<lambda>d. wf_db d \<and> tbl_users d = us)) m" and "\<And>P. keeps (cache_holds env c X N P) m"
    for m :: "('r, 'b) app"
  proof -
    have "at_rest (\<lambda>d. wf_db d \<and> tbl_users d = tbl_users (db w)) (snd (m w))"
      using that(1) assms(2) by (simp add: keeps_def coherent_def at_rest_iff)
    moreover have "cache_holds env c X N (fresh account_part (db w)) (snd (m w))"
      using that(2) assms(2) by (simp add: keeps_def coherent_def)
    ultimately show ?thesis
      using coherentI [OF assms(2), of "{}"] account_by_users by (simp add: at_rest_iff)
  qed
  note closed = db_closed_subset [OF role_statements_users]
  show ?thesis
    using assms(1)
    by cases (simp_all only: snd_conv; rule run; (rule holds_plain_use_cases
        | rule keeps_at_rest, rule keeps_access_control, rule closed, simp))+
qed

lemmas coherent_use_cases =
  coherent_plain coherent_listings coherent_register coherent_update coherent_verify coherent_change_password
  coherent_reset coherent_delete coherent_ban coherent_unban coherent_assign coherent_unassign

lemma coherent_quiet_step:
  assumes "service_step env c w w'" and "\<not> role_edit w w'" and "coherent env c X N f w"
    and "0 < cfg_AUTH_CACHE_TTL_SECONDS c"
  shows "coherent env c X N f w'"
proof -
  have "coherent env c X N f (snd (m w))" if "keeps (coherent env c X N f) m" for m :: "('r, 'b) app"
    using that assms(3) by (simp add: keeps_def)
  note run = this
  show ?thesis
    using assms(1)
    by cases (use assms(2) coherent_reading [OF assms(3)] in
        \<open>auto simp: role_edit.intros intro: run coherent_use_cases coherent_authenticate [OF assms(4)]\<close>)
qed

lemma coherent_quiet_run:
  assumes "quiet_run env c w w'" and "coherent env c X N f w" and "0 < cfg_AUTH_CACHE_TTL_SECONDS c"
  shows "coherent env c X N f w'"
  using assms by (induction rule: quiet_run.induct) (auto intro: coherent_quiet_step)

lemma coherent_account_run:
  assumes "service_run env c w w'" and "coherent env c X N account_part w" and "0 < cfg_AUTH_CACHE_TTL_SECONDS c"
  shows "coherent env c X N account_part w'"
  using assms
  by (induction rule: service_run.induct) (auto intro: coherent_quiet_step coherent_role_edit)

lemma holds_step:
  assumes "service_step env c w w'" and "cache_holds env c X N P w" and "0 < cfg_AUTH_CACHE_TTL_SECONDS c"
    and "\<forall>n < N. env_redis_now env n + seconds (cfg_AUTH_CACHE_TTL_SECONDS c) \<le> X"
  shows "cache_holds env c X N P w'"
proof -
  have run: "cache_holds env c X N P (snd (m w))" if "keeps (cache_holds env c X N P) m" for m :: "('r, 'b) app"
    using that assms(2) by (simp add: keeps_def)
  have reading: "cache_holds env c X N P (w\<lparr>draws := Suc (draws w)\<rparr>)"
    using assms(2) by (simp add: cache_holds_def)
  show ?thesis
    using assms(1)
    by cases (auto intro: reading run holds_use_cases holds_plain_use_cases holds_authenticate [OF assms(3,4)])
qed

lemma holds_run:
  assumes "service_run env c w w'" and "cache_holds env c X N P w" and "0 < cfg_AUTH_CACHE_TTL_SECONDS c"
    and "\<forall>n < N. env_redis_now env n + seconds (cfg_AUTH_CACHE_TTL_SECONDS c) \<le> X"
  shows "cache_holds env c X N P w'"
  using assms by (induction rule: service_run.induct) (auto intro: holds_step)

end

section \<open>The user an access token is resolved to\<close>

definition db_in_calendar :: "database \<Rightarrow> bool" where
  "db_in_calendar d \<longleftrightarrow> (\<forall>uid u. db_user_by_id uid d = Some u \<longrightarrow> user_in_calendar u)"

lemma calendar_of_account: "account_part v = account_part u \<Longrightarrow> user_in_calendar v = user_in_calendar u"
  by (simp add: account_part_def user_in_calendar_def) (metis user.ext_inject user.surjective user.update_convs(12))

definition fresh_when_read :: "'r env \<Rightarrow> config \<Rightarrow> (user \<Rightarrow> 'a) \<Rightarrow> database \<Rightarrow> 'r world \<Rightarrow> bool" where
  "fresh_when_read env c f d w \<longleftrightarrow> (\<forall>n. cache_holds env c (env_redis_now env n) n (fresh f d) w)"

context redis_keys begin

lemma wp_keeps: "keeps I m \<Longrightarrow> I w \<Longrightarrow> (\<And>x w'. I w' \<Longrightarrow> Q x w') \<Longrightarrow> wp m Q (\<lambda>_ _. True) w"
  by (auto simp: wp_def dest: keepsD split: prod.splits sum.splits)

lemma loaded_user_fresh:
  assumes V: "viewing d (fresh_when_read env c f d) w" and cal: "db_in_calendar d"
    and f: "\<And>u v. f v = f u \<Longrightarrow> account_part v = account_part u"
  shows "wp (load_user env c uid)
           (\<lambda>x _. \<forall>u. x = Some u \<longrightarrow> (\<exists>v. db_user_by_id uid d = Some v \<and> f u = f v)) (\<lambda>_ _. True) w"
proof -
  have cached: "\<exists>v. db_user_by_id uid d = Some v \<and> f u = f v"
    if "env_redis_get env (env_redis_now env (draws w)) (user_cache_key uid) (redis w) = Some raw"
      and "redis_backend c" and "user_loads raw = Inr u" for raw u
  proof -
    have "entries env (env_redis_now env (draws w)) (fresh f d) (redis w)"
      using V that(2) by (auto simp: viewing_def fresh_when_read_def cache_holds_def)
    then have "fresh f d uid raw" using that(1) by (auto simp: entries_def)
    then obtain u0 v where v: "db_user_by_id uid d = Some u0" "raw = user_dumps v" "f v = f u0"
      by (auto simp: fresh_def)
    have "user_in_calendar u0" using v(1) cal by (auto simp: db_in_calendar_def)
    then have "user_in_calendar v" using calendar_of_account [OF f [OF v(3)]] by simp
    then have "u = v" using that(3) v(2) user_loads_dumps by simp
    with v show ?thesis by auto
  qed
  define miss where "miss = bindM (users_get_by_id uid) (\<lambda>user. case user of
           None \<Rightarrow> retM None
         | Some u \<Rightarrow>
             seqM (cache_set env c (user_cache_key uid) (user_dumps u) (cfg_AUTH_CACHE_TTL_SECONDS c)) (retM (Some u)))"
  have load: "load_user env c uid = bindM (cache_get env c (user_cache_key uid)) (\<lambda>cached.
      case cached of Some raw \<Rightarrow> bindM (liftM (user_loads raw)) (\<lambda>u. retM (Some u)) | None \<Rightarrow> miss)"
    unfolding load_user_def miss_def by (rule refl)
  have stored: "wp miss (\<lambda>x _. \<forall>u. x = Some u \<longrightarrow> (\<exists>v. db_user_by_id uid d = Some v \<and> f u = f v)) (\<lambda>_ _. True) w'"
    if "session w' = session w" for w'
    unfolding miss_def
    using V that
    by (auto simp: viewing_def db_inv2_def users_get_by_id_def wp_rules split: option.splits)
      (rule wp_all_trivial, simp add: wp_retM)
  show ?thesis
    unfolding load
    using cached stored
    by (auto simp: wp_rules cache_get_def redis_now_def wp_draw null_get_def split: option.splits sum.splits)
qed

lemma keeps_when_read:
  assumes "\<And>X N. keeps (cache_holds env c X N (fresh f d)) m"
  shows "keeps (fresh_when_read env c f d) m"
  using assms unfolding keeps_def fresh_when_read_def by blast

lemma when_read_session: "fresh_when_read env c f d (w\<lparr>session := s\<rparr>) = fresh_when_read env c f d w"
  by (simp add: fresh_when_read_def cache_holds_def)

lemma authenticated_user_fresh:
  assumes R: "resting d (fresh_when_read env c f d) w" and cal: "db_in_calendar d"
    and f: "\<And>u v. f v = f u \<Longrightarrow> account_part v = account_part u"
    and run: "authenticate env c token w = (Inr u, w')"
  shows "\<exists>uid v. db_user_by_id uid d = Some v \<and> f u = f v \<and> user_is_active u"
proof -
  let ?V = "viewing d (fresh_when_read env c f d)"
  let ?Q = "\<lambda>u _. \<exists>uid v. db_user_by_id uid d = Some v \<and> f u = f v \<and> user_is_active u"
  have read: "keeps ?V (sessions_get_by_jti jti)" "keeps ?V (session_live_now env s)" for jti s
    by (rule viewing_keeps; (intro frames_rules | intro keeps_when_read holds_rules))+
  have decode: "keeps (resting d (fresh_when_read env c f d)) (decode_token env c t)" for t
    by (rule resting_keeps; (intro frames_rules | intro keeps_when_read holds_rules))
  have user: "wp (bindM (load_user env c uid) (\<lambda>user. case user of
           None \<Rightarrow> raiseM user_inactive
         | Some u \<Rightarrow> if \<not> user_is_active u then raiseM user_inactive else retM u)) ?Q (\<lambda>_ _. True) w1"
    if "?V w1" for uid w1
    unfolding wp_bindM
    by (rule wp_mono [OF loaded_user_fresh [OF that cal f]]) (auto simp: wp_rules split: option.splits)
  have block: "wp (bindM (sessions_get_by_jti jti) (\<lambda>stored.
        bindM (session_live_now env stored) (\<lambda>live.
        if \<not> live then raiseM session_invalid
        else
          bindM (load_user env c uid) (\<lambda>user.
          case user of
            None \<Rightarrow> raiseM user_inactive
          | Some u \<Rightarrow> if \<not> user_is_active u then raiseM user_inactive else retM u)))) ?Q (\<lambda>_ _. True) w1"
    if "?V w1" for jti uid w1
    unfolding wp_bindM [of "sessions_get_by_jti _"] wp_bindM [of "session_live_now _ _"] wp_if wp_raiseM
    by (rule wp_keeps [OF read(1) that], rule wp_keeps [OF read(2)], assumption, simp add: user)
  have view: "?V (w1\<lparr>session := Some (db w1)\<rparr>)" if "resting d (fresh_when_read env c f d) w1" for w1
    using that by (simp add: resting_def viewing_def db_inv2_def when_read_session)
  have "wp (authenticate env c token) ?Q (\<lambda>_ _. True) w"
    unfolding authenticate_def wp_bindM [of "decode_token _ _ _"] wp_if wp_raiseM wp_with_uow
  proof (rule wp_keeps [OF decode R])
    fix x w1 assume "resting d (fresh_when_read env c f d) w1"
    from block [OF view [OF this], of "tp_jti x" "tp_user_id x"]
    show "if tp_token_type x \<noteq> ''access'' then True
          else wp (bindM (sessions_get_by_jti (tp_jti x)) (\<lambda>stored.
                 bindM (session_live_now env stored) (\<lambda>live.
                 if \<not> live then raiseM session_invalid
                 else
                   bindM (load_user env c (tp_user_id x)) (\<lambda>user.
                   case user of
                     None \<Rightarrow> raiseM user_inactive
                   | Some u \<Rightarrow> if \<not> user_is_active u then raiseM user_inactive else retM u))))
               ?Q (\<lambda>e w'. True) (w1\<lparr>session := Some (db w1)\<rparr>)"
      unfolding if_bool_eq_conj by blast
  qed
  with run show ?thesis by (auto dest: wp_InrD)
qed

end

section \<open>The properties\<close>

lemma entries_of_empty:
  assumes "redis_behaves env view" and "\<forall>uid. view r (user_cache_key uid) = None"
  shows "entries env X P r"
  using assms by (simp add: entries_def redis_behavesD(1) live_def)

lemma account_part_simps:
  assumes "account_part u = account_part v"
  shows "user_id u = user_id v" "user_is_active u = user_is_active v"
  using assms by (cases u, cases v, simp add: account_part_def)+

text \<open>
  C27: The cache never keeps an account alive. Whatever use cases ran before, roles included, the user an
  access token is resolved to is the account the database holds at that moment, in everything but the
  roles: its address, its name, its password hash, and that it is active and not privileged; so a ban or
  a changed address is seen by the next request although users are cached.
\<close>
theorem cached_account_is_current:
  assumes "redis_behaves env view" and "redis_local env view" and "0 < cfg_AUTH_CACHE_TTL_SECONDS c"
    and "session w0 = None" and "wf_db (db w0)" and "\<forall>uid. view (redis w0) (user_cache_key uid) = None"
    and "service_run env c w0 w" and "db_in_calendar (db w)" and "authenticate env c token w = (Inr u, w')"
  shows "\<exists>v. db_user_by_id (user_id u) (db w) = Some v \<and> account_part u = account_part v \<and> user_is_active v"
proof -
  have K: "redis_keys env view" by unfold_locales (fact assms(1,2))+
  have "coherent env c X N account_part w0" for X N
    using assms(4-6) entries_of_empty [OF assms(1)] by (simp add: coherent_def at_rest_iff cache_holds_def)
  then have w: "coherent env c X N account_part w" for X N
    by (rule redis_keys.coherent_account_run [OF K assms(7) _ assms(3)])
  then have "resting (db w) (fresh_when_read env c account_part (db w)) w"
    by (simp add: resting_def fresh_when_read_def coherent_def at_rest_iff)
  from redis_keys.authenticated_user_fresh [OF K this assms(8) _ assms(9)] obtain uid v
    where v: "db_user_by_id uid (db w) = Some v" "account_part u = account_part v" "user_is_active u" by blast
  have "user_id v = uid" using v(1) by (auto simp: db_user_by_id_def user_to_entity_def dest: find_Some_key)
  with v show ?thesis using account_part_simps [OF v(2)] by auto
qed

text \<open>
  C28: Rights that were taken away expire. Only editing or deleting a role changes what cached users may
  do without the cache knowing. Once the last such edit lies a cache lifetime back by the Redis clock,
  an access token is resolved to exactly the stored user, roles and permissions included; every other
  change, of the roles of a user too, takes effect with the next request.
\<close>
theorem stale_rights_expire:
  assumes "redis_behaves env view" and "redis_local env view" and "0 < cfg_AUTH_CACHE_TTL_SECONDS c"
    and "session w0 = None" and "wf_db (db w0)" and "\<forall>uid. view (redis w0) (user_cache_key uid) = None"
    and "service_run env c w0 w1" and "quiet_run env c w1 w2"
    and "\<forall>n < draws w1. env_redis_now env n \<le> T"
    and "\<forall>n \<ge> draws w2. T + seconds (cfg_AUTH_CACHE_TTL_SECONDS c) \<le> env_redis_now env n"
    and "db_in_calendar (db w2)" and "authenticate env c token w2 = (Inr u, w3)"
  shows "db_user_by_id (user_id u) (db w2) = Some u"
proof -
  have K: "redis_keys env view" by unfold_locales (fact assms(1,2))+
  let ?X = "T + seconds (cfg_AUTH_CACHE_TTL_SECONDS c)"
  have "cache_holds env c ?X (draws w1) (\<lambda>_ _. False) w0"
    using entries_of_empty [OF assms(1,6)] by (simp add: cache_holds_def)
  then have "cache_holds env c ?X (draws w1) (\<lambda>_ _. False) w1"
    by (rule redis_keys.holds_run [OF K assms(7) _ assms(3)]) (use assms(9) in auto)
  then have "cache_holds env c ?X N (fresh id (db w1)) w1" for N
    by (auto simp: cache_holds_def intro: entries_mono)
  then have "coherent env c ?X N id w1" for N
    using service_run_wf [OF assms(7,4,5)] service_run_evolves(2) [OF assms(7,4)]
    by (simp add: coherent_def at_rest_iff)
  then have w2: "coherent env c ?X N id w2" for N
    by (rule redis_keys.coherent_quiet_run [OF K assms(8) _ assms(3)])
  have "cache_holds env c (env_redis_now env n) n (fresh id (db w2)) w2" for n
    using w2 [of n] assms(10) unfolding coherent_def cache_holds_def entries_def by (meson order_trans)
  with w2 have "resting (db w2) (fresh_when_read env c id (db w2)) w2"
    by (simp add: resting_def fresh_when_read_def coherent_def at_rest_iff)
  from redis_keys.authenticated_user_fresh [OF K this assms(11) _ assms(12)] obtain uid
    where "db_user_by_id uid (db w2) = Some u" by auto
  moreover from this have "user_id u = uid"
    by (auto simp: db_user_by_id_def user_to_entity_def dest: find_Some_key)
  ultimately show ?thesis by simp
qed

subsection \<open>Witnesses\<close>

definition redis_config :: config where
  "redis_config = default_config\<lparr>cfg_REDIS_URL := Some ''redis://r''\<rparr>"

definition ann :: user where
  "ann = user_to_entity demo_db (demo_user_row 1 ''ann'' ''pw'' False)"

lemma demo_access:
  "decode_at demo_env redis_config now ''a1'' =
     Inr \<lparr> tp_user_id = 1, tp_jti = ''j1'', tp_token_type = ''access'', tp_expires_at = Aware 900000000 \<rparr>"
  by (simp add: decode_at_def demo_claims_def payload_of_claims_def fromtimestamp_def in_calendar_def seconds_def) code_simp

lemma demo_reads:
  "db_session_by_jti ''j1'' demo_db = Inr (Some (session_to_entity (demo_session_row 1 1 ''j1'')))"
  "db_user_by_id 1 demo_db = Some ann"
  by (simp_all add: db_session_by_jti_def db_user_by_id_def demo_db_def demo_user_row_def demo_session_row_def
      map_found_def ann_def)

lemma demo_live: "now < 900000000 \<Longrightarrow> session_is_valid (session_to_entity (demo_session_row 1 1 ''j1'')) now"
  by (simp add: session_is_valid_def session_is_revoked_def session_not_expired_def session_to_entity_def demo_session_row_def)

lemma demo_redis_simps:
  "env_redis_now demo_env n = int n" "env_redis_get demo_env t k v = map_option fst (live t v k)"
  "env_redis_set_ex demo_env t k x s v = v(k \<mapsto> (x, Some (t + seconds s)))"
  by (simp_all add: demo_env_def redis_model_def demo_base_def)

lemma redis_config_simps:
  "redis_backend redis_config" "cfg_AUTH_CACHE_TTL_SECONDS redis_config = 30"
  by (simp_all add: redis_config_def redis_backend_def truthy_def default_config_def)

definition warm_world :: "redis_view world" where
  "warm_world = demo_world\<lparr>redis := [user_cache_key 1 \<mapsto> (user_dumps ann, Some 30000003)], draws := 4\<rparr>"

lemma ann_active: "user_is_active ann"
  by (simp add: ann_def user_to_entity_def demo_user_row_def)

lemmas authenticate_eval =
  authenticate_def decode_token_def load_user_def cache_get_def cache_set_def session_live_now_def
  sessions_get_by_jti_def users_get_by_id_def redis_now_def utc_now_def bindM_def seqM_def with_uow_def
  draw_def retM_def raiseM_def liftM_def getsM_def modifyM_def query_def Let_def

lemma warm_up: "authenticate demo_env redis_config ''a1'' demo_world = (Inr ann, warm_world)"
  by (simp add: authenticate_eval demo_access demo_reads demo_live demo_redis_simps redis_config_simps ann_active
      warm_world_def demo_world_def live_def seconds_def)

text \<open>The role of the cached user is deleted; the cached user keeps it, until the entry expires.\<close>

definition edited_world :: "redis_view world" where
  "edited_world = warm_world\<lparr>db := delete_role_row 1 demo_db\<rparr>"

definition later_world :: "redis_view world" where
  "later_world = edited_world\<lparr>draws := 40000000\<rparr>"

lemma edit: "snd (delete_role 1 warm_world) = edited_world"
  by (simp add: delete_role_def roles_get_by_id_def roles_delete_def with_uow_def bindM_def seqM_def whenM_def
      query_def execute_def commit_def retM_def raiseM_def Let_def db_role_by_id_def edited_world_def
      warm_world_def demo_world_def demo_db_def)

lemma edited_run: "service_run demo_env redis_config demo_world edited_world"
proof -
  have "service_step demo_env redis_config demo_world warm_world"
    using service_step.authenticate [of demo_env redis_config demo_world "''a1''"] by (simp add: warm_up)
  moreover have "service_step demo_env redis_config warm_world edited_world"
    using service_step.drop_role [of demo_env redis_config warm_world 1] by (simp add: edit)
  ultimately show ?thesis by (blast intro: service_run.intros)
qed

lemma demo_db_calendar: "db_in_calendar (delete_role_row 1 demo_db)"
  by (auto simp: db_in_calendar_def db_user_by_id_def user_in_calendar_def opt_in_calendar_def in_calendar_def
      user_to_entity_def delete_role_row_def demo_db_def demo_user_row_def empty_db_def split: if_splits)

definition ann_without_role :: user where
  "ann_without_role = user_to_entity (delete_role_row 1 demo_db) (demo_user_row 1 ''ann'' ''pw'' False)"

lemma edited_reads:
  "db_session_by_jti ''j1'' (delete_role_row 1 demo_db) = Inr (Some (session_to_entity (demo_session_row 1 1 ''j1'')))"
  "db_user_by_id 1 (delete_role_row 1 demo_db) = Some ann_without_role"
  by (simp_all add: db_session_by_jti_def db_user_by_id_def demo_db_def demo_user_row_def demo_session_row_def
      map_found_def ann_without_role_def delete_role_row_def)

lemma ann_loads: "user_loads (user_dumps ann) = Inr ann"
  by (rule user_loads_dumps) (simp add: ann_def user_in_calendar_def opt_in_calendar_def in_calendar_def
      user_to_entity_def demo_user_row_def)

lemma still_cached: "fst (authenticate demo_env redis_config ''a1'' edited_world) = Inr ann"
  by (simp add: authenticate_eval demo_access edited_reads demo_live demo_redis_simps redis_config_simps ann_active
      edited_world_def warm_world_def demo_world_def live_def seconds_def ann_loads)

lemma expired: "fst (authenticate demo_env redis_config ''a1'' later_world) = Inr ann_without_role"
proof -
  have "user_is_active ann_without_role"
    by (simp add: ann_without_role_def user_to_entity_def demo_user_row_def)
  then show ?thesis
    by (simp add: authenticate_eval demo_access edited_reads demo_live demo_redis_simps redis_config_simps
        later_world_def edited_world_def warm_world_def demo_world_def live_def seconds_def)
qed

lemma demo_keys: "redis_behaves demo_env id" "redis_local demo_env id"
  by (simp_all add: demo_env_def redis_model_behaves redis_model_local)

lemma cached_account_is_current_witness:
  "fst (authenticate demo_env redis_config ''a1'' edited_world) = Inr ann \<and>
   (\<exists>v. db_user_by_id (user_id ann) (db edited_world) = Some v \<and> account_part ann = account_part v \<and> user_is_active v)"
proof
  obtain w' where run: "authenticate demo_env redis_config ''a1'' edited_world = (Inr ann, w')"
    using still_cached by (metis prod.collapse)
  show "\<exists>v. db_user_by_id (user_id ann) (db edited_world) = Some v \<and> account_part ann = account_part v \<and> user_is_active v"
    by (rule cached_account_is_current [OF demo_keys _ _ _ _ edited_run _ run])
      (simp_all add: redis_config_simps demo_db_wf demo_world_def demo_db_calendar edited_world_def)
qed (rule still_cached)

lemma role_edit_draws: "role_edit w w' \<Longrightarrow> draws w' = draws w"
  by (erule role_edit.cases)
    (auto simp: delete_role_def grant_permission_to_role_def revoke_permission_from_role_def repository_defs
      with_uow_def bindM_def seqM_def whenM_def query_def execute_def commit_def retM_def raiseM_def assert_found_def
      Let_def split: option.splits sum.splits prod.splits if_splits)

lemma quiet_readings: "quiet_run env c w (w\<lparr>draws := draws w + k\<rparr>)"
proof (induction k)
  case 0
  then show ?case using quiet_run.rest [of env c w] by simp
next
  case (Suc k)
  have "\<not> role_edit (w\<lparr>draws := draws w + k\<rparr>) (w\<lparr>draws := draws w + Suc k\<rparr>)"
    by (auto dest: role_edit_draws)
  then show ?case
    using quiet_run.step [OF Suc] service_step.reading [of env c "w\<lparr>draws := draws w + k\<rparr>"] by simp
qed

lemma stale_rights_expire_witness:
  "fst (authenticate demo_env redis_config ''a1'' later_world) = Inr ann_without_role \<and>
   db_user_by_id (user_id ann_without_role) (db later_world) = Some ann_without_role \<and>
   user_roles ann \<noteq> user_roles ann_without_role"
proof (intro conjI)
  obtain w' where run: "authenticate demo_env redis_config ''a1'' later_world = (Inr ann_without_role, w')"
    using expired by (metis prod.collapse)
  have quiet: "quiet_run demo_env redis_config edited_world later_world"
    using quiet_readings [of demo_env redis_config edited_world 39999996]
    by (simp add: later_world_def edited_world_def warm_world_def)
  show "db_user_by_id (user_id ann_without_role) (db later_world) = Some ann_without_role"
    by (rule stale_rights_expire [where T = 4, OF demo_keys _ _ _ _ edited_run quiet _ _ _ run])
      (simp_all add: redis_config_simps demo_redis_simps demo_db_wf demo_world_def demo_db_calendar edited_world_def
        warm_world_def later_world_def seconds_def)
  show "user_roles ann \<noteq> user_roles ann_without_role"
    by (simp add: ann_def ann_without_role_def user_to_entity_def roles_of_user_def demo_db_def demo_user_row_def
        delete_role_row_def)
qed (rule expired)

end
