(* ===== verification/Interfaces.thy ===== *)
theory Interfaces
  imports Main
begin

text \<open>
  The ports and use case interfaces of users-service, the abstract classes of
  \<^verbatim>\<open>application/*/interfaces\<close>: the attributes a class promises and, for each abstract method, its
  parameters with their annotations and its result. \<^verbatim>\<open>self\<close> is left out, and \<^verbatim>\<open>async\<close> is not recorded.
\<close>

type_synonym method_signature = "string \<times> (string \<times> string) list \<times> string"

record interface =
  ifc_name :: string
  ifc_attributes :: "(string \<times> string) list"
  ifc_methods :: "method_signature list"

definition i_assign_role_to_user_use_case :: interface where
  "i_assign_role_to_user_use_case =
     \<lparr> ifc_name = ''IAssignRoleToUserUseCase'',
       ifc_attributes = [],
       ifc_methods =
         [(''__call__'', [(''user_id'', ''UserId''), (''role_id'', ''RoleId'')], ''User'')] \<rparr>"

definition i_create_permission_use_case :: interface where
  "i_create_permission_use_case =
     \<lparr> ifc_name = ''ICreatePermissionUseCase'',
       ifc_attributes = [],
       ifc_methods =
         [(''__call__'', [(''resource'', ''str''), (''action'', ''str''), (''description'', ''str | None'')],
            ''Permission'')] \<rparr>"

definition i_create_role_use_case :: interface where
  "i_create_role_use_case =
     \<lparr> ifc_name = ''ICreateRoleUseCase'',
       ifc_attributes = [],
       ifc_methods =
         [(''__call__'', [(''name'', ''str''), (''description'', ''str | None'')], ''Role'')] \<rparr>"

definition i_delete_role_use_case :: interface where
  "i_delete_role_use_case =
     \<lparr> ifc_name = ''IDeleteRoleUseCase'',
       ifc_attributes = [],
       ifc_methods =
         [(''__call__'', [(''role_id'', ''RoleId'')], ''None'')] \<rparr>"

definition i_grant_permission_to_role_use_case :: interface where
  "i_grant_permission_to_role_use_case =
     \<lparr> ifc_name = ''IGrantPermissionToRoleUseCase'',
       ifc_attributes = [],
       ifc_methods =
         [(''__call__'', [(''role_id'', ''RoleId''), (''permission_id'', ''PermissionId'')],
            ''Role'')] \<rparr>"

definition i_list_permissions_use_case :: interface where
  "i_list_permissions_use_case =
     \<lparr> ifc_name = ''IListPermissionsUseCase'',
       ifc_attributes = [],
       ifc_methods =
         [(''__call__'', [], ''list[Permission]'')] \<rparr>"

definition i_list_roles_use_case :: interface where
  "i_list_roles_use_case =
     \<lparr> ifc_name = ''IListRolesUseCase'',
       ifc_attributes = [],
       ifc_methods =
         [(''__call__'', [], ''list[Role]'')] \<rparr>"

definition i_list_users_use_case :: interface where
  "i_list_users_use_case =
     \<lparr> ifc_name = ''IListUsersUseCase'',
       ifc_attributes = [],
       ifc_methods =
         [(''__call__'', [], ''list[User]'')] \<rparr>"

definition i_revoke_permission_from_role_use_case :: interface where
  "i_revoke_permission_from_role_use_case =
     \<lparr> ifc_name = ''IRevokePermissionFromRoleUseCase'',
       ifc_attributes = [],
       ifc_methods =
         [(''__call__'', [(''role_id'', ''RoleId''), (''permission_id'', ''PermissionId'')],
            ''Role'')] \<rparr>"

definition i_revoke_role_from_user_use_case :: interface where
  "i_revoke_role_from_user_use_case =
     \<lparr> ifc_name = ''IRevokeRoleFromUserUseCase'',
       ifc_attributes = [],
       ifc_methods =
         [(''__call__'', [(''user_id'', ''UserId''), (''role_id'', ''RoleId'')], ''User'')] \<rparr>"

definition i_authenticate_use_case :: interface where
  "i_authenticate_use_case =
     \<lparr> ifc_name = ''IAuthenticateUseCase'',
       ifc_attributes = [],
       ifc_methods =
         [(''__call__'', [(''token'', ''str'')], ''User'')] \<rparr>"

definition i_change_password_use_case :: interface where
  "i_change_password_use_case =
     \<lparr> ifc_name = ''IChangePasswordUseCase'',
       ifc_attributes = [],
       ifc_methods =
         [(''__call__'', [(''user_id'', ''UserId''), (''data'', ''ChangePasswordDTO''), (''device'',
            ''DeviceInfoDTO | None'')], ''int'')] \<rparr>"

definition i_delete_user_use_case :: interface where
  "i_delete_user_use_case =
     \<lparr> ifc_name = ''IDeleteUserUseCase'',
       ifc_attributes = [],
       ifc_methods =
         [(''__call__'', [(''user_id'', ''UserId''), (''device'', ''DeviceInfoDTO | None'')],
            ''None'')] \<rparr>"

definition i_forgot_password_use_case :: interface where
  "i_forgot_password_use_case =
     \<lparr> ifc_name = ''IForgotPasswordUseCase'',
       ifc_attributes = [],
       ifc_methods =
         [(''__call__'', [(''email'', ''str''), (''device'', ''DeviceInfoDTO | None'')], ''None'')] \<rparr>"

definition i_login_use_case :: interface where
  "i_login_use_case =
     \<lparr> ifc_name = ''ILoginUseCase'',
       ifc_attributes = [],
       ifc_methods =
         [(''__call__'', [(''data'', ''LoginDTO''), (''device'', ''DeviceInfoDTO | None'')],
            ''AuthResultDTO'')] \<rparr>"

definition i_logout_use_case :: interface where
  "i_logout_use_case =
     \<lparr> ifc_name = ''ILogoutUseCase'',
       ifc_attributes = [],
       ifc_methods =
         [(''__call__'', [(''token'', ''str''), (''device'', ''DeviceInfoDTO | None'')], ''None'')] \<rparr>"

definition i_refresh_token_use_case :: interface where
  "i_refresh_token_use_case =
     \<lparr> ifc_name = ''IRefreshTokenUseCase'',
       ifc_attributes = [],
       ifc_methods =
         [(''__call__'', [(''refresh_token'', ''str''), (''device'', ''DeviceInfoDTO | None'')],
            ''AuthResultDTO'')] \<rparr>"

definition i_register_user_use_case :: interface where
  "i_register_user_use_case =
     \<lparr> ifc_name = ''IRegisterUserUseCase'',
       ifc_attributes = [],
       ifc_methods =
         [(''__call__'', [(''data'', ''RegisterUserDTO''), (''device'', ''DeviceInfoDTO | None'')],
            ''User'')] \<rparr>"

definition i_reset_password_use_case :: interface where
  "i_reset_password_use_case =
     \<lparr> ifc_name = ''IResetPasswordUseCase'',
       ifc_attributes = [],
       ifc_methods =
         [(''__call__'', [(''data'', ''ResetPasswordDTO''), (''device'', ''DeviceInfoDTO | None'')],
            ''None'')] \<rparr>"

definition i_update_user_use_case :: interface where
  "i_update_user_use_case =
     \<lparr> ifc_name = ''IUpdateUserUseCase'',
       ifc_attributes = [],
       ifc_methods =
         [(''__call__'', [(''user_id'', ''UserId''), (''data'', ''UpdateUserDTO'')], ''User'')] \<rparr>"

definition i_verify_email_use_case :: interface where
  "i_verify_email_use_case =
     \<lparr> ifc_name = ''IVerifyEmailUseCase'',
       ifc_attributes = [],
       ifc_methods =
         [(''__call__'', [(''token'', ''str''), (''device'', ''DeviceInfoDTO | None'')], ''User'')] \<rparr>"

definition i_cache :: interface where
  "i_cache =
     \<lparr> ifc_name = ''ICache'',
       ifc_attributes = [],
       ifc_methods =
         [(''get'', [(''key'', ''str'')], ''str | None''),
          (''set'', [(''key'', ''str''), (''value'', ''str''), (''ttl_seconds'', ''int'')], ''None''),
          (''delete'', [(''key'', ''str'')], ''None'')] \<rparr>"

definition i_email_sender :: interface where
  "i_email_sender =
     \<lparr> ifc_name = ''IEmailSender'',
       ifc_attributes = [],
       ifc_methods =
         [(''send'', [(''message'', ''EmailMessageDTO'')], ''None'')] \<rparr>"

definition i_rate_limiter :: interface where
  "i_rate_limiter =
     \<lparr> ifc_name = ''IRateLimiter'',
       ifc_attributes = [],
       ifc_methods =
         [(''hit'', [(''key'', ''str''), (''limit'', ''int''), (''window_seconds'', ''int'')],
            ''RateLimitDecision''),
          (''peek'', [(''key'', ''str''), (''limit'', ''int'')], ''RateLimitDecision''),
          (''reset'', [(''key'', ''str'')], ''None'')] \<rparr>"

definition i_unit_of_work :: interface where
  "i_unit_of_work =
     \<lparr> ifc_name = ''IUnitOfWork'',
       ifc_attributes = [(''users'', ''IUserRepository''), (''roles'', ''IRoleRepository''),
          (''permissions'', ''IPermissionRepository''), (''sessions'', ''ISessionRepository''),
          (''security_tokens'', ''ISecurityTokenRepository''), (''audit_log'', ''IAuditLogRepository'')],
       ifc_methods =
         [(''__aenter__'', [], ''IUnitOfWork''),
          (''__aexit__'', [(''exc_type'', ''type[BaseException] | None''), (''exc'',
             ''BaseException | None''), (''tb'', ''TracebackType | None'')], ''None''),
          (''commit'', [], ''None''),
          (''rollback'', [], ''None'')] \<rparr>"

definition i_audit_log_repository :: interface where
  "i_audit_log_repository =
     \<lparr> ifc_name = ''IAuditLogRepository'',
       ifc_attributes = [],
       ifc_methods =
         [(''add'', [(''event'', ''AuditEvent'')], ''AuditEvent''),
          (''list_for_user'', [(''user_id'', ''UserId''), (''limit'', ''int'')],
             ''list[AuditEvent]'')] \<rparr>"

definition i_permission_repository :: interface where
  "i_permission_repository =
     \<lparr> ifc_name = ''IPermissionRepository'',
       ifc_attributes = [],
       ifc_methods =
         [(''add'', [(''resource'', ''str''), (''action'', ''str''), (''description'', ''str | None'')],
            ''Permission''),
          (''get_by_id'', [(''permission_id'', ''PermissionId'')], ''Permission | None''),
          (''get_by_resource_action'', [(''resource'', ''str''), (''action'', ''str'')], ''Permission | None''),
          (''list_all'', [], ''list[Permission]''),
          (''delete'', [(''permission_id'', ''PermissionId'')], ''None'')] \<rparr>"

definition i_role_repository :: interface where
  "i_role_repository =
     \<lparr> ifc_name = ''IRoleRepository'',
       ifc_attributes = [],
       ifc_methods =
         [(''add'', [(''name'', ''str''), (''description'', ''str | None'')], ''Role''),
          (''get_by_id'', [(''role_id'', ''RoleId'')], ''Role | None''),
          (''get_by_name'', [(''name'', ''str'')], ''Role | None''),
          (''list_all'', [], ''list[Role]''),
          (''delete'', [(''role_id'', ''RoleId'')], ''None''),
          (''grant_permission'', [(''role_id'', ''RoleId''), (''permission_id'', ''PermissionId'')], ''None''),
          (''revoke_permission'', [(''role_id'', ''RoleId''), (''permission_id'', ''PermissionId'')],
             ''None'')] \<rparr>"

definition i_security_token_repository :: interface where
  "i_security_token_repository =
     \<lparr> ifc_name = ''ISecurityTokenRepository'',
       ifc_attributes = [],
       ifc_methods =
         [(''add'', [(''token'', ''SecurityToken'')], ''SecurityToken''),
          (''get_by_hash'', [(''token_hash'', ''str''), (''purpose'', ''TokenPurpose'')],
             ''SecurityToken | None''),
          (''mark_used'', [(''token'', ''SecurityToken'')], ''None''),
          (''invalidate_for_user'', [(''user_id'', ''UserId''), (''purpose'', ''TokenPurpose'')],
             ''None'')] \<rparr>"

definition i_session_repository :: interface where
  "i_session_repository =
     \<lparr> ifc_name = ''ISessionRepository'',
       ifc_attributes = [],
       ifc_methods =
         [(''add'', [(''session'', ''AuthSession'')], ''AuthSession''),
          (''get_by_id'', [(''session_id'', ''SessionId'')], ''AuthSession | None''),
          (''get_by_jti'', [(''jti'', ''str'')], ''AuthSession | None''),
          (''list_active_for_user'', [(''user_id'', ''UserId'')], ''list[AuthSession]''),
          (''revoke'', [(''jti'', ''str''), (''moment'', ''datetime'')], ''None''),
          (''revoke_all_for_user'', [(''user_id'', ''UserId''), (''moment'', ''datetime''), (''except_jti'',
             ''str | None'')], ''int'')] \<rparr>"

definition i_user_repository :: interface where
  "i_user_repository =
     \<lparr> ifc_name = ''IUserRepository'',
       ifc_attributes = [],
       ifc_methods =
         [(''add'', [(''user'', ''User'')], ''User''),
          (''get_by_id'', [(''user_id'', ''UserId'')], ''User | None''),
          (''get_by_email'', [(''email'', ''str'')], ''User | None''),
          (''get_by_username'', [(''username'', ''str'')], ''User | None''),
          (''list_all'', [], ''list[User]''),
          (''update'', [(''user'', ''User'')], ''User''),
          (''update_password'', [(''user'', ''User'')], ''None''),
          (''assign_role'', [(''user_id'', ''UserId''), (''role_id'', ''RoleId'')], ''None''),
          (''revoke_role'', [(''user_id'', ''UserId''), (''role_id'', ''RoleId'')], ''None'')] \<rparr>"

definition i_one_time_token_service :: interface where
  "i_one_time_token_service =
     \<lparr> ifc_name = ''IOneTimeTokenService'',
       ifc_attributes = [],
       ifc_methods =
         [(''generate'', [], ''GeneratedSecret''),
          (''hash'', [(''secret'', ''str'')], ''str'')] \<rparr>"

definition i_password_hasher :: interface where
  "i_password_hasher =
     \<lparr> ifc_name = ''IPasswordHasher'',
       ifc_attributes = [],
       ifc_methods =
         [(''hash'', [(''plain_password'', ''str'')], ''str''),
          (''verify'', [(''plain_password'', ''str''), (''password_hash'', ''str'')], ''bool'')] \<rparr>"

definition i_token_service :: interface where
  "i_token_service =
     \<lparr> ifc_name = ''ITokenService'',
       ifc_attributes = [],
       ifc_methods =
         [(''issue_access'', [(''user_id'', ''UserId''), (''jti'', ''str'')], ''IssuedToken''),
          (''issue_refresh'', [(''user_id'', ''UserId''), (''jti'', ''str'')], ''IssuedToken''),
          (''decode'', [(''token'', ''str'')], ''TokenPayload'')] \<rparr>"

definition i_ban_user_use_case :: interface where
  "i_ban_user_use_case =
     \<lparr> ifc_name = ''IBanUserUseCase'',
       ifc_attributes = [],
       ifc_methods =
         [(''__call__'', [(''actor'', ''User''), (''target_id'', ''UserId''), (''reason'', ''str | None''),
            (''device'', ''DeviceInfoDTO | None'')], ''User'')] \<rparr>"

definition i_unban_user_use_case :: interface where
  "i_unban_user_use_case =
     \<lparr> ifc_name = ''IUnbanUserUseCase'',
       ifc_attributes = [],
       ifc_methods =
         [(''__call__'', [(''actor'', ''User''), (''target_id'', ''UserId''), (''device'',
            ''DeviceInfoDTO | None'')], ''User'')] \<rparr>"

definition i_get_user_profile_use_case :: interface where
  "i_get_user_profile_use_case =
     \<lparr> ifc_name = ''IGetUserProfileUseCase'',
       ifc_attributes = [],
       ifc_methods =
         [(''__call__'', [(''user_id'', ''UserId'')], ''User'')] \<rparr>"

definition i_list_user_sessions_use_case :: interface where
  "i_list_user_sessions_use_case =
     \<lparr> ifc_name = ''IListUserSessionsUseCase'',
       ifc_attributes = [],
       ifc_methods =
         [(''__call__'', [(''user_id'', ''UserId'')], ''list[AuthSession]'')] \<rparr>"

definition i_revoke_all_sessions_use_case :: interface where
  "i_revoke_all_sessions_use_case =
     \<lparr> ifc_name = ''IRevokeAllSessionsUseCase'',
       ifc_attributes = [],
       ifc_methods =
         [(''__call__'', [(''user_id'', ''UserId''), (''except_jti'', ''str | None''), (''device'',
            ''DeviceInfoDTO | None'')], ''int'')] \<rparr>"

definition i_revoke_user_session_use_case :: interface where
  "i_revoke_user_session_use_case =
     \<lparr> ifc_name = ''IRevokeUserSessionUseCase'',
       ifc_attributes = [],
       ifc_methods =
         [(''__call__'', [(''user_id'', ''UserId''), (''session_id'', ''SessionId''), (''device'',
            ''DeviceInfoDTO | None'')], ''None'')] \<rparr>"

text \<open>All of them.\<close>

definition interfaces :: "interface list" where
  "interfaces =
     [i_assign_role_to_user_use_case, i_create_permission_use_case, i_create_role_use_case,
      i_delete_role_use_case, i_grant_permission_to_role_use_case, i_list_permissions_use_case,
      i_list_roles_use_case, i_list_users_use_case, i_revoke_permission_from_role_use_case,
      i_revoke_role_from_user_use_case, i_authenticate_use_case, i_change_password_use_case,
      i_delete_user_use_case, i_forgot_password_use_case, i_login_use_case, i_logout_use_case,
      i_refresh_token_use_case, i_register_user_use_case, i_reset_password_use_case,
      i_update_user_use_case, i_verify_email_use_case, i_cache, i_email_sender, i_rate_limiter,
      i_unit_of_work, i_audit_log_repository, i_permission_repository, i_role_repository,
      i_security_token_repository, i_session_repository, i_user_repository,
      i_one_time_token_service, i_password_hasher, i_token_service, i_ban_user_use_case,
      i_unban_user_use_case, i_get_user_profile_use_case, i_list_user_sessions_use_case,
      i_revoke_all_sessions_use_case, i_revoke_user_session_use_case]"

end
