(* ===== verification/Classes.thy ===== *)
theory Classes
  imports Interfaces Config
begin

text \<open>
  The classes the container instantiates, and the repositories: name, base classes, the parameters of
  \<^verbatim>\<open>__init__\<close> with annotation and default, the attributes it assigns with the assigned expression, and
  the signatures of the other public methods. A default is a value; an assigned expression is one of the
  parameters, or else kept as source text.

  A value is a basic Python value, a policy, the object a class makes (class name and attributes) or
  what a callable of a library returns, which is kept as the call.
\<close>

datatype py_value =
    VNone
  | VBool bool
  | VInt int
  | VStr string
  | VList "py_value list"
  | VPolicy rate_limit_policy
  | VExpr string
  | VObj string "(string \<times> py_value) list"
  | VLib string "py_value list" "(string \<times> py_value) list"

datatype init_expr = Param string | Expr string

record python_class =
  cls_name :: string
  cls_bases :: "interface list"
  cls_init :: "(string \<times> string \<times> py_value option) list"
  cls_fields :: "(string \<times> init_expr) list"
  cls_methods :: "method_signature list"

definition class_null_cache :: python_class where
  "class_null_cache =
     \<lparr> cls_name = ''NullCache'', cls_bases = [i_cache],
       cls_init =
         [],
       cls_fields = [],
       cls_methods =
         [(''get'', [(''key'', ''str'')], ''str | None''),
          (''set'', [(''key'', ''str''), (''value'', ''str''), (''ttl_seconds'', ''int'')], ''None''),
          (''delete'', [(''key'', ''str'')], ''None'')] \<rparr>"

definition class_redis_cache :: python_class where
  "class_redis_cache =
     \<lparr> cls_name = ''RedisCache'', cls_bases = [i_cache],
       cls_init =
         [(''client'', ''Redis'', None)],
       cls_fields = [(''_client'', Param ''client'')],
       cls_methods =
         [(''get'', [(''key'', ''str'')], ''str | None''),
          (''set'', [(''key'', ''str''), (''value'', ''str''), (''ttl_seconds'', ''int'')], ''None''),
          (''delete'', [(''key'', ''str'')], ''None'')] \<rparr>"

definition class_sql_alchemy_audit_log_repository :: python_class where
  "class_sql_alchemy_audit_log_repository =
     \<lparr> cls_name = ''SqlAlchemyAuditLogRepository'', cls_bases = [i_audit_log_repository],
       cls_init =
         [(''session'', ''AsyncSession'', None)],
       cls_fields = [(''_session'', Param ''session'')],
       cls_methods =
         [(''add'', [(''event'', ''AuditEvent'')], ''AuditEvent''),
          (''list_for_user'', [(''user_id'', ''UserId''), (''limit'', ''int'')],
             ''list[AuditEvent]'')] \<rparr>"

definition class_sql_alchemy_permission_repository :: python_class where
  "class_sql_alchemy_permission_repository =
     \<lparr> cls_name = ''SqlAlchemyPermissionRepository'', cls_bases = [i_permission_repository],
       cls_init =
         [(''session'', ''AsyncSession'', None)],
       cls_fields = [(''_session'', Param ''session'')],
       cls_methods =
         [(''add'', [(''resource'', ''str''), (''action'', ''str''), (''description'', ''str | None'')],
            ''Permission''),
          (''get_by_id'', [(''permission_id'', ''PermissionId'')], ''Permission | None''),
          (''get_by_resource_action'', [(''resource'', ''str''), (''action'', ''str'')], ''Permission | None''),
          (''list_all'', [], ''list[Permission]''),
          (''delete'', [(''permission_id'', ''PermissionId'')], ''None'')] \<rparr>"

definition class_sql_alchemy_role_repository :: python_class where
  "class_sql_alchemy_role_repository =
     \<lparr> cls_name = ''SqlAlchemyRoleRepository'', cls_bases = [i_role_repository],
       cls_init =
         [(''session'', ''AsyncSession'', None)],
       cls_fields = [(''_session'', Param ''session'')],
       cls_methods =
         [(''add'', [(''name'', ''str''), (''description'', ''str | None'')], ''Role''),
          (''get_by_id'', [(''role_id'', ''RoleId'')], ''Role | None''),
          (''get_by_name'', [(''name'', ''str'')], ''Role | None''),
          (''list_all'', [], ''list[Role]''),
          (''delete'', [(''role_id'', ''RoleId'')], ''None''),
          (''grant_permission'', [(''role_id'', ''RoleId''), (''permission_id'', ''PermissionId'')], ''None''),
          (''revoke_permission'', [(''role_id'', ''RoleId''), (''permission_id'', ''PermissionId'')],
             ''None'')] \<rparr>"

definition class_sql_alchemy_security_token_repository :: python_class where
  "class_sql_alchemy_security_token_repository =
     \<lparr> cls_name = ''SqlAlchemySecurityTokenRepository'', cls_bases = [i_security_token_repository],
       cls_init =
         [(''session'', ''AsyncSession'', None)],
       cls_fields = [(''_session'', Param ''session'')],
       cls_methods =
         [(''add'', [(''token'', ''SecurityToken'')], ''SecurityToken''),
          (''get_by_hash'', [(''token_hash'', ''str''), (''purpose'', ''TokenPurpose'')],
             ''SecurityToken | None''),
          (''mark_used'', [(''token'', ''SecurityToken'')], ''None''),
          (''invalidate_for_user'', [(''user_id'', ''UserId''), (''purpose'', ''TokenPurpose'')],
             ''None'')] \<rparr>"

definition class_sql_alchemy_session_repository :: python_class where
  "class_sql_alchemy_session_repository =
     \<lparr> cls_name = ''SqlAlchemySessionRepository'', cls_bases = [i_session_repository],
       cls_init =
         [(''session'', ''AsyncSession'', None)],
       cls_fields = [(''_session'', Param ''session'')],
       cls_methods =
         [(''add'', [(''auth_session'', ''AuthSession'')], ''AuthSession''),
          (''get_by_id'', [(''session_id'', ''SessionId'')], ''AuthSession | None''),
          (''get_by_jti'', [(''jti'', ''str'')], ''AuthSession | None''),
          (''list_active_for_user'', [(''user_id'', ''UserId'')], ''list[AuthSession]''),
          (''revoke'', [(''jti'', ''str''), (''moment'', ''datetime'')], ''None''),
          (''revoke_all_for_user'', [(''user_id'', ''UserId''), (''moment'', ''datetime''), (''except_jti'',
             ''str | None'')], ''int'')] \<rparr>"

definition class_sql_alchemy_user_repository :: python_class where
  "class_sql_alchemy_user_repository =
     \<lparr> cls_name = ''SqlAlchemyUserRepository'', cls_bases = [i_user_repository],
       cls_init =
         [(''session'', ''AsyncSession'', None)],
       cls_fields = [(''_session'', Param ''session'')],
       cls_methods =
         [(''add'', [(''user'', ''User'')], ''User''),
          (''get_by_id'', [(''user_id'', ''UserId'')], ''User | None''),
          (''get_by_email'', [(''email'', ''str'')], ''User | None''),
          (''get_by_username'', [(''username'', ''str'')], ''User | None''),
          (''list_all'', [], ''list[User]''),
          (''update'', [(''user'', ''User'')], ''User''),
          (''update_password'', [(''user'', ''User'')], ''None''),
          (''assign_role'', [(''user_id'', ''UserId''), (''role_id'', ''RoleId'')], ''None''),
          (''revoke_role'', [(''user_id'', ''UserId''), (''role_id'', ''RoleId'')], ''None'')] \<rparr>"

definition class_sql_alchemy_unit_of_work :: python_class where
  "class_sql_alchemy_unit_of_work =
     \<lparr> cls_name = ''SqlAlchemyUnitOfWork'', cls_bases = [i_unit_of_work],
       cls_init =
         [(''session_factory'', ''async_sessionmaker[AsyncSession]'', None)],
       cls_fields = [(''_session_factory'', Param ''session_factory''),
          (''_session'', Expr ''None'')],
       cls_methods =
         [(''__aenter__'', [], ''SqlAlchemyUnitOfWork''),
          (''__aexit__'', [(''exc_type'', ''type[BaseException] | None''), (''exc'',
             ''BaseException | None''), (''tb'', ''TracebackType | None'')], ''None''),
          (''commit'', [], ''None''),
          (''rollback'', [], ''None'')] \<rparr>"

definition class_console_email_sender :: python_class where
  "class_console_email_sender =
     \<lparr> cls_name = ''ConsoleEmailSender'', cls_bases = [i_email_sender],
       cls_init =
         [],
       cls_fields = [],
       cls_methods =
         [(''send'', [(''message'', ''EmailMessageDTO'')], ''None'')] \<rparr>"

definition class_smtp_email_sender :: python_class where
  "class_smtp_email_sender =
     \<lparr> cls_name = ''SmtpEmailSender'', cls_bases = [i_email_sender],
       cls_init =
         [(''host'', ''str'', None),
          (''port'', ''int'', None),
          (''username'', ''str | None'', None),
          (''password'', ''str | None'', None),
          (''sender'', ''str'', None),
          (''use_tls'', ''bool'', None),
          (''timeout_seconds'', ''int'', Some (VInt 10))],
       cls_fields = [(''_host'', Param ''host''), (''_port'', Param ''port''),
          (''_username'', Param ''username''), (''_password'', Param ''password''),
          (''_sender'', Param ''sender''), (''_use_tls'', Param ''use_tls''),
          (''_timeout_seconds'', Param ''timeout_seconds'')],
       cls_methods =
         [(''send'', [(''message'', ''EmailMessageDTO'')], ''None'')] \<rparr>"

definition class_in_memory_rate_limiter :: python_class where
  "class_in_memory_rate_limiter =
     \<lparr> cls_name = ''InMemoryRateLimiter'', cls_bases = [i_rate_limiter],
       cls_init =
         [],
       cls_fields = [(''_counters'', Expr ''{}'')],
       cls_methods =
         [(''hit'', [(''key'', ''str''), (''limit'', ''int''), (''window_seconds'', ''int'')],
            ''RateLimitDecision''),
          (''peek'', [(''key'', ''str''), (''limit'', ''int'')], ''RateLimitDecision''),
          (''reset'', [(''key'', ''str'')], ''None'')] \<rparr>"

definition class_redis_rate_limiter :: python_class where
  "class_redis_rate_limiter =
     \<lparr> cls_name = ''RedisRateLimiter'', cls_bases = [i_rate_limiter],
       cls_init =
         [(''client'', ''Redis'', None)],
       cls_fields = [(''_client'', Param ''client'')],
       cls_methods =
         [(''hit'', [(''key'', ''str''), (''limit'', ''int''), (''window_seconds'', ''int'')],
            ''RateLimitDecision''),
          (''peek'', [(''key'', ''str''), (''limit'', ''int'')], ''RateLimitDecision''),
          (''reset'', [(''key'', ''str'')], ''None'')] \<rparr>"

definition class_argon2_password_hasher :: python_class where
  "class_argon2_password_hasher =
     \<lparr> cls_name = ''Argon2PasswordHasher'', cls_bases = [i_password_hasher],
       cls_init =
         [],
       cls_fields = [(''_hasher'', Expr ''_Argon2Hasher()'')],
       cls_methods =
         [(''hash'', [(''plain_password'', ''str'')], ''str''),
          (''verify'', [(''plain_password'', ''str''), (''password_hash'', ''str'')], ''bool'')] \<rparr>"

definition class_sha256_one_time_token_service :: python_class where
  "class_sha256_one_time_token_service =
     \<lparr> cls_name = ''Sha256OneTimeTokenService'', cls_bases = [i_one_time_token_service],
       cls_init =
         [(''entropy_bytes'', ''int'', Some (VInt 32))],
       cls_fields = [(''_entropy_bytes'', Param ''entropy_bytes'')],
       cls_methods =
         [(''generate'', [], ''GeneratedSecret''),
          (''hash'', [(''secret'', ''str'')], ''str'')] \<rparr>"

definition class_pbkdf2_password_hasher :: python_class where
  "class_pbkdf2_password_hasher =
     \<lparr> cls_name = ''PBKDF2PasswordHasher'', cls_bases = [i_password_hasher],
       cls_init =
         [(''iterations'', ''int'', Some (VInt 390000)),
          (''salt_bytes'', ''int'', Some (VInt 16))],
       cls_fields = [(''_iterations'', Param ''iterations''),
          (''_salt_bytes'', Param ''salt_bytes'')],
       cls_methods =
         [(''hash'', [(''plain_password'', ''str'')], ''str''),
          (''verify'', [(''plain_password'', ''str''), (''password_hash'', ''str'')], ''bool'')] \<rparr>"

definition class_jwt_token_service :: python_class where
  "class_jwt_token_service =
     \<lparr> cls_name = ''JwtTokenService'', cls_bases = [i_token_service],
       cls_init =
         [(''secret'', ''str'', None),
          (''algorithm'', ''str'', Some (VStr ''HS256'')),
          (''access_expire_minutes'', ''int'', Some (VInt 15)),
          (''refresh_expire_minutes'', ''int'', Some (VInt (60 * 24 * 7)))],
       cls_fields = [(''_secret'', Param ''secret''), (''_algorithm'', Param ''algorithm''),
          (''_access_expire_minutes'', Param ''access_expire_minutes''),
          (''_refresh_expire_minutes'', Param ''refresh_expire_minutes'')],
       cls_methods =
         [(''issue_access'', [(''user_id'', ''UserId''), (''jti'', ''str'')], ''IssuedToken''),
          (''issue_refresh'', [(''user_id'', ''UserId''), (''jti'', ''str'')], ''IssuedToken''),
          (''decode'', [(''token'', ''str'')], ''TokenPayload'')] \<rparr>"

definition class_assign_role_to_user_use_case :: python_class where
  "class_assign_role_to_user_use_case =
     \<lparr> cls_name = ''AssignRoleToUserUseCase'', cls_bases = [i_assign_role_to_user_use_case],
       cls_init =
         [(''uow'', ''IUnitOfWork'', None),
          (''cache'', ''ICache'', None)],
       cls_fields = [(''_uow'', Param ''uow''), (''_cache'', Param ''cache'')],
       cls_methods =
         [(''__call__'', [(''user_id'', ''UserId''), (''role_id'', ''RoleId'')], ''User'')] \<rparr>"

definition class_create_permission_use_case :: python_class where
  "class_create_permission_use_case =
     \<lparr> cls_name = ''CreatePermissionUseCase'', cls_bases = [i_create_permission_use_case],
       cls_init =
         [(''uow'', ''IUnitOfWork'', None)],
       cls_fields = [(''_uow'', Param ''uow'')],
       cls_methods =
         [(''__call__'', [(''resource'', ''str''), (''action'', ''str''), (''description'', ''str | None'')],
            ''Permission'')] \<rparr>"

definition class_create_role_use_case :: python_class where
  "class_create_role_use_case =
     \<lparr> cls_name = ''CreateRoleUseCase'', cls_bases = [i_create_role_use_case],
       cls_init =
         [(''uow'', ''IUnitOfWork'', None)],
       cls_fields = [(''_uow'', Param ''uow'')],
       cls_methods =
         [(''__call__'', [(''name'', ''str''), (''description'', ''str | None'')], ''Role'')] \<rparr>"

definition class_delete_role_use_case :: python_class where
  "class_delete_role_use_case =
     \<lparr> cls_name = ''DeleteRoleUseCase'', cls_bases = [i_delete_role_use_case],
       cls_init =
         [(''uow'', ''IUnitOfWork'', None)],
       cls_fields = [(''_uow'', Param ''uow'')],
       cls_methods =
         [(''__call__'', [(''role_id'', ''RoleId'')], ''None'')] \<rparr>"

definition class_grant_permission_to_role_use_case :: python_class where
  "class_grant_permission_to_role_use_case =
     \<lparr> cls_name = ''GrantPermissionToRoleUseCase'', cls_bases = [i_grant_permission_to_role_use_case],
       cls_init =
         [(''uow'', ''IUnitOfWork'', None)],
       cls_fields = [(''_uow'', Param ''uow'')],
       cls_methods =
         [(''__call__'', [(''role_id'', ''RoleId''), (''permission_id'', ''PermissionId'')],
            ''Role'')] \<rparr>"

definition class_list_permissions_use_case :: python_class where
  "class_list_permissions_use_case =
     \<lparr> cls_name = ''ListPermissionsUseCase'', cls_bases = [i_list_permissions_use_case],
       cls_init =
         [(''uow'', ''IUnitOfWork'', None)],
       cls_fields = [(''_uow'', Param ''uow'')],
       cls_methods =
         [(''__call__'', [], ''list[Permission]'')] \<rparr>"

definition class_list_roles_use_case :: python_class where
  "class_list_roles_use_case =
     \<lparr> cls_name = ''ListRolesUseCase'', cls_bases = [i_list_roles_use_case],
       cls_init =
         [(''uow'', ''IUnitOfWork'', None)],
       cls_fields = [(''_uow'', Param ''uow'')],
       cls_methods =
         [(''__call__'', [], ''list[Role]'')] \<rparr>"

definition class_list_users_use_case :: python_class where
  "class_list_users_use_case =
     \<lparr> cls_name = ''ListUsersUseCase'', cls_bases = [i_list_users_use_case],
       cls_init =
         [(''uow'', ''IUnitOfWork'', None)],
       cls_fields = [(''_uow'', Param ''uow'')],
       cls_methods =
         [(''__call__'', [], ''list[User]'')] \<rparr>"

definition class_revoke_permission_from_role_use_case :: python_class where
  "class_revoke_permission_from_role_use_case =
     \<lparr> cls_name = ''RevokePermissionFromRoleUseCase'', cls_bases = [i_revoke_permission_from_role_use_case],
       cls_init =
         [(''uow'', ''IUnitOfWork'', None)],
       cls_fields = [(''_uow'', Param ''uow'')],
       cls_methods =
         [(''__call__'', [(''role_id'', ''RoleId''), (''permission_id'', ''PermissionId'')],
            ''Role'')] \<rparr>"

definition class_revoke_role_from_user_use_case :: python_class where
  "class_revoke_role_from_user_use_case =
     \<lparr> cls_name = ''RevokeRoleFromUserUseCase'', cls_bases = [i_revoke_role_from_user_use_case],
       cls_init =
         [(''uow'', ''IUnitOfWork'', None),
          (''cache'', ''ICache'', None)],
       cls_fields = [(''_uow'', Param ''uow''), (''_cache'', Param ''cache'')],
       cls_methods =
         [(''__call__'', [(''user_id'', ''UserId''), (''role_id'', ''RoleId'')], ''User'')] \<rparr>"

definition class_email_verification_issuer :: python_class where
  "class_email_verification_issuer =
     \<lparr> cls_name = ''EmailVerificationIssuer'', cls_bases = [],
       cls_init =
         [(''one_time_tokens'', ''IOneTimeTokenService'', None),
          (''email_sender'', ''IEmailSender'', None),
          (''url_template'', ''str'', None),
          (''ttl_hours'', ''int'', None)],
       cls_fields = [(''_one_time_tokens'', Param ''one_time_tokens''),
          (''_email_sender'', Param ''email_sender''), (''_url_template'', Param ''url_template''),
          (''_ttl_hours'', Param ''ttl_hours'')],
       cls_methods =
         [(''issue'', [(''uow'', ''IUnitOfWork''), (''user_id'', ''UserId'')], ''str''),
          (''send'', [(''email'', ''str''), (''secret'', ''str'')], ''None'')] \<rparr>"

definition class_authenticate_use_case :: python_class where
  "class_authenticate_use_case =
     \<lparr> cls_name = ''AuthenticateUseCase'', cls_bases = [i_authenticate_use_case],
       cls_init =
         [(''uow'', ''IUnitOfWork'', None),
          (''token_service'', ''ITokenService'', None),
          (''cache'', ''ICache'', None),
          (''cache_ttl_seconds'', ''int'', None)],
       cls_fields = [(''_uow'', Param ''uow''), (''_token_service'', Param ''token_service''),
          (''_cache'', Param ''cache''), (''_cache_ttl_seconds'', Param ''cache_ttl_seconds'')],
       cls_methods =
         [(''__call__'', [(''token'', ''str'')], ''User'')] \<rparr>"

definition class_change_password_use_case :: python_class where
  "class_change_password_use_case =
     \<lparr> cls_name = ''ChangePasswordUseCase'', cls_bases = [i_change_password_use_case],
       cls_init =
         [(''uow'', ''IUnitOfWork'', None),
          (''hasher'', ''IPasswordHasher'', None),
          (''cache'', ''ICache'', None)],
       cls_fields = [(''_uow'', Param ''uow''), (''_hasher'', Param ''hasher''),
          (''_cache'', Param ''cache'')],
       cls_methods =
         [(''__call__'', [(''user_id'', ''UserId''), (''data'', ''ChangePasswordDTO''), (''device'',
            ''DeviceInfoDTO | None'')], ''int'')] \<rparr>"

definition class_delete_user_use_case :: python_class where
  "class_delete_user_use_case =
     \<lparr> cls_name = ''DeleteUserUseCase'', cls_bases = [i_delete_user_use_case],
       cls_init =
         [(''uow'', ''IUnitOfWork'', None),
          (''cache'', ''ICache'', None)],
       cls_fields = [(''_uow'', Param ''uow''), (''_cache'', Param ''cache'')],
       cls_methods =
         [(''__call__'', [(''user_id'', ''UserId''), (''device'', ''DeviceInfoDTO | None'')],
            ''None'')] \<rparr>"

definition class_forgot_password_use_case :: python_class where
  "class_forgot_password_use_case =
     \<lparr> cls_name = ''ForgotPasswordUseCase'', cls_bases = [i_forgot_password_use_case],
       cls_init =
         [(''uow'', ''IUnitOfWork'', None),
          (''one_time_tokens'', ''IOneTimeTokenService'', None),
          (''email_sender'', ''IEmailSender'', None),
          (''limiter'', ''IRateLimiter'', None),
          (''email_policy'', ''RateLimitPolicy'', None),
          (''ip_policy'', ''RateLimitPolicy'', None),
          (''reset_url_template'', ''str'', None),
          (''reset_ttl_minutes'', ''int'', None)],
       cls_fields = [(''_uow'', Param ''uow''), (''_one_time_tokens'', Param ''one_time_tokens''),
          (''_email_sender'', Param ''email_sender''), (''_limiter'', Param ''limiter''),
          (''_email_policy'', Param ''email_policy''), (''_ip_policy'', Param ''ip_policy''),
          (''_reset_url_template'', Param ''reset_url_template''),
          (''_reset_ttl_minutes'', Param ''reset_ttl_minutes'')],
       cls_methods =
         [(''__call__'', [(''email'', ''str''), (''device'', ''DeviceInfoDTO | None'')], ''None'')] \<rparr>"

definition class_login_use_case :: python_class where
  "class_login_use_case =
     \<lparr> cls_name = ''LoginUseCase'', cls_bases = [i_login_use_case],
       cls_init =
         [(''uow'', ''IUnitOfWork'', None),
          (''hasher'', ''IPasswordHasher'', None),
          (''token_service'', ''ITokenService'', None),
          (''limiter'', ''IRateLimiter'', None),
          (''ip_policy'', ''RateLimitPolicy'', None),
          (''account_policy'', ''RateLimitPolicy'', None)],
       cls_fields = [(''_uow'', Param ''uow''), (''_hasher'', Param ''hasher''),
          (''_token_service'', Param ''token_service''), (''_limiter'', Param ''limiter''),
          (''_ip_policy'', Param ''ip_policy''), (''_account_policy'', Param ''account_policy'')],
       cls_methods =
         [(''__call__'', [(''data'', ''LoginDTO''), (''device'', ''DeviceInfoDTO | None'')],
            ''AuthResultDTO'')] \<rparr>"

definition class_logout_use_case :: python_class where
  "class_logout_use_case =
     \<lparr> cls_name = ''LogoutUseCase'', cls_bases = [i_logout_use_case],
       cls_init =
         [(''uow'', ''IUnitOfWork'', None),
          (''token_service'', ''ITokenService'', None)],
       cls_fields = [(''_uow'', Param ''uow''), (''_token_service'', Param ''token_service'')],
       cls_methods =
         [(''__call__'', [(''token'', ''str''), (''device'', ''DeviceInfoDTO | None'')], ''None'')] \<rparr>"

definition class_refresh_token_use_case :: python_class where
  "class_refresh_token_use_case =
     \<lparr> cls_name = ''RefreshTokenUseCase'', cls_bases = [i_refresh_token_use_case],
       cls_init =
         [(''uow'', ''IUnitOfWork'', None),
          (''token_service'', ''ITokenService'', None)],
       cls_fields = [(''_uow'', Param ''uow''), (''_token_service'', Param ''token_service'')],
       cls_methods =
         [(''__call__'', [(''refresh_token'', ''str''), (''device'', ''DeviceInfoDTO | None'')],
            ''AuthResultDTO'')] \<rparr>"

definition class_register_user_use_case :: python_class where
  "class_register_user_use_case =
     \<lparr> cls_name = ''RegisterUserUseCase'', cls_bases = [i_register_user_use_case],
       cls_init =
         [(''uow'', ''IUnitOfWork'', None),
          (''hasher'', ''IPasswordHasher'', None),
          (''verification'', ''EmailVerificationIssuer'', None),
          (''limiter'', ''IRateLimiter'', None),
          (''ip_policy'', ''RateLimitPolicy'', None),
          (''default_role_name'', ''str'', None)],
       cls_fields = [(''_uow'', Param ''uow''), (''_hasher'', Param ''hasher''),
          (''_verification'', Param ''verification''), (''_limiter'', Param ''limiter''),
          (''_ip_policy'', Param ''ip_policy''),
          (''_default_role_name'', Param ''default_role_name'')],
       cls_methods =
         [(''__call__'', [(''data'', ''RegisterUserDTO''), (''device'', ''DeviceInfoDTO | None'')],
            ''User'')] \<rparr>"

definition class_reset_password_use_case :: python_class where
  "class_reset_password_use_case =
     \<lparr> cls_name = ''ResetPasswordUseCase'', cls_bases = [i_reset_password_use_case],
       cls_init =
         [(''uow'', ''IUnitOfWork'', None),
          (''hasher'', ''IPasswordHasher'', None),
          (''one_time_tokens'', ''IOneTimeTokenService'', None),
          (''cache'', ''ICache'', None),
          (''limiter'', ''IRateLimiter'', None),
          (''ip_policy'', ''RateLimitPolicy'', None)],
       cls_fields = [(''_uow'', Param ''uow''), (''_hasher'', Param ''hasher''),
          (''_one_time_tokens'', Param ''one_time_tokens''), (''_cache'', Param ''cache''),
          (''_limiter'', Param ''limiter''), (''_ip_policy'', Param ''ip_policy'')],
       cls_methods =
         [(''__call__'', [(''data'', ''ResetPasswordDTO''), (''device'', ''DeviceInfoDTO | None'')],
            ''None'')] \<rparr>"

definition class_update_user_use_case :: python_class where
  "class_update_user_use_case =
     \<lparr> cls_name = ''UpdateUserUseCase'', cls_bases = [i_update_user_use_case],
       cls_init =
         [(''uow'', ''IUnitOfWork'', None),
          (''cache'', ''ICache'', None),
          (''verification'', ''EmailVerificationIssuer'', None)],
       cls_fields = [(''_uow'', Param ''uow''), (''_cache'', Param ''cache''),
          (''_verification'', Param ''verification'')],
       cls_methods =
         [(''__call__'', [(''user_id'', ''UserId''), (''data'', ''UpdateUserDTO'')], ''User'')] \<rparr>"

definition class_verify_email_use_case :: python_class where
  "class_verify_email_use_case =
     \<lparr> cls_name = ''VerifyEmailUseCase'', cls_bases = [i_verify_email_use_case],
       cls_init =
         [(''uow'', ''IUnitOfWork'', None),
          (''one_time_tokens'', ''IOneTimeTokenService'', None),
          (''cache'', ''ICache'', None)],
       cls_fields = [(''_uow'', Param ''uow''), (''_one_time_tokens'', Param ''one_time_tokens''),
          (''_cache'', Param ''cache'')],
       cls_methods =
         [(''__call__'', [(''token'', ''str''), (''device'', ''DeviceInfoDTO | None'')], ''User'')] \<rparr>"

definition class_ban_user_use_case :: python_class where
  "class_ban_user_use_case =
     \<lparr> cls_name = ''BanUserUseCase'', cls_bases = [i_ban_user_use_case],
       cls_init =
         [(''uow'', ''IUnitOfWork'', None),
          (''cache'', ''ICache'', None)],
       cls_fields = [(''_uow'', Param ''uow''), (''_cache'', Param ''cache'')],
       cls_methods =
         [(''__call__'', [(''actor'', ''User''), (''target_id'', ''UserId''), (''reason'', ''str | None''),
            (''device'', ''DeviceInfoDTO | None'')], ''User'')] \<rparr>"

definition class_unban_user_use_case :: python_class where
  "class_unban_user_use_case =
     \<lparr> cls_name = ''UnbanUserUseCase'', cls_bases = [i_unban_user_use_case],
       cls_init =
         [(''uow'', ''IUnitOfWork'', None),
          (''cache'', ''ICache'', None)],
       cls_fields = [(''_uow'', Param ''uow''), (''_cache'', Param ''cache'')],
       cls_methods =
         [(''__call__'', [(''actor'', ''User''), (''target_id'', ''UserId''), (''device'',
            ''DeviceInfoDTO | None'')], ''User'')] \<rparr>"

definition class_get_user_profile_use_case :: python_class where
  "class_get_user_profile_use_case =
     \<lparr> cls_name = ''GetUserProfileUseCase'', cls_bases = [i_get_user_profile_use_case],
       cls_init =
         [(''uow'', ''IUnitOfWork'', None)],
       cls_fields = [(''_uow'', Param ''uow'')],
       cls_methods =
         [(''__call__'', [(''user_id'', ''UserId'')], ''User'')] \<rparr>"

definition class_list_user_sessions_use_case :: python_class where
  "class_list_user_sessions_use_case =
     \<lparr> cls_name = ''ListUserSessionsUseCase'', cls_bases = [i_list_user_sessions_use_case],
       cls_init =
         [(''uow'', ''IUnitOfWork'', None)],
       cls_fields = [(''_uow'', Param ''uow'')],
       cls_methods =
         [(''__call__'', [(''user_id'', ''UserId'')], ''list[AuthSession]'')] \<rparr>"

definition class_revoke_all_sessions_use_case :: python_class where
  "class_revoke_all_sessions_use_case =
     \<lparr> cls_name = ''RevokeAllSessionsUseCase'', cls_bases = [i_revoke_all_sessions_use_case],
       cls_init =
         [(''uow'', ''IUnitOfWork'', None)],
       cls_fields = [(''_uow'', Param ''uow'')],
       cls_methods =
         [(''__call__'', [(''user_id'', ''UserId''), (''except_jti'', ''str | None''), (''device'',
            ''DeviceInfoDTO | None'')], ''int'')] \<rparr>"

definition class_revoke_user_session_use_case :: python_class where
  "class_revoke_user_session_use_case =
     \<lparr> cls_name = ''RevokeUserSessionUseCase'', cls_bases = [i_revoke_user_session_use_case],
       cls_init =
         [(''uow'', ''IUnitOfWork'', None)],
       cls_fields = [(''_uow'', Param ''uow'')],
       cls_methods =
         [(''__call__'', [(''user_id'', ''UserId''), (''session_id'', ''SessionId''), (''device'',
            ''DeviceInfoDTO | None'')], ''None'')] \<rparr>"

text \<open>All of them.\<close>

definition classes :: "python_class list" where
  "classes =
     [class_null_cache, class_redis_cache, class_sql_alchemy_audit_log_repository,
      class_sql_alchemy_permission_repository, class_sql_alchemy_role_repository,
      class_sql_alchemy_security_token_repository, class_sql_alchemy_session_repository,
      class_sql_alchemy_user_repository, class_sql_alchemy_unit_of_work,
      class_console_email_sender, class_smtp_email_sender, class_in_memory_rate_limiter,
      class_redis_rate_limiter, class_argon2_password_hasher, class_sha256_one_time_token_service,
      class_pbkdf2_password_hasher, class_jwt_token_service, class_assign_role_to_user_use_case,
      class_create_permission_use_case, class_create_role_use_case, class_delete_role_use_case,
      class_grant_permission_to_role_use_case, class_list_permissions_use_case,
      class_list_roles_use_case, class_list_users_use_case,
      class_revoke_permission_from_role_use_case, class_revoke_role_from_user_use_case,
      class_email_verification_issuer, class_authenticate_use_case, class_change_password_use_case,
      class_delete_user_use_case, class_forgot_password_use_case, class_login_use_case,
      class_logout_use_case, class_refresh_token_use_case, class_register_user_use_case,
      class_reset_password_use_case, class_update_user_use_case, class_verify_email_use_case,
      class_ban_user_use_case, class_unban_user_use_case, class_get_user_profile_use_case,
      class_list_user_sessions_use_case, class_revoke_all_sessions_use_case,
      class_revoke_user_session_use_case]"

end
