(* ===== verification/Wiring.thy ===== *)
theory Wiring
  imports Classes
begin

text \<open>
  How the container of \<^verbatim>\<open>dependency_injection.py\<close> is written and read: providers, the values they
  inject, and constructor calls. A provider names the callable it wraps and its arguments, each another
  provider, an attribute of what another provider gives (\<^verbatim>\<open>config.provided.X\<close>) or a constant. Calling it
  resolves the arguments and then calls the callable; a selector resolves its key and calls the branch
  of that name only. That is the documented behaviour of the dependency-injector library, which
  \<open>provided_by\<close> spells out relative to what the other providers give.
\<close>

section \<open>Objects\<close>

datatype wiring_error =
    RecursionError
  | TypeErr string
  | NoAttribute string
  | NoProvider string
  | NoBranch string

fun sequence_all :: "('e + 'a) list \<Rightarrow> 'e + 'a list" where
  "sequence_all [] = Inr []"
| "sequence_all (Inl e # rs) = Inl e"
| "sequence_all (Inr x # rs) = (case sequence_all rs of Inl e \<Rightarrow> Inl e | Inr xs \<Rightarrow> Inr (x # xs))"

definition str_or_none :: "string option \<Rightarrow> py_value" where
  "str_or_none s = (case s of None \<Rightarrow> VNone | Some x \<Rightarrow> VStr x)"

definition settings :: "config \<Rightarrow> (string \<times> py_value) list" where
  "settings c =
     [(''ENVIRONMENT'', VStr (cfg_ENVIRONMENT c)),
      (''DATABASE_URL'', str_or_none (cfg_DATABASE_URL c)), (''DB_HOST'', VStr (cfg_DB_HOST c)),
      (''DB_PORT'', VInt (cfg_DB_PORT c)), (''DB_USER'', VStr (cfg_DB_USER c)),
      (''DB_PASSWORD'', VStr (cfg_DB_PASSWORD c)), (''DB_NAME'', VStr (cfg_DB_NAME c)),
      (''JWT_SECRET'', VStr (cfg_JWT_SECRET c)), (''JWT_ALGORITHM'', VStr (cfg_JWT_ALGORITHM c)),
      (''ACCESS_TOKEN_EXPIRE_MINUTES'', VInt (cfg_ACCESS_TOKEN_EXPIRE_MINUTES c)),
      (''REFRESH_TOKEN_EXPIRE_MINUTES'', VInt (cfg_REFRESH_TOKEN_EXPIRE_MINUTES c)),
      (''PASSWORD_HASHER'', VStr (cfg_PASSWORD_HASHER c)),
      (''REDIS_URL'', str_or_none (cfg_REDIS_URL c)),
      (''AUTH_CACHE_TTL_SECONDS'', VInt (cfg_AUTH_CACHE_TTL_SECONDS c)),
      (''COOKIE_AUTH_ENABLED'', VBool (cfg_COOKIE_AUTH_ENABLED c)),
      (''COOKIE_DOMAIN'', str_or_none (cfg_COOKIE_DOMAIN c)),
      (''COOKIE_SECURE'', VBool (cfg_COOKIE_SECURE c)),
      (''COOKIE_SAMESITE'', VStr (cfg_COOKIE_SAMESITE c)),
      (''ACCESS_COOKIE_NAME'', VStr (cfg_ACCESS_COOKIE_NAME c)),
      (''REFRESH_COOKIE_NAME'', VStr (cfg_REFRESH_COOKIE_NAME c)),
      (''REFRESH_COOKIE_PATH'', VStr (cfg_REFRESH_COOKIE_PATH c)),
      (''CSRF_PROTECTION'', VBool (cfg_CSRF_PROTECTION c)),
      (''CSRF_COOKIE_NAME'', VStr (cfg_CSRF_COOKIE_NAME c)),
      (''CSRF_HEADER_NAME'', VStr (cfg_CSRF_HEADER_NAME c)),
      (''VISITOR_COOKIE_NAME'', VStr (cfg_VISITOR_COOKIE_NAME c)),
      (''VISITOR_COOKIE_MAX_AGE_DAYS'', VInt (cfg_VISITOR_COOKIE_MAX_AGE_DAYS c)),
      (''EMAIL_BACKEND'', VStr (cfg_EMAIL_BACKEND c)), (''EMAIL_FROM'', VStr (cfg_EMAIL_FROM c)),
      (''SMTP_HOST'', VStr (cfg_SMTP_HOST c)), (''SMTP_PORT'', VInt (cfg_SMTP_PORT c)),
      (''SMTP_USERNAME'', str_or_none (cfg_SMTP_USERNAME c)),
      (''SMTP_PASSWORD'', str_or_none (cfg_SMTP_PASSWORD c)),
      (''SMTP_USE_TLS'', VBool (cfg_SMTP_USE_TLS c)),
      (''EMAIL_VERIFICATION_URL'', VStr (cfg_EMAIL_VERIFICATION_URL c)),
      (''PASSWORD_RESET_URL'', VStr (cfg_PASSWORD_RESET_URL c)),
      (''EMAIL_VERIFICATION_TTL_HOURS'', VInt (cfg_EMAIL_VERIFICATION_TTL_HOURS c)),
      (''PASSWORD_RESET_TTL_MINUTES'', VInt (cfg_PASSWORD_RESET_TTL_MINUTES c)),
      (''RATE_LIMIT_ENABLED'', VBool (cfg_RATE_LIMIT_ENABLED c)),
      (''LOGIN_MAX_ATTEMPTS_PER_IP'', VInt (cfg_LOGIN_MAX_ATTEMPTS_PER_IP c)),
      (''LOGIN_MAX_ATTEMPTS_PER_ACCOUNT'', VInt (cfg_LOGIN_MAX_ATTEMPTS_PER_ACCOUNT c)),
      (''LOGIN_WINDOW_SECONDS'', VInt (cfg_LOGIN_WINDOW_SECONDS c)),
      (''REGISTER_MAX_PER_IP'', VInt (cfg_REGISTER_MAX_PER_IP c)),
      (''REGISTER_WINDOW_SECONDS'', VInt (cfg_REGISTER_WINDOW_SECONDS c)),
      (''FORGOT_PASSWORD_MAX_PER_EMAIL'', VInt (cfg_FORGOT_PASSWORD_MAX_PER_EMAIL c)),
      (''FORGOT_PASSWORD_MAX_PER_IP'', VInt (cfg_FORGOT_PASSWORD_MAX_PER_IP c)),
      (''FORGOT_PASSWORD_WINDOW_SECONDS'', VInt (cfg_FORGOT_PASSWORD_WINDOW_SECONDS c)),
      (''RESET_PASSWORD_MAX_PER_IP'', VInt (cfg_RESET_PASSWORD_MAX_PER_IP c)),
      (''RESET_PASSWORD_WINDOW_SECONDS'', VInt (cfg_RESET_PASSWORD_WINDOW_SECONDS c)),
      (''DEFAULT_ROLE_NAME'', VStr (cfg_DEFAULT_ROLE_NAME c)),
      (''CORS_ORIGINS'', VList (map VStr (cfg_CORS_ORIGINS c))),
      (''TRUST_PROXY_HEADERS'', VBool (cfg_TRUST_PROXY_HEADERS c)),
      (''API_HOST'', VStr (cfg_API_HOST c)), (''API_PORT'', VInt (cfg_API_PORT c)),
      (''API_TITLE'', VStr (cfg_API_TITLE c)), (''API_VERSION'', VStr (cfg_API_VERSION c)),
      (''API_PREFIX'', VStr (cfg_API_PREFIX c)),
      (''SEED_ON_STARTUP'', VBool (cfg_SEED_ON_STARTUP c)),
      (''is_production'', VBool (is_production c)), (''database_url'', VStr (database_url c)),
      (''login_ip_policy'', VPolicy (login_ip_policy c)),
      (''login_account_policy'', VPolicy (login_account_policy c)),
      (''register_ip_policy'', VPolicy (register_ip_policy c)),
      (''forgot_password_email_policy'', VPolicy (forgot_password_email_policy c)),
      (''forgot_password_ip_policy'', VPolicy (forgot_password_ip_policy c)),
      (''reset_password_ip_policy'', VPolicy (reset_password_ip_policy c))]"

definition config_object :: "config \<Rightarrow> py_value" where
  "config_object c = VObj ''Config'' (settings c)"

definition attribute :: "string \<Rightarrow> py_value \<Rightarrow> wiring_error + py_value" where
  "attribute a v =
     (case v of
        VObj cls attrs \<Rightarrow> (case map_of attrs a of None \<Rightarrow> Inl (NoAttribute a) | Some x \<Rightarrow> Inr x)
      | _ \<Rightarrow> Inl (NoAttribute a))"

section \<open>Constructor calls\<close>

definition abstract_methods :: "python_class \<Rightarrow> string list" where
  \<comment> \<open>abstract methods of its bases that the class does not define: such a class cannot be instantiated\<close>
  "abstract_methods k =
     filter (\<lambda>m. m \<notin> set (map fst (cls_methods k)))
       (concat (map (map fst \<circ> ifc_methods) (cls_bases k)))"

definition bind_argument ::
  "(string \<times> py_value) list \<Rightarrow> string \<times> string \<times> py_value option \<Rightarrow> wiring_error + string \<times> py_value" where
  "bind_argument given p =
     (case map_of given (fst p) of
        Some v \<Rightarrow> Inr (fst p, v)
      | None \<Rightarrow>
          (case snd (snd p) of Some d \<Rightarrow> Inr (fst p, d) | None \<Rightarrow> Inl (TypeErr (fst p))))"

definition bind_arguments ::
  "(string \<times> string \<times> py_value option) list \<Rightarrow> py_value list \<Rightarrow> (string \<times> py_value) list \<Rightarrow>
     wiring_error + (string \<times> py_value) list" where
  "bind_arguments params args kws =
     (let given = zip (map fst params) args @ kws in
      if length params < length args then Inl (TypeErr ''too many positional arguments'')
      else if \<not> distinct (map fst given) then Inl (TypeErr ''multiple values for an argument'')
      else if \<exists>k\<in>set kws. fst k \<notin> set (map fst params) then Inl (TypeErr ''unexpected keyword argument'')
      else sequence_all (map (bind_argument given) params))"

definition field_value :: "(string \<times> py_value) list \<Rightarrow> init_expr \<Rightarrow> py_value" where
  "field_value locals e =
     (case e of
        Param p \<Rightarrow> (case map_of locals p of Some v \<Rightarrow> v | None \<Rightarrow> VExpr p)
      | Expr s \<Rightarrow> VExpr s)"

definition construct ::
  "python_class \<Rightarrow> py_value list \<Rightarrow> (string \<times> py_value) list \<Rightarrow> wiring_error + py_value" where
  "construct k args kws =
     (if abstract_methods k \<noteq> [] then Inl (TypeErr (cls_name k))
      else
        (case bind_arguments (cls_init k) args kws of
           Inl e \<Rightarrow> Inl e
         | Inr locals \<Rightarrow>
             Inr (VObj (cls_name k) (map (\<lambda>(f, e). (f, field_value locals e)) (cls_fields k)))))"

section \<open>Providers\<close>

datatype target =
    ConfigClass
  | Class python_class
  | Library string
  | BackendLambda

datatype argument =
    Dep string
  | Provided string string
  | Flag bool

datatype provider_kind = Singleton | Factory | Callable

datatype recipe = Recipe provider_kind target "argument list" "(string \<times> argument) list"

datatype provider =
    One recipe
  | Selector argument "(string \<times> recipe) list"

definition backend_name :: "py_value \<Rightarrow> py_value" where
  \<comment> \<open>\<^verbatim>\<open>lambda url: "redis" if url else "memory"\<close>, applied to a string or \<^verbatim>\<open>None\<close>\<close>
  "backend_name url =
     (case url of
        VStr s \<Rightarrow> (if s \<noteq> [] then VStr ''redis'' else VStr ''memory'')
      | _ \<Rightarrow> VStr ''memory'')"

definition call_target ::
  "config \<Rightarrow> target \<Rightarrow> py_value list \<Rightarrow> (string \<times> py_value) list \<Rightarrow> wiring_error + py_value" where
  "call_target c t args kws =
     (case t of
        ConfigClass \<Rightarrow> Inr (config_object c)
      | Class k \<Rightarrow> construct k args kws
      | Library f \<Rightarrow> Inr (VLib f args kws)
      | BackendLambda \<Rightarrow> (case args of [x] \<Rightarrow> Inr (backend_name x) | _ \<Rightarrow> Inl (TypeErr ''lambda'')))"

definition argument_value ::
  "(string \<Rightarrow> wiring_error + py_value) \<Rightarrow> argument \<Rightarrow> wiring_error + py_value" where
  "argument_value provide a =
     (case a of
        Dep n \<Rightarrow> provide n
      | Provided n x \<Rightarrow> (case provide n of Inl e \<Rightarrow> Inl e | Inr v \<Rightarrow> attribute x v)
      | Flag b \<Rightarrow> Inr (VBool b))"

definition made_by ::
  "config \<Rightarrow> (string \<Rightarrow> wiring_error + py_value) \<Rightarrow> recipe \<Rightarrow> wiring_error + py_value" where
  "made_by c provide r =
     (case r of Recipe kind t args kws \<Rightarrow>
       (case sequence_all (map (argument_value provide) (args @ map snd kws)) of
          Inl e \<Rightarrow> Inl e
        | Inr vs \<Rightarrow>
            call_target c t (take (length args) vs) (zip (map fst kws) (drop (length args) vs))))"

definition provided_by ::
  "config \<Rightarrow> (string \<Rightarrow> wiring_error + py_value) \<Rightarrow> provider \<Rightarrow> wiring_error + py_value" where
  "provided_by c provide p =
     (case p of
        One r \<Rightarrow> made_by c provide r
      | Selector key branches \<Rightarrow>
          (case argument_value provide key of
             Inl e \<Rightarrow> Inl e
           | Inr (VStr s) \<Rightarrow>
               (case map_of branches s of None \<Rightarrow> Inl (NoBranch s) | Some r \<Rightarrow> made_by c provide r)
           | Inr _ \<Rightarrow> Inl (NoBranch ''not a name'')))"

text \<open>Resolution on demand: each call of a provider goes one level deeper.\<close>

fun demand :: "config \<Rightarrow> (string \<times> provider) list \<Rightarrow> nat \<Rightarrow> string \<Rightarrow> wiring_error + py_value" where
  "demand c ds 0 n = Inl RecursionError"
| "demand c ds (Suc k) n =
     (case map_of ds n of
        None \<Rightarrow> Inl (NoProvider n)
      | Some p \<Rightarrow> provided_by c (demand c ds k) p)"

section \<open>What a provider depends on\<close>

fun argument_deps :: "argument \<Rightarrow> string list" where
  "argument_deps (Dep n) = [n]"
| "argument_deps (Provided n x) = [n]"
| "argument_deps (Flag b) = []"

fun recipe_deps :: "recipe \<Rightarrow> string list" where
  "recipe_deps (Recipe kind t args kws) = concat (map argument_deps (args @ map snd kws))"

fun provider_deps :: "provider \<Rightarrow> string list" where
  "provider_deps (One r) = recipe_deps r"
| "provider_deps (Selector key branches) = argument_deps key @ concat (map (recipe_deps \<circ> snd) branches)"

lemma argument_value_cong:
  assumes "\<And>n. n \<in> set (argument_deps a) \<Longrightarrow> f n = g n"
  shows "argument_value f a = argument_value g a"
  using assms by (cases a) (auto simp: argument_value_def)

lemma made_by_cong:
  assumes "\<And>n. n \<in> set (recipe_deps r) \<Longrightarrow> f n = g n"
  shows "made_by c f r = made_by c g r"
proof (cases r)
  case (Recipe kind t args kws)
  then have "map (argument_value f) (args @ map snd kws) = map (argument_value g) (args @ map snd kws)"
    using assms by (intro map_cong refl argument_value_cong) auto
  then show ?thesis
    by (simp only: made_by_def Recipe recipe.case)
qed

lemma provided_by_cong:
  assumes "\<And>n. n \<in> set (provider_deps p) \<Longrightarrow> f n = g n"
  shows "provided_by c f p = provided_by c g p"
proof (cases p)
  case (One r)
  then show ?thesis
    using assms by (auto simp: provided_by_def intro: made_by_cong)
next
  case (Selector key branches)
  have "made_by c f r = made_by c g r" if "map_of branches s = Some r" for s r
    using assms map_of_SomeD [OF that] by (intro made_by_cong) (force simp: Selector)
  moreover have "argument_value f key = argument_value g key"
    using assms by (intro argument_value_cong) (simp add: Selector)
  ultimately show ?thesis
    by (auto simp: provided_by_def Selector split: sum.split py_value.split option.split)
qed

text \<open>Only a provider can answer that the stack is exhausted; a constructor never does.\<close>

lemma sequence_all_Inl: "sequence_all rs = Inl e \<Longrightarrow> Inl e \<in> set rs"
  by (induction rs rule: sequence_all.induct) (auto split: sum.splits)

lemma construct_not_deep: "construct k args kws \<noteq> Inl RecursionError"
proof
  assume "construct k args kws = Inl RecursionError"
  then have "bind_arguments (cls_init k) args kws = Inl RecursionError"
    by (auto simp: construct_def split: if_splits sum.splits)
  then have "Inl RecursionError \<in> set (map (bind_argument (zip (map fst (cls_init k)) args @ kws)) (cls_init k))"
    by (intro sequence_all_Inl) (auto simp: bind_arguments_def Let_def split: if_splits)
  then show False
    by (auto simp: bind_argument_def split: option.splits)
qed

lemma argument_value_deep:
  "argument_value f a = Inl RecursionError \<Longrightarrow> \<exists>n\<in>set (argument_deps a). f n = Inl RecursionError"
  by (cases a) (auto simp: argument_value_def attribute_def split: sum.splits py_value.splits option.splits)

lemma made_by_deep:
  assumes "made_by c f r = Inl RecursionError"
  shows "\<exists>n\<in>set (recipe_deps r). f n = Inl RecursionError"
proof (cases r)
  case (Recipe kind t args kws)
  have "call_target c t xs ys \<noteq> Inl RecursionError" for xs ys
    by (auto simp: call_target_def construct_not_deep split: target.splits list.splits)
  then have "sequence_all (map (argument_value f) (args @ map snd kws)) = Inl RecursionError"
    using assms by (auto simp: made_by_def Recipe split: sum.splits)
  then have "Inl RecursionError \<in> argument_value f ` set (args @ map snd kws)"
    unfolding set_map [symmetric] by (rule sequence_all_Inl)
  then obtain a where "a \<in> set (args @ map snd kws)" "argument_value f a = Inl RecursionError"
    by (elim imageE) (rule that, simp_all only:)
  then show ?thesis
    using argument_value_deep [of f a] by (auto simp: Recipe)
qed

lemma provided_by_deep:
  assumes "provided_by c f p = Inl RecursionError"
  shows "\<exists>n\<in>set (provider_deps p). f n = Inl RecursionError"
proof (cases p)
  case (One r)
  then show ?thesis
    using assms made_by_deep by (auto simp: provided_by_def)
next
  case (Selector key branches)
  consider "argument_value f key = Inl RecursionError"
    | s r where "map_of branches s = Some r" "made_by c f r = Inl RecursionError"
    using assms by (auto simp: provided_by_def Selector split: sum.splits py_value.splits option.splits)
  then show ?thesis
  proof cases
    case 1
    then show ?thesis
      using argument_value_deep [of f key] by (auto simp: Selector)
  next
    case 2
    then show ?thesis
      using made_by_deep [of c f r] map_of_SomeD [OF 2(1)] by (force simp: Selector)
  qed
qed

text \<open>A rank that falls along the dependencies bounds the depth of resolution.\<close>

definition ranked :: "(string \<times> provider) list \<Rightarrow> (string \<Rightarrow> nat) \<Rightarrow> bool" where
  "ranked ds rank \<longleftrightarrow> (\<forall>(n, p)\<in>set ds. \<forall>m\<in>set (provider_deps p). rank m < rank n)"

lemma ranked_deps: "ranked ds rank \<Longrightarrow> map_of ds n = Some p \<Longrightarrow> m \<in> set (provider_deps p) \<Longrightarrow> rank m < rank n"
  unfolding ranked_def by (drule map_of_SomeD) blast

lemma demand_stable:
  assumes "ranked ds rank" "rank n < k"
  shows "demand c ds k n = demand c ds (Suc k) n"
  using assms(2)
proof (induction k arbitrary: n)
  case (Suc k)
  have "provided_by c (demand c ds k) p = provided_by c (demand c ds (Suc k)) p"
    if "map_of ds n = Some p" for p
  proof (rule provided_by_cong)
    fix m assume "m \<in> set (provider_deps p)"
    then have "rank m < k"
      using ranked_deps [OF assms(1) that] Suc.prems by fastforce
    then show "demand c ds k m = demand c ds (Suc k) m"
      by (rule Suc.IH)
  qed
  then show ?case
    unfolding demand.simps(2) [of c ds "Suc k" n] by (auto split: option.split)
qed simp

lemma demand_not_deep:
  assumes "ranked ds rank" "rank n < k"
  shows "demand c ds k n \<noteq> Inl RecursionError"
  using assms(2)
proof (induction k arbitrary: n)
  case (Suc k)
  have "provided_by c (demand c ds k) p \<noteq> Inl RecursionError" if "map_of ds n = Some p" for p
  proof
    assume "provided_by c (demand c ds k) p = Inl RecursionError"
    then obtain m where "m \<in> set (provider_deps p)" and "demand c ds k m = Inl RecursionError"
      by (auto dest: provided_by_deep)
    then show False
      using Suc.IH [of m] ranked_deps [OF assms(1) that] Suc.prems by fastforce
  qed
  then show ?case
    by (auto split: option.split)
qed simp

end
