(* ===== verification/Container.thy ===== *)
theory Container
  imports Wiring
begin

text \<open>
  The container of \<^verbatim>\<open>dependency_injection.py\<close>, one definition per attribute of the class, in its order.
\<close>

definition provide_config :: provider where
  "provide_config =
     One (Recipe Singleton ConfigClass [] [])"

definition provide_engine :: provider where
  "provide_engine =
     One (Recipe Singleton (Library ''create_async_engine'') [Provided ''config'' ''database_url''] [
            (''pool_pre_ping'', Flag True)])"

definition provide_session_factory :: provider where
  "provide_session_factory =
     One (Recipe Singleton (Library ''async_sessionmaker'') [] [(''bind'', Dep ''engine''),
            (''expire_on_commit'', Flag False)])"

definition provide_uow :: provider where
  "provide_uow =
     One (Recipe Factory (Class class_sql_alchemy_unit_of_work) [] [
            (''session_factory'', Dep ''session_factory'')])"

definition provide_password_hasher :: provider where
  "provide_password_hasher =
     Selector (Provided ''config'' ''PASSWORD_HASHER'')
         [(''argon2'', Recipe Singleton (Class class_argon2_password_hasher) [] []),
          (''pbkdf2'', Recipe Singleton (Class class_pbkdf2_password_hasher) [] [])]"

definition provide_one_time_token_service :: provider where
  "provide_one_time_token_service =
     One (Recipe Singleton (Class class_sha256_one_time_token_service) [] [])"

definition provide_redis_backend :: provider where
  "provide_redis_backend =
     One (Recipe Callable BackendLambda [Provided ''config'' ''REDIS_URL''] [])"

definition provide_redis_client :: provider where
  "provide_redis_client =
     One (Recipe Singleton (Library ''redis_from_url'') [Provided ''config'' ''REDIS_URL''] [
            (''decode_responses'', Flag True)])"

definition provide_cache :: provider where
  "provide_cache =
     Selector (Dep ''_redis_backend'')
         [(''redis'', Recipe Singleton (Class class_redis_cache) [] [(''client'', Dep ''redis_client'')]),
          (''memory'', Recipe Singleton (Class class_null_cache) [] [])]"

definition provide_rate_limiter :: provider where
  "provide_rate_limiter =
     Selector (Dep ''_redis_backend'')
         [(''redis'', Recipe Singleton (Class class_redis_rate_limiter) [] [
                (''client'', Dep ''redis_client'')]),
          (''memory'', Recipe Singleton (Class class_in_memory_rate_limiter) [] [])]"

definition provide_email_sender :: provider where
  "provide_email_sender =
     Selector (Provided ''config'' ''EMAIL_BACKEND'')
         [(''console'', Recipe Singleton (Class class_console_email_sender) [] []),
          (''smtp'', Recipe Singleton (Class class_smtp_email_sender) [] [
                (''host'', Provided ''config'' ''SMTP_HOST''),
                (''port'', Provided ''config'' ''SMTP_PORT''),
                (''username'', Provided ''config'' ''SMTP_USERNAME''),
                (''password'', Provided ''config'' ''SMTP_PASSWORD''),
                (''sender'', Provided ''config'' ''EMAIL_FROM''),
                (''use_tls'', Provided ''config'' ''SMTP_USE_TLS'')])]"

definition provide_token_service :: provider where
  "provide_token_service =
     One (Recipe Singleton (Class class_jwt_token_service) [] [
            (''secret'', Provided ''config'' ''JWT_SECRET''),
            (''algorithm'', Provided ''config'' ''JWT_ALGORITHM''),
            (''access_expire_minutes'', Provided ''config'' ''ACCESS_TOKEN_EXPIRE_MINUTES''),
            (''refresh_expire_minutes'', Provided ''config'' ''REFRESH_TOKEN_EXPIRE_MINUTES'')])"

definition provide_email_verification_issuer :: provider where
  "provide_email_verification_issuer =
     One (Recipe Factory (Class class_email_verification_issuer) [] [
            (''one_time_tokens'', Dep ''one_time_token_service''),
            (''email_sender'', Dep ''email_sender''),
            (''url_template'', Provided ''config'' ''EMAIL_VERIFICATION_URL''),
            (''ttl_hours'', Provided ''config'' ''EMAIL_VERIFICATION_TTL_HOURS'')])"

definition provide_register_user_usecase :: provider where
  "provide_register_user_usecase =
     One (Recipe Factory (Class class_register_user_use_case) [] [(''uow'', Dep ''uow''),
            (''hasher'', Dep ''password_hasher''),
            (''verification'', Dep ''email_verification_issuer''),
            (''limiter'', Dep ''rate_limiter''),
            (''ip_policy'', Provided ''config'' ''register_ip_policy''),
            (''default_role_name'', Provided ''config'' ''DEFAULT_ROLE_NAME'')])"

definition provide_login_usecase :: provider where
  "provide_login_usecase =
     One (Recipe Factory (Class class_login_use_case) [] [(''uow'', Dep ''uow''),
            (''hasher'', Dep ''password_hasher''), (''token_service'', Dep ''token_service''),
            (''limiter'', Dep ''rate_limiter''),
            (''ip_policy'', Provided ''config'' ''login_ip_policy''),
            (''account_policy'', Provided ''config'' ''login_account_policy'')])"

definition provide_logout_usecase :: provider where
  "provide_logout_usecase =
     One (Recipe Factory (Class class_logout_use_case) [] [(''uow'', Dep ''uow''),
            (''token_service'', Dep ''token_service'')])"

definition provide_refresh_token_usecase :: provider where
  "provide_refresh_token_usecase =
     One (Recipe Factory (Class class_refresh_token_use_case) [] [(''uow'', Dep ''uow''),
            (''token_service'', Dep ''token_service'')])"

definition provide_authenticate_usecase :: provider where
  "provide_authenticate_usecase =
     One (Recipe Factory (Class class_authenticate_use_case) [] [(''uow'', Dep ''uow''),
            (''token_service'', Dep ''token_service''), (''cache'', Dep ''cache''),
            (''cache_ttl_seconds'', Provided ''config'' ''AUTH_CACHE_TTL_SECONDS'')])"

definition provide_update_user_usecase :: provider where
  "provide_update_user_usecase =
     One (Recipe Factory (Class class_update_user_use_case) [] [(''uow'', Dep ''uow''),
            (''cache'', Dep ''cache''), (''verification'', Dep ''email_verification_issuer'')])"

definition provide_delete_user_usecase :: provider where
  "provide_delete_user_usecase =
     One (Recipe Factory (Class class_delete_user_use_case) [] [(''uow'', Dep ''uow''),
            (''cache'', Dep ''cache'')])"

definition provide_change_password_usecase :: provider where
  "provide_change_password_usecase =
     One (Recipe Factory (Class class_change_password_use_case) [] [(''uow'', Dep ''uow''),
            (''hasher'', Dep ''password_hasher''), (''cache'', Dep ''cache'')])"

definition provide_verify_email_usecase :: provider where
  "provide_verify_email_usecase =
     One (Recipe Factory (Class class_verify_email_use_case) [] [(''uow'', Dep ''uow''),
            (''one_time_tokens'', Dep ''one_time_token_service''), (''cache'', Dep ''cache'')])"

definition provide_forgot_password_usecase :: provider where
  "provide_forgot_password_usecase =
     One (Recipe Factory (Class class_forgot_password_use_case) [] [(''uow'', Dep ''uow''),
            (''one_time_tokens'', Dep ''one_time_token_service''),
            (''email_sender'', Dep ''email_sender''), (''limiter'', Dep ''rate_limiter''),
            (''email_policy'', Provided ''config'' ''forgot_password_email_policy''),
            (''ip_policy'', Provided ''config'' ''forgot_password_ip_policy''),
            (''reset_url_template'', Provided ''config'' ''PASSWORD_RESET_URL''),
            (''reset_ttl_minutes'', Provided ''config'' ''PASSWORD_RESET_TTL_MINUTES'')])"

definition provide_reset_password_usecase :: provider where
  "provide_reset_password_usecase =
     One (Recipe Factory (Class class_reset_password_use_case) [] [(''uow'', Dep ''uow''),
            (''hasher'', Dep ''password_hasher''),
            (''one_time_tokens'', Dep ''one_time_token_service''), (''cache'', Dep ''cache''),
            (''limiter'', Dep ''rate_limiter''),
            (''ip_policy'', Provided ''config'' ''reset_password_ip_policy'')])"

definition provide_get_user_profile_usecase :: provider where
  "provide_get_user_profile_usecase =
     One (Recipe Factory (Class class_get_user_profile_use_case) [] [(''uow'', Dep ''uow'')])"

definition provide_list_user_sessions_usecase :: provider where
  "provide_list_user_sessions_usecase =
     One (Recipe Factory (Class class_list_user_sessions_use_case) [] [(''uow'', Dep ''uow'')])"

definition provide_revoke_user_session_usecase :: provider where
  "provide_revoke_user_session_usecase =
     One (Recipe Factory (Class class_revoke_user_session_use_case) [] [(''uow'', Dep ''uow'')])"

definition provide_revoke_all_sessions_usecase :: provider where
  "provide_revoke_all_sessions_usecase =
     One (Recipe Factory (Class class_revoke_all_sessions_use_case) [] [(''uow'', Dep ''uow'')])"

definition provide_ban_user_usecase :: provider where
  "provide_ban_user_usecase =
     One (Recipe Factory (Class class_ban_user_use_case) [] [(''uow'', Dep ''uow''),
            (''cache'', Dep ''cache'')])"

definition provide_unban_user_usecase :: provider where
  "provide_unban_user_usecase =
     One (Recipe Factory (Class class_unban_user_use_case) [] [(''uow'', Dep ''uow''),
            (''cache'', Dep ''cache'')])"

definition provide_list_roles_usecase :: provider where
  "provide_list_roles_usecase =
     One (Recipe Factory (Class class_list_roles_use_case) [] [(''uow'', Dep ''uow'')])"

definition provide_create_role_usecase :: provider where
  "provide_create_role_usecase =
     One (Recipe Factory (Class class_create_role_use_case) [] [(''uow'', Dep ''uow'')])"

definition provide_delete_role_usecase :: provider where
  "provide_delete_role_usecase =
     One (Recipe Factory (Class class_delete_role_use_case) [] [(''uow'', Dep ''uow'')])"

definition provide_grant_permission_to_role_usecase :: provider where
  "provide_grant_permission_to_role_usecase =
     One (Recipe Factory (Class class_grant_permission_to_role_use_case) [] [
            (''uow'', Dep ''uow'')])"

definition provide_revoke_permission_from_role_usecase :: provider where
  "provide_revoke_permission_from_role_usecase =
     One (Recipe Factory (Class class_revoke_permission_from_role_use_case) [] [
            (''uow'', Dep ''uow'')])"

definition provide_list_permissions_usecase :: provider where
  "provide_list_permissions_usecase =
     One (Recipe Factory (Class class_list_permissions_use_case) [] [(''uow'', Dep ''uow'')])"

definition provide_create_permission_usecase :: provider where
  "provide_create_permission_usecase =
     One (Recipe Factory (Class class_create_permission_use_case) [] [(''uow'', Dep ''uow'')])"

definition provide_list_users_usecase :: provider where
  "provide_list_users_usecase =
     One (Recipe Factory (Class class_list_users_use_case) [] [(''uow'', Dep ''uow'')])"

definition provide_assign_role_to_user_usecase :: provider where
  "provide_assign_role_to_user_usecase =
     One (Recipe Factory (Class class_assign_role_to_user_use_case) [] [(''uow'', Dep ''uow''),
            (''cache'', Dep ''cache'')])"

definition provide_revoke_role_from_user_usecase :: provider where
  "provide_revoke_role_from_user_usecase =
     One (Recipe Factory (Class class_revoke_role_from_user_use_case) [] [(''uow'', Dep ''uow''),
            (''cache'', Dep ''cache'')])"

definition declarations :: "(string \<times> provider) list" where
  "declarations =
     [(''config'', provide_config), (''engine'', provide_engine),
      (''session_factory'', provide_session_factory), (''uow'', provide_uow),
      (''password_hasher'', provide_password_hasher),
      (''one_time_token_service'', provide_one_time_token_service),
      (''_redis_backend'', provide_redis_backend), (''redis_client'', provide_redis_client),
      (''cache'', provide_cache), (''rate_limiter'', provide_rate_limiter),
      (''email_sender'', provide_email_sender), (''token_service'', provide_token_service),
      (''email_verification_issuer'', provide_email_verification_issuer),
      (''register_user_usecase'', provide_register_user_usecase),
      (''login_usecase'', provide_login_usecase), (''logout_usecase'', provide_logout_usecase),
      (''refresh_token_usecase'', provide_refresh_token_usecase),
      (''authenticate_usecase'', provide_authenticate_usecase),
      (''update_user_usecase'', provide_update_user_usecase),
      (''delete_user_usecase'', provide_delete_user_usecase),
      (''change_password_usecase'', provide_change_password_usecase),
      (''verify_email_usecase'', provide_verify_email_usecase),
      (''forgot_password_usecase'', provide_forgot_password_usecase),
      (''reset_password_usecase'', provide_reset_password_usecase),
      (''get_user_profile_usecase'', provide_get_user_profile_usecase),
      (''list_user_sessions_usecase'', provide_list_user_sessions_usecase),
      (''revoke_user_session_usecase'', provide_revoke_user_session_usecase),
      (''revoke_all_sessions_usecase'', provide_revoke_all_sessions_usecase),
      (''ban_user_usecase'', provide_ban_user_usecase),
      (''unban_user_usecase'', provide_unban_user_usecase),
      (''list_roles_usecase'', provide_list_roles_usecase),
      (''create_role_usecase'', provide_create_role_usecase),
      (''delete_role_usecase'', provide_delete_role_usecase),
      (''grant_permission_to_role_usecase'', provide_grant_permission_to_role_usecase),
      (''revoke_permission_from_role_usecase'', provide_revoke_permission_from_role_usecase),
      (''list_permissions_usecase'', provide_list_permissions_usecase),
      (''create_permission_usecase'', provide_create_permission_usecase),
      (''list_users_usecase'', provide_list_users_usecase),
      (''assign_role_to_user_usecase'', provide_assign_role_to_user_usecase),
      (''revoke_role_from_user_usecase'', provide_revoke_role_from_user_usecase)]"

end
