(* ===== verification/Container_Laws.thy ===== *)
theory Container_Laws
  imports Container Rate_Limit
begin

text \<open>
  What the container gives. \<open>injects c provide\<close> says that \<open>provide\<close> answers for every attribute of the
  container as its declaration says, relative to what it answers for the others: the documented
  behaviour of the dependency-injector library. The locale \<open>injector\<close> derives from it the objects of the
  infrastructure and of the use cases; resolution on demand satisfies it.
\<close>

definition injects :: "config \<Rightarrow> (string \<Rightarrow> wiring_error + py_value) \<Rightarrow> bool" where
  "injects c provide \<longleftrightarrow> (\<forall>(n, p)\<in>set declarations. provide n = provided_by c provide p)"

section \<open>Constructor calls of the container\<close>

named_theorems wiring

lemma new_adapters [wiring]:
  "construct class_sql_alchemy_unit_of_work []
      [(''session_factory'', x0)] =
    Inr (VObj ''SqlAlchemyUnitOfWork''
      [(''_session_factory'', x0), (''_session'', VExpr ''None'')])"
  "construct class_argon2_password_hasher [] [] =
    Inr (VObj ''Argon2PasswordHasher''
      [(''_hasher'', VExpr ''_Argon2Hasher()'')])"
  "construct class_pbkdf2_password_hasher [] [] =
    Inr (VObj ''PBKDF2PasswordHasher''
      [(''_iterations'', VInt 390000), (''_salt_bytes'', VInt 16)])"
  "construct class_sha256_one_time_token_service [] [] =
    Inr (VObj ''Sha256OneTimeTokenService''
      [(''_entropy_bytes'', VInt 32)])"
  "construct class_redis_cache []
      [(''client'', x0)] =
    Inr (VObj ''RedisCache''
      [(''_client'', x0)])"
  "construct class_null_cache [] [] =
    Inr (VObj ''NullCache''
      [])"
  "construct class_redis_rate_limiter []
      [(''client'', x0)] =
    Inr (VObj ''RedisRateLimiter''
      [(''_client'', x0)])"
  "construct class_in_memory_rate_limiter [] [] =
    Inr (VObj ''InMemoryRateLimiter''
      [(''_counters'', VExpr ''{}'')])"
  "construct class_console_email_sender [] [] =
    Inr (VObj ''ConsoleEmailSender''
      [])"
  "construct class_smtp_email_sender []
      [(''host'', x0), (''port'', x1), (''username'', x2), (''password'', x3), (''sender'', x4),
       (''use_tls'', x5)] =
    Inr (VObj ''SmtpEmailSender''
      [(''_host'', x0), (''_port'', x1), (''_username'', x2), (''_password'', x3),
       (''_sender'', x4), (''_use_tls'', x5), (''_timeout_seconds'', VInt 10)])"
  "construct class_jwt_token_service []
      [(''secret'', x0), (''algorithm'', x1), (''access_expire_minutes'', x2),
       (''refresh_expire_minutes'', x3)] =
    Inr (VObj ''JwtTokenService''
      [(''_secret'', x0), (''_algorithm'', x1), (''_access_expire_minutes'', x2),
       (''_refresh_expire_minutes'', x3)])"
  "construct class_email_verification_issuer []
      [(''one_time_tokens'', x0), (''email_sender'', x1), (''url_template'', x2), (''ttl_hours'', x3)] =
    Inr (VObj ''EmailVerificationIssuer''
      [(''_one_time_tokens'', x0), (''_email_sender'', x1), (''_url_template'', x2),
       (''_ttl_hours'', x3)])"
  by code_simp+

lemma new_use_cases [wiring]:
  "construct class_register_user_use_case []
      [(''uow'', x0), (''hasher'', x1), (''verification'', x2), (''limiter'', x3),
       (''ip_policy'', x4), (''default_role_name'', x5)] =
    Inr (VObj ''RegisterUserUseCase''
      [(''_uow'', x0), (''_hasher'', x1), (''_verification'', x2), (''_limiter'', x3),
       (''_ip_policy'', x4), (''_default_role_name'', x5)])"
  "construct class_login_use_case []
      [(''uow'', x0), (''hasher'', x1), (''token_service'', x2), (''limiter'', x3),
       (''ip_policy'', x4), (''account_policy'', x5)] =
    Inr (VObj ''LoginUseCase''
      [(''_uow'', x0), (''_hasher'', x1), (''_token_service'', x2), (''_limiter'', x3),
       (''_ip_policy'', x4), (''_account_policy'', x5)])"
  "construct class_logout_use_case []
      [(''uow'', x0), (''token_service'', x1)] =
    Inr (VObj ''LogoutUseCase''
      [(''_uow'', x0), (''_token_service'', x1)])"
  "construct class_refresh_token_use_case []
      [(''uow'', x0), (''token_service'', x1)] =
    Inr (VObj ''RefreshTokenUseCase''
      [(''_uow'', x0), (''_token_service'', x1)])"
  "construct class_authenticate_use_case []
      [(''uow'', x0), (''token_service'', x1), (''cache'', x2), (''cache_ttl_seconds'', x3)] =
    Inr (VObj ''AuthenticateUseCase''
      [(''_uow'', x0), (''_token_service'', x1), (''_cache'', x2), (''_cache_ttl_seconds'', x3)])"
  "construct class_update_user_use_case []
      [(''uow'', x0), (''cache'', x1), (''verification'', x2)] =
    Inr (VObj ''UpdateUserUseCase''
      [(''_uow'', x0), (''_cache'', x1), (''_verification'', x2)])"
  "construct class_delete_user_use_case []
      [(''uow'', x0), (''cache'', x1)] =
    Inr (VObj ''DeleteUserUseCase''
      [(''_uow'', x0), (''_cache'', x1)])"
  "construct class_change_password_use_case []
      [(''uow'', x0), (''hasher'', x1), (''cache'', x2)] =
    Inr (VObj ''ChangePasswordUseCase''
      [(''_uow'', x0), (''_hasher'', x1), (''_cache'', x2)])"
  "construct class_verify_email_use_case []
      [(''uow'', x0), (''one_time_tokens'', x1), (''cache'', x2)] =
    Inr (VObj ''VerifyEmailUseCase''
      [(''_uow'', x0), (''_one_time_tokens'', x1), (''_cache'', x2)])"
  "construct class_forgot_password_use_case []
      [(''uow'', x0), (''one_time_tokens'', x1), (''email_sender'', x2), (''limiter'', x3),
       (''email_policy'', x4), (''ip_policy'', x5), (''reset_url_template'', x6),
       (''reset_ttl_minutes'', x7)] =
    Inr (VObj ''ForgotPasswordUseCase''
      [(''_uow'', x0), (''_one_time_tokens'', x1), (''_email_sender'', x2), (''_limiter'', x3),
       (''_email_policy'', x4), (''_ip_policy'', x5), (''_reset_url_template'', x6),
       (''_reset_ttl_minutes'', x7)])"
  "construct class_reset_password_use_case []
      [(''uow'', x0), (''hasher'', x1), (''one_time_tokens'', x2), (''cache'', x3),
       (''limiter'', x4), (''ip_policy'', x5)] =
    Inr (VObj ''ResetPasswordUseCase''
      [(''_uow'', x0), (''_hasher'', x1), (''_one_time_tokens'', x2), (''_cache'', x3),
       (''_limiter'', x4), (''_ip_policy'', x5)])"
  "construct class_ban_user_use_case []
      [(''uow'', x0), (''cache'', x1)] =
    Inr (VObj ''BanUserUseCase''
      [(''_uow'', x0), (''_cache'', x1)])"
  "construct class_unban_user_use_case []
      [(''uow'', x0), (''cache'', x1)] =
    Inr (VObj ''UnbanUserUseCase''
      [(''_uow'', x0), (''_cache'', x1)])"
  "construct class_assign_role_to_user_use_case []
      [(''uow'', x0), (''cache'', x1)] =
    Inr (VObj ''AssignRoleToUserUseCase''
      [(''_uow'', x0), (''_cache'', x1)])"
  "construct class_revoke_role_from_user_use_case []
      [(''uow'', x0), (''cache'', x1)] =
    Inr (VObj ''RevokeRoleFromUserUseCase''
      [(''_uow'', x0), (''_cache'', x1)])"
  by code_simp+

definition uow_only :: "python_class list" where
  "uow_only =
     [class_get_user_profile_use_case, class_list_user_sessions_use_case,
      class_revoke_user_session_use_case, class_revoke_all_sessions_use_case,
      class_list_roles_use_case, class_create_role_use_case, class_delete_role_use_case,
      class_grant_permission_to_role_use_case, class_revoke_permission_from_role_use_case,
      class_list_permissions_use_case, class_create_permission_use_case, class_list_users_use_case]"

lemma uow_only_classes:
  "\<forall>k\<in>set uow_only. abstract_methods k = [] \<and> cls_init k = [(''uow'', ''IUnitOfWork'', None)] \<and>
     cls_fields k = [(''_uow'', Param ''uow'')]"
  by code_simp

lemma new_uow_only:
  "k \<in> set uow_only \<Longrightarrow> construct k [] [(''uow'', x)] = Inr (VObj (cls_name k) [(''_uow'', x)])"
  using bspec [OF uow_only_classes, of k]
  by (simp add: construct_def bind_arguments_def bind_argument_def field_value_def)

section \<open>The objects the model assumes\<close>

text \<open>
  The collaborators as the other theories of this development choose them: a hasher other than
  \<^verbatim>\<open>pbkdf2\<close> is argon2, and cache and limiter are the Redis ones exactly when \<open>redis_backend\<close> holds.
\<close>

definition session_factory_object :: "config \<Rightarrow> py_value" where
  "session_factory_object c =
     VLib ''async_sessionmaker'' []
       [(''bind'', VLib ''create_async_engine'' [VStr (database_url c)] [(''pool_pre_ping'', VBool True)]),
        (''expire_on_commit'', VBool False)]"

definition uow_object :: "config \<Rightarrow> py_value" where
  "uow_object c =
     VObj ''SqlAlchemyUnitOfWork''
       [(''_session_factory'', session_factory_object c), (''_session'', VExpr ''None'')]"

definition hasher_object :: "config \<Rightarrow> py_value" where
  "hasher_object c =
     (if cfg_PASSWORD_HASHER c = ''pbkdf2''
        then VObj ''PBKDF2PasswordHasher'' [(''_iterations'', VInt 390000), (''_salt_bytes'', VInt 16)]
      else VObj ''Argon2PasswordHasher'' [(''_hasher'', VExpr ''_Argon2Hasher()'')])"

definition secrets_object :: py_value where
  "secrets_object = VObj ''Sha256OneTimeTokenService'' [(''_entropy_bytes'', VInt 32)]"

definition client_object :: "config \<Rightarrow> py_value" where
  "client_object c =
     VLib ''redis_from_url'' [str_or_none (cfg_REDIS_URL c)] [(''decode_responses'', VBool True)]"

definition cache_object :: "config \<Rightarrow> py_value" where
  "cache_object c =
     (if redis_backend c then VObj ''RedisCache'' [(''_client'', client_object c)]
      else VObj ''NullCache'' [])"

definition limiter_object :: "config \<Rightarrow> py_value" where
  "limiter_object c =
     (if redis_backend c then VObj ''RedisRateLimiter'' [(''_client'', client_object c)]
      else VObj ''InMemoryRateLimiter'' [(''_counters'', VExpr ''{}'')])"

definition sender_object :: "config \<Rightarrow> py_value" where
  "sender_object c =
     (if cfg_EMAIL_BACKEND c = ''smtp''
        then VObj ''SmtpEmailSender''
          [(''_host'', VStr (cfg_SMTP_HOST c)), (''_port'', VInt (cfg_SMTP_PORT c)),
           (''_username'', str_or_none (cfg_SMTP_USERNAME c)),
           (''_password'', str_or_none (cfg_SMTP_PASSWORD c)),
           (''_sender'', VStr (cfg_EMAIL_FROM c)), (''_use_tls'', VBool (cfg_SMTP_USE_TLS c)),
           (''_timeout_seconds'', VInt 10)]
      else VObj ''ConsoleEmailSender'' [])"

definition tokens_object :: "config \<Rightarrow> py_value" where
  "tokens_object c =
     VObj ''JwtTokenService''
       [(''_secret'', VStr (cfg_JWT_SECRET c)), (''_algorithm'', VStr (cfg_JWT_ALGORITHM c)),
        (''_access_expire_minutes'', VInt (cfg_ACCESS_TOKEN_EXPIRE_MINUTES c)),
        (''_refresh_expire_minutes'', VInt (cfg_REFRESH_TOKEN_EXPIRE_MINUTES c))]"

definition issuer_object :: "config \<Rightarrow> py_value" where
  "issuer_object c =
     VObj ''EmailVerificationIssuer''
       [(''_one_time_tokens'', secrets_object), (''_email_sender'', sender_object c),
        (''_url_template'', VStr (cfg_EMAIL_VERIFICATION_URL c)),
        (''_ttl_hours'', VInt (cfg_EMAIL_VERIFICATION_TTL_HOURS c))]"

lemmas object_defs = session_factory_object_def uow_object_def hasher_object_def secrets_object_def
  client_object_def cache_object_def limiter_object_def sender_object_def tokens_object_def
  issuer_object_def

definition hashers :: "string list" where
  "hashers = [''argon2'', ''pbkdf2'']"

definition mail_backends :: "string list" where
  "mail_backends = [''console'', ''smtp'']"

definition collaborators :: "config \<Rightarrow> (string \<times> py_value) list" where
  "collaborators c =
     [(''_uow'', uow_object c), (''_hasher'', hasher_object c), (''_token_service'', tokens_object c),
      (''_one_time_tokens'', secrets_object), (''_email_sender'', sender_object c),
      (''_verification'', issuer_object c), (''_cache'', cache_object c), (''_limiter'', limiter_object c)]"

definition model_settings :: "config \<Rightarrow> ((string \<times> string) \<times> py_value) list" where
  "model_settings c =
     [((''RegisterUserUseCase'', ''_ip_policy''), VPolicy (register_ip_policy c)),
      ((''RegisterUserUseCase'', ''_default_role_name''), VStr (cfg_DEFAULT_ROLE_NAME c)),
      ((''LoginUseCase'', ''_ip_policy''), VPolicy (login_ip_policy c)),
      ((''LoginUseCase'', ''_account_policy''), VPolicy (login_account_policy c)),
      ((''AuthenticateUseCase'', ''_cache_ttl_seconds''), VInt (cfg_AUTH_CACHE_TTL_SECONDS c)),
      ((''ForgotPasswordUseCase'', ''_email_policy''), VPolicy (forgot_password_email_policy c)),
      ((''ForgotPasswordUseCase'', ''_ip_policy''), VPolicy (forgot_password_ip_policy c)),
      ((''ForgotPasswordUseCase'', ''_reset_url_template''), VStr (cfg_PASSWORD_RESET_URL c)),
      ((''ForgotPasswordUseCase'', ''_reset_ttl_minutes''), VInt (cfg_PASSWORD_RESET_TTL_MINUTES c)),
      ((''ResetPasswordUseCase'', ''_ip_policy''), VPolicy (reset_password_ip_policy c))]"

definition expected_field :: "config \<Rightarrow> string \<Rightarrow> string \<Rightarrow> py_value" where
  "expected_field c k f =
     (case map_of (collaborators c) f of
        Some v \<Rightarrow> v
      | None \<Rightarrow> (case map_of (model_settings c) (k, f) of Some v \<Rightarrow> v | None \<Rightarrow> VNone))"

definition expected_object :: "config \<Rightarrow> python_class \<Rightarrow> py_value" where
  "expected_object c k = VObj (cls_name k) (map (\<lambda>(f, e). (f, expected_field c (cls_name k) f)) (cls_fields k))"

definition use_cases :: "(string \<times> python_class) list" where
  "use_cases =
     [(''register_user_usecase'', class_register_user_use_case),
      (''login_usecase'', class_login_use_case), (''logout_usecase'', class_logout_use_case),
      (''refresh_token_usecase'', class_refresh_token_use_case),
      (''authenticate_usecase'', class_authenticate_use_case),
      (''update_user_usecase'', class_update_user_use_case),
      (''delete_user_usecase'', class_delete_user_use_case),
      (''change_password_usecase'', class_change_password_use_case),
      (''verify_email_usecase'', class_verify_email_use_case),
      (''forgot_password_usecase'', class_forgot_password_use_case),
      (''reset_password_usecase'', class_reset_password_use_case),
      (''get_user_profile_usecase'', class_get_user_profile_use_case),
      (''list_user_sessions_usecase'', class_list_user_sessions_use_case),
      (''revoke_user_session_usecase'', class_revoke_user_session_use_case),
      (''revoke_all_sessions_usecase'', class_revoke_all_sessions_use_case),
      (''ban_user_usecase'', class_ban_user_use_case),
      (''unban_user_usecase'', class_unban_user_use_case),
      (''list_roles_usecase'', class_list_roles_use_case),
      (''create_role_usecase'', class_create_role_use_case),
      (''delete_role_usecase'', class_delete_role_use_case),
      (''grant_permission_to_role_usecase'', class_grant_permission_to_role_use_case),
      (''revoke_permission_from_role_usecase'', class_revoke_permission_from_role_use_case),
      (''list_permissions_usecase'', class_list_permissions_use_case),
      (''create_permission_usecase'', class_create_permission_use_case),
      (''list_users_usecase'', class_list_users_use_case),
      (''assign_role_to_user_usecase'', class_assign_role_to_user_use_case),
      (''revoke_role_from_user_usecase'', class_revoke_role_from_user_use_case)]"

definition hashing :: "string list" where
  "hashing = [''register_user_usecase'', ''login_usecase'', ''change_password_usecase'', ''reset_password_usecase'']"

definition mailing :: "string list" where
  "mailing = [''register_user_usecase'', ''update_user_usecase'', ''forgot_password_usecase'']"

lemmas use_case_providers = provide_register_user_usecase_def provide_login_usecase_def
  provide_logout_usecase_def provide_refresh_token_usecase_def provide_authenticate_usecase_def
  provide_update_user_usecase_def provide_delete_user_usecase_def
  provide_change_password_usecase_def provide_verify_email_usecase_def
  provide_forgot_password_usecase_def provide_reset_password_usecase_def
  provide_get_user_profile_usecase_def provide_list_user_sessions_usecase_def
  provide_revoke_user_session_usecase_def provide_revoke_all_sessions_usecase_def
  provide_ban_user_usecase_def provide_unban_user_usecase_def provide_list_roles_usecase_def
  provide_create_role_usecase_def provide_delete_role_usecase_def
  provide_grant_permission_to_role_usecase_def provide_revoke_permission_from_role_usecase_def
  provide_list_permissions_usecase_def provide_create_permission_usecase_def
  provide_list_users_usecase_def provide_assign_role_to_user_usecase_def
  provide_revoke_role_from_user_usecase_def

lemmas use_case_classes = class_register_user_use_case_def class_login_use_case_def
  class_logout_use_case_def class_refresh_token_use_case_def class_authenticate_use_case_def
  class_update_user_use_case_def class_delete_user_use_case_def
  class_change_password_use_case_def class_verify_email_use_case_def
  class_forgot_password_use_case_def class_reset_password_use_case_def
  class_get_user_profile_use_case_def class_list_user_sessions_use_case_def
  class_revoke_user_session_use_case_def class_revoke_all_sessions_use_case_def
  class_ban_user_use_case_def class_unban_user_use_case_def class_list_roles_use_case_def
  class_create_role_use_case_def class_delete_role_use_case_def
  class_grant_permission_to_role_use_case_def class_revoke_permission_from_role_use_case_def
  class_list_permissions_use_case_def class_create_permission_use_case_def
  class_list_users_use_case_def class_assign_role_to_user_use_case_def
  class_revoke_role_from_user_use_case_def

section \<open>What an injector gives\<close>

named_theorems gives

lemma truthy_iff: "truthy s \<longleftrightarrow> (\<exists>x. s = Some x \<and> x \<noteq> [])"
  by (simp add: truthy_def split: option.split)

lemma backend_name_url:
  "backend_name (str_or_none url) = VStr (if truthy url then ''redis'' else ''memory'')"
  by (auto simp: backend_name_def str_or_none_def truthy_iff split: option.split)

lemma settings_distinct: "distinct (map fst (settings c))"
  unfolding settings_def by simp

lemma setting_of: "\<forall>(x, v)\<in>set (settings c). attribute x (config_object c) = Inr v"
  using settings_distinct by (auto simp: attribute_def config_object_def)

lemmas setting [wiring] =
  setting_of [unfolded settings_def, simplified ball_simps list.set prod.case simp_thms]

locale injector =
  fixes c :: config and provide :: "string \<Rightarrow> wiring_error + py_value"
  assumes injects: "injects c provide"
begin

lemma given:
  "provide ''config'' = provided_by c provide provide_config \<and>
   provide ''engine'' = provided_by c provide provide_engine \<and>
   provide ''session_factory'' = provided_by c provide provide_session_factory \<and>
   provide ''uow'' = provided_by c provide provide_uow \<and>
   provide ''password_hasher'' = provided_by c provide provide_password_hasher \<and>
   provide ''one_time_token_service'' = provided_by c provide provide_one_time_token_service \<and>
   provide ''_redis_backend'' = provided_by c provide provide_redis_backend \<and>
   provide ''redis_client'' = provided_by c provide provide_redis_client \<and>
   provide ''cache'' = provided_by c provide provide_cache \<and>
   provide ''rate_limiter'' = provided_by c provide provide_rate_limiter \<and>
   provide ''email_sender'' = provided_by c provide provide_email_sender \<and>
   provide ''token_service'' = provided_by c provide provide_token_service \<and>
   provide ''email_verification_issuer'' = provided_by c provide provide_email_verification_issuer \<and>
   provide ''register_user_usecase'' = provided_by c provide provide_register_user_usecase \<and>
   provide ''login_usecase'' = provided_by c provide provide_login_usecase \<and>
   provide ''logout_usecase'' = provided_by c provide provide_logout_usecase \<and>
   provide ''refresh_token_usecase'' = provided_by c provide provide_refresh_token_usecase \<and>
   provide ''authenticate_usecase'' = provided_by c provide provide_authenticate_usecase \<and>
   provide ''update_user_usecase'' = provided_by c provide provide_update_user_usecase \<and>
   provide ''delete_user_usecase'' = provided_by c provide provide_delete_user_usecase \<and>
   provide ''change_password_usecase'' = provided_by c provide provide_change_password_usecase \<and>
   provide ''verify_email_usecase'' = provided_by c provide provide_verify_email_usecase \<and>
   provide ''forgot_password_usecase'' = provided_by c provide provide_forgot_password_usecase \<and>
   provide ''reset_password_usecase'' = provided_by c provide provide_reset_password_usecase \<and>
   provide ''get_user_profile_usecase'' = provided_by c provide provide_get_user_profile_usecase \<and>
   provide ''list_user_sessions_usecase'' = provided_by c provide provide_list_user_sessions_usecase \<and>
   provide ''revoke_user_session_usecase'' = provided_by c provide provide_revoke_user_session_usecase \<and>
   provide ''revoke_all_sessions_usecase'' = provided_by c provide provide_revoke_all_sessions_usecase \<and>
   provide ''ban_user_usecase'' = provided_by c provide provide_ban_user_usecase \<and>
   provide ''unban_user_usecase'' = provided_by c provide provide_unban_user_usecase \<and>
   provide ''list_roles_usecase'' = provided_by c provide provide_list_roles_usecase \<and>
   provide ''create_role_usecase'' = provided_by c provide provide_create_role_usecase \<and>
   provide ''delete_role_usecase'' = provided_by c provide provide_delete_role_usecase \<and>
   provide ''grant_permission_to_role_usecase'' = provided_by c provide provide_grant_permission_to_role_usecase \<and>
   provide ''revoke_permission_from_role_usecase'' = provided_by c provide provide_revoke_permission_from_role_usecase \<and>
   provide ''list_permissions_usecase'' = provided_by c provide provide_list_permissions_usecase \<and>
   provide ''create_permission_usecase'' = provided_by c provide provide_create_permission_usecase \<and>
   provide ''list_users_usecase'' = provided_by c provide provide_list_users_usecase \<and>
   provide ''assign_role_to_user_usecase'' = provided_by c provide provide_assign_role_to_user_usecase \<and>
   provide ''revoke_role_from_user_usecase'' = provided_by c provide provide_revoke_role_from_user_usecase"
  using injects by (simp only: injects_def declarations_def list.set ball_simps prod.case simp_thms)

lemmas calls = made_by_def provided_by_def argument_value_def call_target_def

lemma gives_config [gives]: "provide ''config'' = Inr (config_object c)"
  by (simp only: given provide_config_def, simp add: calls)

lemma gives_engine [gives]:
  "provide ''engine'' =
     Inr (VLib ''create_async_engine'' [VStr (database_url c)] [(''pool_pre_ping'', VBool True)])"
  by (simp only: given provide_engine_def, simp add: calls wiring gives)

lemma gives_session_factory [gives]: "provide ''session_factory'' = Inr (session_factory_object c)"
  by (simp only: given provide_session_factory_def, simp add: calls gives session_factory_object_def)

lemma gives_uow [gives]: "provide ''uow'' = Inr (uow_object c)"
  by (simp only: given provide_uow_def, simp add: calls wiring gives uow_object_def)

lemma gives_redis [gives]:
  "provide ''_redis_backend'' = Inr (VStr (if redis_backend c then ''redis'' else ''memory''))"
  "provide ''redis_client'' = Inr (client_object c)"
  by (simp_all only: given provide_redis_backend_def provide_redis_client_def,
    simp_all add: calls wiring gives backend_name_url redis_backend_def client_object_def)

lemma gives_backends [gives]:
  "provide ''cache'' = Inr (cache_object c)"
  "provide ''rate_limiter'' = Inr (limiter_object c)"
  by (simp_all only: given provide_cache_def provide_rate_limiter_def,
    simp_all add: calls wiring gives cache_object_def limiter_object_def)

lemma gives_tokens [gives]:
  "provide ''one_time_token_service'' = Inr secrets_object"
  "provide ''token_service'' = Inr (tokens_object c)"
  by (simp_all only: given provide_one_time_token_service_def provide_token_service_def,
    simp_all add: calls wiring gives secrets_object_def tokens_object_def)

lemma gives_hasher [gives]:
  "provide ''password_hasher'' =
     (if cfg_PASSWORD_HASHER c \<in> set hashers then Inr (hasher_object c)
      else Inl (NoBranch (cfg_PASSWORD_HASHER c)))"
  by (simp only: given provide_password_hasher_def,
    simp add: calls wiring gives hashers_def hasher_object_def)

lemma gives_sender [gives]:
  "provide ''email_sender'' =
     (if cfg_EMAIL_BACKEND c \<in> set mail_backends then Inr (sender_object c)
      else Inl (NoBranch (cfg_EMAIL_BACKEND c)))"
  by (simp only: given provide_email_sender_def,
    simp add: calls wiring gives mail_backends_def sender_object_def)

lemma gives_issuer [gives]:
  "provide ''email_verification_issuer'' =
     (if cfg_EMAIL_BACKEND c \<in> set mail_backends then Inr (issuer_object c)
      else Inl (NoBranch (cfg_EMAIL_BACKEND c)))"
  by (simp only: given provide_email_verification_issuer_def,
    simp add: calls wiring gives issuer_object_def)

lemma gives_use_cases:
  "\<forall>(n, k)\<in>set use_cases.
     provide n =
       (if n \<in> set hashing \<and> cfg_PASSWORD_HASHER c \<notin> set hashers
          then Inl (NoBranch (cfg_PASSWORD_HASHER c))
        else if n \<in> set mailing \<and> cfg_EMAIL_BACKEND c \<notin> set mail_backends
          then Inl (NoBranch (cfg_EMAIL_BACKEND c))
        else Inr (expected_object c k))"
  unfolding use_cases_def list.set ball_simps prod.case simp_thms
  by (intro conjI; simp only: given use_case_providers;
      simp add: calls wiring gives new_uow_only uow_only_def hashing_def mailing_def;
      simp add: expected_object_def expected_field_def collaborators_def model_settings_def
        use_case_classes)

end

end
