(* ===== verification/Container_Checks.thy ===== *)
theory Container_Checks
  imports Container_Laws
begin

text \<open>
  Checks of the wiring: resolution ends, every provider builds what the annotations of constructors and
  routers ask for, each use case has a transaction of its own, and what a wrong \<^verbatim>\<open>PASSWORD_HASHER\<close> does.
  \<open>router_injections\<close> lists the \<^verbatim>\<open>Provide[Container.x]\<close> parameters of the routers with their annotation.
\<close>

section \<open>Resolution ends\<close>

definition depth :: "string \<Rightarrow> nat" where
  "depth n =
     (if n \<in> {''config'', ''one_time_token_service''} then 0
      else if n \<in> {''engine'', ''password_hasher'', ''_redis_backend'', ''redis_client'', ''email_sender'',
                   ''token_service''} then 1
      else if n \<in> {''session_factory'', ''cache'', ''rate_limiter'', ''email_verification_issuer''} then 2
      else if n = ''uow'' then 3 else 4)"

lemma depth_less: "depth n < 5"
  by (simp add: depth_def)

lemma declarations_ranked: "ranked declarations depth"
  unfolding ranked_def declarations_def list.set ball_simps prod.case simp_thms
  by (intro conjI; simp add: use_case_providers provide_config_def provide_engine_def
      provide_session_factory_def provide_uow_def provide_password_hasher_def
      provide_one_time_token_service_def provide_redis_backend_def provide_redis_client_def
      provide_cache_def provide_rate_limiter_def provide_email_sender_def provide_token_service_def
      provide_email_verification_issuer_def; simp add: depth_def)

lemma demand_deep_enough: "demand c declarations (5 + k) n = demand c declarations 5 n"
proof (induction k)
  case (Suc k)
  then show ?case
    using demand_stable [OF declarations_ranked, of n "5 + k" c] depth_less [of n] by simp
qed simp

lemma declared: "(n, p) \<in> set declarations \<Longrightarrow> map_of declarations n = Some p"
  by (rule map_of_is_SomeI) (simp_all add: declarations_def)

lemma demand_injects: "injects c (demand c declarations 5)"
proof -
  have "demand c declarations 5 n = provided_by c (demand c declarations 5) p"
    if "(n, p) \<in> set declarations" for n p
  proof -
    have "demand c declarations 5 n = demand c declarations (Suc 5) n"
      using demand_deep_enough [of c 1 n] by simp
    also have "\<dots> = provided_by c (demand c declarations 5) p"
      by (simp only: demand.simps declared [OF that] option.case)
    finally show ?thesis .
  qed
  then show ?thesis
    by (auto simp: injects_def)
qed

interpretation on_demand: injector c "demand c declarations 5" for c
  by unfold_locales (rule demand_injects)

section \<open>Annotations\<close>

definition conforms :: "string \<Rightarrow> py_value \<Rightarrow> bool" where
  \<comment> \<open>is a value what an annotation asks for?\<close>
  "conforms a v =
     (case v of
        VNone \<Rightarrow> a = ''str | None''
      | VBool b \<Rightarrow> a = ''bool''
      | VInt i \<Rightarrow> a = ''int''
      | VStr s \<Rightarrow> a \<in> set [''str'', ''str | None'']
      | VPolicy p \<Rightarrow> a = ''RateLimitPolicy''
      | VLib f args kws \<Rightarrow>
          (a, f) \<in> set [(''Redis'', ''redis_from_url''),
                        (''async_sessionmaker[AsyncSession]'', ''async_sessionmaker'')]
      | VObj n attrs \<Rightarrow>
          list_ex (\<lambda>k. cls_name k = n \<and> (a = n \<or> a \<in> set (map ifc_name (cls_bases k)))) classes
      | _ \<Rightarrow> False)"

definition annotation :: "python_class \<Rightarrow> string \<Rightarrow> string" where
  "annotation k p = (case map_of (cls_init k) p of None \<Rightarrow> [] | Some (a, d) \<Rightarrow> a)"

definition typed_as :: "python_class \<Rightarrow> py_value \<Rightarrow> bool" where
  \<comment> \<open>an object of the class whose attributes hold what the parameters they come from ask for\<close>
  "typed_as k v =
     (case v of
        VObj n attrs \<Rightarrow>
          n = cls_name k \<and>
          list_all (\<lambda>(f, e).
            case e of
              Expr s \<Rightarrow> True
            | Param p \<Rightarrow> (case map_of attrs f of None \<Rightarrow> False | Some x \<Rightarrow> conforms (annotation k p) x))
            (cls_fields k)
      | _ \<Rightarrow> False)"

definition router_injections :: "(string \<times> string) list" where
  "router_injections =
     [(''list_permissions_usecase'', ''IListPermissionsUseCase''),
      (''create_permission_usecase'', ''ICreatePermissionUseCase''),
      (''list_roles_usecase'', ''IListRolesUseCase''),
      (''create_role_usecase'', ''ICreateRoleUseCase''),
      (''delete_role_usecase'', ''IDeleteRoleUseCase''),
      (''grant_permission_to_role_usecase'', ''IGrantPermissionToRoleUseCase''),
      (''revoke_permission_from_role_usecase'', ''IRevokePermissionFromRoleUseCase''),
      (''list_users_usecase'', ''IListUsersUseCase''),
      (''assign_role_to_user_usecase'', ''IAssignRoleToUserUseCase''),
      (''revoke_role_from_user_usecase'', ''IRevokeRoleFromUserUseCase''),
      (''register_user_usecase'', ''IRegisterUserUseCase''),
      (''login_usecase'', ''ILoginUseCase''),
      (''refresh_token_usecase'', ''IRefreshTokenUseCase''),
      (''logout_usecase'', ''ILogoutUseCase''),
      (''verify_email_usecase'', ''IVerifyEmailUseCase''),
      (''forgot_password_usecase'', ''IForgotPasswordUseCase''),
      (''reset_password_usecase'', ''IResetPasswordUseCase''),
      (''ban_user_usecase'', ''IBanUserUseCase''),
      (''unban_user_usecase'', ''IUnbanUserUseCase''),
      (''update_user_usecase'', ''IUpdateUserUseCase''),
      (''change_password_usecase'', ''IChangePasswordUseCase''),
      (''delete_user_usecase'', ''IDeleteUserUseCase''),
      (''list_user_sessions_usecase'', ''IListUserSessionsUseCase''),
      (''revoke_all_sessions_usecase'', ''IRevokeAllSessionsUseCase''),
      (''revoke_user_session_usecase'', ''IRevokeUserSessionUseCase''),
      (''get_user_profile_usecase'', ''IGetUserProfileUseCase'')]"

lemma conforms_object:
  "k \<in> set classes \<Longrightarrow> a = cls_name k \<or> a \<in> set (map ifc_name (cls_bases k)) \<Longrightarrow> conforms a (VObj (cls_name k) attrs)"
  by (auto simp: conforms_def list_ex_iff)

definition adapters :: "python_class list" where
  "adapters =
     [class_sql_alchemy_unit_of_work, class_argon2_password_hasher, class_pbkdf2_password_hasher,
      class_sha256_one_time_token_service, class_redis_cache, class_null_cache, class_redis_rate_limiter,
      class_in_memory_rate_limiter, class_console_email_sender, class_smtp_email_sender,
      class_jwt_token_service, class_email_verification_issuer]"

lemma adapter_classes: "set adapters \<subseteq> set classes"
  by (simp add: adapters_def classes_def)

lemmas adapter_defs = class_sql_alchemy_unit_of_work_def class_argon2_password_hasher_def
  class_pbkdf2_password_hasher_def class_sha256_one_time_token_service_def class_redis_cache_def
  class_null_cache_def class_redis_rate_limiter_def class_in_memory_rate_limiter_def
  class_console_email_sender_def class_smtp_email_sender_def class_jwt_token_service_def
  class_email_verification_issuer_def

lemmas port_defs = i_unit_of_work_def i_password_hasher_def i_one_time_token_service_def i_cache_def
  i_rate_limiter_def i_email_sender_def i_token_service_def

lemma conforms_adapter:
  "k \<in> set adapters \<Longrightarrow> cls_name k = n \<Longrightarrow> a \<in> set (n # map ifc_name (cls_bases k)) \<Longrightarrow>
     conforms a (VObj n xs)"
  using adapter_classes conforms_object by auto

lemma adapters_conform [simp]:
  "conforms ''IUnitOfWork'' (VObj ''SqlAlchemyUnitOfWork'' xs)"
  "conforms ''IPasswordHasher'' (VObj ''Argon2PasswordHasher'' xs)"
  "conforms ''IPasswordHasher'' (VObj ''PBKDF2PasswordHasher'' xs)"
  "conforms ''IOneTimeTokenService'' (VObj ''Sha256OneTimeTokenService'' xs)"
  "conforms ''ICache'' (VObj ''RedisCache'' xs)"
  "conforms ''ICache'' (VObj ''NullCache'' xs)"
  "conforms ''IRateLimiter'' (VObj ''RedisRateLimiter'' xs)"
  "conforms ''IRateLimiter'' (VObj ''InMemoryRateLimiter'' xs)"
  "conforms ''IEmailSender'' (VObj ''ConsoleEmailSender'' xs)"
  "conforms ''IEmailSender'' (VObj ''SmtpEmailSender'' xs)"
  "conforms ''ITokenService'' (VObj ''JwtTokenService'' xs)"
  "conforms ''EmailVerificationIssuer'' (VObj ''EmailVerificationIssuer'' xs)"
  by (rule conforms_adapter [of class_sql_alchemy_unit_of_work],
      simp add: adapters_def, simp add: adapter_defs, simp add: adapter_defs port_defs,
    rule conforms_adapter [of class_argon2_password_hasher],
      simp add: adapters_def, simp add: adapter_defs, simp add: adapter_defs port_defs,
    rule conforms_adapter [of class_pbkdf2_password_hasher],
      simp add: adapters_def, simp add: adapter_defs, simp add: adapter_defs port_defs,
    rule conforms_adapter [of class_sha256_one_time_token_service],
      simp add: adapters_def, simp add: adapter_defs, simp add: adapter_defs port_defs,
    rule conforms_adapter [of class_redis_cache],
      simp add: adapters_def, simp add: adapter_defs, simp add: adapter_defs port_defs,
    rule conforms_adapter [of class_null_cache],
      simp add: adapters_def, simp add: adapter_defs, simp add: adapter_defs port_defs,
    rule conforms_adapter [of class_redis_rate_limiter],
      simp add: adapters_def, simp add: adapter_defs, simp add: adapter_defs port_defs,
    rule conforms_adapter [of class_in_memory_rate_limiter],
      simp add: adapters_def, simp add: adapter_defs, simp add: adapter_defs port_defs,
    rule conforms_adapter [of class_console_email_sender],
      simp add: adapters_def, simp add: adapter_defs, simp add: adapter_defs port_defs,
    rule conforms_adapter [of class_smtp_email_sender],
      simp add: adapters_def, simp add: adapter_defs, simp add: adapter_defs port_defs,
    rule conforms_adapter [of class_jwt_token_service],
      simp add: adapters_def, simp add: adapter_defs, simp add: adapter_defs port_defs,
    rule conforms_adapter [of class_email_verification_issuer],
      simp add: adapters_def, simp add: adapter_defs, simp add: adapter_defs port_defs)

lemma collaborators_conform [simp]:
  "conforms ''IUnitOfWork'' (uow_object c)" "conforms ''IPasswordHasher'' (hasher_object c)"
  "conforms ''IOneTimeTokenService'' secrets_object" "conforms ''ICache'' (cache_object c)"
  "conforms ''IRateLimiter'' (limiter_object c)" "conforms ''IEmailSender'' (sender_object c)"
  "conforms ''ITokenService'' (tokens_object c)" "conforms ''EmailVerificationIssuer'' (issuer_object c)"
  by (simp_all add: uow_object_def hasher_object_def secrets_object_def cache_object_def limiter_object_def
      sender_object_def tokens_object_def issuer_object_def)

lemma basic_conform [simp]:
  "conforms ''str'' (VStr s)" "conforms ''int'' (VInt i)" "conforms ''bool'' (VBool b)"
  "conforms ''RateLimitPolicy'' (VPolicy p)" "conforms ''str | None'' (str_or_none x)"
  "conforms ''Redis'' (client_object c)"
  "conforms ''async_sessionmaker[AsyncSession]'' (session_factory_object c)"
  by (simp_all add: conforms_def str_or_none_def client_object_def session_factory_object_def
      split: option.split)

lemma use_cases_typed: "\<forall>(n, k)\<in>set use_cases. typed_as k (expected_object c k)"
  unfolding use_cases_def list.set ball_simps prod.case simp_thms
  by (intro conjI; simp add: typed_as_def expected_object_def annotation_def use_case_classes;
      simp add: expected_field_def collaborators_def model_settings_def)

lemma adapters_typed:
  "typed_as class_sql_alchemy_unit_of_work (uow_object c)"
  "typed_as class_sha256_one_time_token_service secrets_object"
  "typed_as class_jwt_token_service (tokens_object c)"
  "typed_as class_email_verification_issuer (issuer_object c)"
  "list_ex (\<lambda>k. typed_as k (hasher_object c)) [class_argon2_password_hasher, class_pbkdf2_password_hasher]"
  "list_ex (\<lambda>k. typed_as k (cache_object c)) [class_redis_cache, class_null_cache]"
  "list_ex (\<lambda>k. typed_as k (limiter_object c)) [class_redis_rate_limiter, class_in_memory_rate_limiter]"
  "list_ex (\<lambda>k. typed_as k (sender_object c)) [class_console_email_sender, class_smtp_email_sender]"
  by (simp_all add: typed_as_def annotation_def adapter_defs uow_object_def hasher_object_def
      secrets_object_def cache_object_def limiter_object_def sender_object_def tokens_object_def
      issuer_object_def)

section \<open>Transactions\<close>

lemma size_attr: "(f, v) \<in> set attrs \<Longrightarrow> size v < Suc (size_list (size_prod (\<lambda>_. 0) size) attrs)"
  by (induction attrs) auto

function transactions :: "py_value \<Rightarrow> nat" where
  \<comment> \<open>how many units of work a value holds\<close>
  "transactions (VObj n attrs) =
     (if n = ''SqlAlchemyUnitOfWork'' then 1 else 0) + sum_list (map (\<lambda>(f, v). transactions v) attrs)"
| "transactions (VLib f args kws) =
     sum_list (map transactions args) + sum_list (map (\<lambda>(f, v). transactions v) kws)"
| "transactions (VList vs) = sum_list (map transactions vs)"
| "transactions VNone = 0"
| "transactions (VBool b) = 0"
| "transactions (VInt i) = 0"
| "transactions (VStr s) = 0"
| "transactions (VPolicy p) = 0"
| "transactions (VExpr e) = 0"
  by pat_completeness auto

termination
proof (relation "measure size", goal_cases)
  case (2 n attrs x f v)
  then show ?case
    using size_attr [of f v attrs] by simp
qed (auto dest: size_attr simp: less_Suc_eq_le intro: trans_le_add1 size_list_estimation')

fun long_lived :: "provider \<Rightarrow> bool" where
  "long_lived (One (Recipe kind t args kws)) \<longleftrightarrow> kind = Singleton"
| "long_lived (Selector key branches) \<longleftrightarrow>
     list_all (\<lambda>(s, r). case r of Recipe kind t args kws \<Rightarrow> kind = Singleton) branches"

lemma transactions_objects [simp]:
  "transactions (uow_object c) = 1" "transactions (hasher_object c) = 0" "transactions secrets_object = 0"
  "transactions (client_object c) = 0" "transactions (cache_object c) = 0"
  "transactions (limiter_object c) = 0" "transactions (sender_object c) = 0"
  "transactions (tokens_object c) = 0" "transactions (issuer_object c) = 0"
  "transactions (session_factory_object c) = 0"
  by (simp_all add: object_defs str_or_none_def split: option.split)

lemma transactions_config [simp]: "transactions (config_object c) = 0"
  by (simp add: config_object_def settings_def str_or_none_def comp_def split: option.split)

lemma transactions_use_cases: "\<forall>(n, k)\<in>set use_cases. transactions (expected_object c k) = 1"
  unfolding use_cases_def list.set ball_simps prod.case simp_thms
  by (intro conjI; simp add: expected_object_def use_case_classes;
      simp add: expected_field_def collaborators_def model_settings_def)

text \<open>Every declared name is one of the infrastructure or a use case.\<close>

definition infrastructure :: "string list" where
  "infrastructure =
     [''config'', ''engine'', ''session_factory'', ''uow'', ''password_hasher'', ''one_time_token_service'',
      ''_redis_backend'', ''redis_client'', ''cache'', ''rate_limiter'', ''email_sender'', ''token_service'',
      ''email_verification_issuer'']"

lemma declared_names: "map fst declarations = infrastructure @ map fst use_cases"
  by (simp add: declarations_def infrastructure_def use_cases_def)

lemma declared_cases:
  assumes "(n, p) \<in> set declarations"
  obtains "n \<in> set infrastructure" | k where "(n, k) \<in> set use_cases"
proof -
  have "n \<in> set (map fst declarations)"
    using assms by force
  then show thesis
    unfolding declared_names using that by auto
qed

lemma long_lived_names:
  "\<forall>(n, p)\<in>set declarations.
     long_lived p \<longrightarrow>
       n \<in> {''config'', ''engine'', ''session_factory'', ''password_hasher'', ''one_time_token_service'',
             ''redis_client'', ''cache'', ''rate_limiter'', ''email_sender'', ''token_service''}"
  unfolding declarations_def list.set ball_simps prod.case simp_thms
  by (intro conjI; simp add: use_case_providers provide_config_def provide_engine_def
      provide_session_factory_def provide_uow_def provide_password_hasher_def
      provide_one_time_token_service_def provide_redis_backend_def provide_redis_client_def
      provide_cache_def provide_rate_limiter_def provide_email_sender_def provide_token_service_def
      provide_email_verification_issuer_def)

context injector
begin

lemma gives_use_case:
  "(n, k) \<in> set use_cases \<Longrightarrow>
     provide n =
       (if n \<in> set hashing \<and> cfg_PASSWORD_HASHER c \<notin> set hashers
          then Inl (NoBranch (cfg_PASSWORD_HASHER c))
        else if n \<in> set mailing \<and> cfg_EMAIL_BACKEND c \<notin> set mail_backends
          then Inl (NoBranch (cfg_EMAIL_BACKEND c))
        else Inr (expected_object c k))"
  using gives_use_cases by blast

lemma infrastructure_transactions:
  "\<forall>n\<in>set infrastructure. provide n = Inr v \<longrightarrow> transactions v = (if n = ''uow'' then 1 else 0)"
  unfolding infrastructure_def list.set ball_simps simp_thms
  by (intro conjI; simp add: gives; force)

lemma infrastructure_built:
  "\<forall>n\<in>set infrastructure.
     (\<exists>v. provide n = Inr v) \<longleftrightarrow>
       (n = ''password_hasher'' \<longrightarrow> cfg_PASSWORD_HASHER c \<in> set hashers) \<and>
       (n = ''email_sender'' \<or> n = ''email_verification_issuer'' \<longrightarrow>
          cfg_EMAIL_BACKEND c \<in> set mail_backends)"
  unfolding infrastructure_def list.set ball_simps simp_thms
  by (intro conjI; simp add: gives)

end

section \<open>The properties\<close>

lemma known_backends_default:
  "cfg_PASSWORD_HASHER default_config \<in> set hashers" "cfg_EMAIL_BACKEND default_config \<in> set mail_backends"
  by (simp_all add: default_config_def hashers_def mail_backends_def)

lemmas use_case_ports = i_assign_role_to_user_use_case_def i_create_permission_use_case_def
  i_create_role_use_case_def i_delete_role_use_case_def i_grant_permission_to_role_use_case_def
  i_list_permissions_use_case_def i_list_roles_use_case_def i_list_users_use_case_def
  i_revoke_permission_from_role_use_case_def i_revoke_role_from_user_use_case_def
  i_authenticate_use_case_def i_change_password_use_case_def i_delete_user_use_case_def
  i_forgot_password_use_case_def i_login_use_case_def i_logout_use_case_def
  i_refresh_token_use_case_def i_register_user_use_case_def i_reset_password_use_case_def
  i_update_user_use_case_def i_verify_email_use_case_def i_ban_user_use_case_def
  i_unban_user_use_case_def i_get_user_profile_use_case_def i_list_user_sessions_use_case_def
  i_revoke_all_sessions_use_case_def i_revoke_user_session_use_case_def

lemma use_cases_are_classes: "\<forall>(n, k)\<in>set use_cases. k \<in> set classes"
  unfolding use_cases_def list.set ball_simps prod.case simp_thms
  by (intro conjI; simp add: classes_def)

lemma router_ports:
  "\<forall>(n, port)\<in>set router_injections.
     (case map_of use_cases n of None \<Rightarrow> False | Some k \<Rightarrow> port \<in> set (map ifc_name (cls_bases k)))"
  unfolding router_injections_def list.set ball_simps prod.case simp_thms
  by (intro conjI; simp add: use_cases_def; simp add: use_case_classes; simp add: use_case_ports)

lemma routers_ask_for_use_cases:
  assumes "(n, port) \<in> set router_injections"
  obtains k where "(n, k) \<in> set use_cases" "k \<in> set classes" "port \<in> set (map ifc_name (cls_bases k))"
  using bspec [OF router_ports assms] use_cases_are_classes
  by (auto split: option.splits dest!: map_of_SomeD)


text \<open>
  C35: The program runs with the parts the model assumes. When both back ends are named correctly, every
  provider builds; every use case is the object of its class whose attributes hold the collaborators and
  settings the model uses (the hasher, cache, limiter, sender and policies the configuration selects),
  each of the kind its constructor's annotation asks for; and each router parameter receives an object
  that implements the interface it is annotated with.
\<close>
theorem container_builds_the_model:
  assumes "injects c provide" and "cfg_PASSWORD_HASHER c \<in> set hashers"
    and "cfg_EMAIL_BACKEND c \<in> set mail_backends"
  shows "(\<forall>(n, p)\<in>set declarations. \<exists>v. provide n = Inr v) \<and>
         (\<forall>(n, k)\<in>set use_cases. provide n = Inr (expected_object c k) \<and> typed_as k (expected_object c k)) \<and>
         (\<forall>(n, port)\<in>set router_injections. \<exists>v. provide n = Inr v \<and> conforms port v)"
proof -
  have K: "injector c provide"
    by (rule injector.intro [OF assms(1)])
  have use: "provide n = Inr (expected_object c k)" if "(n, k) \<in> set use_cases" for n k
    using injector.gives_use_case [OF K that] assms(2,3) by simp
  have "\<exists>v. provide n = Inr v" if "(n, p) \<in> set declarations" for n p
    using that injector.infrastructure_built [OF K] assms(2,3) use by (elim declared_cases) auto
  moreover have "conforms port (expected_object c k)"
    if "k \<in> set classes" "port \<in> set (map ifc_name (cls_bases k))" for port k
    using conforms_object [of k port] that by (simp add: expected_object_def)
  ultimately show ?thesis
    using use use_cases_typed [of c] by (auto elim!: routers_ask_for_use_cases)
qed

theorem container_builds_the_model_witness:
  "demand default_config declarations 5 ''login_usecase'' =
     Inr (expected_object default_config class_login_use_case)"
  using container_builds_the_model [OF demand_injects known_backends_default]
  by (simp add: use_cases_def)

text \<open>
  No transaction is shared. Each use case that is handed out holds exactly one unit of work, made for
  it, and nothing that lives as long as the process holds any.
\<close>
theorem one_transaction_per_use_case:
  assumes "injects c provide" and "(n, p) \<in> set declarations" and "provide n = Inr v"
  shows "(n \<in> set (map fst use_cases) \<longrightarrow> transactions v = 1 \<and> \<not> long_lived p) \<and>
         (long_lived p \<longrightarrow> transactions v = 0)"
proof -
  have K: "injector c provide"
    by (rule injector.intro [OF assms(1)])
  have short: "n \<notin> set (map fst use_cases) \<and> n \<noteq> ''uow'' \<and> n \<in> set infrastructure" if "long_lived p"
    using bspec [OF long_lived_names assms(2)] that by (auto simp: use_cases_def infrastructure_def)
  have "transactions v = 1" if "(n, k) \<in> set use_cases" for k
    using injector.gives_use_case [OF K that] assms(3) bspec [OF transactions_use_cases that]
    by (auto split: if_splits)
  then show ?thesis
    using short injector.infrastructure_transactions [OF K, of v] assms(3) by auto
qed

theorem one_transaction_per_use_case_witness:
  "transactions (expected_object default_config class_login_use_case) = 1"
proof -
  have declared: "(''login_usecase'', provide_login_usecase) \<in> set declarations"
    by (simp add: declarations_def)
  have given: "demand default_config declarations 5 ''login_usecase'' =
      Inr (expected_object default_config class_login_use_case)"
    using on_demand.gives_use_case [of "''login_usecase''" class_login_use_case] known_backends_default
    by (simp add: use_cases_def mailing_def)
  show ?thesis
    using one_transaction_per_use_case [OF demand_injects declared given] by (simp add: use_cases_def)
qed

text \<open>
  C37: A mistyped \<^verbatim>\<open>PASSWORD_HASHER\<close> goes unnoticed until it is used. The check at start-up accepts the
  settings as it would accept the correct ones and the engine is built; exactly the hasher and the four
  use cases that hash passwords (registration, login, change and reset of a password) cannot be built.
\<close>
theorem unknown_hasher_surfaces_late:
  assumes "check_production_safety c = Inr c" and "h \<notin> set hashers"
    and "cfg_EMAIL_BACKEND c \<in> set mail_backends"
    and "c' = c\<lparr>cfg_PASSWORD_HASHER := h\<rparr>" and "injects c' provide"
  shows "check_production_safety c' = Inr c' \<and>
         (\<forall>(n, p)\<in>set declarations.
            if n = ''password_hasher'' \<or> n \<in> set hashing then provide n = Inl (NoBranch h)
            else \<exists>v. provide n = Inr v)"
proof
  show "check_production_safety c' = Inr c'"
    using assms(1,4)
    by (simp add: check_production_safety_def is_production_def production_problems_def Let_def
        split: if_splits)
  have K: "injector c' provide"
    by (rule injector.intro [OF assms(5)])
  have h: "cfg_PASSWORD_HASHER c' = h" and m: "cfg_EMAIL_BACKEND c' \<in> set mail_backends"
    using assms(3,4) by simp_all
  have hasher: "provide ''password_hasher'' = Inl (NoBranch h)"
    using injector.gives_hasher [OF K] h assms(2) by simp
  have apart: "\<forall>n\<in>set infrastructure. n \<notin> set hashing" "''password_hasher'' \<notin> set (map fst use_cases)"
    by (simp_all add: infrastructure_def hashing_def use_cases_def)
  show "\<forall>(n, p)\<in>set declarations.
          if n = ''password_hasher'' \<or> n \<in> set hashing then provide n = Inl (NoBranch h)
          else \<exists>v. provide n = Inr v"
  proof (clarify, elim declared_cases)
    fix n assume "n \<in> set infrastructure"
    then show "if n = ''password_hasher'' \<or> n \<in> set hashing then provide n = Inl (NoBranch h)
        else \<exists>v. provide n = Inr v"
      using injector.infrastructure_built [OF K] m apart(1) hasher by auto
  next
    fix n k assume "(n, k) \<in> set use_cases"
    then show "if n = ''password_hasher'' \<or> n \<in> set hashing then provide n = Inl (NoBranch h)
        else \<exists>v. provide n = Inr v"
      using injector.gives_use_case [OF K] h m apart(2) assms(2) by force
  qed
qed

definition mistyped_config :: config where
  "mistyped_config = default_config\<lparr>cfg_PASSWORD_HASHER := ''argon''\<rparr>"

theorem unknown_hasher_surfaces_late_witness:
  "check_production_safety mistyped_config = Inr mistyped_config \<and>
   demand mistyped_config declarations 5 ''login_usecase'' = Inl (NoBranch ''argon'')"
proof -
  have safe: "check_production_safety default_config = Inr default_config"
    by code_simp
  have unknown: "''argon'' \<notin> set hashers"
    by (simp add: hashers_def)
  have "(''login_usecase'', provide_login_usecase) \<in> set declarations"
    by (simp add: declarations_def)
  from bspec [OF conjunct2 [OF unknown_hasher_surfaces_late [OF safe unknown known_backends_default(2)
          mistyped_config_def demand_injects]] this]
    unknown_hasher_surfaces_late [OF safe unknown known_backends_default(2) mistyped_config_def demand_injects]
  show ?thesis
    by (simp add: hashing_def)
qed

end
