(* ===== verification/Bootstrap.thy ===== *)
theory Bootstrap
  imports Routers Gateway
begin

text \<open>
  The two applications as \<^verbatim>\<open>users_service/bootstrap.py\<close> and \<^verbatim>\<open>gateway/bootstrap.py\<close> assemble them:
  title, middlewares, routers in the order they are added, and the options handed to uvicorn. What
  Starlette makes of the list is documented: the middleware added last is the outermost, server errors
  are outside all of them and the exception handlers inside, and the first route that matches answers.
  The CORS middleware itself is a parameter.
\<close>

section \<open>Assembly of users-service\<close>

record cors_options =
  allow_origins :: "string list"
  allow_credentials :: bool
  allow_methods :: "string list"
  allow_headers :: "string list"
  expose_headers :: "string list"

datatype middleware = Csrf | Visitor | Cors cors_options

datatype router = HealthRouter | ApiRouter

record application =
  app_title :: string
  app_version :: string
  app_middlewares :: "middleware list"
  app_routers :: "(string \<times> router) list"

definition add_middleware :: "middleware \<Rightarrow> application \<Rightarrow> application" where
  "add_middleware m app = app\<lparr>app_middlewares := m # app_middlewares app\<rparr>"

definition include_router :: "string \<Rightarrow> router \<Rightarrow> application \<Rightarrow> application" where
  "include_router prefix r app = app\<lparr>app_routers := app_routers app @ [(prefix, r)]\<rparr>"

definition users_cors :: "config \<Rightarrow> cors_options" where
  "users_cors c =
     \<lparr> allow_origins = cfg_CORS_ORIGINS c, allow_credentials = True, allow_methods = [''*''],
       allow_headers = [''*''], expose_headers = [''Retry-After''] \<rparr>"

definition setup_middleware :: "config \<Rightarrow> application \<Rightarrow> application" where
  "setup_middleware c app =
     (let app = add_middleware Visitor (add_middleware Csrf app) in
      if cfg_CORS_ORIGINS c \<noteq> [] then add_middleware (Cors (users_cors c)) app else app)"

definition setup_routes :: "config \<Rightarrow> application \<Rightarrow> application" where
  "setup_routes c app = include_router (cfg_API_PREFIX c) ApiRouter (include_router [] HealthRouter app)"

definition bootstrap :: "config \<Rightarrow> application" where
  "bootstrap c =
     setup_routes c (setup_middleware c
       \<lparr> app_title = cfg_API_TITLE c, app_version = cfg_API_VERSION c, app_middlewares = [],
         app_routers = [] \<rparr>)"

record server_options =
  srv_host :: string
  srv_port :: int
  srv_reload :: bool

definition run_options :: "config \<Rightarrow> server_options" where
  "run_options c = \<lparr> srv_host = cfg_API_HOST c, srv_port = cfg_API_PORT c, srv_reload = \<not> is_production c \<rparr>"

section \<open>Answering with the assembled application\<close>

type_synonym 'r cors_middleware = "cors_options \<Rightarrow> request \<Rightarrow> ('r, response) app \<Rightarrow> ('r, response) app"

text \<open>The visitor id travels in the state of the request, which a middleware hands on as it got it.\<close>

definition through ::
  "'r cors_middleware \<Rightarrow> 'r env \<Rightarrow> config \<Rightarrow> request \<Rightarrow> string \<Rightarrow> middleware \<Rightarrow>
     (string \<Rightarrow> ('r, response) app) \<Rightarrow> string \<Rightarrow> ('r, response) app" where
  "through cors env c rq method m call_next vid =
     (case m of
        Csrf \<Rightarrow> csrf_middleware c method rq (call_next vid)
      | Visitor \<Rightarrow> visitor_middleware env c rq call_next
      | Cors options \<Rightarrow> cors options rq (call_next vid))"

definition answer ::
  "'r cors_middleware \<Rightarrow> email_str \<Rightarrow> 'r env \<Rightarrow> config \<Rightarrow> application \<Rightarrow> request \<Rightarrow> endpoint \<Rightarrow> ('r, response) app" where
  "answer cors es env c app rq e =
     server_errors
       (foldr (through cors env c rq (endpoint_method e)) (app_middlewares app)
         (\<lambda>vid. exc_handlers (handle es env c rq e vid)) [])"

definition router_of :: "endpoint \<Rightarrow> router" where
  "router_of e = (if is_probe e then HealthRouter else ApiRouter)"

lemma bootstrap_middlewares:
  "app_middlewares (bootstrap c) =
     (if cfg_CORS_ORIGINS c \<noteq> [] then [Cors (users_cors c)] else []) @ [Visitor, Csrf]"
  by (simp add: bootstrap_def setup_routes_def setup_middleware_def include_router_def add_middleware_def Let_def)

text \<open>
  The application that is assembled answers as \<open>serve\<close> does; CORS only wraps around it, inside the handler
  of server errors.
\<close>

lemma bootstrap_serves:
  "answer cors es env c (bootstrap c) rq e =
     (if cfg_CORS_ORIGINS c = [] then serve es env c rq e
      else server_errors
        (cors (users_cors c) rq
          (visitor_middleware env c rq (\<lambda>vid.
           csrf_middleware c (endpoint_method e) rq (exc_handlers (handle es env c rq e vid))))))"
proof -
  have "through cors env c rq (endpoint_method e) Csrf h =
      (\<lambda>vid. csrf_middleware c (endpoint_method e) rq (h vid))" for h
    by (rule ext) (simp add: through_def)
  then show ?thesis
    by (simp add: answer_def bootstrap_middlewares serve_def through_def)
qed

lemma bootstrap_paths:
  "\<exists>prefix. (prefix, router_of e) \<in> set (app_routers (bootstrap c)) \<and>
     endpoint_path c e = prefix @ endpoint_route e"
  by (auto simp: bootstrap_def setup_routes_def setup_middleware_def include_router_def add_middleware_def
      Let_def router_of_def endpoint_path_def)

text \<open>
  Origins are taken from the settings as they are. A wildcard passes the production check, although
  credentials are allowed for whatever is listed.
\<close>

lemma wildcard_origin_accepted:
  assumes "check_production_safety c = Inr c"
  shows "check_production_safety (c\<lparr>cfg_CORS_ORIGINS := [''*'']\<rparr>) = Inr (c\<lparr>cfg_CORS_ORIGINS := [''*'']\<rparr>) \<and>
    (\<exists>options. Cors options \<in> set (app_middlewares (bootstrap (c\<lparr>cfg_CORS_ORIGINS := [''*'']\<rparr>))) \<and>
       ''*'' \<in> set (allow_origins options) \<and> allow_credentials options)"
  using assms
  by (auto simp: check_production_safety_def is_production_def production_problems_def Let_def
      bootstrap_middlewares users_cors_def split: if_splits)

lemma production_never_reloads: "is_production c \<Longrightarrow> \<not> srv_reload (run_options c)"
  by (simp add: run_options_def)

section \<open>Assembly of the gateway\<close>

datatype gateway_handler = Health | Readiness | Proxy

text \<open>\<^verbatim>\<open>httpx.Timeout(t, connect=...)\<close>: \<open>t\<close> bounds every phase but connecting.\<close>

record client_options =
  cl_connect :: rat
  cl_read :: rat
  cl_write :: rat
  cl_pool :: rat
  cl_follow_redirects :: bool

definition build_client :: "gateway_config \<Rightarrow> client_options" where
  "build_client c =
     \<lparr> cl_connect = gw_CONNECT_TIMEOUT_SECONDS c, cl_read = gw_REQUEST_TIMEOUT_SECONDS c,
       cl_write = gw_REQUEST_TIMEOUT_SECONDS c, cl_pool = gw_REQUEST_TIMEOUT_SECONDS c,
       cl_follow_redirects = False \<rparr>"

record gateway_application =
  gwa_title :: string
  gwa_version :: string
  gwa_client :: client_options
  gwa_resolver_url :: string
  gwa_cors :: "cors_options option"
  gwa_table :: "route list"
  gwa_handlers :: "(string \<times> gateway_handler) list"

definition gateway_cors :: "gateway_config \<Rightarrow> cors_options" where
  "gateway_cors c =
     \<lparr> allow_origins = gw_CORS_ORIGINS c, allow_credentials = True, allow_methods = [''*''],
       allow_headers = [''*''], expose_headers = [''Retry-After'', ''X-Request-Id''] \<rparr>"

definition gateway_bootstrap :: "gateway_config \<Rightarrow> gateway_application" where
  "gateway_bootstrap c =
     \<lparr> gwa_title = gw_TITLE c, gwa_version = gw_VERSION c, gwa_client = build_client c,
       gwa_resolver_url = resolver_url (gw_USERS_SERVICE_URL c) (gw_API_PREFIX c),
       gwa_cors = (if gw_CORS_ORIGINS c \<noteq> [] then Some (gateway_cors c) else None),
       gwa_table = build_routes c,
       gwa_handlers =
         [(''/health'', Health), (''/health/ready'', Readiness), (gw_API_PREFIX c, Proxy)] \<rparr>"

definition gateway_run_options :: "gateway_config \<Rightarrow> server_options" where
  "gateway_run_options c = \<lparr> srv_host = gw_HOST c, srv_port = gw_PORT c, srv_reload = False \<rparr>"

text \<open>The probes match their path only; the catch-all matches \<^verbatim>\<open>prefix/{path:path}\<close>.\<close>

definition handler_matches :: "string \<Rightarrow> string \<times> gateway_handler \<Rightarrow> bool" where
  "handler_matches path h =
     (case snd h of
        Proxy \<Rightarrow> take (length (fst h) + 1) path = fst h @ ''/''
      | _ \<Rightarrow> path = fst h)"

definition gateway_dispatch :: "gateway_config \<Rightarrow> string \<Rightarrow> gateway_handler option" where
  "gateway_dispatch c path =
     map_option snd (find (handler_matches path) (gwa_handlers (gateway_bootstrap c)))"

text \<open>The probes are never swallowed by the catch-all, whatever its prefix, the empty one included.\<close>

lemma probes_win:
  "gateway_dispatch c ''/health'' = Some Health" "gateway_dispatch c ''/health/ready'' = Some Readiness"
  by (simp_all add: gateway_dispatch_def gateway_bootstrap_def handler_matches_def)

lemma dispatch_proxy:
  "gateway_dispatch c path = Some Proxy \<longleftrightarrow>
     path \<notin> {''/health'', ''/health/ready''} \<and> (\<exists>rest. path = gw_API_PREFIX c @ ''/'' @ rest)"
proof -
  have "take (length p + 1) path = p @ ''/'' \<longleftrightarrow> (\<exists>rest. path = p @ ''/'' @ rest)" for p
    by (metis append.assoc append_eq_conv_conj append_take_drop_id length_append_singleton Suc_eq_plus1)
  then show ?thesis
    by (auto simp: gateway_dispatch_def gateway_bootstrap_def handler_matches_def)
qed

end
