(* ===== verification/Gateway_App.thy ===== *)
theory Gateway_App
  imports Bootstrap
begin

text \<open>
  The gateway as one application: which handler a method and a path reach, what each request is answered,
  and the life of the connection pool. Starlette tries the routes in order; a route whose path matches
  but whose methods do not is only remembered, and answered 405 if no later route takes the request.
\<close>

section \<open>Routing\<close>

definition PROXY_METHODS :: "string list" where
  "PROXY_METHODS = [''GET'', ''POST'', ''PUT'', ''PATCH'', ''DELETE'', ''HEAD'', ''OPTIONS'']"

definition handler_methods :: "gateway_handler \<Rightarrow> string list" where
  "handler_methods h = (case h of Proxy \<Rightarrow> PROXY_METHODS | _ \<Rightarrow> [''GET''])"

datatype routing = Handled gateway_handler | MethodNotAllowed | NoRoute

fun route_request :: "string \<Rightarrow> string \<Rightarrow> (string \<times> gateway_handler) list \<Rightarrow> routing" where
  "route_request meth path [] = NoRoute"
| "route_request meth path (h # hs) =
     (if \<not> handler_matches path h then route_request meth path hs
      else if meth \<in> set (handler_methods (snd h)) then Handled (snd h)
      else
        (case route_request meth path hs of
           Handled k \<Rightarrow> Handled k
         | _ \<Rightarrow> MethodNotAllowed))"

text \<open>The catch-all gets what follows the prefix and its slash as \<^verbatim>\<open>path\<close>.\<close>

definition gateway_app ::
  "'w http_client \<Rightarrow> gateway_config \<Rightarrow> string \<Rightarrow> gateway_request \<Rightarrow> string \<Rightarrow> 'w \<Rightarrow> gateway_answer \<times> 'w" where
  "gateway_app client c path rq fresh w =
     (case route_request (gq_method rq) path (gwa_handlers (gateway_bootstrap c)) of
        Handled Health \<Rightarrow> (gateway_health, w)
      | Handled Readiness \<Rightarrow> gateway_readiness client c w
      | Handled Proxy \<Rightarrow>
          gateway_serve client c (rq\<lparr>gq_path := drop (length (gw_API_PREFIX c) + 1) path\<rparr>) fresh w
      | MethodNotAllowed \<Rightarrow> (detail 405 ''Method Not Allowed'', w)
      | NoRoute \<Rightarrow> (detail 404 ''Not Found'', w))"

section \<open>The connection pool\<close>

text \<open>
  \<^verbatim>\<open>lifespan\<close> runs the application between start-up and shutdown and closes the pool afterwards, unless
  serving itself ended with an exception, which leaves the generator at its \<^verbatim>\<open>yield\<close>.
\<close>

record pool =
  pool_options :: client_options
  pool_closed :: bool

definition gateway_lifespan :: "(pool, exn, 'a) prog \<Rightarrow> (pool, exn, unit) prog" where
  "gateway_lifespan serving = bindM serving (\<lambda>_. modifyM (\<lambda>p. p\<lparr>pool_closed := True\<rparr>))"

lemma lifespan_closes:
  assumes "serving p = (Inr x, p')"
  shows "gateway_lifespan serving p = (Inr (), p'\<lparr>pool_closed := True\<rparr>)"
  using assms by (simp add: gateway_lifespan_def bindM_def modifyM_def)

section \<open>What the application answers\<close>

lemma route_request_get: "route_request ''GET'' path hs =
    (case find (handler_matches path) hs of None \<Rightarrow> NoRoute | Some h \<Rightarrow> Handled (snd h))"
  by (induction hs) (auto simp: handler_methods_def PROXY_METHODS_def split: gateway_handler.splits)

text \<open>For a \<^verbatim>\<open>GET\<close> only the path counts.\<close>

lemma dispatch_get:
  "route_request ''GET'' path (gwa_handlers (gateway_bootstrap c)) =
     (case gateway_dispatch c path of None \<Rightarrow> NoRoute | Some h \<Rightarrow> Handled h)"
  by (simp add: route_request_get gateway_dispatch_def split: option.splits)

lemma route_request_handled:
  "route_request meth path hs = Handled k \<Longrightarrow>
     \<exists>p. (p, k) \<in> set hs \<and> handler_matches path (p, k) \<and> meth \<in> set (handler_methods k)"
  by (induction hs) (auto split: if_splits routing.splits)

definition own_status :: "gateway_answer \<Rightarrow> int option" where
  "own_status a = (case a of Own s _ \<Rightarrow> Some s | Relayed _ \<Rightarrow> None)"

lemma own_status_simps [simp]:
  "own_status (Own s b) = Some s" "own_status (Relayed r) = None" "own_status (detail s msg) = Some s"
  "own_status (unavailable service) = Some 503" "own_status gateway_health = Some 200"
  by (simp_all add: own_status_def detail_def unavailable_def gateway_health_def)

lemma serve_status:
  "case own_status (fst (gateway_serve client c rq fresh w)) of None \<Rightarrow> True
   | Some s \<Rightarrow> s \<in> {401, 404, 500, 502, 503, 504}"
proof -
  have "case own_status a of None \<Rightarrow> True | Some s \<Rightarrow> s \<in> {401, 404, 502, 503, 504}"
    if "proxy client c rs rq fresh w = (Inr a, w')" for rs a w'
    using that
    by (auto simp: proxy_def deliver_def forward_def proxy_error_of_def bindM_def retM_def liftM_def
        split: option.splits sum.splits prod.splits if_splits proxy_error.splits transport_error.splits)
  then show ?thesis
    by (auto simp: gateway_serve_def split: prod.splits sum.splits) (fastforce split: option.splits)
qed

lemma readiness_status: "own_status (fst (gateway_readiness client c w)) \<in> {Some 200, Some 503}"
  by (auto simp: gateway_readiness_def split: prod.splits sum.splits)

text \<open>
  The gateway answers every request, whatever the upstream services do: with the answer of a service,
  or with one of its own, which has a status of this list. And it turns to a service only for one of the
  seven methods it proxies, below the API prefix, or for the readiness probe.
\<close>
theorem gateway_answers_every_request:
  assumes "gateway_app client c path rq fresh w = (a, w')"
  shows "(case own_status a of None \<Rightarrow> True | Some s \<Rightarrow> s \<in> {200, 401, 404, 405, 500, 502, 503, 504}) \<and>
         (w' \<noteq> w \<longrightarrow> gq_method rq \<in> set PROXY_METHODS \<and>
            (path = ''/health/ready'' \<or> (\<exists>rest. path = gw_API_PREFIX c @ ''/'' @ rest)))"
proof (cases "route_request (gq_method rq) path (gwa_handlers (gateway_bootstrap c))")
  case (Handled k)
  from route_request_handled [OF this] have way: "gq_method rq \<in> set PROXY_METHODS"
      "k = Readiness \<Longrightarrow> path = ''/health/ready''"
      "k = Proxy \<Longrightarrow> take (length (gw_API_PREFIX c) + 1) path = gw_API_PREFIX c @ ''/''"
    by (auto simp: gateway_bootstrap_def handler_matches_def handler_methods_def PROXY_METHODS_def
        split: gateway_handler.splits)
  show ?thesis
  proof (cases k)
    case Health
    then show ?thesis using assms Handled by (auto simp: gateway_app_def)
  next
    case Readiness
    then have run: "gateway_readiness client c w = (a, w')" using assms Handled by (simp add: gateway_app_def)
    have "own_status a \<in> {Some 200, Some 503}" using readiness_status [of client c w] run by simp
    then show ?thesis using way Readiness by auto
  next
    case Proxy
    let ?rq = "rq\<lparr>gq_path := drop (length (gw_API_PREFIX c) + 1) path\<rparr>"
    have run: "gateway_serve client c ?rq fresh w = (a, w')"
      using assms Handled Proxy by (simp add: gateway_app_def)
    have "path = gw_API_PREFIX c @ ''/'' @ drop (length (gw_API_PREFIX c) + 1) path"
      using way(3) [OF Proxy] by (metis append.assoc append_take_drop_id)
    then have "\<exists>rest. path = gw_API_PREFIX c @ ''/'' @ rest" by blast
    with way(1) show ?thesis using serve_status [of client c ?rq fresh w] run by (auto split: option.splits)
  qed
qed (use assms in \<open>auto simp: gateway_app_def\<close>)

text \<open>An upstream that counts what reaches it and never answers in time.\<close>

definition demo_gateway_request :: gateway_request where
  "demo_gateway_request =
     \<lparr> gq_method = ''GET'', gq_path = [], gq_query = [], gq_scheme = ''https'', gq_headers = [],
       gq_cookies = [], gq_client = None, gq_body = [] \<rparr>"

lemma gateway_answers_every_request_witness:
  "case own_status (fst (gateway_app (\<lambda>rq n. (Inl (TimeoutException ''slow''), n + 1)) default_gateway_config
       ''/api/v1/users/me'' demo_gateway_request ''id'' (0::nat))) of
     None \<Rightarrow> True | Some s \<Rightarrow> s \<in> {200, 401, 404, 405, 500, 502, 503, 504}"
  by (rule conjunct1 [OF gateway_answers_every_request [OF prod.collapse [symmetric]]])

end
