(* ===== verification/Interleaving.thy ===== *)
theory Interleaving
  imports Session_Security Login_Security
begin

text \<open>
  Requests that overlap. The use cases whose first part only reads are cut where the reads end: another
  request may run at the \<^verbatim>\<open>await\<close> between the two parts. The transactions are READ COMMITTED, as the
  engine of the service leaves them (no \<^verbatim>\<open>SELECT FOR UPDATE\<close>, no isolation level), so what the second part
  reads and writes is the database as committed by then. Each use case is the composition of its two
  parts (\<open>refresh_parts\<close>, \<open>reset_parts\<close>, \<open>register_parts\<close>, \<open>login_parts\<close>); \<open>overlap\<close> runs them in any order
  with whole requests in between.

  The four use cases cut here write by inserts and by updates that name their columns. Those that write
  back an account they have read run whole: SQLAlchemy's identity map would compare it with what the first
  part loaded, which the model of the unit of work does not keep.
\<close>

section \<open>Cutting a transaction after its reads\<close>

definition looks :: "('r, 'a) app \<Rightarrow> bool" where
  "looks m \<longleftrightarrow> (\<forall>w. session (snd (m w)) = session w \<and> db (snd (m w)) = db w)"

named_theorems looks_rules \<open>programs that only read the database\<close>

lemma looksD: "looks m \<Longrightarrow> m w = (r, w') \<Longrightarrow> session w' = session w \<and> db w' = db w"
  by (metis looks_def snd_conv)

lemma looks_basic [looks_rules]:
  "looks (retM x)" "looks (raiseM e)" "looks (liftM r)" "looks (getsM g)" "looks (draw f)"
  "looks (utc_now env)" "looks (query q)"
  by (auto simp: looks_def retM_def raiseM_def liftM_def getsM_def draw_def utc_now_def query_def
      split: option.splits)

lemma looks_bindM [looks_rules]: "looks m \<Longrightarrow> (\<And>x. looks (f x)) \<Longrightarrow> looks (bindM m f)"
  by (auto simp: looks_def bindM_def split_beta split: sum.split)

lemma looks_cases [looks_rules]:
  "looks m \<Longrightarrow> looks n \<Longrightarrow> looks (seqM m n)" "looks k \<Longrightarrow> looks (whenM b k)"
  "looks m \<Longrightarrow> looks m' \<Longrightarrow> looks (if b then m else m')"
  "looks n \<Longrightarrow> (\<And>y. looks (g y)) \<Longrightarrow> looks (case x of None \<Rightarrow> n | Some y \<Rightarrow> g y)"
  by (simp_all add: seqM_def whenM_def looks_rules split: option.splits)

lemma with_uow_cut:
  assumes "looks m"
  shows "with_uow (bindM m f) = bindM (with_uow m) (\<lambda>x. with_uow (f x))"
proof
  fix w :: "'a world"
  show "with_uow (bindM m f) w = bindM (with_uow m) (\<lambda>x. with_uow (f x)) w"
  proof (cases "m (w\<lparr>session := Some (db w)\<rparr>)")
    case (Pair r w')
    then have "session w' = Some (db w)" "db w' = db w"
      using looksD [OF assms Pair] by simp_all
    then have "w'\<lparr>session := Some (db w')\<rparr> = w'"
      by simp
    with Pair show ?thesis
      by (cases r) (simp_all add: with_uow_def bindM_def)
  qed
qed

section \<open>The parts of the use cases\<close>

definition refresh_lookup :: "'r env \<Rightarrow> token_payload \<Rightarrow> ('r, string \<times> auth_session \<times> user) app" where
  "refresh_lookup env payload =
     bindM (sessions_get_by_jti (tp_jti payload)) (\<lambda>stored.
     bindM (session_live_now env stored) (\<lambda>live.
     case stored of
       None \<Rightarrow> raiseM refresh_invalid
     | Some s \<Rightarrow>
         if \<not> live then raiseM refresh_invalid
         else
           bindM (users_get_by_id (tp_user_id payload)) (\<lambda>user.
           case user of
             None \<Rightarrow> raiseM user_inactive
           | Some u \<Rightarrow>
               if \<not> user_is_active u then raiseM user_inactive
               else retM (tp_jti payload, s, u))))"

definition refresh_reads :: "'r env \<Rightarrow> config \<Rightarrow> string \<Rightarrow> ('r, string \<times> auth_session \<times> user) app" where
  "refresh_reads env c refresh_token =
     bindM (decode_token env c refresh_token) (\<lambda>payload.
     if tp_token_type payload \<noteq> ''refresh'' then
       raiseM (AuthenticationError ''A refresh token is required'')
     else with_uow (refresh_lookup env payload))"

definition refresh_writes ::
  "'r env \<Rightarrow> config \<Rightarrow> device_info \<Rightarrow> string \<times> auth_session \<times> user \<Rightarrow> ('r, auth_result) app" where
  "refresh_writes env c device = (\<lambda>(jti, s, u). with_uow (refresh_rotate env c device jti s u))"

definition reset_reads ::
  "'r env \<Rightarrow> config \<Rightarrow> reset_password_dto \<Rightarrow> device_info \<Rightarrow> ('r, security_token \<times> user) app" where
  "reset_reads env c data device =
     seqM (reset_check_rate_limit env c device)
     (seqM (whenM (rsp_password data \<noteq> rsp_password_repeat data) (raiseM password_mismatch))
     (with_uow
       (bindM (usable_token env (one_time_hash env (rsp_token data)) PASSWORD_RESET) (\<lambda>t.
        bindM (token_owner t) (\<lambda>u. retM (t, u))))))"

definition reset_writes ::
  "'r env \<Rightarrow> config \<Rightarrow> reset_password_dto \<Rightarrow> device_info \<Rightarrow> security_token \<times> user \<Rightarrow> ('r, unit) app" where
  "reset_writes env c data device = (\<lambda>(t, u).
     bindM (with_uow
       (bindM (utc_now env) (\<lambda>now.
        bindM (hasher_hash env c (rsp_password data)) (\<lambda>h.
        seqM (users_update_password env (u\<lparr>user_password_hash := h\<rparr>))
        (seqM (tokens_mark_used env t)
        (seqM (tokens_invalidate_for_user env (user_id u) PASSWORD_RESET)
        (bindM (sessions_revoke_all_for_user (user_id u) (Aware now) None) (\<lambda>revoked.
         seqM (audit_record env PASSWORD_WAS_RESET (Some (user_id u)) (Some device)
                 [(''sessions_revoked'', MInt revoked)])
         (seqM commit (retM (u\<lparr>user_password_hash := h\<rparr>))))))))))) (\<lambda>u'.
     cache_delete env c (user_cache_key (user_id u'))))"

definition register_reads :: "'r env \<Rightarrow> config \<Rightarrow> register_dto \<Rightarrow> device_info \<Rightarrow> ('r, unit) app" where
  "register_reads env c data device =
     seqM (register_check_rate_limit env c device)
     (seqM (whenM (reg_password data \<noteq> reg_password_repeat data) (raiseM password_mismatch))
     (with_uow
       (bindM (users_get_by_email (normalise_email (reg_email data))) (\<lambda>clash.
        seqM (refuse_if_found email_already_exists clash)
        (bindM (users_get_by_username (str_strip (reg_username data))) (\<lambda>clash2.
         refuse_if_found username_already_exists clash2))))))"

definition register_writes :: "'r env \<Rightarrow> config \<Rightarrow> register_dto \<Rightarrow> device_info \<Rightarrow> ('r, user) app" where
  "register_writes env c data device =
     (let email = normalise_email (reg_email data); username = str_strip (reg_username data) in
      bindM (with_uow
        (bindM (hasher_hash env c (reg_password data)) (\<lambda>password_hash.
         bindM (users_add env (new_user email username password_hash data)) (\<lambda>created.
         seqM (grant_default_role c (user_id created))
         (bindM (verification_issue env c (user_id created)) (\<lambda>secret.
          seqM (audit_record env REGISTER (Some (user_id created)) (Some device)
                  [(''username'', MStr username), (''visitor_id'', meta_opt (reg_visitor_id data))])
          (seqM commit
          (bindM (users_get_by_id (user_id created)) (\<lambda>found.
           retM (secret, created, found)))))))))) (\<lambda>(secret, created, found).
      seqM (verification_send c email secret)
           (retM (case found of None \<Rightarrow> created | Some u \<Rightarrow> u))))"

definition login_attempt :: "'r env \<Rightarrow> config \<Rightarrow> string \<Rightarrow> string \<Rightarrow> device_info \<Rightarrow> ('r, auth_result) app" where
  "login_attempt env c email password device =
     bindM (with_uow (login_transaction env c email password device)) (\<lambda>result.
     seqM (limiter_reset env c (account_key email)) (retM result))"

lemma seqM_assoc: "seqM (seqM m n) k = seqM m (seqM n k)"
  by (simp add: seqM_def bindM_assoc)

lemma bindM_whenM_raise: "seqM (whenM b (raiseM e)) m = (if b then raiseM e else m)"
  by (rule ext) (simp add: seqM_def whenM_def bindM_def raiseM_def retM_def)

lemma looks_parts [looks_rules]:
  "looks (sessions_get_by_jti jti)" "looks (session_live_now env s)" "looks (users_get_by_id uid)"
  "looks (users_get_by_email email)" "looks (users_get_by_username name)"
  "looks (refuse_if_found e found)" "looks (usable_token env h purpose)" "looks (token_owner t)"
  "looks (tokens_get_by_hash h purpose)"
  by (auto simp: sessions_get_by_jti_def session_live_now_def users_get_by_id_def users_get_by_email_def
      users_get_by_username_def refuse_if_found_def usable_token_def token_owner_def
      tokens_get_by_hash_def intro!: looks_rules)

lemma refresh_parts:
  "refresh env c token device = bindM (refresh_reads env c token) (refresh_writes env c (device_or_default device))"
proof -
  have "refresh_transaction env c payload dev =
      bindM (refresh_lookup env payload) (\<lambda>(jti, s, u). refresh_rotate env c dev jti s u)" for payload dev
    unfolding refresh_transaction_def refresh_lookup_def bindM_assoc
    by (intro arg_cong2 [where f = bindM] refl ext)
      (auto simp: bindM_def raiseM_def retM_def fun_eq_iff split: option.splits prod.splits sum.splits)
  moreover have "looks (refresh_lookup env payload)" for payload
    unfolding refresh_lookup_def by (auto intro!: looks_rules)
  ultimately have "with_uow (refresh_transaction env c payload dev) =
      bindM (with_uow (refresh_lookup env payload)) (refresh_writes env c dev)" for payload dev
    by (simp add: with_uow_cut refresh_writes_def split_def)
  then show ?thesis
    unfolding refresh_def refresh_reads_def bindM_assoc
    by (intro arg_cong2 [where f = bindM] refl ext) (simp add: bindM_def raiseM_def)
qed

lemma reset_parts:
  "reset_password env c data device =
     bindM (reset_reads env c data (device_or_default device)) (reset_writes env c data (device_or_default device))"
proof -
  have "with_uow (reset_transaction env c data dev) =
      bindM (with_uow
        (bindM (usable_token env (one_time_hash env (rsp_token data)) PASSWORD_RESET) (\<lambda>t.
         bindM (token_owner t) (\<lambda>u. retM (t, u)))))
      (\<lambda>(t, u). with_uow
        (bindM (utc_now env) (\<lambda>now.
         bindM (hasher_hash env c (rsp_password data)) (\<lambda>h.
         seqM (users_update_password env (u\<lparr>user_password_hash := h\<rparr>))
         (seqM (tokens_mark_used env t)
         (seqM (tokens_invalidate_for_user env (user_id u) PASSWORD_RESET)
         (bindM (sessions_revoke_all_for_user (user_id u) (Aware now) None) (\<lambda>revoked.
          seqM (audit_record env PASSWORD_WAS_RESET (Some (user_id u)) (Some dev)
                  [(''sessions_revoked'', MInt revoked)])
          (seqM commit (retM (u\<lparr>user_password_hash := h\<rparr>)))))))))))" for dev
    unfolding split_def
    by (subst with_uow_cut [symmetric])
      (auto simp: reset_transaction_def bindM_assoc bindM_retM intro!: looks_rules)
  then show ?thesis
    by (simp add: reset_password_def reset_reads_def reset_writes_def Let_def bindM_seqM bindM_assoc split_def)
qed

lemma register_parts:
  "register_user env c data device =
     bindM (register_reads env c data (device_or_default device))
       (\<lambda>_. register_writes env c data (device_or_default device))"
proof -
  have "with_uow (register_transaction env c email username data dev) =
      bindM (with_uow
        (bindM (users_get_by_email email) (\<lambda>clash.
         seqM (refuse_if_found email_already_exists clash)
         (bindM (users_get_by_username username) (\<lambda>clash2.
          refuse_if_found username_already_exists clash2)))))
      (\<lambda>_. with_uow
        (bindM (hasher_hash env c (reg_password data)) (\<lambda>password_hash.
         bindM (users_add env (new_user email username password_hash data)) (\<lambda>created.
         seqM (grant_default_role c (user_id created))
         (bindM (verification_issue env c (user_id created)) (\<lambda>secret.
          seqM (audit_record env REGISTER (Some (user_id created)) (Some dev)
                  [(''username'', MStr username), (''visitor_id'', meta_opt (reg_visitor_id data))])
          (seqM commit
          (bindM (users_get_by_id (user_id created)) (\<lambda>found.
           retM (secret, created, found))))))))))" for email username dev
    by (subst with_uow_cut [symmetric])
      (auto simp: register_transaction_def bindM_assoc bindM_seqM seqM_def intro!: looks_rules)
  then show ?thesis
    by (simp add: register_user_def register_reads_def register_writes_def Let_def bindM_seqM bindM_assoc)
qed

lemma login_parts:
  "login env c data device =
     seqM (login_guards env c (normalise_email (login_email data)) (device_or_default device))
       (login_attempt env c (normalise_email (login_email data)) (login_password data) (device_or_default device))"
  by (simp add: login_as_guards login_attempt_def Let_def)

section \<open>Overlapping requests\<close>

datatype suspended =
    Refreshing device_info "string \<times> auth_session \<times> user"
  | Resetting reset_password_dto device_info "security_token \<times> user"
  | Registering register_dto device_info
  | Trying string string device_info

definition resume :: "'r env \<Rightarrow> config \<Rightarrow> suspended \<Rightarrow> 'r world \<Rightarrow> 'r world" where
  "resume env c s w =
     (case s of
        Refreshing device found \<Rightarrow> snd (refresh_writes env c device found w)
      | Resetting data device found \<Rightarrow> snd (reset_writes env c data device found w)
      | Registering data device \<Rightarrow> snd (register_writes env c data device w)
      | Trying email password device \<Rightarrow> snd (login_attempt env c email password device w))"

inductive overlap :: "'r env \<Rightarrow> config \<Rightarrow> 'r world \<times> suspended list \<Rightarrow> 'r world \<times> suspended list \<Rightarrow> bool"
  for env c where
  idle: "overlap env c s s"
| whole: "overlap env c s (w, ps) \<Longrightarrow> service_step env c w w' \<Longrightarrow> overlap env c s (w', ps)"
| refreshing: "overlap env c s (w, ps) \<Longrightarrow> refresh_reads env c token w = (Inr found, w') \<Longrightarrow>
     overlap env c s (w', Refreshing device found # ps)"
| resetting: "overlap env c s (w, ps) \<Longrightarrow> reset_reads env c data device w = (Inr found, w') \<Longrightarrow>
     overlap env c s (w', Resetting data device found # ps)"
| registering: "overlap env c s (w, ps) \<Longrightarrow> register_reads env c reg device w = (Inr (), w') \<Longrightarrow>
     overlap env c s (w', Registering reg device # ps)"
| trying: "overlap env c s (w, ps) \<Longrightarrow> login_guards env c email device w = (Inr (), w') \<Longrightarrow>
     overlap env c s (w', Trying email password device # ps)"
| resumed: "overlap env c s (w, ps @ p # qs) \<Longrightarrow> overlap env c s (resume env c p w, ps @ qs)"

inductive_cases overlapE: "overlap env c s s'"

text \<open>The parts run the same statements as the whole use cases, whatever the second part was handed.\<close>

lemma keeps_first_parts:
  "keeps (db_inv2 A B) (refresh_reads env c token)" "keeps (db_inv2 A B) (reset_reads env c data device)"
  "keeps (db_inv2 A B) (register_reads env c reg device)" "keeps (db_inv2 A B) (login_guards env c email device)"
  by (auto simp: refresh_reads_def refresh_lookup_def reset_reads_def register_reads_def login_guards_def
      login_guard_ip_def login_guard_account_def refuse_if_found_def intro!: keeps_rules)

lemma keeps_refresh_writes:
  "db_closed {RevokeSessions, AddSession} I \<Longrightarrow> keeps (db_inv2 I B) (refresh_writes env c device found)"
  by (auto simp: refresh_writes_def refresh_rotate_def split_beta intro!: keeps_rules)

lemma keeps_reset_writes:
  "db_closed {UpdatePassword, SpendTokens, RevokeSessions, AddAudit} I \<Longrightarrow>
     keeps (db_inv2 I B) (reset_writes env c data device found)"
  by (auto simp: reset_writes_def split_beta intro!: keeps_rules)

lemma keeps_register_writes:
  "db_closed {AddUser, AssignRole, SpendTokens, AddToken, AddAudit} I \<Longrightarrow>
     keeps (db_inv2 I B) (register_writes env c reg device)"
  by (auto simp: register_writes_def grant_default_role_def Let_def split_beta intro!: keeps_rules)

lemma keeps_login_attempt:
  "db_closed {AddSession, AddAudit} I \<Longrightarrow> keeps (db_inv2 I B) (login_attempt env c email password device)"
  by (auto simp: login_attempt_def login_transaction_def login_reject_def login_accept_def
      login_count_failure_def charge_def Let_def intro!: keeps_rules)

lemma resume_keeps:
  assumes "db_closed UNIV I" "at_rest I w"
  shows "at_rest I (resume env c p w)"
proof -
  note keeps = keeps_refresh_writes keeps_reset_writes keeps_register_writes keeps_login_attempt
  show ?thesis
    using assms(2) unfolding resume_def at_rest_def
    by (cases p) (simp_all only: suspended.case keeps [OF db_closed_UNIV [OF assms(1)], unfolded keeps_def, rule_format])
qed

lemma overlap_keeps:
  assumes "overlap env c (w, ps) (w', ps')" and "db_closed UNIV I" and "at_rest I w"
  shows "at_rest I w'"
  using assms(1,3)
proof (induction "(w, ps)" "(w', ps')" arbitrary: w' ps' rule: overlap.induct)
  case (whole w1 ps1 w2)
  then show ?case using service_step_keeps [OF whole(3) assms(2)] by blast
next
  case (resumed w1 ps1 p qs)
  then show ?case using resume_keeps [OF assms(2)] by blast
qed (auto dest: keepsD [OF keeps_first_parts(1)] keepsD [OF keeps_first_parts(2)] keepsD [OF keeps_first_parts(3)]
      keepsD [OF keeps_first_parts(4)] simp: at_rest_def)

end
