(* ===== verification/Races.thy ===== *)
theory Races
  imports Interleaving Limiter_Agreement Password_Security
begin

text \<open>
  What holds, and what does not, when requests overlap (\<open>overlap\<close>). The stored data stays consistent and
  what was revoked stays refused; but a decision taken before an \<^verbatim>\<open>await\<close> is acted upon after it: a refresh
  in flight opens a session although every session was revoked meanwhile, two exchanges of one refresh
  token both succeed, and guesses sent together pass the lockout together.
\<close>

section \<open>What overlapping requests keep\<close>

lemma overlap_evolves:
  assumes "overlap env c (w, ps) (w', qs)" and "session w = None" and "wf_db (db w)"
  shows "session w' = None" and "wf_db (db w')" and "db_evolves (db w) (db w')"
  using overlap_keeps [OF assms(1) wf_db_closed] overlap_keeps [OF assms(1) db_evolves_closed [of _ "db w"]]
    assms(2,3) db_evolves_refl by (auto simp: at_rest_iff)

text \<open>
  C6: Overlapping requests keep the stored data consistent. Whatever requests run between the parts of
  others, in any order, the tables stay well formed (unique keys, references that resolve) and history
  only grows: no account, audit row, session or link disappears, and no revocation is undone.
\<close>
theorem overlapping_requests_keep_data_consistent:
  assumes "overlap env c (w, ps) (w', qs)" and "session w = None" and "wf_db (db w)"
  shows "session w' = None \<and> wf_db (db w') \<and> db_evolves (db w) (db w')"
  by (intro conjI overlap_evolves [OF assms])

text \<open>
  C5: A revoked session stays revoked under overlap. Once the row of a session is revoked, every token
  that names it is refused by both endpoints that take one, whatever requests overlap before.
\<close>
theorem revocation_survives_overlap:
  assumes "jwt_stable env" and "session w = None" and "wf_db (db w)"
    and "dead_session (tp_jti p) (db w)" and "decode_at env c now token = Inr p"
    and "overlap env c (w, ps) (w', qs)"
  shows "(\<exists>m w3. authenticate env c token w' = (Inl (AuthenticationError m), w3) \<and> db w3 = db w') \<and>
         (\<exists>m w3. refresh env c token device w' = (Inl (AuthenticationError m), w3) \<and> db w3 = db w')"
proof -
  note w' = overlap_evolves [OF assms(6,2,3)]
  show ?thesis
    using dead_bearer_refused [OF assms(1,5) w'(2) dead_session_evolves [OF w'(3) assms(4)]] by blast
qed


section \<open>A refresh in flight\<close>

text \<open>The second part of a refresh completes whatever became of the session it exchanges.\<close>

definition found_fits :: "device_info \<Rightarrow> auth_session \<Rightarrow> bool" where
  "found_fits device s \<longleftrightarrow>
     fits_opt 36 (dev_visitor_id device) \<and> fits_opt 36 (sess_visitor_id s) \<and>
     fits_opt 400 (dev_user_agent device) \<and> fits_opt 400 (sess_user_agent s) \<and>
     fits_opt 45 (dev_ip_address device) \<and> fits_opt 45 (sess_ip_address s) \<and>
     fits_opt 100 (dev_device device) \<and> fits_opt 100 (sess_device s)"

lemma fits_str_or: "fits_opt n a \<Longrightarrow> fits_opt n b \<Longrightarrow> fits_opt n (str_or a b)"
  by (simp add: str_or_def)

lemma revoke_frames:
  "db_revoke jti m d = Inr ((), d') \<Longrightarrow> map sr_jti (tbl_sessions d') = map sr_jti (tbl_sessions d) \<and>
     tbl_users d' = tbl_users d"
  by (auto simp: db_revoke_def spend_rows_def stamp_session_def)

definition opened_session :: "'r env \<Rightarrow> config \<Rightarrow> device_info \<Rightarrow> string \<times> auth_session \<times> user \<Rightarrow> nat \<Rightarrow> auth_session" where
  "opened_session env c device found n =
     (case found of (jti, s, u) \<Rightarrow>
        rotated_session s u (env_uuid4_hex env (Suc n)) (env_utcnow env n)
          (issue_at env c (env_utcnow env (Suc (Suc (Suc n)))) (user_id u) (env_uuid4_hex env (Suc n)) ''refresh''
             (cfg_REFRESH_TOKEN_EXPIRE_MINUTES c)) device)"

lemma opened_session_simps [simp]:
  "sess_jti (opened_session env c device found n) = env_uuid4_hex env (Suc n)"
  "sess_user_id (opened_session env c device found n) = user_id (snd (snd found))"
  "sess_revoked_at (opened_session env c device found n) = None"
  by (simp_all add: opened_session_def rotated_session_def split_beta)

lemma opened_session_fits:
  assumes "found_fits device (fst (snd found))" and "length (env_uuid4_hex env (Suc n)) \<le> 64"
  shows "session_row_fits (new_session_row (opened_session env c device found n)\<lparr>sr_id := i\<rparr>)"
  using assms
  by (simp add: opened_session_def rotated_session_def split_beta session_row_fits_def new_session_row_def
      fits_def found_fits_def fits_str_or)

lemma open_session:
  assumes "found_fits device (fst (snd found))" and "length (env_uuid4_hex env (Suc n)) \<le> 64"
    and "env_uuid4_hex env (Suc n) \<notin> sr_jti ` set (tbl_sessions d)"
    and "user_id (snd (snd found)) \<in> user_ids d"
  shows "db_add_session (opened_session env c device found n) d =
           Inr (session_to_entity (new_session_row (opened_session env c device found n)\<lparr>sr_id := seq_sessions d\<rparr>),
                d\<lparr>tbl_sessions := tbl_sessions d @
                      [new_session_row (opened_session env c device found n)\<lparr>sr_id := seq_sessions d\<rparr>],
                  seq_sessions := seq_sessions d + 1\<rparr>)"
proof -
  let ?row = "new_session_row (opened_session env c device found n)\<lparr>sr_id := seq_sessions d\<rparr>"
  have "session_row_fits ?row" by (rule opened_session_fits [OF assms(1,2)])
  moreover have "\<not> list_ex (\<lambda>x. sr_jti x = sr_jti ?row) (tbl_sessions d)"
    using assms(3) by (simp add: list_ex_iff new_session_row_def image_iff) metis
  moreover have "has_user (sr_user_id ?row) d"
    using assms(4) by (simp add: has_iffs new_session_row_def)
  ultimately show ?thesis
    by (simp add: db_add_session_def insert_session_def Let_def)
qed

definition after_refresh ::
  "'r env \<Rightarrow> config \<Rightarrow> device_info \<Rightarrow> string \<times> auth_session \<times> user \<Rightarrow> nat \<Rightarrow> database \<Rightarrow> database" where
  "after_refresh env c device found n d =
     (let rows = spend_rows sr_revoked_at stamp_session (\<lambda>r. sr_jti r = fst found) (Aware (env_utcnow env n))
            (tbl_sessions d)
      in d\<lparr>tbl_sessions := rows @ [new_session_row (opened_session env c device found n)\<lparr>sr_id := seq_sessions d\<rparr>],
           seq_sessions := seq_sessions d + 1\<rparr>)"

lemma after_refresh_rows:
  shows "\<exists>r \<in> set (tbl_sessions d). sr_jti r = fst found \<Longrightarrow>
           dead_session (fst found) (after_refresh env c device found n d)"
    and "\<exists>r \<in> set (tbl_sessions (after_refresh env c device found n d)).
           sr_jti r = env_uuid4_hex env (Suc n) \<and> sr_user_id r = user_id (snd (snd found)) \<and> sr_revoked_at r = None"
    and "r \<in> set (tbl_sessions d) \<Longrightarrow> sr_jti r \<noteq> fst found \<Longrightarrow>
           r \<in> set (tbl_sessions (after_refresh env c device found n d))"
proof -
  let ?rows = "spend_rows sr_revoked_at stamp_session (\<lambda>r. sr_jti r = fst found) (Aware (env_utcnow env n)) (tbl_sessions d)"
  show "dead_session (fst found) (after_refresh env c device found n d)"
    if "\<exists>r \<in> set (tbl_sessions d). sr_jti r = fst found"
  proof -
    from that obtain r where r: "r \<in> set (tbl_sessions d)" "sr_jti r = fst found" by blast
    have "dead_session (fst found) (d\<lparr>tbl_sessions := ?rows\<rparr>)"
      by (rule revoke_kills [OF r, where m = "Aware (env_utcnow env n)"]) (simp add: db_revoke_def)
    then show ?thesis by (auto simp: after_refresh_def Let_def dead_session_def)
  qed
  show "\<exists>r \<in> set (tbl_sessions (after_refresh env c device found n d)).
      sr_jti r = env_uuid4_hex env (Suc n) \<and> sr_user_id r = user_id (snd (snd found)) \<and> sr_revoked_at r = None"
    by (simp add: after_refresh_def Let_def new_session_row_def)
  show "r \<in> set (tbl_sessions d) \<Longrightarrow> sr_jti r \<noteq> fst found \<Longrightarrow>
      r \<in> set (tbl_sessions (after_refresh env c device found n d))"
    by (simp add: after_refresh_def Let_def spend_rows_def image_iff)
qed

lemma after_refresh_keys:
  "sr_jti ` set (tbl_sessions (after_refresh env c device found n d)) =
     insert (env_uuid4_hex env (Suc n)) (sr_jti ` set (tbl_sessions d))"
  "user_ids (after_refresh env c device found n d) = user_ids d"
proof -
  let ?m = "Aware (env_utcnow env n)"
  have "db_revoke (fst found) ?m d = Inr ((), d\<lparr>tbl_sessions :=
      spend_rows sr_revoked_at stamp_session (\<lambda>r. sr_jti r = fst found) ?m (tbl_sessions d)\<rparr>)"
    by (simp add: db_revoke_def)
  from arg_cong [OF conjunct1 [OF revoke_frames [OF this]], of set]
  show "sr_jti ` set (tbl_sessions (after_refresh env c device found n d)) =
      insert (env_uuid4_hex env (Suc n)) (sr_jti ` set (tbl_sessions d))"
    by (simp add: after_refresh_def Let_def new_session_row_def)
  show "user_ids (after_refresh env c device found n d) = user_ids d"
    by (simp add: after_refresh_def Let_def user_ids_def)
qed

lemma refresh_writes_complete:
  assumes "found_fits device (fst (snd found))" and "length (env_uuid4_hex env (Suc (draws w))) \<le> 64"
    and "env_uuid4_hex env (Suc (draws w)) \<notin> sr_jti ` set (tbl_sessions (db w))"
    and "user_id (snd (snd found)) \<in> user_ids (db w)"
  obtains result w' where "refresh_writes env c device found w = (Inr result, w')"
    and "db w' = after_refresh env c device found (draws w) (db w)" and "session w' = None"
    and "ar_user result = snd (snd found)" and "draws w' = draws w + 4"
proof -
  obtain jti s u where found: "found = (jti, s, u)" by (cases found)
  let ?d = "db w\<lparr>tbl_sessions := spend_rows sr_revoked_at stamp_session (\<lambda>r. sr_jti r = jti)
      (Aware (env_utcnow env (draws w))) (tbl_sessions (db w))\<rparr>"
  have jtis: "sr_jti ` set (tbl_sessions ?d) = sr_jti ` set (tbl_sessions (db w))" and
    ids: "user_ids ?d = user_ids (db w)"
    using revoke_frames [of jti "Aware (env_utcnow env (draws w))" "db w" ?d]
    by (auto simp: db_revoke_def user_ids_def simp flip: set_map)
  have add: "db_add_session (rotated_session s u (env_uuid4_hex env (Suc (draws w))) (env_utcnow env (draws w))
      (issue_at env c (env_utcnow env (Suc (Suc (Suc (draws w))))) (user_id u)
        (env_uuid4_hex env (Suc (draws w))) ''refresh'' (cfg_REFRESH_TOKEN_EXPIRE_MINUTES c)) device) ?d =
      Inr (session_to_entity (new_session_row (opened_session env c device found (draws w))\<lparr>sr_id := seq_sessions (db w)\<rparr>),
        after_refresh env c device found (draws w) (db w))"
    using open_session [OF assms(1,2), of ?d c] assms(3,4) jtis ids
    by (simp add: found opened_session_def after_refresh_def Let_def)
  have "wp (refresh_writes env c device found)
      (\<lambda>x w'. ar_user x = u \<and> draws w' = draws w + 4 \<and> session w' = None \<and> db w' = after_refresh env c device found (draws w) (db w))
      (\<lambda>_ _. False) w"
    using add
    by (simp add: refresh_writes_def found refresh_rotate_def issue_access_def issue_refresh_def step_rules
        db_revoke_def auth_result_of_def)
  then show thesis using that by (auto simp: wp_def found split: prod.splits sum.splits)
qed

text \<open>What is left of it: the new row, live, and every row but the one that was exchanged.\<close>

lemma refresh_writes_open:
  assumes "found_fits device (fst (snd found))" and "length (env_uuid4_hex env (Suc (draws w))) \<le> 64"
    and "env_uuid4_hex env (Suc (draws w)) \<notin> sr_jti ` set (tbl_sessions (db w))"
    and "user_id (snd (snd found)) \<in> user_ids (db w)"
  obtains result w' r where "refresh_writes env c device found w = (Inr result, w')"
    and "r \<in> set (tbl_sessions (db w'))" and "sr_jti r = env_uuid4_hex env (Suc (draws w))"
    and "sr_user_id r = user_id (snd (snd found))" and "sr_revoked_at r = None" and "ar_user result = snd (snd found)"
    and "draws w' = draws w + 4" and "user_ids (db w') = user_ids (db w)"
    and "sr_jti ` set (tbl_sessions (db w')) =
           insert (env_uuid4_hex env (Suc (draws w))) (sr_jti ` set (tbl_sessions (db w)))"
    and "\<And>x. x \<in> set (tbl_sessions (db w)) \<Longrightarrow> sr_jti x \<noteq> fst found \<Longrightarrow> x \<in> set (tbl_sessions (db w'))"
    and "fst found \<in> sr_jti ` set (tbl_sessions (db w)) \<Longrightarrow> dead_session (fst found) (db w')"
proof -
  obtain result w' where w': "refresh_writes env c device found w = (Inr result, w')"
    "db w' = after_refresh env c device found (draws w) (db w)" "ar_user result = snd (snd found)"
    "draws w' = draws w + 4"
    using refresh_writes_complete [OF assms] by metis
  obtain r where r: "r \<in> set (tbl_sessions (db w'))" "sr_jti r = env_uuid4_hex env (Suc (draws w))"
    "sr_user_id r = user_id (snd (snd found))" "sr_revoked_at r = None"
    using after_refresh_rows(2) [of env c device found "draws w" "db w"] w'(2) by auto
  have keep: "x \<in> set (tbl_sessions (db w'))" if "x \<in> set (tbl_sessions (db w))" "sr_jti x \<noteq> fst found" for x
    unfolding w'(2) using that by (rule after_refresh_rows(3))
  have dead: "dead_session (fst found) (db w')" if "fst found \<in> sr_jti ` set (tbl_sessions (db w))"
    unfolding w'(2) using that by (intro after_refresh_rows(1)) auto
  show thesis
    by (rule that [OF w'(1) r w'(3,4)])
      (rule after_refresh_keys [of env c device found "draws w" "db w", folded w'(2)] keep dead; assumption)+
qed

lemma valid_unrevoked: "session_is_valid (session_to_entity r) now \<Longrightarrow> sr_revoked_at r = None"
  by (simp add: session_is_valid_def session_is_revoked_def session_to_entity_def)

lemma user_by_id_id: "db_user_by_id uid d = Some u \<Longrightarrow> user_id u = uid"
  by (auto simp: db_user_by_id_def user_to_entity_def find_Some_iff)

lemma user_by_id_stored: "db_user_by_id uid d = Some u \<Longrightarrow> user_id u \<in> user_ids d"
  by (auto simp: db_user_by_id_def user_to_entity_def user_ids_def find_Some_iff)

text \<open>What the first part hands over is the stored session and its account, both usable.\<close>

lemma refresh_reads_found:
  assumes "refresh_reads env c token w = (Inr found, w1)"
  obtains r where "r \<in> set (tbl_sessions (db w))" and "sr_jti r = fst found" and "sr_revoked_at r = None"
    and "fst (snd found) = session_to_entity r" and "user_id (snd (snd found)) \<in> user_ids (db w)"
    and "db w1 = db w" and "session w = None \<Longrightarrow> session w1 = None" and "draws w1 = draws w + 2"
    and "\<exists>p. decode_at env c (env_utcnow env (draws w)) token = Inr p \<and> fst found = tp_jti p \<and>
            user_id (snd (snd found)) = tp_user_id p"
proof -
  have "wp (refresh_reads env c token)
      (\<lambda>found w1. db w1 = db w \<and> (session w = None \<longrightarrow> session w1 = None) \<and> draws w1 = draws w + 2 \<and>
         (\<exists>p. decode_at env c (env_utcnow env (draws w)) token = Inr p \<and> fst found = tp_jti p \<and>
            user_id (snd (snd found)) = tp_user_id p) \<and>
         user_id (snd (snd found)) \<in> user_ids (db w) \<and>
         (\<exists>r \<in> set (tbl_sessions (db w)). sr_jti r = fst found \<and> sr_revoked_at r = None \<and>
            fst (snd found) = session_to_entity r)) (\<lambda>_ _. True) w"
    unfolding refresh_reads_def refresh_lookup_def decode_token_def session_live_now_def
    by (auto simp: step_rules split: sum.splits option.splits dest!: session_by_jti_row
        intro: valid_unrevoked user_by_id_stored user_by_id_id)
  with assms that show thesis by (auto simp: wp_def)
qed

lemma users_stay: "db_evolves d d' \<Longrightarrow> user_ids d \<subseteq> user_ids d'"
  by (auto simp: db_evolves_def user_ids_def simp flip: set_map)

lemma session_row_later:
  assumes "db_evolves d d'" and "r \<in> set (tbl_sessions d)"
  obtains r' where "r' \<in> set (tbl_sessions d')" and "sr_jti r' = sr_jti r"
proof -
  obtain r' where r': "r' \<in> set (tbl_sessions d')" "session_rows.ages r r'"
    using session_rows.later_member [OF _ assms(2)] assms(1) by (auto simp: db_evolves_def)
  then have "r'\<lparr>sr_revoked_at := None\<rparr> = r\<lparr>sr_revoked_at := None\<rparr>"
    by (simp add: session_rows.ages_def)
  from that [OF r'(1)] arg_cong [OF this, of sr_jti] show thesis by simp
qed

lemma row_fits_found:
  "session_row_fits r \<Longrightarrow> device_fits device \<Longrightarrow> fits_opt 36 (dev_visitor_id device) \<Longrightarrow>
     fits_opt 100 (dev_device device) \<Longrightarrow> found_fits device (session_to_entity r)"
  by (simp add: found_fits_def session_row_fits_def session_to_entity_def device_fits_def)

text \<open>
  C7: A refresh in flight survives every revocation. Once a refresh has read its session, it completes
  and opens a live session of the account, whatever requests ran before its second part: another
  exchange of the same token, a logout, a ban or a password reset that revoked every session the account
  had. The row it exchanged is revoked afterwards in any case.
\<close>
theorem refresh_in_flight_survives:
  assumes "session w = None" and "wf_db (db w)" and "\<forall>r \<in> set (tbl_sessions (db w)). session_row_fits r"
    and "refresh_reads env c token w = (Inr found, w1)"
    and "overlap env c (w1, ps) (w2, qs)"
    and "device_fits device" and "fits_opt 36 (dev_visitor_id device)" and "fits_opt 100 (dev_device device)"
    and "length (env_uuid4_hex env (Suc (draws w2))) \<le> 64"
    and "env_uuid4_hex env (Suc (draws w2)) \<notin> sr_jti ` set (tbl_sessions (db w2))"
  shows "\<exists>result w3. refresh_writes env c device found w2 = (Inr result, w3) \<and>
           dead_session (fst found) (db w3) \<and>
           (\<exists>r \<in> set (tbl_sessions (db w3)). sr_jti r \<notin> sr_jti ` set (tbl_sessions (db w2)) \<and>
              sr_user_id r = user_id (ar_user result) \<and> sr_revoked_at r = None)"
proof -
  obtain r where r: "r \<in> set (tbl_sessions (db w))" "sr_jti r = fst found"
    and s: "fst (snd found) = session_to_entity r" and u: "user_id (snd (snd found)) \<in> user_ids (db w)"
    and w1: "db w1 = db w" "session w1 = None"
    using refresh_reads_found [OF assms(4)] assms(1) by metis
  have ev: "db_evolves (db w) (db w2)" using overlap_evolves(3) [OF assms(5)] w1 assms(2) by simp
  have fit: "found_fits device (fst (snd found))"
    unfolding s by (rule row_fits_found) (use assms(3,6-8) r in auto)
  have "fst found \<in> sr_jti ` set (tbl_sessions (db w2))"
    using session_row_later [OF ev r(1)] r(2) by (metis image_eqI)
  moreover obtain result w3 r' where "refresh_writes env c device found w2 = (Inr result, w3)"
      "r' \<in> set (tbl_sessions (db w3))" "sr_jti r' = env_uuid4_hex env (Suc (draws w2))"
      "sr_user_id r' = user_id (snd (snd found))" "sr_revoked_at r' = None" "ar_user result = snd (snd found)"
      "fst found \<in> sr_jti ` set (tbl_sessions (db w2)) \<Longrightarrow> dead_session (fst found) (db w3)"
    by (rule refresh_writes_open [OF fit assms(9,10), where c = c]) (use users_stay [OF ev] u that in auto)
  ultimately show ?thesis using assms(10) by metis
qed

lemma refresh_reads_runs:
  assumes "session w = None" and "decode_at env c (env_utcnow env (draws w)) token = Inr p"
    and "tp_token_type p = ''refresh''" and "db_session_by_jti (tp_jti p) (db w) = Inr (Some s)"
    and "session_is_valid s (env_utcnow env (Suc (draws w)))"
    and "db_user_by_id (tp_user_id p) (db w) = Some u" and "user_is_active u"
  shows "refresh_reads env c token w = (Inr (tp_jti p, s, u), w\<lparr>draws := Suc (Suc (draws w))\<rparr>)"
  using assms
  by (simp add: refresh_reads_def refresh_lookup_def decode_token_def session_live_now_def
      sessions_get_by_jti_def users_get_by_id_def with_uow_def bindM_def query_def utc_now_def draw_def
      liftM_def retM_def)

lemma no_device_fits:
  "device_fits no_device" "fits_opt 36 (dev_visitor_id no_device)" "fits_opt 100 (dev_device no_device)"
  by code_simp+

definition demo_found :: "string \<times> auth_session \<times> user" where
  "demo_found = (''j1'', session_to_entity (demo_session_row 1 1 ''j1''),
     user_to_entity demo_db (demo_user_row 1 ''ann'' ''pw'' False))"

lemma demo_refresh_reads:
  "refresh_reads demo_env default_config ''r1'' demo_world = (Inr demo_found, demo_world\<lparr>draws := 2\<rparr>)"
  "refresh_reads demo_env default_config ''r1'' (demo_world\<lparr>draws := 2\<rparr>) = (Inr demo_found, demo_world\<lparr>draws := 4\<rparr>)"
proof -
  let ?p = "\<lparr> tp_user_id = 1, tp_jti = ''j1'', tp_token_type = ''refresh'', tp_expires_at = Aware 900000000 \<rparr>"
  have "refresh_reads demo_env default_config ''r1'' (demo_world\<lparr>draws := n\<rparr>) =
      (Inr demo_found, demo_world\<lparr>draws := Suc (Suc n)\<rparr>)" if "n = 0 \<or> n = 2" for n
  proof -
    have dec: "decode_at demo_env default_config (int n) ''r1'' = Inr ?p" using that by (elim disjE; simp; code_simp)
    have found: "db_session_by_jti ''j1'' demo_db = Inr (Some (session_to_entity (demo_session_row 1 1 ''j1'')))"
      "db_user_by_id 1 demo_db = Some (user_to_entity demo_db (demo_user_row 1 ''ann'' ''pw'' False))" by code_simp+
    have ok: "session_is_valid (session_to_entity (demo_session_row 1 1 ''j1'')) (1 + int n)"
      "user_is_active (user_to_entity demo_db (demo_user_row 1 ''ann'' ''pw'' False))"
      using that by (elim disjE; simp; code_simp) code_simp
    show ?thesis
      using refresh_reads_runs [where w = "demo_world\<lparr>draws := n\<rparr>" and env = demo_env and c = default_config
          and token = "''r1''" and p = ?p] dec found ok
      by (simp add: demo_found_def demo_world_def)
  qed
  from this [of 0] this [of 2] show
    "refresh_reads demo_env default_config ''r1'' demo_world = (Inr demo_found, demo_world\<lparr>draws := 2\<rparr>)"
    "refresh_reads demo_env default_config ''r1'' (demo_world\<lparr>draws := 2\<rparr>) = (Inr demo_found, demo_world\<lparr>draws := 4\<rparr>)"
    by (simp_all add: demo_world_def numeral_2_eq_2 eval_nat_numeral)
qed

text \<open>Ann's refresh is in flight when her password is reset and no session of hers is left.\<close>

lemma refresh_in_flight_survives_witness:
  "let w2 = snd (reset_password demo_env default_config demo_reset None (demo_world\<lparr>draws := 2\<rparr>)) in
     no_live_session 1 (db w2) \<and>
     (\<exists>result w3. refresh_writes demo_env default_config no_device demo_found w2 = (Inr result, w3) \<and>
        (\<exists>r \<in> set (tbl_sessions (db w3)). sr_user_id r = user_id (ar_user result) \<and> sr_revoked_at r = None))"
proof -
  let ?w1 = "demo_world\<lparr>draws := 2\<rparr>"
  let ?w2 = "snd (reset_password demo_env default_config demo_reset None ?w1)"
  have run: "overlap demo_env default_config (?w1, []) (?w2, [])"
    by (intro overlap.whole [OF overlap.idle] service_step.reset)
  have none: "no_live_session 1 (db ?w2)" by code_simp
  have fits: "\<forall>r \<in> set (tbl_sessions (db demo_world)). session_row_fits r" by code_simp
  have new: "length (env_uuid4_hex demo_env (Suc (draws ?w2))) \<le> 64"
    "env_uuid4_hex demo_env (Suc (draws ?w2)) \<notin> sr_jti ` set (tbl_sessions (db ?w2))"
    by code_simp+
  have "session demo_world = None" "wf_db (db demo_world)" by (simp_all add: demo_db_wf)
  from refresh_in_flight_survives [OF this fits demo_refresh_reads(1) run no_device_fits new] none
  show ?thesis by (auto simp: Let_def)
qed

text \<open>
  C8: One refresh token, two sessions. The promise that a refresh token is single-use fails for requests
  that overlap: two exchanges of one token whose reads both come before the writes both succeed and leave
  two live sessions of the account, each with tokens of its own, and nothing marks the theft.
\<close>
theorem concurrent_refreshes_fork_session:
  assumes "jwt_stable env" and "session w = None" and "wf_db (db w)"
    and "\<forall>r \<in> set (tbl_sessions (db w)). session_row_fits r"
    and "refresh_reads env c token w = (Inr found, w1)" and "refresh_reads env c token w1 = (Inr found', w2)"
    and "device_fits device" and "fits_opt 36 (dev_visitor_id device)" and "fits_opt 100 (dev_device device)"
    and "inj_on (env_uuid4_hex env) {draws w ..< draws w + 12}"
    and "\<forall>n \<in> {draws w ..< draws w + 12}. length (env_uuid4_hex env n) \<le> 64 \<and>
           env_uuid4_hex env n \<notin> sr_jti ` set (tbl_sessions (db w))"
  shows "\<exists>result w3 result' w4 r r'.
           refresh_writes env c device found w2 = (Inr result, w3) \<and>
           refresh_writes env c device found' w3 = (Inr result', w4) \<and>
           r \<in> set (tbl_sessions (db w4)) \<and> r' \<in> set (tbl_sessions (db w4)) \<and> sr_jti r \<noteq> sr_jti r' \<and>
           sr_revoked_at r = None \<and> sr_revoked_at r' = None \<and> sr_user_id r = sr_user_id r'"
proof -
  let ?n = "draws w + 4" and ?n' = "draws w + 8"
  obtain p where p: "decode_at env c (env_utcnow env (draws w)) token = Inr p" "fst found = tp_jti p"
      "user_id (snd (snd found)) = tp_user_id p"
    and u: "user_id (snd (snd found)) \<in> user_ids (db w)" and w1: "db w1 = db w" "draws w1 = draws w + 2"
    and fit: "found_fits device (fst (snd found))"
    using refresh_reads_found [OF assms(5)] row_fits_found [OF _ assms(7-9)] assms(4) by metis
  obtain p' where p': "decode_at env c (env_utcnow env (draws w1)) token = Inr p'" "fst found' = tp_jti p'"
      "user_id (snd (snd found')) = tp_user_id p'"
    and used: "fst found' \<in> sr_jti ` set (tbl_sessions (db w1))" and w2: "db w2 = db w1" "draws w2 = draws w1 + 2"
    and fit': "found_fits device (fst (snd found'))"
    using refresh_reads_found [OF assms(6)] row_fits_found [OF _ assms(7-9)] assms(4) w1(1) by (metis image_eqI)
  have same: "p' = p" by (rule decode_stable [OF assms(1) p(1) p'(1)])
  have uu: "env_uuid4_hex env (Suc ?n) \<noteq> env_uuid4_hex env (Suc ?n')"
    using inj_onD [OF assms(10), of "Suc ?n" "Suc ?n'"] by auto
  have fresh: "length (env_uuid4_hex env (Suc m)) \<le> 64 \<and> env_uuid4_hex env (Suc m) \<notin> sr_jti ` set (tbl_sessions (db w))"
    if "m = ?n \<or> m = ?n'" for m
    using assms(11) that by auto
  have d: "draws w2 = ?n" "db w2 = db w" using w1 w2 by simp_all
  obtain result w3 r where first: "refresh_writes env c device found w2 = (Inr result, w3)"
      "r \<in> set (tbl_sessions (db w3))" "sr_jti r = env_uuid4_hex env (Suc ?n)" "sr_user_id r = tp_user_id p"
      "sr_revoked_at r = None" "draws w3 = ?n'" "user_ids (db w3) = user_ids (db w)"
      "sr_jti ` set (tbl_sessions (db w3)) = insert (env_uuid4_hex env (Suc ?n)) (sr_jti ` set (tbl_sessions (db w)))"
    by (rule refresh_writes_open [OF fit, of env w2 c]) (use fresh [of ?n] u d p(3) that in simp_all)
  obtain result' w4 r' where second: "refresh_writes env c device found' w3 = (Inr result', w4)"
      "r' \<in> set (tbl_sessions (db w4))" "sr_jti r' = env_uuid4_hex env (Suc ?n')" "sr_user_id r' = tp_user_id p"
      "sr_revoked_at r' = None"
      "\<And>x. x \<in> set (tbl_sessions (db w3)) \<Longrightarrow> sr_jti x \<noteq> fst found' \<Longrightarrow> x \<in> set (tbl_sessions (db w4))"
    by (rule refresh_writes_open [OF fit', of env w3 c])
      (use fresh [of ?n'] first(6-8) uu u p(3) p'(3) same that in simp_all)
  have "sr_jti r \<noteq> fst found'" using used fresh [of ?n] first(3) w1(1) by metis
  from second(6) [OF first(2) this] show ?thesis using first second uu by metis
qed

lemma concurrent_refreshes_fork_session_witness:
  "\<exists>result w3 result' w4 r r'.
     refresh_writes demo_env default_config no_device demo_found (demo_world\<lparr>draws := 4\<rparr>) = (Inr result, w3) \<and>
     refresh_writes demo_env default_config no_device demo_found w3 = (Inr result', w4) \<and>
     r \<in> set (tbl_sessions (db w4)) \<and> r' \<in> set (tbl_sessions (db w4)) \<and> sr_jti r \<noteq> sr_jti r' \<and>
     sr_revoked_at r = None \<and> sr_revoked_at r' = None \<and> sr_user_id r = sr_user_id r'"
proof (rule concurrent_refreshes_fork_session [OF demo_jwt_stable _ _ _ demo_refresh_reads])
  show "\<forall>r \<in> set (tbl_sessions (db demo_world)). session_row_fits r" by code_simp
  show "inj_on (env_uuid4_hex demo_env) {draws demo_world ..< draws demo_world + 12}"
  proof -
    have "distinct (map (env_uuid4_hex demo_env) [0..<12])" by code_simp
    then show ?thesis by (simp only: distinct_map set_upt demo_world_def world.simps add_0)
  qed
  have "list_all (\<lambda>n. length (env_uuid4_hex demo_env n) \<le> 64 \<and>
      env_uuid4_hex demo_env n \<notin> sr_jti ` set (tbl_sessions (db demo_world))) [0..<12]" by code_simp
  then show "\<forall>n \<in> {draws demo_world ..< draws demo_world + 12}. length (env_uuid4_hex demo_env n) \<le> 64 \<and>
      env_uuid4_hex demo_env n \<notin> sr_jti ` set (tbl_sessions (db demo_world))"
    by (simp add: list_all_iff demo_world_def)
qed (simp_all add: demo_db_wf no_device_fits)

section \<open>The consistency properties at work\<close>

lemma demo_in_flight:
  "overlap demo_env default_config (demo_world, []) (demo_world\<lparr>draws := 2\<rparr>, [Refreshing no_device demo_found])"
  by (rule overlap.refreshing [OF overlap.idle demo_refresh_reads(1)])

lemma overlapping_requests_keep_data_consistent_witness:
  "wf_db (db (resume demo_env default_config (Refreshing no_device demo_found)
     (snd (reset_password demo_env default_config demo_reset None (demo_world\<lparr>draws := 2\<rparr>)))))"
proof -
  have "overlap demo_env default_config (demo_world, [])
      (snd (reset_password demo_env default_config demo_reset None (demo_world\<lparr>draws := 2\<rparr>)),
       [] @ Refreshing no_device demo_found # [])"
    by (simp add: overlap.whole [OF demo_in_flight service_step.reset])
  from overlapping_requests_keep_data_consistent [OF overlap.resumed [OF this]] show ?thesis
    by (simp add: demo_db_wf)
qed

text \<open>Ann's token was exchanged while another exchange of it was in flight: it is dead afterwards.\<close>

lemma revocation_survives_overlap_witness:
  "\<exists>m w3. refresh demo_env default_config ''r1'' None
     (resume demo_env default_config (Refreshing no_device demo_found)
       (snd (refresh demo_env default_config ''r1'' None demo_world))) = (Inl (AuthenticationError m), w3)"
proof -
  let ?w = "snd (refresh demo_env default_config ''r1'' None demo_world)"
  let ?p = "\<lparr> tp_user_id = 1, tp_jti = ''j1'', tp_token_type = ''refresh'', tp_expires_at = Aware 900000000 \<rparr>"
  have step: "service_step demo_env default_config demo_world ?w" by (rule service_step.refresh)
  have rest: "session ?w = None" "wf_db (db ?w)" using step_at_rest [OF step] by (simp_all add: demo_db_wf)
  have dead: "dead_session (tp_jti ?p) (db ?w)" by code_simp
  have dec: "decode_at demo_env default_config 0 ''r1'' = Inr ?p" by code_simp
  have "overlap demo_env default_config (?w, [] @ Refreshing no_device demo_found # [])
      (resume demo_env default_config (Refreshing no_device demo_found) ?w, [] @ [])"
    by (rule overlap.resumed [OF overlap.idle])
  from revocation_survives_overlap [OF demo_jwt_stable rest dead dec this] show ?thesis by blast
qed

end
