(* ===== verification/Account_Races.thy ===== *)
theory Account_Races
  imports Races Account_Security
begin

text \<open>
  Races around accounts: guesses sent together pass the lockout together, and two registrations of one
  address that both found it free end in one account and an internal error.
\<close>

section \<open>Guesses sent together\<close>

text \<open>The second parts of logins, one after the other, with the answer of each.\<close>

primrec answer_guesses ::
  "'r env \<Rightarrow> config \<Rightarrow> string \<Rightarrow> device_info \<Rightarrow> string list \<Rightarrow> 'r world \<Rightarrow>
     (exn + auth_result) list \<times> 'r world"
where
  "answer_guesses env c email device [] w = ([], w)"
| "answer_guesses env c email device (pw # pws) w =
     (let (r, w') = login_attempt env c email pw device w;
          (rs, w'') = answer_guesses env c email device pws w'
      in (r # rs, w''))"

definition room_left :: "config \<Rightarrow> string \<Rightarrow> device_info \<Rightarrow> counter_map \<Rightarrow> bool" where
  "room_left c email device cs \<longleftrightarrow>
     fst (counter_of cs (account_key email)) < rlp_limit (login_account_policy c) \<and>
     (case dev_ip_address device of
        None \<Rightarrow> True
      | Some ip \<Rightarrow> fst (counter_of cs (login_ip_key ip)) < rlp_limit (login_ip_policy c))"

lemma guards_pass:
  assumes "\<not> redis_backend c" and "room_left c email device (counters w)"
  shows "\<exists>w1. login_guards env c email device w = (Inr (), w1) \<and> db w1 = db w \<and> counters w1 = counters w"
proof -
  have "wp (login_guards env c email device) (\<lambda>_ w1. db w1 = db w \<and> counters w1 = counters w) (\<lambda>_ _. False) w"
    using assms
    by (auto simp: login_guards_def login_guard_ip_def login_guard_account_def limiter_peek_def wp_rules
        in_memory_peek_at_def in_memory_decide_def is_enforced_def room_left_def Let_def split_beta
        split: option.splits)
  then show ?thesis by (auto simp: wp_def split: prod.splits sum.splits)
qed

lemma guards_pass_together:
  assumes "\<not> redis_backend c" and "room_left c email device (counters w)"
  shows "\<exists>w1. overlap env c (w, []) (w1, map (\<lambda>pw. Trying email pw device) pws) \<and> db w1 = db w \<and>
           counters w1 = counters w"
proof (induction pws)
  case (Cons pw pws)
  then obtain w1 where w1: "overlap env c (w, []) (w1, map (\<lambda>pw. Trying email pw device) pws)"
    "db w1 = db w" "counters w1 = counters w" by blast
  obtain w2 where "login_guards env c email device w1 = (Inr (), w2)" "db w2 = db w1" "counters w2 = counters w1"
    using guards_pass [OF assms(1), of email device w1 env] assms(2) w1(3) by auto
  from overlap.trying [OF w1(1) this(1), of pw] this(2,3) w1(2,3) show ?case
    by (intro exI [of _ w2]) simp
qed (auto intro: overlap.idle)

lemma attempt_rejected:
  assumes "db_user_by_email email (db w) = Inr user" and "credentials_valid env c pw user = Inr False"
    and "device_fits device"
  shows "\<exists>w1 now. login_attempt env c email pw device w = (Inl invalid_credentials, w1) \<and>
           db w1 = audited (rejection_event email device user now) (db w)"
proof -
  have "wp (login_reject env c email device user) (\<lambda>_ _. False)
      (\<lambda>e w'. e = invalid_credentials \<and> (\<exists>now. db w' = audited (rejection_event email device user now) (db w)))
      (w\<lparr>session := Some (db w)\<rparr>)"
    by (rule login_reject_outcome) (use assms found_user_id in auto)
  then have "wp (login_transaction env c email pw device) (\<lambda>_ _. False)
      (\<lambda>e w'. e = invalid_credentials \<and> (\<exists>now. db w' = audited (rejection_event email device user now) (db w)))
      (w\<lparr>session := Some (db w)\<rparr>)"
    using assms(1,2) by (simp add: login_transaction_def users_get_by_email_def wp_bindM wp_query wp_liftM)
  then have "wp (login_attempt env c email pw device) (\<lambda>_ _. False)
      (\<lambda>e w'. e = invalid_credentials \<and> (\<exists>now. db w' = audited (rejection_event email device user now) (db w))) w"
    unfolding login_attempt_def wp_bindM wp_with_uow by (rule wp_mono) auto
  then show ?thesis by (cases "login_attempt env c email pw device w") (auto simp: wp_def split: sum.splits)
qed

lemma audited_same_user:
  "db_user_by_email email (audited e d) = db_user_by_email email d"
proof -
  have same: "tbl_user_roles (audited e d) = tbl_user_roles d" "tbl_roles (audited e d) = tbl_roles d"
    "tbl_role_permissions (audited e d) = tbl_role_permissions d" "tbl_permissions (audited e d) = tbl_permissions d"
    by (simp_all add: audited_def)
  have "user_to_entity (audited e d) = user_to_entity d"
    unfolding fun_eq_iff user_to_entity_def roles_of_user_def role_to_entity_def permissions_of_role_def same
    by simp
  then show ?thesis by (simp add: db_user_by_email_def) (simp add: audited_def)
qed

lemma guesses_rejected:
  assumes "db_user_by_email email (db w) = Inr user" and "\<forall>pw \<in> set pws. credentials_valid env c pw user = Inr False"
    and "device_fits device"
  shows "\<exists>w'. answer_guesses env c email device pws w = (replicate (length pws) (Inl invalid_credentials), w')"
  using assms(1,2)
proof (induction pws arbitrary: w)
  case (Cons pw pws)
  obtain w1 now where w1: "login_attempt env c email pw device w = (Inl invalid_credentials, w1)"
    "db w1 = audited (rejection_event email device user now) (db w)"
    using attempt_rejected [OF Cons.prems(1) _ assms(3)] Cons.prems(2) by fastforce
  with Cons.IH [of w1] Cons.prems show ?case by (auto simp: audited_same_user)
qed simp

text \<open>
  C9: The lockout does not bound guesses that are sent together. Whatever the limit of an account is, any
  number of logins can pass the guards while there is room for a single one; each of them is then answered
  \<open>invalid_credentials\<close>, that is its guess was evaluated, and none \<open>AccountLockedError\<close>.
\<close>
theorem guesses_sent_together_pass:
  assumes "\<not> redis_backend c" and "room_left c email device (counters w)"
    and "db_user_by_email email (db w) = Inr user" and "\<forall>pw \<in> set pws. credentials_valid env c pw user = Inr False"
    and "device_fits device"
  shows "\<exists>w1 w2. overlap env c (w, []) (w1, map (\<lambda>pw. Trying email pw device) pws) \<and>
           answer_guesses env c email device pws w1 = (replicate (length pws) (Inl invalid_credentials), w2)"
proof -
  obtain w1 where "overlap env c (w, []) (w1, map (\<lambda>pw. Trying email pw device) pws)" "db w1 = db w"
    using guards_pass_together [OF assms(1,2)] by metis
  then show ?thesis using guesses_rejected [of email w1 user pws] assms(3-5) by metis
qed

lemma guesses_sent_together_pass_witness:
  "rlp_limit (login_account_policy default_config) = 5 \<and>
   (\<exists>w1 w2. overlap demo_env default_config (demo_world, [])
        (w1, map (\<lambda>pw. Trying ''ann@x.org'' pw no_device) (replicate 50 ''bad'')) \<and>
      answer_guesses demo_env default_config ''ann@x.org'' no_device (replicate 50 ''bad'') w1 =
        (replicate (length (replicate 50 ''bad'')) (Inl invalid_credentials), w2))"
proof -
  let ?u = "Some (user_to_entity demo_db (demo_user_row 1 ''ann'' ''pw'' False))"
  have a: "\<not> redis_backend default_config" "room_left default_config ''ann@x.org'' no_device (counters demo_world)"
    "db_user_by_email ''ann@x.org'' (db demo_world) = Inr ?u" by code_simp+
  have "credentials_valid demo_env default_config ''bad'' ?u = Inr False" by code_simp
  then have "\<forall>pw \<in> set (replicate 50 ''bad''). credentials_valid demo_env default_config pw ?u = Inr False"
    by (auto simp: in_set_replicate)
  note all = guesses_sent_together_pass [OF a this no_device_fits(1)]
  have "rlp_limit (login_account_policy default_config) = 5" by code_simp
  from this all show ?thesis by (rule conjI)
qed

section \<open>Two registrations of one address\<close>

definition registers_fit :: "'r env \<Rightarrow> config \<Rightarrow> register_dto \<Rightarrow> bool" where
  "registers_fit env c data \<longleftrightarrow>
     (\<forall>n now. \<exists>h. hash_at env c n (reg_password data) = Inr h \<and>
        user_row_fits (new_user_row now
          (new_user (normalise_email (reg_email data)) (str_strip (reg_username data)) h data)))"

text \<open>
  C10: Two registrations that overlap never give two accounts. When the address was taken after the checks
  of a registration ran, its second part commits nothing: the unique index refuses the row. But that
  refusal reaches the client as an internal error, not as the conflict a registration that starts later
  is answered with.
\<close>
theorem registration_race:
  assumes "session w = None" and "wf_db (db w)" and "register_reads env c data device w = (Inr (), w1)"
    and "overlap env c (w1, ps) (w2, qs)"
    and "r \<in> set (tbl_users (db w2))" and "ur_email r = normalise_email (reg_email data)"
    and "registers_fit env c data"
  shows "\<exists>w3. register_writes env c data device w2 = (Inl (IntegrityError ''ix_users_email''), w3) \<and>
           db w3 = db w2 \<and> (\<forall>x \<in> set (tbl_users (db w3)). ur_email x = ur_email r \<longrightarrow> x = r) \<and>
           err_status (handle_exn (IntegrityError ''ix_users_email'')) = 500 \<and>
           err_status (handle_exn email_already_exists) = 409"
proof -
  have refused: "db_add_user now (new_user (normalise_email (reg_email data)) (str_strip (reg_username data)) h data)
      (db w2) = Inl (IntegrityError ''ix_users_email'')"
    if "hash_at env c n (reg_password data) = Inr h" for now n h
  proof -
    let ?row = "new_user_row now (new_user (normalise_email (reg_email data)) (str_strip (reg_username data)) h data)"
    obtain h' where "hash_at env c n (reg_password data) = Inr h'" "user_row_fits (new_user_row now
        (new_user (normalise_email (reg_email data)) (str_strip (reg_username data)) h' data))"
      using assms(7) unfolding registers_fit_def by blast
    then have "user_row_fits (?row\<lparr>ur_id := seq_users (db w2)\<rparr>)"
      using that by (simp add: user_row_fits_def)
    then show ?thesis
      using assms(5,6) by (auto simp: db_add_user_def insert_user_def new_user_row_def new_user_def Let_def list_ex_iff)
  qed
  obtain h where h: "hash_at env c (draws w2) (reg_password data) = Inr h"
    using assms(7) unfolding registers_fit_def by blast
  have "wp (register_writes env c data device) (\<lambda>_ _. False)
      (\<lambda>e w3. e = IntegrityError ''ix_users_email'' \<and> db w3 = db w2) w2"
    using refused [OF h]
    by (simp add: register_writes_def Let_def wp_rules hasher_hash_def users_add_def h)
  moreover have "at_rest wf_db w2"
    using overlap_keeps [OF assms(4) wf_db_closed] keepsD [OF keeps_first_parts(3) _ assms(3)] assms(1,2)
    by (simp add: at_rest_iff at_rest_def [symmetric]) (metis at_rest_def at_rest_iff)
  then have "\<forall>x \<in> set (tbl_users (db w2)). ur_email x = ur_email r \<longrightarrow> x = r"
    using uniq_inj [OF wf_uniqs(2)] assms(5) by (auto simp: at_rest_iff)
  moreover have "err_status (handle_exn (IntegrityError ''ix_users_email'')) = 500"
    "err_status (handle_exn email_already_exists) = 409" by code_simp+
  ultimately show ?thesis by (cases "register_writes env c data device w2") (auto simp: wp_def split: sum.splits)
qed

text \<open>Bob's registration passes its checks, then somebody else takes the address, then his is refused.\<close>

lemma registration_race_witness:
  "let data = demo_registration ''bob@x.org'' ''bob'';
       w1 = snd (register_reads demo_env default_config data no_device demo_world);
       w2 = snd (register_user demo_env default_config (demo_registration ''Bob@X.org'' ''bobby'') None w1) in
     fst (register_reads demo_env default_config data no_device demo_world) = Inr () \<and>
     fst (register_writes demo_env default_config data no_device w2) = Inl (IntegrityError ''ix_users_email'')"
proof -
  let ?data = "demo_registration ''bob@x.org'' ''bob''"
  let ?w1 = "snd (register_reads demo_env default_config ?data no_device demo_world)"
  let ?w2 = "snd (register_user demo_env default_config (demo_registration ''Bob@X.org'' ''bobby'') None ?w1)"
  have "\<not> isl (fst (register_reads demo_env default_config ?data no_device demo_world))" by code_simp
  then have reads: "register_reads demo_env default_config ?data no_device demo_world = (Inr (), ?w1)"
    by (rule succeedsE) simp
  have "\<exists>r \<in> set (tbl_users (db ?w2)). ur_email r = normalise_email (reg_email ?data)" by code_simp
  then obtain r where r: "r \<in> set (tbl_users (db ?w2))" "ur_email r = normalise_email (reg_email ?data)" by blast
  have run: "overlap demo_env default_config (?w1, []) (?w2, [])"
    by (intro overlap.whole [OF overlap.idle] service_step.register)
  have "\<not> cfg_PASSWORD_HASHER default_config = ''pbkdf2''" by code_simp
  moreover have "user_row_fits (new_user_row 0
      (new_user (normalise_email (reg_email ?data)) (str_strip (reg_username ?data)) (''h:'' @ reg_password ?data) ?data))"
    by code_simp
  ultimately have fit: "registers_fit demo_env default_config ?data"
    by (simp add: registers_fit_def hash_at_def argon2_hash_at_def user_row_fits_def new_user_row_def)
  have "session demo_world = None" "wf_db (db demo_world)" by (simp_all add: demo_db_wf)
  from registration_race [OF this reads run r fit] show ?thesis
    unfolding Let_def by (metis fst_conv reads)
qed

end
