(* ===== verification/Smtp.thy ===== *)
theory Smtp
  imports Mailing
begin

text \<open>
  Delivery by SMTP (\<^verbatim>\<open>adapter/email/smtp_email_sender.py\<close>) as the conversation with \<^verbatim>\<open>smtplib\<close>: the calls
  the sender makes, in order, against a client that may raise at any of them. \<open>client done s\<close> is what
  the call \<open>s\<close> raises after the calls \<open>done\<close>, if it raises; leaving the \<^verbatim>\<open>with\<close> block quits.
\<close>

record mail =
  ml_From :: string
  ml_To :: string
  ml_Subject :: string
  ml_content :: string

datatype smtp_call =
    Connect string int int
  | StartTls
  | Login string string
  | SendMessage mail
  | Quit

type_synonym smtp_client = "smtp_call list \<Rightarrow> smtp_call \<Rightarrow> exn option"

record smtp_sender =
  smtp_host :: string
  smtp_port :: int
  smtp_username :: "string option"
  smtp_password :: "string option"
  smtp_from :: string
  smtp_use_tls :: bool
  smtp_timeout_seconds :: int

definition smtp_sender_of :: "config \<Rightarrow> smtp_sender" where
  "smtp_sender_of c =
     \<lparr> smtp_host = cfg_SMTP_HOST c, smtp_port = cfg_SMTP_PORT c, smtp_username = cfg_SMTP_USERNAME c,
       smtp_password = cfg_SMTP_PASSWORD c, smtp_from = cfg_EMAIL_FROM c,
       smtp_use_tls = cfg_SMTP_USE_TLS c, smtp_timeout_seconds = 10 \<rparr>"

text \<open>\<^verbatim>\<open>EmailMessage\<close> refuses header values with a line break.\<close>

definition set_header :: "string \<Rightarrow> exn + string" where
  "set_header v =
     (if CHR 0x0A \<in> set v \<or> CHR 0x0D \<in> set v
        then Inl (ValueError ''Header values may not contain linefeed or carriage return characters'')
      else Inr v)"

definition compose_mail :: "smtp_sender \<Rightarrow> email_message \<Rightarrow> exn + mail" where
  "compose_mail s m =
     (case set_header (smtp_from s) of
        Inl e \<Rightarrow> Inl e
      | Inr from_ \<Rightarrow>
          (case set_header (em_to m) of
             Inl e \<Rightarrow> Inl e
           | Inr to \<Rightarrow>
               (case set_header (em_subject m) of
                  Inl e \<Rightarrow> Inl e
                | Inr subject \<Rightarrow>
                    Inr \<lparr> ml_From = from_, ml_To = to, ml_Subject = subject, ml_content = em_body m \<rparr>)))"

fun converse :: "smtp_client \<Rightarrow> smtp_call list \<Rightarrow> smtp_call list \<Rightarrow> smtp_call list \<times> exn option" where
  \<comment> \<open>the calls made, up to and including the first one that raises\<close>
  "converse client past [] = (past, None)"
| "converse client past (s # ss) =
     (case client past s of
        Some e \<Rightarrow> (past @ [s], Some e)
      | None \<Rightarrow> converse client (past @ [s]) ss)"

definition session_calls :: "smtp_sender \<Rightarrow> mail \<Rightarrow> smtp_call list" where
  "session_calls s m =
     (if smtp_use_tls s then [StartTls] else []) @
     (case (smtp_username s, smtp_password s) of
        (Some u, Some p) \<Rightarrow> if u \<noteq> [] \<and> p \<noteq> [] then [Login u p] else []
      | _ \<Rightarrow> []) @
     [SendMessage m]"

definition send_blocking :: "smtp_client \<Rightarrow> smtp_sender \<Rightarrow> email_message \<Rightarrow> smtp_call list \<times> exn option" where
  "send_blocking client s m =
     (case compose_mail s m of
        Inl e \<Rightarrow> ([], Some e)
      | Inr mail \<Rightarrow>
          (let connect = Connect (smtp_host s) (smtp_port s) (smtp_timeout_seconds s) in
           case client [] connect of
             Some e \<Rightarrow> ([connect], Some e)
           | None \<Rightarrow>
               (let (calls, failure) = converse client [connect] (session_calls s mail)
                in (calls @ [Quit], failure))))"

definition smtp_send :: "smtp_client \<Rightarrow> smtp_sender \<Rightarrow> email_message \<Rightarrow> smtp_call list \<times> (exn + unit) \<times> exn option" where
  \<comment> \<open>the calls made, what the sender returns, and the failure it logs\<close>
  "smtp_send client s m = (let (calls, failure) = send_blocking client s m in (calls, Inr (), failure))"

section \<open>What is never said in the clear\<close>

definition confidential :: "smtp_call \<Rightarrow> bool" where
  "confidential s = (case s of Login u p \<Rightarrow> True | SendMessage m \<Rightarrow> True | _ \<Rightarrow> False)"

lemma converse_calls:
  assumes "converse client past ss = (calls, failure)"
  shows "\<exists>k. calls = past @ take k ss \<and>
    (\<forall>i < k. i < length ss \<longrightarrow> client (past @ take i ss) (ss ! i) = None \<or> Suc i = k \<and> failure \<noteq> None) \<and>
    (failure = None \<longrightarrow> k = length ss)"
  using assms
proof (induction ss arbitrary: past)
  case (Cons s ss)
  show ?case
  proof (cases "client past s")
    case None
    then have "converse client (past @ [s]) ss = (calls, failure)"
      using Cons.prems by simp
    from Cons.IH [OF this] obtain k where k: "calls = (past @ [s]) @ take k ss"
      "\<forall>i < k. i < length ss \<longrightarrow>
         client ((past @ [s]) @ take i ss) (ss ! i) = None \<or> Suc i = k \<and> failure \<noteq> None"
      "failure = None \<longrightarrow> k = length ss"
      by blast
    then show ?thesis
      using None by (intro exI [of _ "Suc k"]) (auto simp: less_Suc_eq_0_disj)
  next
    case (Some e)
    then show ?thesis
      using Cons.prems by (intro exI [of _ 1]) auto
  qed
qed simp

lemma smtp_send_never_raises: "fst (snd (smtp_send client s m)) = Inr ()"
  by (simp add: smtp_send_def split: prod.split)

text \<open>
  With TLS asked for, credentials and mail are only sent once \<^verbatim>\<open>STARTTLS\<close> was accepted; when it is refused
  the connection is closed and the failure is logged.
\<close>

lemma confidential_after_tls:
  assumes "smtp_use_tls s" and "smtp_send client s m = (calls, result, failure)" and "x \<in> set calls"
    and "confidential x"
  shows "\<exists>connect rest. calls = [connect, StartTls] @ rest \<and> client [connect] StartTls = None"
proof -
  from assms(2-4) obtain mail where mail: "compose_mail s m = Inr mail"
    by (auto simp: smtp_send_def send_blocking_def split: sum.splits)
  define connect where "connect = Connect (smtp_host s) (smtp_port s) (smtp_timeout_seconds s)"
  have "client [] connect = None"
    using assms(2-4) mail
    by (auto simp: smtp_send_def send_blocking_def connect_def confidential_def Let_def split: option.splits)
  moreover obtain more where more: "session_calls s mail = StartTls # more"
    using assms(1) by (auto simp: session_calls_def)
  ultimately have calls: "calls = fst (converse client [connect] (StartTls # more)) @ [Quit]"
    using assms(2) mail
    by (auto simp: smtp_send_def send_blocking_def connect_def Let_def split: prod.splits)
  have accepted: "client [connect] StartTls = None"
    using assms(3,4) calls by (auto simp: connect_def confidential_def split: option.splits)
  obtain k where "fst (converse client [connect, StartTls] more) = [connect, StartTls] @ take k more"
    using converse_calls [of client "[connect, StartTls]" more] by (metis prod.collapse)
  then show ?thesis
    using calls accepted by (intro exI [of _ connect] exI [of _ "take k more @ [Quit]"]) simp
qed

lemma no_credentials_no_login:
  assumes "\<not> (truthy (smtp_username s) \<and> truthy (smtp_password s))"
  shows "Login u p \<notin> set (session_calls s mail)"
  using assms by (auto simp: session_calls_def truthy_def split: option.splits if_splits)

end
