(* ===== verification/Migrate.thy ===== *)
theory Migrate
  imports Container_Checks
begin

text \<open>
  Running the migrations (\<^verbatim>\<open>migrations/env.py\<close>). The script hands the database URL of the settings to
  Alembic's configuration and lets Alembic read it back from there. That configuration is a
  \<^verbatim>\<open>ConfigParser\<close> of the standard library with its interpolation: in a value \<^verbatim>\<open>%%\<close> stands for a percent
  sign and \<^verbatim>\<open>%(name)s\<close> for another option; any other percent sign is refused when the value is set.
\<close>

section \<open>ConfigParser values\<close>

fun without_pairs :: "string \<Rightarrow> string" where
  \<comment> \<open>\<^verbatim>\<open>value.replace('%%', '')\<close>\<close>
  "without_pairs (a # b # s) =
     (if a = CHR ''%'' \<and> b = CHR ''%'' then without_pairs s else a # without_pairs (b # s))"
| "without_pairs s = s"

fun reference :: "string \<Rightarrow> string option" where
  \<comment> \<open>what follows a reference \<^verbatim>\<open>%(name)s\<close> at the start of the string\<close>
  "reference (a # b # s) =
     (if a = CHR ''%'' \<and> b = CHR ''('' then
        (case dropWhile (\<lambda>ch. ch \<noteq> CHR '')'') s of
           _ # t # rest \<Rightarrow> if t = CHR ''s'' \<and> takeWhile (\<lambda>ch. ch \<noteq> CHR '')'') s \<noteq> [] then Some rest else None
         | _ \<Rightarrow> None)
      else None)"
| "reference s = None"

lemma reference_shorter: "reference s = Some rest \<Longrightarrow> length rest < length s"
proof (induction s rule: reference.induct)
  case (1 a b s)
  then show ?case
    using length_dropWhile_le [of "\<lambda>ch. ch \<noteq> CHR '')''" s]
    by (auto split: if_splits list.splits)
qed auto

function without_references :: "string \<Rightarrow> string" where
  "without_references s =
     (case reference s of
        Some rest \<Rightarrow> without_references rest
      | None \<Rightarrow> (case s of [] \<Rightarrow> [] | a # t \<Rightarrow> a # without_references t))"
  by pat_completeness auto

termination
  by (relation "measure length") (auto dest: reference_shorter)

declare without_references.simps [simp del]

datatype migration_error = InvalidInterpolation string | InterpolationError string

definition set_main_option :: "string \<Rightarrow> migration_error + string" where
  "set_main_option value =
     (if CHR ''%'' \<in> set (without_references (without_pairs value))
        then Inl (InvalidInterpolation value) else Inr value)"

function interpolate :: "(string \<Rightarrow> string option) \<Rightarrow> string \<Rightarrow> string option" where
  \<comment> \<open>the value as it is read back; \<open>opt\<close> gives what other options read as, and a reference that is
    malformed or unknown raises\<close>
  "interpolate opt s =
     (case s of
        [] \<Rightarrow> Some []
      | a # t \<Rightarrow>
          if a \<noteq> CHR ''%'' then map_option (Cons a) (interpolate opt t)
          else if take 1 t = ''%'' then map_option (Cons a) (interpolate opt (drop 1 t))
          else
            (case (reference s, opt (takeWhile (\<lambda>ch. ch \<noteq> CHR '')'') (drop 1 t))) of
               (Some rest, Some v) \<Rightarrow> map_option (append v) (interpolate opt rest)
             | _ \<Rightarrow> None))"
  by pat_completeness auto

termination
  by (relation "measure (\<lambda>(opt, s). length s)") (auto dest: reference_shorter [OF sym])

declare interpolate.simps [simp del]

section \<open>The script\<close>

datatype migration_mode = Offline | Online

datatype migration_call =
    Configure "(string \<times> py_value) list"
  | BeginTransaction
  | RunMigrations
  | CreateEngine string "(string \<times> py_value) list"
  | OpenConnection
  | Dispose

definition run_migrations_offline :: "string \<Rightarrow> migration_call list" where
  "run_migrations_offline url =
     [Configure [(''url'', VStr url), (''target_metadata'', VExpr ''Base.metadata''),
        (''literal_binds'', VBool True), (''dialect_opts.paramstyle'', VStr ''named''),
        (''compare_type'', VBool True)],
      BeginTransaction, RunMigrations]"

definition do_run_migrations :: "migration_call list" where
  "do_run_migrations =
     [Configure [(''connection'', VExpr ''connection''), (''target_metadata'', VExpr ''Base.metadata''),
        (''compare_type'', VBool True)],
      BeginTransaction, RunMigrations]"

definition run_async_migrations :: "string \<Rightarrow> migration_call list" where
  "run_async_migrations url =
     [CreateEngine url [(''poolclass'', VExpr ''NullPool'')], OpenConnection] @ do_run_migrations @ [Dispose]"

definition migrate ::
  "(string \<Rightarrow> string option) \<Rightarrow> config \<Rightarrow> migration_mode \<Rightarrow> migration_error + migration_call list" where
  "migrate opt c mode =
     (case set_main_option (database_url c) of
        Inl e \<Rightarrow> Inl e
      | Inr raw \<Rightarrow>
          (case interpolate opt raw of
             None \<Rightarrow> Inl (InterpolationError raw)
           | Some url \<Rightarrow>
               Inr (case mode of
                      Offline \<Rightarrow> run_migrations_offline url
                    | Online \<Rightarrow> run_async_migrations url)))"

section \<open>Which database is migrated\<close>

lemma without_pairs_clean: "CHR ''%'' \<notin> set s \<Longrightarrow> without_pairs s = s"
  by (induction s rule: without_pairs.induct) auto

lemma reference_needs_percent: "reference s = Some rest \<Longrightarrow> take 2 s = ''%(''"
  by (induction s rule: reference.induct) (auto split: if_splits)

lemma without_references_Cons:
  "take 2 (a # s) \<noteq> ''%('' \<Longrightarrow> without_references (a # s) = a # without_references s"
  using reference_needs_percent [of "a # s"]
  by (subst without_references.simps) (auto split: option.split)

lemma without_references_Nil: "without_references [] = []"
  by (subst without_references.simps) simp

lemma without_references_clean: "CHR ''%'' \<notin> set s \<Longrightarrow> without_references s = s"
  by (induction s) (auto simp: without_references_Nil without_references_Cons)

lemma interpolate_step:
  "interpolate opt [] = Some []"
  "a \<noteq> CHR ''%'' \<Longrightarrow> interpolate opt (a # s) = map_option (Cons a) (interpolate opt s)"
  by (subst interpolate.simps, simp)+

lemma interpolate_clean: "CHR ''%'' \<notin> set s \<Longrightarrow> interpolate opt s = Some s"
  by (induction s) (auto simp: interpolate_step)

lemma without_pairs_split:
  assumes "CHR ''%'' \<notin> set a" "d \<noteq> CHR ''%''"
  shows "without_pairs (a @ CHR ''%'' # d # rest) = a @ CHR ''%'' # d # drop 1 (without_pairs (d # rest))"
  using assms
proof (induction a rule: without_pairs.induct, goal_cases)
  case 2
  then show ?case
    by (cases rest) auto
next
  case (3 v)
  then show ?case
    by (cases rest) auto
qed auto

lemma percent_refused:
  assumes "CHR ''%'' \<notin> set a" "d \<noteq> CHR ''%''" "d \<noteq> CHR ''(''"
  shows "CHR ''%'' \<in> set (without_references (a @ CHR ''%'' # d # rest))"
  using assms
  by (induction a) (auto simp: without_references_Cons)

text \<open>
  C38: Migrations run against the database the service uses, if its URL has no percent sign: the engine
  of the migration is made from the URL the container makes the service's engine from. With a
  percent-encoded character in it (an escaped password, say) the service starts, but every migration
  fails before it begins, because the URL is handed to Alembic unescaped.
\<close>
theorem migrations_share_the_database:
  assumes "injects c provide"
  shows "provide ''engine'' =
           Inr (VLib ''create_async_engine'' [VStr (database_url c)] [(''pool_pre_ping'', VBool True)]) \<and>
         (CHR ''%'' \<notin> set (database_url c) \<longrightarrow>
            migrate opt c Online = Inr (run_async_migrations (database_url c)) \<and>
            migrate opt c Offline = Inr (run_migrations_offline (database_url c))) \<and>
         (\<forall>before d after.
            database_url c = before @ [CHR ''%'', d] @ after \<longrightarrow> CHR ''%'' \<notin> set before \<longrightarrow>
            d \<noteq> CHR ''%'' \<longrightarrow> d \<noteq> CHR ''('' \<longrightarrow>
            migrate opt c mode = Inl (InvalidInterpolation (database_url c)))"
proof (intro conjI allI impI)
  show "provide ''engine'' =
      Inr (VLib ''create_async_engine'' [VStr (database_url c)] [(''pool_pre_ping'', VBool True)])"
    by (rule injector.gives_engine [OF injector.intro [OF assms]])
next
  fix before d after
  assume "database_url c = before @ [CHR ''%'', d] @ after" "CHR ''%'' \<notin> set before"
    "d \<noteq> CHR ''%''" "d \<noteq> CHR ''(''"
  then show "migrate opt c mode = Inl (InvalidInterpolation (database_url c))"
    by (simp add: migrate_def set_main_option_def without_pairs_split percent_refused)
qed (simp_all add: migrate_def set_main_option_def without_pairs_clean without_references_clean
      interpolate_clean)

definition escaped_config :: config where
  "escaped_config = default_config\<lparr>cfg_DATABASE_URL := Some ''postgresql+asyncpg://app:p%40ss@db/users''\<rparr>"

theorem migrations_share_the_database_witness:
  "migrate (\<lambda>_. None) escaped_config Online =
     Inl (InvalidInterpolation ''postgresql+asyncpg://app:p%40ss@db/users'')"
proof -
  have "\<exists>provide. injects escaped_config provide"
    using demand_injects by blast
  then obtain provide where provide: "injects escaped_config provide"
    by blast
  have url: "database_url escaped_config =
      ''postgresql+asyncpg://app:p'' @ [CHR ''%'', CHR ''4''] @ ''0ss@db/users''"
    by (simp add: database_url_def escaped_config_def)
  have "migrate (\<lambda>_. None) escaped_config Online = Inl (InvalidInterpolation (database_url escaped_config))"
    by (rule migrations_share_the_database [OF provide, THEN conjunct2, THEN conjunct2, rule_format, OF url])
      simp_all
  then show ?thesis
    using url by simp
qed

end
